(* ===== verification/Prelude.thy ===== *)
theory Prelude
  imports Main "HOL-Library.Word"
begin

text \<open>
  The prelude of the development: the Go notions every component uses.
  \<^item> \<open>byte\<close>, \<open>uint16\<close>, \<open>uint32\<close>, \<open>uint64\<close>: Go's unsigned integers, with their wrap-around;
  \<^item> \<open>'a run\<close>: how a Go function ends: it returns a value, returns an error, panics, or
    never returns;
  \<^item> slices (\<open>slice\<close>, \<open>copy_at\<close>), \<open>encoding/binary.BigEndian\<close> and the \<open>%x\<close> and \<open>%d\<close>
    verbs of \<open>fmt\<close>, with their round trips and injectivity;
  \<^item> generic list facts and the collections \<open>wire\<close> (facts on byte layouts) and \<open>text_inj\<close>
    (injectivity of renderings) that the component proofs use.
\<close>

unbundle bit_operations_syntax

named_theorems wire \<open>facts about byte layouts\<close>
named_theorems text_inj \<open>injectivity of textual renderings\<close>

type_synonym byte = "8 word"
type_synonym uint16 = "16 word"
type_synonym uint32 = "32 word"
type_synonym uint64 = "64 word"
type_synonym bytes = "byte list"

section \<open>Outcomes of a Go function\<close>

datatype 'a run =
    Ret 'a         \<comment> \<open>a nil error\<close>
  | Fail string    \<comment> \<open>a non-nil error, with its text\<close>
  | Panic          \<comment> \<open>a run-time panic (index or slice bounds out of range)\<close>
  | Hang           \<comment> \<open>the call never returns\<close>

fun bind_run :: "'a run \<Rightarrow> ('a \<Rightarrow> 'b run) \<Rightarrow> 'b run" where
  "bind_run (Ret x) f = f x"
| "bind_run (Fail e) f = Fail e"
| "bind_run Panic f = Panic"
| "bind_run Hang f = Hang"

lemma bind_run_Ret_iff: "bind_run m f = Ret y \<longleftrightarrow> (\<exists>x. m = Ret x \<and> f x = Ret y)"
  by (cases m) auto

lemma bind_run_assoc: "bind_run (bind_run m f) g = bind_run m (\<lambda>x. bind_run (f x) g)"
  by (cases m) auto

fun map_run :: "('a \<Rightarrow> 'b run) \<Rightarrow> 'a list \<Rightarrow> 'b list run" where
  "map_run f [] = Ret []"
| "map_run f (x # xs) = bind_run (f x) (\<lambda>y. bind_run (map_run f xs) (\<lambda>ys. Ret (y # ys)))"

text \<open>The value of a call whose error is dropped (\<open>x, _ := f()\<close> of a pointer): nil on an error.\<close>

definition ok_value :: "'a run \<Rightarrow> 'a option" where
  "ok_value r = (case r of Ret x \<Rightarrow> Some x | _ \<Rightarrow> None)"

lemma map_run_Ret: "(\<And>x. x \<in> set xs \<Longrightarrow> f x = Ret (g x)) \<Longrightarrow> map_run f xs = Ret (map g xs)"
  by (induction xs) auto

section \<open>Slices\<close>

text \<open>\<open>data[i:j]\<close>, for \<open>i \<le> j \<le> len(data)\<close>; the callers check the bounds or model the panic.\<close>

definition slice :: "nat \<Rightarrow> nat \<Rightarrow> 'a list \<Rightarrow> 'a list" where
  "slice i j xs = take (j - i) (drop i xs)"

text \<open>\<open>copy(buf[i:j], src)\<close>: as many elements as fit and as \<open>src\<close> has.\<close>

definition copy_at :: "nat \<Rightarrow> nat \<Rightarrow> 'a list \<Rightarrow> 'a list \<Rightarrow> 'a list" where
  "copy_at i j src buf =
     take i buf @ take (j - i) src @ drop (i + min (j - i) (length src)) buf"

lemma length_slice [simp]: "j \<le> length xs \<Longrightarrow> length (slice i j xs) = j - i"
  by (simp add: slice_def)

lemma slice_append1: "j \<le> length xs \<Longrightarrow> slice i j (xs @ ys) = slice i j xs"
  by (simp add: slice_def)

lemma slice_append2 [wire]:
  "length xs \<le> i \<Longrightarrow> slice i j (xs @ ys) = slice (i - length xs) (j - length xs) ys"
  by (simp add: slice_def)

lemma slice_append_exact [wire]:
  "length xs = j \<Longrightarrow> slice 0 j (xs @ ys) = xs"
  by (simp add: slice_def)

lemma slice_whole: "length xs = j \<Longrightarrow> slice 0 j xs = xs"
  by (simp add: slice_def)

lemma length_copy_at [simp]:
  "i \<le> j \<Longrightarrow> j \<le> length buf \<Longrightarrow> length (copy_at i j src buf) = length buf"
  by (auto simp: copy_at_def)

text \<open>Filling the next field of a zeroed buffer.\<close>

lemma copy_at_zeros [wire]:
  assumes "length xs = i" and "length src = j - i" and "j - i \<le> n"
  shows "copy_at i j src (xs @ replicate n z) = xs @ src @ replicate (n - (j - i)) z"
  using assms by (simp add: copy_at_def)

lemma copy_at_short_zeros [wire]:
  assumes "length xs = i" and "length src \<le> j - i" and "j - i \<le> n"
  shows "copy_at i j src (xs @ replicate n z)
       = xs @ src @ replicate (n - length src) z"
  using assms by (simp add: copy_at_def min_def)

lemma take_drop_eqI: "take n xs = take n ys \<Longrightarrow> drop n xs = drop n ys \<Longrightarrow> xs = ys"
  by (metis append_take_drop_id)

lemma find_None_filter: "List.find P xs = None \<longleftrightarrow> filter P xs = []"
  by (induction xs) auto

lemma find_SomeD: "List.find P xs = Some x \<Longrightarrow> x \<in> set xs \<and> P x"
  by (induction xs) (auto split: if_splits)

lemma distinct_map_eqD: "distinct (map f xs) \<Longrightarrow> x \<in> set xs \<Longrightarrow> y \<in> set xs \<Longrightarrow> f x = f y \<Longrightarrow> x = y"
  by (induction xs) (auto simp: image_iff)

lemma distinct_map_filter: "distinct (map f xs) \<Longrightarrow> distinct (map f (filter P xs))"
  by (induction xs) auto

section \<open>encoding/binary: big-endian integers\<close>

definition PutUint16 :: "uint16 \<Rightarrow> bytes" where
  "PutUint16 v = [ucast (drop_bit 8 v), ucast v]"

definition PutUint32 :: "uint32 \<Rightarrow> bytes" where
  "PutUint32 v = [ucast (drop_bit 24 v), ucast (drop_bit 16 v), ucast (drop_bit 8 v), ucast v]"

definition PutUint64 :: "uint64 \<Rightarrow> bytes" where
  "PutUint64 v = [ucast (drop_bit 56 v), ucast (drop_bit 48 v), ucast (drop_bit 40 v),
     ucast (drop_bit 32 v), ucast (drop_bit 24 v), ucast (drop_bit 16 v), ucast (drop_bit 8 v), ucast v]"

definition Uint16 :: "bytes \<Rightarrow> uint16" where
  "Uint16 b = ucast (b ! 1) OR push_bit 8 (ucast (b ! 0))"

definition Uint32 :: "bytes \<Rightarrow> uint32" where
  "Uint32 b = ucast (b ! 3) OR push_bit 8 (ucast (b ! 2)) OR push_bit 16 (ucast (b ! 1))
            OR push_bit 24 (ucast (b ! 0))"

definition Uint64 :: "bytes \<Rightarrow> uint64" where
  "Uint64 b = ucast (b ! 7) OR push_bit 8 (ucast (b ! 6)) OR push_bit 16 (ucast (b ! 5))
            OR push_bit 24 (ucast (b ! 4)) OR push_bit 32 (ucast (b ! 3))
            OR push_bit 40 (ucast (b ! 2)) OR push_bit 48 (ucast (b ! 1)) OR push_bit 56 (ucast (b ! 0))"

lemma length_PutUint [simp]:
  "length (PutUint16 v) = 2" "length (PutUint32 w) = 4" "length (PutUint64 x) = 8"
  by (simp_all add: PutUint16_def PutUint32_def PutUint64_def)

lemma PutUint_not_Nil [simp]: "PutUint16 v \<noteq> []" "PutUint32 w \<noteq> []" "PutUint64 x \<noteq> []"
  by (simp_all add: PutUint16_def PutUint32_def PutUint64_def)

lemma byte_block_cases:
  fixes n :: nat
  assumes "n < 64"
  obtains "n < 8" | "8 \<le> n" "n < 16" | "16 \<le> n" "n < 24" | "24 \<le> n" "n < 32"
        | "32 \<le> n" "n < 40" | "40 \<le> n" "n < 48" | "48 \<le> n" "n < 56" | "56 \<le> n" "n < 64"
  using assms by linarith

lemma not_bit_byte: "8 \<le> n \<Longrightarrow> \<not> bit (b :: byte) n"
  using bit_imp_le_length [of b n] by auto

lemmas byte_bits = bit_simps less_diff_conv2 not_bit_byte

lemma Uint16_PutUint16 [simp]: "Uint16 (PutUint16 v) = v" (is "?l = v")
proof (rule bit_word_eqI)
  fix n assume "n < LENGTH(16)"
  then have "n < 64" and n: "n < 16" by simp_all
  then show "bit ?l n = bit v n"
    by (cases rule: byte_block_cases) (simp_all add: Uint16_def PutUint16_def byte_bits)
qed

lemma Uint32_PutUint32 [simp]: "Uint32 (PutUint32 v) = v" (is "?l = v")
proof (rule bit_word_eqI)
  fix n assume "n < LENGTH(32)"
  then have "n < 64" and n: "n < 32" by simp_all
  then show "bit ?l n = bit v n"
    by (cases rule: byte_block_cases) (simp_all add: Uint32_def PutUint32_def byte_bits)
qed

lemma Uint64_PutUint64 [simp]: "Uint64 (PutUint64 v) = v" (is "?l = v")
proof (rule bit_word_eqI)
  fix n assume "n < LENGTH(64)"
  then have "n < 64" by simp
  then show "bit ?l n = bit v n"
    by (cases rule: byte_block_cases) (simp_all add: Uint64_def PutUint64_def byte_bits)
qed

lemma PutUint16_Uint16: "PutUint16 (Uint16 [a, b]) = [a, b]"
  unfolding PutUint16_def list.inject
  by (intro conjI refl; rule bit_word_eqI; simp add: Uint16_def byte_bits)

lemma PutUint32_Uint32: "PutUint32 (Uint32 [a, b, c, d]) = [a, b, c, d]"
  unfolding PutUint32_def list.inject
  by (intro conjI refl; rule bit_word_eqI; simp add: Uint32_def byte_bits)

lemma PutUint64_Uint64:
  "PutUint64 (Uint64 [a, b, c, d, e, f, g, h]) = [a, b, c, d, e, f, g, h]"
  unfolding PutUint64_def list.inject
  by (intro conjI refl; rule bit_word_eqI; simp add: Uint64_def byte_bits)

text \<open>Slices of a buffer read back as integers.\<close>

lemma list_of_length4: "length xs = 4 \<Longrightarrow> \<exists>a b c d. xs = [a, b, c, d]"
  by (auto simp: numeral_eq_Suc length_Suc_conv)

lemma list_of_length2: "length xs = 2 \<Longrightarrow> \<exists>a b. xs = [a, b]"
  by (auto simp: numeral_eq_Suc length_Suc_conv)

lemma PutUint32_Uint32_list: "length xs = 4 \<Longrightarrow> PutUint32 (Uint32 xs) = xs"
  using list_of_length4 [of xs] by (auto simp: PutUint32_Uint32)

lemma PutUint16_Uint16_list: "length xs = 2 \<Longrightarrow> PutUint16 (Uint16 xs) = xs"
  using list_of_length2 [of xs] by (auto simp: PutUint16_Uint16)

section \<open>fmt: the verbs %x and %d\<close>

definition hex_digit :: "nat \<Rightarrow> char" where
  "hex_digit n = (if n < 10 then char_of (48 + n) else char_of (87 + n))"

definition hex_byte :: "byte \<Rightarrow> string" where
  "hex_byte b = [hex_digit (unat (drop_bit 4 b)), hex_digit (unat (b AND 15))]"

definition hex_bytes :: "bytes \<Rightarrow> string" where
  "hex_bytes bs = concat (map hex_byte bs)"

fun dec_string :: "nat \<Rightarrow> string" where
  "dec_string n = (if n < 10 then [char_of (48 + n)]
                   else dec_string (n div 10) @ [char_of (48 + n mod 10)])"

declare dec_string.simps [simp del]

definition dec_value :: "string \<Rightarrow> nat" where
  "dec_value s = foldl (\<lambda>n c. n * 10 + (of_char c - 48)) 0 s"

lemma dec_value_string: "dec_value (dec_string n) = n"
proof (induction n rule: dec_string.induct)
  case (1 n)
  show ?case
  proof (cases "n < 10")
    case True
    then show ?thesis by (subst dec_string.simps) (simp add: dec_value_def)
  next
    case False
    with 1 have "dec_value (dec_string (n div 10)) = n div 10" by simp
    with False show ?thesis
      by (subst dec_string.simps) (simp add: dec_value_def)
  qed
qed

lemma dec_string_inj [text_inj]: "dec_string m = dec_string n \<longleftrightarrow> m = n"
  by (metis dec_value_string)

lemma dec_string_digits: "c \<in> set (dec_string n) \<Longrightarrow> 48 \<le> (of_char c :: nat) \<and> (of_char c :: nat) \<le> 57"
proof (induction n rule: dec_string.induct)
  case (1 n)
  show ?case
  proof (cases "n < 10")
    case True
    with 1 show ?thesis by (subst (asm) dec_string.simps) auto
  next
    case False
    with 1 show ?thesis
      by (subst (asm) (2) dec_string.simps) auto
  qed
qed

lemma low_nibble: "unat (b AND 15) = unat b mod 16" for b :: byte
proof -
  have "b mod 16 = b AND 15"
    using take_bit_eq_mask [of 4 b] by (simp add: mask_eq_exp_minus_1 take_bit_eq_mod)
  then show ?thesis using unat_mod_distrib [of b 16] by simp
qed

lemma nibbles_value: "unat (drop_bit 4 b) * 16 + unat (b AND 15) = unat b" for b :: byte
proof -
  have "unat (drop_bit 4 b) = unat b div 16" by (simp add: drop_bit_eq_div unat_div)
  then show ?thesis by (simp add: low_nibble)
qed

lemma hex_digit_inj [text_inj]: "m < 16 \<Longrightarrow> n < 16 \<Longrightarrow> hex_digit m = hex_digit n \<longleftrightarrow> m = n"
proof -
  assume "m < 16" "n < 16"
  then have "(of_char (hex_digit m) :: nat) = of_char (hex_digit n) \<longleftrightarrow> m = n"
    by (auto simp: hex_digit_def split: if_splits)
  then show ?thesis by auto
qed

lemma unat_low_nibble: "unat (b AND 15 :: byte) < 16"
proof -
  have "b AND 15 \<le> 15" by (rule word_and_le1)
  then show ?thesis by (simp add: word_le_nat_alt)
qed

lemma unat_high_nibble: "unat (drop_bit 4 b :: byte) < 16"
  using unsigned_less [of b, where 'a = nat] by (simp add: drop_bit_eq_div unat_div less_mult_imp_div_less)

lemma nibbles_eq:
  assumes "drop_bit 4 a = drop_bit 4 (b :: byte)" and "a AND 15 = b AND 15"
  shows "a = b"
proof -
  have "x = push_bit 4 (drop_bit 4 x) OR (x AND 15)" for x :: byte
  proof -
    have "x AND 15 = take_bit 4 x" by (simp add: take_bit_eq_mask mask_eq_exp_minus_1)
    then show ?thesis by (rule_tac bit_word_eqI) (auto simp: bit_simps)
  qed
  then show ?thesis using assms by metis
qed

lemma hex_byte_inj [text_inj]: "hex_byte a = hex_byte b \<longleftrightarrow> a = b"
proof
  assume "hex_byte a = hex_byte b"
  then have "unat (drop_bit 4 a) = unat (drop_bit 4 b)" and lo: "unat (a AND 15) = unat (b AND 15)"
    by (simp_all add: hex_byte_def text_inj unat_low_nibble unat_high_nibble)
  then have "drop_bit 4 a = drop_bit 4 b" by (intro unsigned_word_eqI)
  moreover from lo have "a AND 15 = b AND 15" by (rule unsigned_word_eqI)
  ultimately show "a = b" by (rule nibbles_eq)
qed simp

lemma length_hex_byte [simp]: "length (hex_byte b) = 2"
  by (simp add: hex_byte_def)

lemma hex_bytes_inj [text_inj]: "hex_bytes xs = hex_bytes ys \<longleftrightarrow> xs = ys"
proof
  show "hex_bytes xs = hex_bytes ys \<Longrightarrow> xs = ys"
  proof (induction xs arbitrary: ys)
    case Nil
    then show ?case by (cases ys) (auto simp: hex_bytes_def hex_byte_def)
  next
    case (Cons x xs)
    then obtain y ys' where "ys = y # ys'"
      by (cases ys) (auto simp: hex_bytes_def hex_byte_def)
    with Cons show ?case by (auto simp: hex_bytes_def text_inj)
  qed
qed simp

section \<open>Go strings and byte slices\<close>

text \<open>\<open>[]byte(s)\<close> and \<open>string(b)\<close>: a Go string is its bytes.\<close>

definition byte_of_char :: "char \<Rightarrow> byte" where
  "byte_of_char c = of_nat (of_char c)"

definition bytes_of_string :: "string \<Rightarrow> bytes" where
  "bytes_of_string s = map byte_of_char s"

definition string_of_bytes :: "bytes \<Rightarrow> string" where
  "string_of_bytes b = map (\<lambda>x. char_of (unat x)) b"

lemma string_of_bytes_of_string [simp]: "string_of_bytes (bytes_of_string s) = s"
proof -
  have "char_of (unat (byte_of_char c)) = c" for c
  proof -
    have "(of_char c :: nat) < 256" by (rule less_le_trans [OF nat_of_char_less_256]) simp
    then have "unat (of_nat (of_char c) :: byte) = of_char c"
      by (simp add: unat_of_nat)
    then show ?thesis by (simp add: byte_of_char_def)
  qed
  then show ?thesis by (simp add: string_of_bytes_def bytes_of_string_def comp_def)
qed

lemma bytes_of_string_of_bytes [simp]: "bytes_of_string (string_of_bytes b) = b"
proof -
  have "byte_of_char (char_of (unat x)) = x" for x :: byte
  proof -
    have "unat x < 256" using unsigned_less [of x, where 'a = nat] by simp
    then show ?thesis by (simp add: byte_of_char_def)
  qed
  then show ?thesis by (simp add: string_of_bytes_def bytes_of_string_def comp_def)
qed

lemma length_bytes_of_string [simp]: "length (bytes_of_string s) = length s"
  by (simp add: bytes_of_string_def)

lemma length_string_of_bytes [simp]: "length (string_of_bytes b) = length b"
  by (simp add: string_of_bytes_def)

end
