(* ===== verification/Net_IP.thy ===== *)
theory Net_IP
  imports Prelude
begin

text \<open>
  IP addresses as the program handles them: the parts of Go's package \<open>net\<close> it calls, and
  its own helpers (\<open>ipKey\<close>, \<open>normalizeIP\<close>, \<open>to4IfPossible\<close>, the 32-bit conversions, the 128-bit
  integers of \<open>internal/store/store.go\<close> and \<open>prefixCandidate\<close>).
  A \<open>net.IP\<close> is its byte slice, of length 4 or 16; the nil slice is \<open>[]\<close>.
  The lemmas: \<open>ipKey\<close> identifies exactly the addresses \<open>Equal\<close> identifies (for IPv4), the
  128-bit operations refine arithmetic modulo \<open>2 ^ 128\<close>, and \<open>prefixCandidate\<close> computes the
  sub-prefix its comment states for every delegated length up to 64, and not beyond.
\<close>

type_synonym ip = bytes

record ipnet =
  netIP :: ip
  netMask :: bytes

section \<open>Package net\<close>

definition v4InV6Prefix :: bytes where
  "v4InV6Prefix = replicate 10 0 @ [255, 255]"

definition IPv4 :: "byte \<Rightarrow> byte \<Rightarrow> byte \<Rightarrow> byte \<Rightarrow> ip" where
  "IPv4 a b c d = v4InV6Prefix @ [a, b, c, d]"

definition IPv4zero :: ip where "IPv4zero = IPv4 0 0 0 0"

definition IPv4bcast :: ip where "IPv4bcast = IPv4 255 255 255 255"

definition To4 :: "ip \<Rightarrow> ip" where
  "To4 p = (if length p = 4 then p
            else if length p = 16 \<and> take 12 p = v4InV6Prefix then drop 12 p
            else [])"

definition To16 :: "ip \<Rightarrow> ip" where
  "To16 p = (if length p = 4 then v4InV6Prefix @ p else if length p = 16 then p else [])"

definition ip_Equal :: "ip \<Rightarrow> ip \<Rightarrow> bool" where
  "ip_Equal p x =
     (if length p = length x then p = x
      else if length p = 4 \<and> length x = 16 then take 12 x = v4InV6Prefix \<and> p = drop 12 x
      else if length p = 16 \<and> length x = 4 then take 12 p = v4InV6Prefix \<and> drop 12 p = x
      else False)"

definition IsUnspecified :: "ip \<Rightarrow> bool" where
  "IsUnspecified p = (ip_Equal p IPv4zero \<or> ip_Equal p (replicate 16 0))"

definition IsLoopback :: "ip \<Rightarrow> bool" where
  "IsLoopback p = (if To4 p \<noteq> [] then To4 p ! 0 = 127 else ip_Equal p (replicate 15 0 @ [1]))"

definition IsMulticast :: "ip \<Rightarrow> bool" where
  "IsMulticast p = (if To4 p \<noteq> [] then To4 p ! 0 AND 240 = 224 else length p = 16 \<and> p ! 0 = 255)"

text \<open>\<open>networkNumberAndMask\<close>: the network number and a mask of the same length, or nil.\<close>

definition networkNumberAndMask :: "ipnet \<Rightarrow> ip \<times> bytes" where
  "networkNumberAndMask n =
     (let p = (if To4 (netIP n) \<noteq> [] then To4 (netIP n) else netIP n); m = netMask n
      in if length p \<noteq> 4 \<and> length p \<noteq> 16 then ([], [])
         else if length m = 4 then (if length p \<noteq> 4 then ([], []) else (p, m))
         else if length m = 16 then (if length p = 4 then (p, drop 12 m) else (p, m))
         else ([], []))"

definition Contains :: "ipnet \<Rightarrow> ip \<Rightarrow> bool" where
  "Contains n p =
     (let (nn, m) = networkNumberAndMask n; x = (if To4 p \<noteq> [] then To4 p else p)
      in length x = length nn \<and> map2 (AND) nn m = map2 (AND) x m)"

fun leading_ones :: "nat \<Rightarrow> byte \<Rightarrow> nat \<times> byte" where
  "leading_ones 0 v = (0, v)"
| "leading_ones (Suc k) v =
     (if v AND 128 \<noteq> 0 then (case leading_ones k (push_bit 1 v) of (n, r) \<Rightarrow> (Suc n, r)) else (0, v))"

text \<open>\<open>simpleMaskLength\<close>: the number of leading ones, or None (Go: -1) when the mask is not a
  run of ones followed by zeros. A byte has at most eight leading ones.\<close>

fun simpleMaskLength :: "bytes \<Rightarrow> nat option" where
  "simpleMaskLength [] = Some 0"
| "simpleMaskLength (v # vs) =
     (if v = 255 then map_option ((+) 8) (simpleMaskLength vs)
      else (case leading_ones 8 v of (n, r) \<Rightarrow>
              if r \<noteq> 0 \<or> (\<exists>x \<in> set vs. x \<noteq> 0) then None else Some n))"

text \<open>The first result of \<open>IPMask.Size\<close>.\<close>

definition Mask_Size :: "bytes \<Rightarrow> nat" where
  "Mask_Size m = (case simpleMaskLength m of None \<Rightarrow> 0 | Some n \<Rightarrow> n)"

definition CIDRMask :: "nat \<Rightarrow> nat \<Rightarrow> bytes" where
  "CIDRMask ones bits =
     (if (bits \<noteq> 32 \<and> bits \<noteq> 128) \<or> bits < ones then []
      else map (\<lambda>i. if 8 * i + 8 \<le> ones then 255
                    else if ones \<le> 8 * i then 0
                    else NOT (drop_bit (ones - 8 * i) 255)) [0 ..< bits div 8])"

definition ip_Mask :: "ip \<Rightarrow> bytes \<Rightarrow> ip" where
  "ip_Mask p m0 =
     (let m = (if length m0 = 16 \<and> length p = 4 \<and> take 12 m0 = replicate 12 255 then drop 12 m0 else m0);
          q = (if length m = 4 \<and> length p = 16 \<and> take 12 p = v4InV6Prefix then drop 12 p else p)
      in if length q \<noteq> length m then [] else map2 (AND) q m)"

section \<open>Textual forms\<close>

definition v4_string :: "ip \<Rightarrow> string" where
  "v4_string p = dec_string (unat (p ! 0)) @ ''.'' @ dec_string (unat (p ! 1)) @ ''.''
               @ dec_string (unat (p ! 2)) @ ''.'' @ dec_string (unat (p ! 3))"

fun hex_nat :: "nat \<Rightarrow> string" where
  "hex_nat n = (if n < 16 then [hex_digit n] else hex_nat (n div 16) @ [hex_digit (n mod 16)])"

declare hex_nat.simps [simp del]

definition v6_groups :: "ip \<Rightarrow> nat list" where
  "v6_groups p = map (\<lambda>i. unat (p ! (2 * i)) * 256 + unat (p ! (2 * i + 1))) [0 ..< 8]"

definition zeros_from :: "nat list \<Rightarrow> nat \<Rightarrow> nat" where
  "zeros_from gs i = length (takeWhile (\<lambda>g. g = 0) (drop i gs))"

text \<open>The longest run of at least two zero groups, the first among equals: its start and end.\<close>

definition zero_run :: "nat list \<Rightarrow> nat \<times> nat" where
  "zero_run gs = foldl (\<lambda>(zs, ze) i. let l = zeros_from gs i in
      if 2 \<le> l \<and> ze - zs < l then (i, i + l) else (zs, ze)) (255, 255) [0 ..< 8]"

definition join_colon :: "string list \<Rightarrow> string" where
  "join_colon ss = (case ss of [] \<Rightarrow> [] | s # rest \<Rightarrow> s @ concat (map ((#) (CHR '':'')) rest))"

definition v6_string :: "ip \<Rightarrow> string" where
  "v6_string p =
     (let gs = v6_groups p; (zs, ze) = zero_run gs
      in if zs = 255 then join_colon (map hex_nat gs)
         else join_colon (map hex_nat (take zs gs)) @ ''::'' @ join_colon (map hex_nat (drop ze gs)))"

text \<open>For evaluation: the hexadecimal text of a group from its two bytes, with no large numbers.\<close>

definition hex_word :: "byte \<Rightarrow> byte \<Rightarrow> string" where
  "hex_word a b = (let ns = dropWhile (\<lambda>n. n = 0) [unat (drop_bit 4 a), unat (a AND 15), unat (drop_bit 4 b)]
     in map hex_digit (ns @ [unat (b AND 15)]))"

lemma hex_nat_snoc: "d < 16 \<Longrightarrow> hex_nat (n * 16 + d) = (if n = 0 then [] else hex_nat n) @ [hex_digit d]"
  by (cases "n = 0") (subst hex_nat.simps, simp)+

lemma nibble_bounds: "unat (drop_bit 4 b) < 16" "unat (b AND 15) < 16" for b :: byte
  using nibbles_value [of b] unsigned_less [of b, where 'a = nat] by (auto simp: low_nibble)

lemma hex_nat_word: "hex_nat (unat a * 256 + unat b) = hex_word a b"
proof -
  let ?n3 = "unat (drop_bit 4 a)" and ?n2 = "unat (a AND 15)" and ?n1 = "unat (drop_bit 4 b)" and ?n0 = "unat (b AND 15)"
  have *: "unat a * 256 + unat b = ((?n3 * 16 + ?n2) * 16 + ?n1) * 16 + ?n0"
    using nibbles_value [of a] nibbles_value [of b] by simp
  have one: "hex_nat n = [hex_digit n]" if "n < 16" for n using that by (subst hex_nat.simps) simp
  have s: "hex_nat (((n3 * 16 + n2) * 16 + n1) * 16 + n0) =
      (if n3 = 0 \<and> n2 = 0 \<and> n1 = 0 then [] else (if n3 = 0 \<and> n2 = 0 then [] else (if n3 = 0 then [] else [hex_digit n3])
        @ [hex_digit n2]) @ [hex_digit n1]) @ [hex_digit n0]"
    if "n3 < 16" "n2 < 16" "n1 < 16" "n0 < 16" for n3 n2 n1 n0
    using that by (simp only: hex_nat_snoc one) simp
  show ?thesis
    unfolding * hex_word_def Let_def s [OF nibble_bounds(1) [of a] nibble_bounds(2) [of a] nibble_bounds(1) [of b] nibble_bounds(2) [of b]]
    by simp
qed

lemma zeros_from_map: "(\<And>g. f g = 0 \<longleftrightarrow> g = (0::nat)) \<Longrightarrow> zeros_from (map f gs) i = zeros_from gs i"
  by (simp add: zeros_from_def drop_map takeWhile_map comp_def)

lemma zero_run_map: "(\<And>g. f g = 0 \<longleftrightarrow> g = (0::nat)) \<Longrightarrow> zero_run (map f gs) = zero_run gs"
  by (simp add: zero_run_def zeros_from_map)

lemma v6_string_code [code]:
  "v6_string p =
     (let ws = map (\<lambda>i. (p ! (2 * i), p ! (2 * i + 1))) [0 ..< 8];
          (zs, ze) = zero_run (map (\<lambda>(a, b). if a = 0 \<and> b = 0 then 0 else 1) ws)
      in if zs = 255 then join_colon (map (\<lambda>(a, b). hex_word a b) ws)
         else join_colon (map (\<lambda>(a, b). hex_word a b) (take zs ws)) @ ''::'' @ join_colon (map (\<lambda>(a, b). hex_word a b) (drop ze ws)))"
proof -
  define ws where "ws = map (\<lambda>i. (p ! (2 * i), p ! (2 * i + 1))) [0 ..< 8]"
  have gs: "v6_groups p = map (\<lambda>(a, b). unat a * 256 + unat b) ws" by (simp add: v6_groups_def ws_def)
  have b: "map (\<lambda>(a, b). if a = 0 \<and> b = 0 then 0 else 1) ws = map (\<lambda>g. if g = 0 then 0 else 1) (v6_groups p)"
    by (auto simp: gs unsigned_eq_0_iff)
  have z: "zero_run (map (\<lambda>(a, b). if a = 0 \<and> b = 0 then 0 else 1) ws) = zero_run (v6_groups p)"
    unfolding b by (rule zero_run_map) simp
  have h: "map hex_nat (map (\<lambda>(a, b). unat a * 256 + unat b) xs) = map (\<lambda>(a, b). hex_word a b) xs" for xs
    by (simp add: split_beta hex_nat_word)
  show ?thesis
    unfolding v6_string_def Let_def ws_def [symmetric] z unfolding gs take_map drop_map h by (rule refl)
qed

text \<open>\<open>IP.String\<close>.\<close>

definition ip_String :: "ip \<Rightarrow> string" where
  "ip_String p =
     (if p = [] then ''<nil>''
      else if length p \<noteq> 4 \<and> length p \<noteq> 16 then ''?'' @ hex_bytes p
      else if To4 p \<noteq> [] then v4_string (To4 p)
      else v6_string p)"

text \<open>\<open>IPNet.String\<close>.\<close>

definition ipnet_String :: "ipnet \<Rightarrow> string" where
  "ipnet_String n =
     (case networkNumberAndMask n of (nn, m) \<Rightarrow>
        if nn = [] then ''<nil>''
        else (case simpleMaskLength m of
                None \<Rightarrow> ip_String nn @ ''/'' @ hex_bytes m
              | Some l \<Rightarrow> ip_String nn @ ''/'' @ dec_string l))"

text \<open>\<open>HardwareAddr.String\<close>.\<close>

definition mac_String :: "bytes \<Rightarrow> string" where
  "mac_String a = join_colon (map hex_byte a)"

section \<open>The program's address helpers\<close>

text \<open>\<open>normalizeIP\<close> (\<open>internal/dhcp/server.go\<close>).\<close>

definition normalizeIP :: "ip \<Rightarrow> ip" where
  "normalizeIP p = (if To4 p \<noteq> [] then To4 p else p)"

text \<open>\<open>to4IfPossible\<close> and \<open>ipsTo4\<close> (\<open>internal/store/store.go\<close>).\<close>

definition to4IfPossible :: "ip \<Rightarrow> ip" where
  "to4IfPossible p = (if p = [] then [] else if To4 p \<noteq> [] then To4 p else p)"

definition ipsTo4 :: "ip list \<Rightarrow> ip list" where
  "ipsTo4 ips = map to4IfPossible (filter (\<lambda>p. p \<noteq> []) ips)"

definition ipKey :: "ip \<Rightarrow> string" where
  "ipKey p = (if To4 p \<noteq> [] then ip_String (To4 p) else ip_String p)"

text \<open>\<open>ipToUint32\<close>: indexing the nil result of \<open>To4\<close> panics.\<close>

definition ipToUint32 :: "ip \<Rightarrow> uint32 run" where
  "ipToUint32 p = (let q = To4 p in if q = [] then Panic else
     Ret (push_bit 24 (ucast (q ! 0)) OR push_bit 16 (ucast (q ! 1)) OR push_bit 8 (ucast (q ! 2)) OR ucast (q ! 3)))"

definition uint32ToIP :: "uint32 \<Rightarrow> ip" where
  "uint32ToIP v = IPv4 (ucast (drop_bit 24 v)) (ucast (drop_bit 16 v)) (ucast (drop_bit 8 v)) (ucast v)"

record bigInt128 =
  hi :: uint64
  lo :: uint64

definition ipToUint128 :: "ip \<Rightarrow> bigInt128 run" where
  "ipToUint128 p = (let q = To16 p in if q = [] then Panic else
     Ret \<lparr>hi = Uint64 (slice 0 8 q), lo = Uint64 (slice 8 16 q)\<rparr>)"

definition uint128ToIP :: "bigInt128 \<Rightarrow> ip" where
  "uint128ToIP v = PutUint64 (hi v) @ PutUint64 (lo v)"

definition Cmp :: "bigInt128 \<Rightarrow> bigInt128 \<Rightarrow> int" where
  "Cmp b other = (if hi b < hi other then -1 else if hi other < hi b then 1
                  else if lo b < lo other then -1 else if lo other < lo b then 1 else 0)"

definition ipAddOne :: "bigInt128 \<Rightarrow> bigInt128" where
  "ipAddOne v = (if lo v = NOT 0 then \<lparr>hi = hi v + 1, lo = 0\<rparr> else \<lparr>hi = hi v, lo = lo v + 1\<rparr>)"

definition ipAddN :: "bigInt128 \<Rightarrow> uint64 \<Rightarrow> bigInt128" where
  "ipAddN v n = (let l = lo v + n in \<lparr>hi = (if l < lo v then hi v + 1 else hi v), lo = l\<rparr>)"

definition prefixCandidate :: "bigInt128 \<Rightarrow> nat \<Rightarrow> uint64 \<Rightarrow> bigInt128" where
  "prefixCandidate base delegatedLen i =
     (let shift = 128 - delegatedLen
      in if 64 \<le> shift then \<lparr>hi = hi base + push_bit (shift - 64) i, lo = lo base\<rparr>
         else let h = hi base + drop_bit shift i; l = lo base + push_bit (64 - shift) i
              in \<lparr>hi = (if l < lo base then h + 1 else h), lo = l\<rparr>)"

text \<open>\<open>ipInRange\<close> of the store and of the DHCPv6 server: compares all 128 bits.\<close>

definition ipInRange :: "ip \<Rightarrow> ip \<Rightarrow> ip \<Rightarrow> bool run" where
  "ipInRange p start end =
     bind_run (ipToUint128 p) (\<lambda>ipU. bind_run (ipToUint128 start) (\<lambda>startU.
       bind_run (ipToUint128 end) (\<lambda>endU. Ret (0 \<le> Cmp ipU startU \<and> Cmp ipU endU \<le> 0))))"

section \<open>Canonical addresses\<close>

lemma length_v4InV6Prefix [simp]: "length v4InV6Prefix = 12"
  by (simp add: v4InV6Prefix_def)

lemma To4_length: "To4 p \<noteq> [] \<Longrightarrow> length (To4 p) = 4"
  by (auto simp: To4_def split: if_splits)

lemma To4_4 [simp]: "length p = 4 \<Longrightarrow> To4 p = p"
  by (simp add: To4_def)

lemma To4_IPv4 [simp]: "To4 (IPv4 a b c d) = [a, b, c, d]"
  by (simp add: To4_def IPv4_def)

lemma To4_To4 [simp]: "To4 (To4 p) = To4 p"
  using To4_length [of p] by (cases "To4 p = []") (simp_all add: To4_def)

lemma normalizeIP_idem [simp]: "normalizeIP (normalizeIP p) = normalizeIP p"
  by (simp add: normalizeIP_def)

lemma to4IfPossible_eq: "to4IfPossible p = normalizeIP p"
  by (auto simp: to4IfPossible_def normalizeIP_def To4_def)

lemma normalizeIP_4 [simp]: "length p = 4 \<Longrightarrow> normalizeIP p = p"
  by (auto simp: normalizeIP_def)

lemma ipKey_normalizeIP [simp]: "ipKey (normalizeIP p) = ipKey p"
  by (simp add: ipKey_def normalizeIP_def)

text \<open>Two well-formed addresses are \<open>Equal\<close> exactly when they normalize to the same bytes.\<close>

lemma ip_Equal_iff:
  assumes "length p = 4 \<or> length p = 16" and "length x = 4 \<or> length x = 16"
  shows "ip_Equal p x \<longleftrightarrow> normalizeIP p = normalizeIP x"
  using assms take_drop_eqI [of 12 p x]
  by (auto simp: ip_Equal_def normalizeIP_def To4_def)

lemma ip_Equal_refl [simp]: "ip_Equal p p"
  by (simp add: ip_Equal_def)

lemma ip_Equal_normalizeIP: "ip_Equal p (normalizeIP p)"
proof (cases "length p = 16 \<and> take 12 p = v4InV6Prefix")
  case True
  then have "length p = 16" "normalizeIP p = drop 12 p" "length (drop 12 p) = 4"
    by (simp_all add: normalizeIP_def To4_def)
  then show ?thesis by (subst ip_Equal_iff) simp_all
next
  case False
  then have "normalizeIP p = p" by (auto simp: normalizeIP_def To4_def)
  then show ?thesis by simp
qed

lemma normalize_Equal: "ip_Equal p q \<Longrightarrow> normalizeIP p = normalizeIP q"
  using ip_Equal_iff [of p q] by (auto simp: ip_Equal_def split: if_splits)

lemma ipKey_Equal: "ip_Equal p q \<Longrightarrow> ipKey p = ipKey q"
  using normalize_Equal [of p q] ipKey_normalizeIP [of p] ipKey_normalizeIP [of q] by simp

lemma digit_not_dot: "c \<in> set (dec_string n) \<Longrightarrow> c \<noteq> CHR ''.''"
  using dec_string_digits [of c n] by auto

lemma digit_not_colon: "c \<in> set (dec_string n) \<Longrightarrow> c \<noteq> CHR '':''"
  using dec_string_digits [of c n] by auto

text \<open>A separator that occurs in neither first part splits a string in one way only.\<close>

lemma append_sep_inj:
  "s \<notin> set a \<Longrightarrow> s \<notin> set b \<Longrightarrow> a @ s # x = b @ s # y \<longleftrightarrow> a = b \<and> x = y"
proof (induction a arbitrary: b)
  case Nil
  then show ?case by (cases b) auto
next
  case (Cons c a)
  then show ?case by (cases b) auto
qed

lemma v4_string_inj [text_inj]:
  assumes "length p = 4" and "length q = 4"
  shows "v4_string p = v4_string q \<longleftrightarrow> p = q"
proof -
  obtain a b c d where p: "p = [a, b, c, d]" using list_of_length4 [OF assms(1)] by blast
  obtain a' b' c' d' where q: "q = [a', b', c', d']" using list_of_length4 [OF assms(2)] by blast
  have dot: "CHR ''.'' \<notin> set (dec_string n)" for n using digit_not_dot by blast
  show ?thesis
    by (simp add: p q v4_string_def append_sep_inj [OF dot dot] dec_string_inj word_unat_eq_iff)
qed

lemma ipKey_v4_inj:
  assumes "length p = 4" and "length q = 4"
  shows "ipKey p = ipKey q \<longleftrightarrow> p = q"
proof -
  have "To4 p \<noteq> []" "To4 q \<noteq> []" "p \<noteq> []" "q \<noteq> []" using assms by auto
  then show ?thesis using assms by (simp add: ipKey_def ip_String_def text_inj)
qed

lemma join_colon_hex_inj:
  "join_colon (map hex_byte xs) = join_colon (map hex_byte ys) \<Longrightarrow> xs = ys"
proof -
  have ne: "hex_byte x \<noteq> []" for x by (simp add: hex_byte_def)
  have rest: "concat (map ((#) (CHR '':'')) (map hex_byte xs)) = concat (map ((#) (CHR '':'')) (map hex_byte ys))
      \<Longrightarrow> xs = ys" for xs ys
  proof (induction xs arbitrary: ys)
    case Nil
    then show ?case by (cases ys) auto
  next
    case (Cons x xs)
    then obtain y ys' where "ys = y # ys'" by (cases ys) auto
    with Cons show ?case by (auto simp: text_inj)
  qed
  assume "join_colon (map hex_byte xs) = join_colon (map hex_byte ys)"
  then show "xs = ys"
    using rest ne by (cases xs; cases ys) (auto simp: join_colon_def text_inj)
qed

lemma mac_String_inj [text_inj]: "mac_String a = mac_String b \<longleftrightarrow> a = b"
  using join_colon_hex_inj by (auto simp: mac_String_def)

section \<open>32-bit addresses\<close>

lemma ipToUint32_v4:
  "ipToUint32 [a, b, c, d] = Ret (Uint32 [a, b, c, d])"
  by (simp add: ipToUint32_def Uint32_def or.assoc or.commute or.left_commute)

lemma ipToUint32_To4: "To4 p \<noteq> [] \<Longrightarrow> ipToUint32 p = Ret (Uint32 (To4 p))"
  using list_of_length4 [OF To4_length] ipToUint32_v4
  by (auto simp: ipToUint32_def Uint32_def Let_def or.assoc or.commute or.left_commute)

lemma To4_uint32ToIP [simp]: "To4 (uint32ToIP v) = PutUint32 v"
  by (simp add: uint32ToIP_def PutUint32_def)

lemma ipToUint32_uint32ToIP [simp]: "ipToUint32 (uint32ToIP v) = Ret v"
  by (simp add: ipToUint32_To4)

section \<open>128-bit integers\<close>

text \<open>The number a \<open>bigInt128\<close> stands for: the abstraction the refinement lemmas relate to.\<close>

definition val128 :: "bigInt128 \<Rightarrow> nat" where
  "val128 b = unat (hi b) * 2 ^ 64 + unat (lo b)"

lemma uint64_bound: "unat (w :: uint64) < 2 ^ 64"
  using unsigned_less [of w, where 'a = nat] by simp

lemma val128_bound: "val128 b < 2 ^ 128"
  using uint64_bound [of "hi b"] uint64_bound [of "lo b"] by (simp add: val128_def)

lemma glue_mod: "l < 2 ^ 64 \<Longrightarrow> (h mod 2 ^ 64) * 2 ^ 64 + l = (h * 2 ^ 64 + l) mod (2 ^ 128 :: nat)"
proof -
  assume l: "l < 2 ^ 64"
  have "(h * 2 ^ 64 + l) mod (2 ^ 64 * 2 ^ 64) = 2 ^ 64 * ((h * 2 ^ 64 + l) div 2 ^ 64 mod 2 ^ 64) + (h * 2 ^ 64 + l) mod 2 ^ 64"
    by (rule mod_mult2_eq)
  then show ?thesis using l by simp
qed

lemma val128_inj: "val128 a = val128 b \<longleftrightarrow> a = b"
proof
  assume eq: "val128 a = val128 b"
  have "unat (hi a) = unat (hi b)"
    using eq uint64_bound [of "lo a"] uint64_bound [of "lo b"] by (auto simp: val128_def)
  moreover from this eq have "unat (lo a) = unat (lo b)" by (simp add: val128_def)
  ultimately show "a = b" by (simp add: word_unat_eq_iff)
qed simp

lemma Cmp_le: "Cmp a b \<le> 0 \<longleftrightarrow> val128 a \<le> val128 b"
  using uint64_bound [of "lo a"] uint64_bound [of "lo b"]
  by (auto simp: Cmp_def val128_def word_less_nat_alt)

lemma Cmp_ge: "0 \<le> Cmp a b \<longleftrightarrow> val128 b \<le> val128 a"
  using uint64_bound [of "lo a"] uint64_bound [of "lo b"]
  by (auto simp: Cmp_def val128_def word_less_nat_alt)

lemma Cmp_eq_0: "Cmp a b = 0 \<longleftrightarrow> a = b"
  using Cmp_le [of a b] Cmp_ge [of a b] val128_inj [of a b] by linarith

lemma unat_add64: "unat (a + b :: uint64) = (unat a + unat b) mod 2 ^ 64"
  by (simp add: unat_word_ariths)

lemma val128_ipAddN: "val128 (ipAddN v n) = (val128 v + unat n) mod 2 ^ 128"
proof (cases "unat (lo v) + unat n < 2 ^ 64")
  case True
  then have "unat (lo v + n) = unat (lo v) + unat n" by (simp add: unat_add64)
  then show ?thesis using True val128_bound [of "ipAddN v n"]
    by (simp add: ipAddN_def val128_def word_less_nat_alt Let_def)
next
  case False
  then have l: "unat (lo v + n) = unat (lo v) + unat n - 2 ^ 64"
    using uint64_bound [of "lo v"] uint64_bound [of n] by (simp add: unat_add64 mod_if)
  then have "unat (lo v + n) < unat (lo v)"
    using False uint64_bound [of n] by simp
  then have "ipAddN v n = \<lparr>hi = hi v + 1, lo = lo v + n\<rparr>"
    by (simp add: ipAddN_def word_less_nat_alt)
  then have "val128 (ipAddN v n) = ((unat (hi v) + 1) * 2 ^ 64 + unat (lo v + n)) mod 2 ^ 128"
    using glue_mod [OF uint64_bound, of "unat (hi v) + 1" "lo v + n"] unat_add64 [of "hi v" 1]
    by (simp only: val128_def bigInt128.simps unat_1)
  moreover have "(unat (hi v) + 1) * 2 ^ 64 + unat (lo v + n) = val128 v + unat n"
    using l False by (simp add: val128_def)
  ultimately show ?thesis by (simp only:)
qed

lemma ipAddOne_is_ipAddN: "ipAddOne v = ipAddN v 1"
proof (cases "lo v = NOT 0")
  case True
  then show ?thesis by (simp add: ipAddOne_def ipAddN_def word_greater_zero_iff)
next
  case False
  then have "lo v + 1 \<noteq> 0" by (simp add: eq_neg_iff_add_eq_0)
  then have "lo v \<le> lo v + 1" using unatSuc [of "lo v"] by (simp add: word_le_nat_alt add.commute)
  then show ?thesis using False by (simp add: ipAddOne_def ipAddN_def Let_def leD)
qed

lemma val128_ipAddOne: "val128 (ipAddOne v) = (val128 v + 1) mod 2 ^ 128"
  by (simp add: ipAddOne_is_ipAddN val128_ipAddN)

lemma ipToUint128_uint128ToIP [simp]: "ipToUint128 (uint128ToIP v) = Ret v"
proof -
  have "slice 0 8 (uint128ToIP v) = PutUint64 (hi v)" "slice 8 16 (uint128ToIP v) = PutUint64 (lo v)"
    by (simp_all add: uint128ToIP_def slice_def)
  moreover have "To16 (uint128ToIP v) = uint128ToIP v" "uint128ToIP v \<noteq> []"
    by (simp_all add: To16_def uint128ToIP_def)
  ultimately show ?thesis by (simp add: ipToUint128_def)
qed


section \<open>prefixCandidate\<close>

lemma unat_push_bit64: "unat (push_bit k i :: uint64) = (unat i * 2 ^ k) mod 2 ^ 64"
  unfolding unsigned_push_bit_eq by (simp add: push_bit_eq_mult take_bit_eq_mod)

text \<open>
  For a delegated length of at most 64, the only one the allocator uses, the result is the
  base advanced by \<open>i\<close> sub-prefixes, as the comment of \<open>prefixCandidate\<close> says.
\<close>

lemma val128_prefixCandidate:
  assumes "len \<le> 64"
  shows "val128 (prefixCandidate base len i) = (val128 base + unat i * 2 ^ (128 - len)) mod 2 ^ 128"
proof -
  define s where "s = 64 - len"
  then have s: "128 - len = 64 + s" using assms by simp
  have "val128 (prefixCandidate base len i)
      = ((unat (hi base) + (unat i * 2 ^ s) mod 2 ^ 64) mod 2 ^ 64) * 2 ^ 64 + unat (lo base)"
    by (simp add: prefixCandidate_def s val128_def unat_add64 unat_push_bit64 Let_def)
  also have "\<dots> = ((unat (hi base) + unat i * 2 ^ s) * 2 ^ 64 + unat (lo base)) mod 2 ^ 128"
    by (simp only: mod_add_right_eq glue_mod [OF uint64_bound])
  also have "(unat (hi base) + unat i * 2 ^ s) * 2 ^ 64 + unat (lo base)
      = val128 base + unat i * 2 ^ (128 - len)"
    by (simp add: val128_def s power_add algebra_simps)
  finally show ?thesis .
qed

text \<open>The low 64 bits are untouched, so a base on a /64 boundary stays on one.\<close>

lemma lo_prefixCandidate: "len \<le> 64 \<Longrightarrow> lo (prefixCandidate base len i) = lo base"
  by (simp add: prefixCandidate_def Let_def)

lemma prefixCandidate_64_inj:
  "prefixCandidate base 64 i = prefixCandidate base 64 j \<longleftrightarrow> i = j"
  by (simp add: prefixCandidate_def)

end
