(* ===== verification/Dhcp4_Packet.thy ===== *)
theory Dhcp4_Packet
  imports Net_IP
begin

text \<open>
  The DHCPv4 wire format, \<open>internal/dhcp/packet.go\<close>: the packet, its option map, \<open>ParsePacket\<close>,
  \<open>Marshal\<close> and the small builders. \<open>Options\<close> is a Go map, so \<open>marshal\<close> visits the options in an
  order the run time chooses: the order is an argument here (\<open>iterates\<close> says which lists are
  possible) and the lemmas hold for every order.
  The lemmas: parsing is total and its errors are exactly the three the code names; parsing
  what was marshalled gives \<open>wire_view\<close>, which is the packet itself for the packets the server
  builds, and which shows what is lost otherwise (options longer than 255 bytes).
\<close>

section \<open>Constants\<close>

abbreviation (input) BootRequest :: byte where "BootRequest \<equiv> 1"
abbreviation (input) BootReply :: byte where "BootReply \<equiv> 2"
abbreviation (input) DHCPDiscover :: byte where "DHCPDiscover \<equiv> 1"
abbreviation (input) DHCPOffer :: byte where "DHCPOffer \<equiv> 2"
abbreviation (input) DHCPRequest :: byte where "DHCPRequest \<equiv> 3"
abbreviation (input) DHCPDecline :: byte where "DHCPDecline \<equiv> 4"
abbreviation (input) DHCPACK :: byte where "DHCPACK \<equiv> 5"
abbreviation (input) DHCPNAK :: byte where "DHCPNAK \<equiv> 6"
abbreviation (input) DHCPRelease :: byte where "DHCPRelease \<equiv> 7"
abbreviation (input) DHCPInform :: byte where "DHCPInform \<equiv> 8"

abbreviation (input) OptPad :: byte where "OptPad \<equiv> 0"
abbreviation (input) OptSubnetMask :: byte where "OptSubnetMask \<equiv> 1"
abbreviation (input) OptRouter :: byte where "OptRouter \<equiv> 3"
abbreviation (input) OptDomainNameServer :: byte where "OptDomainNameServer \<equiv> 6"
abbreviation (input) OptHostName :: byte where "OptHostName \<equiv> 12"
abbreviation (input) OptDomainName :: byte where "OptDomainName \<equiv> 15"
abbreviation (input) OptRequestedIPAddr :: byte where "OptRequestedIPAddr \<equiv> 50"
abbreviation (input) OptIPAddressLeaseTime :: byte where "OptIPAddressLeaseTime \<equiv> 51"
abbreviation (input) OptDHCPMessageType :: byte where "OptDHCPMessageType \<equiv> 53"
abbreviation (input) OptServerIdentifier :: byte where "OptServerIdentifier \<equiv> 54"
abbreviation (input) OptParameterRequestList :: byte where "OptParameterRequestList \<equiv> 55"
abbreviation (input) OptMessage :: byte where "OptMessage \<equiv> 56"
abbreviation (input) OptRenewalTimeValue :: byte where "OptRenewalTimeValue \<equiv> 58"
abbreviation (input) OptRebindingTimeValue :: byte where "OptRebindingTimeValue \<equiv> 59"
abbreviation (input) OptClientIdentifier :: byte where "OptClientIdentifier \<equiv> 61"
abbreviation (input) OptEnd :: byte where "OptEnd \<equiv> 255"

definition ErrInvalidPacket :: string where "ErrInvalidPacket = ''invalid dhcp packet''"

definition MagicCookie :: bytes where "MagicCookie = [99, 130, 83, 99]"

section \<open>Options\<close>

type_synonym options = "byte \<rightharpoonup> bytes"

definition Opt_Get :: "options \<Rightarrow> byte \<Rightarrow> bytes option" where
  "Opt_Get o' code = o' code"

text \<open>\<open>Options.Set\<close>: a nil slice (None) deletes the option.\<close>

definition Opt_Set :: "options \<Rightarrow> byte \<Rightarrow> bytes option \<Rightarrow> options" where
  "Opt_Set o' code data = (case data of None \<Rightarrow> o'(code := None) | Some d \<Rightarrow> o'(code \<mapsto> d))"

definition MessageType :: "options \<Rightarrow> byte" where
  "MessageType o' = (case o' OptDHCPMessageType of None \<Rightarrow> 0 | Some v \<Rightarrow> if v = [] then 0 else v ! 0)"

definition SetMessageType :: "options \<Rightarrow> byte \<Rightarrow> options" where
  "SetMessageType o' t = Opt_Set o' OptDHCPMessageType (Some [t])"

text \<open>\<open>RequestedIP\<close> and \<open>ServerID\<close>: the first four bytes, or nil.\<close>

definition RequestedIP :: "options \<Rightarrow> ip" where
  "RequestedIP o' = (case o' OptRequestedIPAddr of None \<Rightarrow> []
                     | Some v \<Rightarrow> if length v < 4 then [] else take 4 v)"

definition ServerID :: "options \<Rightarrow> ip" where
  "ServerID o' = (case o' OptServerIdentifier of None \<Rightarrow> []
                  | Some v \<Rightarrow> if length v < 4 then [] else take 4 v)"

definition ParameterRequestList :: "options \<Rightarrow> bytes" where
  "ParameterRequestList o' = (case o' OptParameterRequestList of None \<Rightarrow> [] | Some v \<Rightarrow> v)"

definition HostName :: "options \<Rightarrow> string" where
  "HostName o' = (case o' OptHostName of None \<Rightarrow> '''' | Some v \<Rightarrow> string_of_bytes v)"

definition ClientIdentifier :: "options \<Rightarrow> bytes" where
  "ClientIdentifier o' = (case o' OptClientIdentifier of None \<Rightarrow> [] | Some v \<Rightarrow> v)"

text \<open>\<open>Options.parse\<close>: the loop over the option bytes, on the rest of the data.\<close>

function opts_parse :: "options \<Rightarrow> bytes \<Rightarrow> options run" where
  "opts_parse o' [] = Ret o'"
| "opts_parse o' (code # rest) =
     (if code = OptEnd then Ret o'
      else if code = OptPad then opts_parse o' rest
      else (case rest of
              [] \<Rightarrow> Fail (ErrInvalidPacket @ '': truncated option header'')
            | len # body \<Rightarrow>
                if length body < unat len then Fail (ErrInvalidPacket @ '': truncated option data'')
                else opts_parse (o'(code \<mapsto> take (unat len) body)) (drop (unat len) body)))"
  by pat_completeness auto
termination by (relation "measure (\<lambda>(o', data). length data)") auto

text \<open>The inner loop of \<open>Options.marshal\<close>: chunks of at most 255 bytes under the same code.\<close>

function opt_chunks :: "byte \<Rightarrow> bytes \<Rightarrow> bytes" where
  "opt_chunks code data =
     (if 255 < length data then [code, 255] @ take 255 data @ opt_chunks code (drop 255 data)
      else [code, of_nat (length data)] @ data)"
  by pat_completeness auto
termination by (relation "measure (\<lambda>(code, data). length data)") auto

declare opt_chunks.simps [simp del]

definition opt_marshal1 :: "options \<Rightarrow> byte \<Rightarrow> bytes" where
  "opt_marshal1 o' code = (case o' code of None \<Rightarrow> []
     | Some data \<Rightarrow> if code = OptEnd \<or> code = OptPad then [] else opt_chunks code data)"

text \<open>\<open>Options.marshal\<close>, for one iteration order of the map.\<close>

definition opts_marshal :: "byte list \<Rightarrow> options \<Rightarrow> bytes" where
  "opts_marshal order o' = concat (map (opt_marshal1 o') order) @ [OptEnd]"

text \<open>An order in which Go's \<open>range\<close> may visit the map: every key once.\<close>

definition iterates :: "byte list \<Rightarrow> options \<Rightarrow> bool" where
  "iterates order o' \<longleftrightarrow> distinct order \<and> set order = dom o'"

section \<open>Packets\<close>

record packet =
  Op :: byte
  HType :: byte
  HLen :: byte
  Hops :: byte
  XID :: uint32
  Secs :: uint16
  Flags :: uint16
  CIAddr :: ip
  YIAddr :: ip
  SIAddr :: ip
  GIAddr :: ip
  CHAddr :: bytes
  SName :: bytes
  File :: bytes
  Options :: options
  BootFile :: string
  IfIndex :: int

definition ParsePacket :: "bytes \<Rightarrow> packet run" where
  "ParsePacket data =
     (if length data < 240 then
        Fail (ErrInvalidPacket @ '': too short ('' @ dec_string (length data) @ '' bytes)'')
      else
        let hlen = (let h = unat (data ! 2) in if 16 < h then 16 else h);
            p = \<lparr>Op = data ! 0, HType = data ! 1, HLen = data ! 2, Hops = data ! 3,
                 XID = Uint32 (slice 4 8 data),
                 Secs = Uint16 (slice 8 10 data), Flags = Uint16 (slice 10 12 data),
                 CIAddr = slice 12 16 data, YIAddr = slice 16 20 data,
                 SIAddr = slice 20 24 data, GIAddr = slice 24 28 data,
                 CHAddr = slice 28 (28 + hlen) data,
                 SName = slice 44 108 data, File = slice 108 236 data,
                 Options = Map.empty, BootFile = '''', IfIndex = 0\<rparr>
        in if slice 236 240 data \<noteq> MagicCookie then Fail (ErrInvalidPacket @ '': bad magic cookie'')
           else bind_run (opts_parse Map.empty (drop 240 data)) (\<lambda>o'.
                  if MessageType o' = 0 then Fail (ErrInvalidPacket @ '': missing message type'')
                  else Ret (p\<lparr>Options := o'\<rparr>)))"

text \<open>The 240 fixed bytes that \<open>Marshal\<close> writes, field by field into a zeroed buffer.\<close>

definition marshal_header :: "packet \<Rightarrow> bytes" where
  "marshal_header p =
     (let buf = replicate 240 0;
          buf = copy_at 0 1 [Op p] buf;
          buf = copy_at 1 2 [HType p] buf;
          buf = copy_at 2 3 [HLen p] buf;
          buf = copy_at 3 4 [Hops p] buf;
          buf = copy_at 4 8 (PutUint32 (XID p)) buf;
          buf = copy_at 8 10 (PutUint16 (Secs p)) buf;
          buf = copy_at 10 12 (PutUint16 (Flags p)) buf;
          buf = copy_at 12 16 (To4 (CIAddr p)) buf;
          buf = copy_at 16 20 (To4 (YIAddr p)) buf;
          buf = copy_at 20 24 (To4 (SIAddr p)) buf;
          buf = copy_at 24 28 (To4 (GIAddr p)) buf;
          hlen = (if 16 < length (CHAddr p) then 16 else length (CHAddr p));
          buf = copy_at 28 (28 + hlen) (CHAddr p) buf;
          buf = copy_at 44 108 (SName p) buf;
          buf = copy_at 108 236 (File p) buf
      in copy_at 236 240 MagicCookie buf)"

definition Marshal :: "byte list \<Rightarrow> packet \<Rightarrow> bytes" where
  "Marshal order p =
     (let out = marshal_header p @ opts_marshal order (Options p)
      in if length out < 300 then out @ replicate (300 - length out) 0 else out)"

definition ReplyFromRequest :: "packet \<Rightarrow> byte \<Rightarrow> packet" where
  "ReplyFromRequest req msgType =
     \<lparr>Op = BootReply, HType = HType req, HLen = HLen req, Hops = 0, XID = XID req, Secs = 0,
      Flags = Flags req, CIAddr = CIAddr req, YIAddr = [], SIAddr = [], GIAddr = GIAddr req,
      CHAddr = CHAddr req, SName = replicate 64 0, File = replicate 128 0,
      Options = SetMessageType Map.empty msgType, BootFile = '''', IfIndex = IfIndex req\<rparr>"

definition AppendOption :: "packet \<Rightarrow> byte \<Rightarrow> bytes option \<Rightarrow> packet" where
  "AppendOption p code data = p\<lparr>Options := Opt_Set (Options p) code data\<rparr>"

text \<open>\<open>IPToBytes\<close> and \<open>IPsToBytes\<close> return nil (None) when nothing is left of the argument.\<close>

definition IPToBytes :: "ip \<Rightarrow> bytes option" where
  "IPToBytes p = (if To4 p = [] then None else Some (To4 p))"

definition IPsToBytes :: "ip list \<Rightarrow> bytes option" where
  "IPsToBytes ips = (let out = concat (map To4 ips) in if out = [] then None else Some out)"

definition Uint32ToBytes :: "uint32 \<Rightarrow> bytes" where
  "Uint32ToBytes v = PutUint32 v"

definition Uint16ToBytes :: "uint16 \<Rightarrow> bytes" where
  "Uint16ToBytes v = PutUint16 v"

definition ByteToBytes :: "byte \<Rightarrow> bytes" where
  "ByteToBytes v = [v]"

section \<open>Option lemmas\<close>

lemma Opt_Set_simps [simp]:
  "Opt_Set o' c (Some d) = o'(c \<mapsto> d)" "Opt_Set o' c None = o'(c := None)"
  by (simp_all add: Opt_Set_def)

text \<open>What a parser that keeps the last occurrence of an option sees of a chunked one.\<close>

function last_chunk :: "bytes \<Rightarrow> bytes" where
  "last_chunk data = (if 255 < length data then last_chunk (drop 255 data) else data)"
  by pat_completeness auto
termination by (relation "measure length") auto

declare last_chunk.simps [simp del]

lemma last_chunk_short [simp]: "length data \<le> 255 \<Longrightarrow> last_chunk data = data"
  by (simp add: last_chunk.simps)

lemma last_chunk_bound: "length (last_chunk data) \<le> 255"
proof (induction data rule: last_chunk.induct)
  case (1 data)
  then show ?case by (cases "255 < length data") (simp_all add: last_chunk.simps [of data])
qed

lemma unat_byte_of_nat: "n \<le> 255 \<Longrightarrow> unat (of_nat n :: byte) = n"
  by (simp add: unat_of_nat)

lemma opts_parse_chunks:
  assumes "code \<noteq> OptEnd" and "code \<noteq> OptPad"
  shows "opts_parse o' (opt_chunks code data @ rest) = opts_parse (o'(code \<mapsto> last_chunk data)) rest"
proof (induction data arbitrary: o' rule: last_chunk.induct)
  case (1 data)
  show ?case
  proof (cases "255 < length data")
    case True
    have "opts_parse (o'(code \<mapsto> take 255 data)) (opt_chunks code (drop 255 data) @ rest)
        = opts_parse (o'(code \<mapsto> last_chunk (drop 255 data))) rest"
      by (simp only: 1 [OF True] fun_upd_upd)
    moreover have "last_chunk data = last_chunk (drop 255 data)"
      using True by (simp add: last_chunk.simps [of data])
    ultimately show ?thesis
      using assms True by (simp add: opt_chunks.simps [of code data] fun_upd_def)
  next
    case False
    then show ?thesis
      using assms by (simp add: opt_chunks.simps unat_byte_of_nat fun_upd_def)
  qed
qed

text \<open>The options that come back from a marshalled map.\<close>

definition wire_options :: "options \<Rightarrow> options" where
  "wire_options o' c = (if c = OptEnd \<or> c = OptPad then None else map_option last_chunk (o' c))"

lemma opts_parse_concat:
  "opts_parse acc (concat (map (opt_marshal1 o') order) @ rest)
     = opts_parse (\<lambda>c. if c \<in> set order \<and> wire_options o' c \<noteq> None then wire_options o' c else acc c) rest"
proof (induction order arbitrary: acc)
  case Nil
  then show ?case by simp
next
  case (Cons c cs)
  define acc' where "acc' = (if wire_options o' c = None then acc else acc(c := wire_options o' c))"
  have step: "opts_parse acc (opt_marshal1 o' c @ xs) = opts_parse acc' xs" for xs
    using opts_parse_chunks [of c]
    by (auto simp: acc'_def opt_marshal1_def wire_options_def split: option.splits)
  have "(\<lambda>x. if x \<in> set cs \<and> wire_options o' x \<noteq> None then wire_options o' x else acc' x)
      = (\<lambda>x. if x \<in> set (c # cs) \<and> wire_options o' x \<noteq> None then wire_options o' x else acc x)"
    by (rule ext) (auto simp: acc'_def)
  then show ?case by (simp only: list.map concat.simps append_assoc step Cons.IH)
qed

lemma opts_parse_marshal:
  assumes "iterates order o'"
  shows "opts_parse Map.empty (opts_marshal order o' @ rest) = Ret (wire_options o')"
proof -
  have "(\<lambda>c. if c \<in> set order \<and> wire_options o' c \<noteq> None then wire_options o' c else Map.empty c) = wire_options o'"
    using assms by (auto simp: iterates_def wire_options_def fun_eq_iff)
  then show ?thesis
    by (simp add: opts_marshal_def opts_parse_concat)
qed

section \<open>Header layout\<close>

text \<open>An address field on the wire: four bytes, zero when the address has no IPv4 form.\<close>

definition wire_addr :: "ip \<Rightarrow> ip" where
  "wire_addr a = (if To4 a = [] then [0, 0, 0, 0] else To4 a)"

lemma length_wire_addr [simp]: "length (wire_addr a) = 4"
  using To4_length [of a] by (simp add: wire_addr_def)

lemma wire_addr_4 [simp]: "length a = 4 \<Longrightarrow> wire_addr a = a"
  by (auto simp: wire_addr_def)

definition wire_chaddr :: "bytes \<Rightarrow> bytes" where
  "wire_chaddr a = take 16 a @ replicate (16 - length a) 0"

lemma length_wire_chaddr [simp]: "length (wire_chaddr a) = 16"
  by (simp add: wire_chaddr_def)

lemma copy_at_addr:
  assumes "length xs = i" and "4 \<le> n"
  shows "copy_at i (i + 4) (To4 a) (xs @ replicate n 0) = xs @ wire_addr a @ replicate (n - 4) (0 :: byte)"
proof (cases "To4 a = []")
  case True
  have "replicate n (0 :: byte) = [0, 0, 0, 0] @ replicate (n - 4) 0"
    using assms(2) by (simp add: list_eq_iff_nth_eq nth_append nth_Cons split: nat.splits)
  with True assms show ?thesis by (simp add: copy_at_def wire_addr_def)
next
  case False
  with assms To4_length [OF False] show ?thesis
    by (simp add: copy_at_def wire_addr_def)
qed


text \<open>The fixed part of a marshalled packet as one concatenation of its fields.\<close>

lemma marshal_header_eq:
  assumes "length (SName p) = 64" and "length (File p) = 128"
  shows "marshal_header p =
     [Op p, HType p, HLen p, Hops p] @ PutUint32 (XID p) @ PutUint16 (Secs p) @ PutUint16 (Flags p)
     @ wire_addr (CIAddr p) @ wire_addr (YIAddr p) @ wire_addr (SIAddr p) @ wire_addr (GIAddr p)
     @ wire_chaddr (CHAddr p) @ SName p @ File p @ MagicCookie"
proof -
  let ?z = "\<lambda>n. replicate n (0 :: byte)"
  define f0 where "f0 = [Op p, HType p, HLen p, Hops p]"
  define f1 where "f1 = f0 @ PutUint32 (XID p) @ PutUint16 (Secs p) @ PutUint16 (Flags p)"
  define f2 where "f2 = f1 @ wire_addr (CIAddr p) @ wire_addr (YIAddr p) @ wire_addr (SIAddr p) @ wire_addr (GIAddr p)"
  let ?hlen = "if 16 < length (CHAddr p) then 16 else length (CHAddr p)"
  have l0: "length f0 = 4" by (simp add: f0_def)
  have l1: "length f1 = 12" by (simp add: f1_def l0)
  have l2: "length f2 = 28" by (simp add: f2_def l1)
  have b0: "copy_at 3 4 [Hops p] (copy_at 2 3 [HLen p] (copy_at 1 2 [HType p] (copy_at 0 1 [Op p] (?z 240)))) = f0 @ ?z 236"
    by (simp add: copy_at_def f0_def numeral_eq_Suc)
  have b1: "copy_at 10 12 (PutUint16 (Flags p)) (copy_at 8 10 (PutUint16 (Secs p)) (copy_at 4 8 (PutUint32 (XID p)) (f0 @ ?z 236))) = f1 @ ?z 228"
    using l0 by (simp add: f1_def copy_at_def)
  have b2: "copy_at 24 28 (To4 (GIAddr p)) (copy_at 20 24 (To4 (SIAddr p)) (copy_at 16 20 (To4 (YIAddr p)) (copy_at 12 16 (To4 (CIAddr p)) (f1 @ ?z 228)))) = f2 @ ?z 212"
    using copy_at_addr [of f1 12 228 "CIAddr p"]
      copy_at_addr [of "f1 @ wire_addr (CIAddr p)" 16 224 "YIAddr p"]
      copy_at_addr [of "f1 @ wire_addr (CIAddr p) @ wire_addr (YIAddr p)" 20 220 "SIAddr p"]
      copy_at_addr [of "f1 @ wire_addr (CIAddr p) @ wire_addr (YIAddr p) @ wire_addr (SIAddr p)" 24 216 "GIAddr p"]
    by (simp add: f2_def l1)
  have b3: "copy_at 28 (28 + ?hlen) (CHAddr p) (f2 @ ?z 212) = f2 @ wire_chaddr (CHAddr p) @ ?z 196"
    using l2 by (simp add: copy_at_def wire_chaddr_def flip: replicate_add)
  have b4: "copy_at 236 240 MagicCookie (copy_at 108 236 (File p) (copy_at 44 108 (SName p) (f2 @ wire_chaddr (CHAddr p) @ ?z 196)))
      = f2 @ wire_chaddr (CHAddr p) @ SName p @ File p @ MagicCookie"
    using assms l2 by (simp add: copy_at_def MagicCookie_def)
  show ?thesis
    by (simp only: marshal_header_def Let_def b0 b1 b2 b3 b4) (simp add: f0_def f1_def f2_def)
qed

section \<open>Parsing what was marshalled\<close>

text \<open>The packet a receiver sees.\<close>

definition wire_view :: "packet \<Rightarrow> packet" where
  "wire_view p = p\<lparr>CIAddr := wire_addr (CIAddr p), YIAddr := wire_addr (YIAddr p),
     SIAddr := wire_addr (SIAddr p), GIAddr := wire_addr (GIAddr p),
     CHAddr := take (min 16 (unat (HLen p))) (wire_chaddr (CHAddr p)),
     Options := wire_options (Options p), BootFile := '''', IfIndex := 0\<rparr>"

lemma ParsePacket_header:
  assumes h: "data = [op, ht, hl, ho] @ PutUint32 xid @ PutUint16 secs @ PutUint16 flags
      @ ci @ yi @ si @ gi @ ch @ sn @ fl @ MagicCookie @ opts"
    and len: "length ci = 4" "length yi = 4" "length si = 4" "length gi = 4" "length ch = 16"
      "length sn = 64" "length fl = 128"
    and opts: "opts_parse Map.empty opts = Ret o'" "MessageType o' \<noteq> 0"
  shows "ParsePacket data = Ret \<lparr>Op = op, HType = ht, HLen = hl, Hops = ho, XID = xid, Secs = secs,
      Flags = flags, CIAddr = ci, YIAddr = yi, SIAddr = si, GIAddr = gi,
      CHAddr = take (min 16 (unat hl)) ch, SName = sn, File = fl, Options = o', BootFile = '''', IfIndex = 0\<rparr>"
proof -
  have cookie: "length MagicCookie = 4" by (simp add: MagicCookie_def)
  have long: "\<not> length data < 240" using len cookie by (simp add: h)
  have b: "data ! 0 = op" "data ! 1 = ht" "data ! 2 = hl" "data ! 3 = ho"
    by (simp_all add: h)
  have f: "slice 4 8 data = PutUint32 xid" "slice 8 10 data = PutUint16 secs" "slice 10 12 data = PutUint16 flags"
    "slice 12 16 data = ci" "slice 16 20 data = yi" "slice 20 24 data = si" "slice 24 28 data = gi"
    by (simp_all add: h slice_def len)
  have ch: "slice 28 (28 + k) data = take k ch" if "k \<le> 16" for k
    using that by (simp add: h slice_def len)
  have g: "slice 44 108 data = sn" "slice 108 236 data = fl" "slice 236 240 data = MagicCookie"
    by (simp_all add: h slice_def len cookie)
  have d: "drop 240 data = opts" by (simp add: h len cookie)
  show ?thesis
    by (simp add: ParsePacket_def long b [simplified] f g d opts Let_def ch min_def)
qed

lemma ParsePacket_Marshal:
  assumes "length (SName p) = 64" and "length (File p) = 128"
    and "iterates order (Options p)" and "MessageType (wire_options (Options p)) \<noteq> 0"
  shows "ParsePacket (Marshal order p) = Ret (wire_view p)"
proof -
  obtain pad where m: "Marshal order p = marshal_header p @ opts_marshal order (Options p) @ pad"
    by (cases "length (marshal_header p @ opts_marshal order (Options p)) < 300")
      (auto simp: Marshal_def Let_def)
  have "ParsePacket (Marshal order p) = Ret \<lparr>Op = Op p, HType = HType p, HLen = HLen p, Hops = Hops p,
      XID = XID p, Secs = Secs p, Flags = Flags p, CIAddr = wire_addr (CIAddr p), YIAddr = wire_addr (YIAddr p),
      SIAddr = wire_addr (SIAddr p), GIAddr = wire_addr (GIAddr p),
      CHAddr = take (min 16 (unat (HLen p))) (wire_chaddr (CHAddr p)), SName = SName p, File = File p,
      Options = wire_options (Options p), BootFile = '''', IfIndex = 0\<rparr>"
    by (rule ParsePacket_header [where opts = "opts_marshal order (Options p) @ pad"])
      (use assms in \<open>simp_all add: m marshal_header_eq opts_parse_marshal\<close>)
  then show ?thesis by (simp add: wire_view_def)
qed

text \<open>The packets the wire format can carry unchanged.\<close>

definition wf_options :: "options \<Rightarrow> bool" where
  "wf_options o' \<longleftrightarrow> (\<forall>c d. o' c = Some d \<longrightarrow> c \<noteq> OptEnd \<and> c \<noteq> OptPad \<and> length d \<le> 255)"

definition wf_packet :: "packet \<Rightarrow> bool" where
  "wf_packet p \<longleftrightarrow> length (CIAddr p) = 4 \<and> length (YIAddr p) = 4 \<and> length (SIAddr p) = 4
     \<and> length (GIAddr p) = 4 \<and> length (CHAddr p) = min 16 (unat (HLen p))
     \<and> length (SName p) = 64 \<and> length (File p) = 128
     \<and> wf_options (Options p) \<and> MessageType (Options p) \<noteq> 0"

lemma wire_options_id:
  assumes "wf_options o'"
  shows "wire_options o' = o'"
proof
  fix c
  show "wire_options o' c = o' c"
    using assms by (cases "o' c") (auto simp: wf_options_def wire_options_def)
qed

lemma wire_view_id: "wf_packet p \<Longrightarrow> wire_view p = p\<lparr>BootFile := '''', IfIndex := 0\<rparr>"
  by (simp add: wf_packet_def wire_view_def wire_options_id wire_chaddr_def)

lemma opts_parse_wf:
  "wf_options acc \<Longrightarrow> opts_parse acc data = Ret o' \<Longrightarrow> wf_options o'"
proof (induction acc data rule: opts_parse.induct)
  case (1 acc)
  then show ?case by simp
next
  case (2 acc code rest)
  show ?case
  proof (cases "code = OptEnd \<or> code = OptPad")
    case True
    with 2 show ?thesis by auto
  next
    case False
    with "2.prems" obtain len body where rest: "rest = len # body"
      and ok: "unat len \<le> length body"
      and rec: "opts_parse (acc(code \<mapsto> take (unat len) body)) (drop (unat len) body) = Ret o'"
      by (auto split: list.splits if_splits)
    have "unat len \<le> 255" using unsigned_less [of len, where 'a = nat] by simp
    with False "2.prems"(1) have "wf_options (acc(code \<mapsto> take (unat len) body))"
      by (auto simp: wf_options_def)
    with "2.IH"(2) False rest ok rec show ?thesis by (simp add: fun_upd_def)
  qed
qed

lemma opts_parse_outcome:
  "(\<exists>o'. opts_parse acc bs = Ret o') \<or> (\<exists>e. opts_parse acc bs = Fail (ErrInvalidPacket @ '': '' @ e))"
  by (induction acc bs rule: opts_parse.induct) (auto simp: fun_upd_def split: list.splits)

lemma ParsePacket_wf: "ParsePacket data = Ret p \<Longrightarrow> wf_packet p \<and> BootFile p = '''' \<and> IfIndex p = 0"
proof -
  assume r: "ParsePacket data = Ret p"
  then have long: "\<not> length data < 240" by (auto simp: ParsePacket_def split: if_splits)
  let ?hlen = "let h = unat (data ! 2) in if 16 < h then 16 else h"
  from r long obtain o' where o': "opts_parse Map.empty (drop 240 data) = Ret o'" "MessageType o' \<noteq> 0"
    and p: "p = \<lparr>Op = data ! 0, HType = data ! 1, HLen = data ! 2, Hops = data ! 3,
       XID = Uint32 (slice 4 8 data), Secs = Uint16 (slice 8 10 data), Flags = Uint16 (slice 10 12 data),
       CIAddr = slice 12 16 data, YIAddr = slice 16 20 data, SIAddr = slice 20 24 data,
       GIAddr = slice 24 28 data, CHAddr = slice 28 (28 + ?hlen) data,
       SName = slice 44 108 data, File = slice 108 236 data, Options = o', BootFile = '''', IfIndex = 0\<rparr>"
    by (auto simp: ParsePacket_def Let_def bind_run_Ret_iff split: if_splits)
  have "wf_options o'" using opts_parse_wf [OF _ o'(1)] by (simp add: wf_options_def)
  moreover have "length (slice 28 (28 + ?hlen) data) = min 16 (unat (data ! 2))"
    using long by (auto simp: Let_def)
  ultimately show ?thesis
    using o'(2) long by (simp add: p wf_packet_def)
qed

section \<open>Properties\<close>

text \<open>The packet of the repository's test \<open>TestParseAndMarshal\<close>, with four-byte addresses.\<close>

definition sample_discover :: packet where
  "sample_discover =
     \<lparr>Op = BootRequest, HType = 1, HLen = 6, Hops = 0, XID = 0x12345678, Secs = 0, Flags = 0,
      CIAddr = [0, 0, 0, 0], YIAddr = [0, 0, 0, 0], SIAddr = [0, 0, 0, 0], GIAddr = [0, 0, 0, 0],
      CHAddr = [0, 0x11, 0x22, 0x33, 0x44, 0x55], SName = replicate 64 0, File = replicate 128 0,
      Options = [OptDHCPMessageType \<mapsto> [DHCPDiscover], OptHostName \<mapsto> bytes_of_string ''testhost''],
      BootFile = '''', IfIndex = 0\<rparr>"

lemma sample_discover_wf: "wf_packet sample_discover"
  by (simp add: wf_packet_def sample_discover_def wf_options_def MessageType_def)

lemma sample_discover_iterates: "iterates [OptHostName, OptDHCPMessageType] (Options sample_discover)"
  by (auto simp: iterates_def sample_discover_def)

text \<open>
  C8. Round trip of the wire format: for every well-formed packet and every order in which Go
  may visit its option map, \<open>ParsePacket\<close> reads back from \<open>Marshal\<close>'s output the packet itself,
  up to the two fields that are not serialized (\<open>BootFile\<close>, \<open>IfIndex\<close>).
\<close>

theorem parse_marshal_roundtrip:
  assumes "wf_packet p" and "iterates order (Options p)"
  shows "ParsePacket (Marshal order p) = Ret (p\<lparr>BootFile := '''', IfIndex := 0\<rparr>)"
  using assms ParsePacket_Marshal [of p order] wire_view_id [of p]
  by (simp add: wf_packet_def wire_options_id)

theorem parse_marshal_roundtrip_witness:
  "ParsePacket (Marshal [OptHostName, OptDHCPMessageType] sample_discover) = Ret sample_discover"
  using parse_marshal_roundtrip [OF sample_discover_wf sample_discover_iterates]
  by (simp add: sample_discover_def)


text \<open>
  Forwarding is lossless: a packet that was parsed from the wire, marshalled again in any
  option order, parses to the same packet.
\<close>

theorem reparse_stable:
  assumes "ParsePacket data = Ret p" and "iterates order (Options p)"
  shows "ParsePacket (Marshal order p) = Ret p"
proof -
  from ParsePacket_wf [OF assms(1)] have "wf_packet p" "p\<lparr>BootFile := '''', IfIndex := 0\<rparr> = p"
    by simp_all
  with assms(2) show ?thesis
    using ParsePacket_Marshal [of p order] wire_view_id [of p]
    by (simp add: wf_packet_def wire_options_id)
qed

theorem reparse_stable_witness:
  "ParsePacket (Marshal [OptDHCPMessageType, OptHostName] sample_discover) = Ret sample_discover"
proof -
  have w: "ParsePacket (Marshal [OptHostName, OptDHCPMessageType] sample_discover) = Ret sample_discover"
    using ParsePacket_Marshal [of sample_discover "[OptHostName, OptDHCPMessageType]"]
      wire_view_id [OF sample_discover_wf] sample_discover_wf sample_discover_iterates
    by (simp add: wf_packet_def wire_options_id) (simp add: sample_discover_def)
  show ?thesis
    by (rule reparse_stable [OF w]) (auto simp: iterates_def sample_discover_def)
qed

text \<open>
  The limit of the format: \<open>Marshal\<close> splits an option longer than 255 bytes into chunks
  under the same code, but \<open>ParsePacket\<close> keeps only the last occurrence of a code, so the
  option comes back as its final chunk and the leading bytes are lost.
\<close>

theorem long_option_truncated:
  assumes "length (SName p) = 64" and "length (File p) = 128" and "iterates order (Options p)"
    and "MessageType (wire_options (Options p)) \<noteq> 0"
    and "Options p code = Some d" and "255 < length d" and "code \<noteq> OptEnd" and "code \<noteq> OptPad"
  shows "\<exists>q. ParsePacket (Marshal order p) = Ret q \<and> Options q code = Some (last_chunk d)
           \<and> last_chunk d \<noteq> d \<and> length (last_chunk d) \<le> 255"
proof -
  have "last_chunk d \<noteq> d" using last_chunk_bound [of d] assms(6) by auto
  then show ?thesis
    using ParsePacket_Marshal [OF assms(1-4)] assms(5,7,8) last_chunk_bound [of d]
    by (simp add: wire_view_def wire_options_def)
qed

theorem long_option_truncated_witness:
  "\<exists>q. ParsePacket (Marshal [OptDHCPMessageType, OptDomainName]
        (sample_discover\<lparr>Options := [OptDHCPMessageType \<mapsto> [DHCPOffer], OptDomainName \<mapsto> replicate 300 97]\<rparr>)) = Ret q
     \<and> Options q OptDomainName = Some (last_chunk (replicate 300 97))
     \<and> last_chunk (replicate 300 97) \<noteq> replicate 300 97 \<and> length (last_chunk (replicate 300 97)) \<le> 255"
  by (rule long_option_truncated)
    (auto simp: sample_discover_def iterates_def MessageType_def wire_options_def)

end
