(* ===== verification/Models.thy ===== *)
theory Models
  imports Complex_Main Net_IP "HOL-Library.Char_ord" "HOL-Library.List_Lexorder"
begin

text \<open>
  The data model, \<open>internal/models/models.go\<close>: one record per struct, with the struct's fields
  (prefixed, since Isabelle's field names are global), \<open>LeaseState\<close>, and the JSON values that
  the \<open>options\<close> columns hold.
  \<^item> A \<open>json.RawMessage\<close> is the JSON value it denotes, or None when it is empty or not JSON;
    a number is the rational value of its \<open>float64\<close>.
  \<^item> A \<open>time.Time\<close> is a number of microseconds (the resolution of PostgreSQL's clock, which
    every lease timestamp comes from); a \<open>*time.Time\<close> is an option.
  \<^item> A nil \<open>net.IP\<close> is the empty list, a \<open>*net.IPNet\<close> is an option.
\<close>

section \<open>JSON values, interface values and option maps\<close>

datatype json = JNull | JBool bool | JNum rat | JStr string | JArr "json list"
  | JObj "(string \<times> json) list"

type_synonym raw_json = "json option"

text \<open>
  The values an \<open>interface{}\<close> holds in this program: what \<open>json.Unmarshal\<close> produces, and the
  typed values \<open>ParseOptionValue\<close> builds.
\<close>

datatype gvalue = GNil | GBool bool | GFloat rat | GStr string | GList "gvalue list"
  | GMap "(string \<times> gvalue) list" | GStrs "string list"
  | GU8 byte | GU16 uint16 | GU32 uint32 | GI32 "32 word"

text \<open>A repeated key of an object keeps its last value.\<close>

fun last_wins :: "(string \<times> 'v) list \<Rightarrow> (string \<times> 'v) list" where
  "last_wins [] = []"
| "last_wins ((k, v) # r) = (if k \<in> fst ` set r then last_wins r else (k, v) # last_wins r)"

fun unmarshal_any :: "json \<Rightarrow> gvalue" where
  "unmarshal_any JNull = GNil"
| "unmarshal_any (JBool b) = GBool b"
| "unmarshal_any (JNum r) = GFloat r"
| "unmarshal_any (JStr s) = GStr s"
| "unmarshal_any (JArr js) = GList (map unmarshal_any js)"
| "unmarshal_any (JObj kvs) = GMap (last_wins (map (\<lambda>kv. (fst kv, unmarshal_any (snd kv))) kvs))"

type_synonym option_map = "string \<rightharpoonup> gvalue"

text \<open>\<open>ParseOptionMap\<close>: anything that is not an object leaves the map nil, which becomes empty.\<close>

definition ParseOptionMap :: "raw_json \<Rightarrow> option_map" where
  "ParseOptionMap b = (case b of
     Some (JObj kvs) \<Rightarrow> map_of (last_wins (map (\<lambda>kv. (fst kv, unmarshal_any (snd kv))) kvs))
   | _ \<Rightarrow> Map.empty)"

record option_value =
  ovType :: string
  ovValue :: gvalue

section \<open>Time\<close>

type_synonym time = int

abbreviation (input) Second :: int where "Second \<equiv> 1000000"

section \<open>Records\<close>

record user =
  uID :: string
  uUsername :: string
  uPasswordHash :: string
  uRole :: string
  uCreatedAt :: time
  uUpdatedAt :: time

record scope =
  scID :: string
  scName :: string
  scV6 :: bool
  scSubnet :: "ipnet option"
  scPrefix :: "ipnet option"
  scSubnetStr :: string
  scPrefixStr :: string
  scStartIP :: ip
  scEndIP :: ip
  scGateway :: "ip list"
  scDNS :: "ip list"
  scExcludedIPs :: "ip list"
  scDomainName :: string
  scLeaseTime :: int
  scMaxLeaseTime :: int
  scEnabled :: bool
  scPDEnabled :: bool
  scOptions :: raw_json
  scCreatedAt :: time
  scUpdatedAt :: time

definition Normalize :: "scope \<Rightarrow> scope" where
  "Normalize s =
     (let s = (case scSubnet s of None \<Rightarrow> s | Some n \<Rightarrow> s\<lparr>scSubnetStr := ipnet_String n\<rparr>)
      in (case scPrefix s of None \<Rightarrow> s | Some n \<Rightarrow> s\<lparr>scPrefixStr := ipnet_String n\<rparr>))"

record reservation =
  rID :: string
  rScopeID :: string
  rGroupID :: string
  rMACAddr :: string
  rIPAddr :: ip
  rHostname :: string
  rDescription :: string
  rOptions :: raw_json
  rCreatedAt :: time
  rUpdatedAt :: time

datatype LeaseState = LeaseActive | LeaseOffered | LeaseReleased | LeaseExpired | LeaseDeclined

fun state_string :: "LeaseState \<Rightarrow> string" where
  "state_string LeaseActive = ''active''"
| "state_string LeaseOffered = ''offered''"
| "state_string LeaseReleased = ''released''"
| "state_string LeaseExpired = ''expired''"
| "state_string LeaseDeclined = ''declined''"

record lease =
  lID :: string
  lScopeID :: string
  lMACAddr :: string
  lIPAddr :: ip
  lHostname :: string
  lClientID :: string
  lState :: LeaseState
  lReserved :: bool
  lOfferedAt :: "time option"
  lStartsAt :: time
  lEndsAt :: time
  lCreatedAt :: time
  lUpdatedAt :: time

record ha_node =
  nID :: string
  nClusterID :: string
  nNodeID :: string
  nRole :: string
  nListenAddr :: string
  nVersion :: string
  nHealthy :: bool
  nLastSeen :: time
  nCreatedAt :: time
  nUpdatedAt :: time

record ip_allocation_log =
  alID :: string
  alNodeID :: string
  alScopeID :: string
  alScopeName :: string
  alMACAddr :: string
  alDUID :: string
  alIAID :: string
  alIPAddr :: ip
  alPrefix :: "ipnet option"
  alAction :: string
  alClientInfo :: raw_json
  alRelayIP :: ip
  alCreatedAt :: time

record system_log =
  slID :: string
  slNodeID :: string
  slLevel :: string
  slMessage :: string
  slAttrs :: raw_json
  slCreatedAt :: time

record v6_lease =
  vlID :: string
  vlScopeID :: string
  vlDUID :: string
  vlIAID :: string
  vlIPAddr :: ip
  vlHostname :: string
  vlState :: LeaseState
  vlReserved :: bool
  vlOfferedAt :: "time option"
  vlStartsAt :: time
  vlEndsAt :: time
  vlCreatedAt :: time
  vlUpdatedAt :: time

record v6_reservation =
  vrID :: string
  vrScopeID :: string
  vrGroupID :: string
  vrDUID :: string
  vrIPAddr :: ip
  vrHostname :: string
  vrDescription :: string
  vrOptions :: raw_json
  vrCreatedAt :: time
  vrUpdatedAt :: time

record v6_prefix =
  vpID :: string
  vpScopeID :: string
  vpDUID :: string
  vpIAID :: string
  vpPrefix :: "ipnet option"
  vpPreferredLifetime :: int
  vpValidLifetime :: int
  vpState :: LeaseState
  vpStartsAt :: time
  vpEndsAt :: time
  vpCreatedAt :: time
  vpUpdatedAt :: time

record reservation_group =
  gID :: string
  gName :: string
  gDescription :: string
  gOptions :: raw_json
  gCreatedAt :: time
  gUpdatedAt :: time

record mac_blacklist =
  bID :: string
  bMACAddr :: string
  bReason :: string
  bCreatedAt :: time
  bUpdatedAt :: time

section \<open>Lemmas\<close>

lemma state_string_inj [simp]: "state_string a = state_string b \<longleftrightarrow> a = b"
  by (cases a; cases b) simp_all

lemma Normalize_idem: "Normalize (Normalize s) = Normalize s"
  by (auto simp: Normalize_def split: option.splits)

lemma Normalize_keeps:
  "scSubnet (Normalize s) = scSubnet s" "scPrefix (Normalize s) = scPrefix s" "scID (Normalize s) = scID s"
  by (auto simp: Normalize_def split: option.splits)

end
