(* ===== verification/Sql_Table.thy ===== *)
theory Sql_Table
  imports Prelude
begin

text \<open>
  What the store uses of SQL on one table: a table is the list of its rows, its UNIQUE
  constraints are one symmetric relation \<open>clash\<close> between rows, and the statements are \<open>sql_insert\<close>,
  \<open>sql_update\<close>, \<open>sql_delete\<close>, \<open>sql_upsert\<close> (INSERT ... ON CONFLICT ... DO UPDATE). A statement that
  would break a constraint fails and changes nothing.
  The locale \<open>keyed_rows\<close> is the contract of a table with unique keys; \<open>upsert_rows\<close> extends it to
  a table with an upsert. Their lemmas are proved once here and used through the
  interpretations on the tables of the store.
\<close>

section \<open>Statements\<close>

definition uniq :: "('r \<Rightarrow> 'r \<Rightarrow> bool) \<Rightarrow> 'r list \<Rightarrow> bool" where
  "uniq clash rows \<longleftrightarrow> sorted_wrt (\<lambda>a b. \<not> clash a b) rows"

definition unique_violation :: string where
  "unique_violation = ''duplicate key value violates unique constraint''"

definition sql_insert :: "('r \<Rightarrow> 'r \<Rightarrow> bool) \<Rightarrow> 'r \<Rightarrow> 'r list \<Rightarrow> 'r list run" where
  "sql_insert clash r rows =
     (if list_ex (\<lambda>x. clash x r) rows then Fail unique_violation else Ret (rows @ [r]))"

definition update_where :: "('r \<Rightarrow> bool) \<Rightarrow> ('r \<Rightarrow> 'r) \<Rightarrow> 'r list \<Rightarrow> 'r list" where
  "update_where P f rows = map (\<lambda>r. if P r then f r else r) rows"

definition sql_update :: "('r \<Rightarrow> 'r \<Rightarrow> bool) \<Rightarrow> ('r \<Rightarrow> bool) \<Rightarrow> ('r \<Rightarrow> 'r) \<Rightarrow> 'r list \<Rightarrow> 'r list run" where
  "sql_update clash P f rows =
     (let rows' = update_where P f rows in if uniq clash rows' then Ret rows' else Fail unique_violation)"

definition sql_delete :: "('r \<Rightarrow> bool) \<Rightarrow> 'r list \<Rightarrow> 'r list" where
  "sql_delete P rows = filter (\<lambda>r. \<not> P r) rows"

text \<open>\<open>conflict x r\<close>: the stored row \<open>x\<close> has the conflict target of \<open>r\<close>; \<open>merge r x\<close> is \<open>x\<close> after DO UPDATE SET.\<close>

definition sql_upsert ::
  "('r \<Rightarrow> 'r \<Rightarrow> bool) \<Rightarrow> ('r \<Rightarrow> 'r \<Rightarrow> bool) \<Rightarrow> ('r \<Rightarrow> 'r \<Rightarrow> 'r) \<Rightarrow> 'r \<Rightarrow> 'r list \<Rightarrow> 'r list run" where
  "sql_upsert clash conflict merge r rows =
     (if list_ex (\<lambda>x. conflict x r) rows then sql_update clash (\<lambda>x. conflict x r) (merge r) rows
      else sql_insert clash r rows)"

text \<open>\<open>QueryRow\<close>: the first row of the result, \<open>pgx.ErrNoRows\<close> when there is none.\<close>

definition ErrNoRows :: string where "ErrNoRows = ''no rows in result set''"

definition query_row :: "('r \<Rightarrow> bool) \<Rightarrow> 'r list \<Rightarrow> 'r option" where
  "query_row P rows = List.find P rows"

definition or_no_rows :: "'r option \<Rightarrow> 'r run" where
  "or_no_rows r = (case r of None \<Rightarrow> Fail ErrNoRows | Some x \<Rightarrow> Ret x)"

section \<open>Generic lemmas\<close>

lemma query_row_SomeD: "query_row P rows = Some x \<Longrightarrow> x \<in> set rows \<and> P x"
  by (simp add: query_row_def find_SomeD)

lemma query_row_None: "query_row P rows = None \<longleftrightarrow> (\<forall>x \<in> set rows. \<not> P x)"
  by (auto simp: query_row_def find_None_iff)

lemma set_sql_delete [simp]: "set (sql_delete P rows) = {r \<in> set rows. \<not> P r}"
  by (auto simp: sql_delete_def)

lemma set_update_where: "set (update_where P f rows) = f ` {r \<in> set rows. P r} \<union> {r \<in> set rows. \<not> P r}"
  by (auto simp: update_where_def)

lemma sql_update_Ret: "sql_update clash P f rows = Ret rows' \<Longrightarrow> rows' = update_where P f rows \<and> uniq clash rows'"
  by (auto simp: sql_update_def Let_def split: if_splits)

lemma sql_insert_Ret:
  "sql_insert clash r rows = Ret rows' \<Longrightarrow> rows' = rows @ [r] \<and> (\<forall>x \<in> set rows. \<not> clash x r)"
  by (auto simp: sql_insert_def list_ex_iff split: if_splits)

lemma uniq_delete: "uniq clash rows \<Longrightarrow> uniq clash (sql_delete P rows)"
  by (simp add: uniq_def sql_delete_def sorted_wrt_filter)

lemma uniq_Nil [simp]: "uniq clash []"
  by (simp add: uniq_def)

lemma uniq_distinct:
  "(\<And>r. clash r r) \<Longrightarrow> uniq clash rows \<Longrightarrow> distinct rows"
  unfolding uniq_def by (induction rows) auto

section \<open>Contracts\<close>

locale keyed_rows =
  fixes clash :: "'r \<Rightarrow> 'r \<Rightarrow> bool"
  assumes clash_refl: "clash a a"
    and clash_sym: "clash a b \<Longrightarrow> clash b a"
begin

lemma clash_commute: "clash a b \<longleftrightarrow> clash b a"
  by (blast intro: clash_sym)

lemma uniq_clashD: "uniq clash rows \<Longrightarrow> a \<in> set rows \<Longrightarrow> b \<in> set rows \<Longrightarrow> clash a b \<Longrightarrow> a = b"
proof (induction rows)
  case (Cons r rows)
  then have "\<forall>x \<in> set rows. \<not> clash r x" by (simp add: uniq_def)
  then have "\<forall>x \<in> set rows. \<not> clash x r" using clash_sym by blast
  with Cons show ?case by (auto simp: uniq_def)
qed simp

lemma uniq_insert: "uniq clash rows \<Longrightarrow> sql_insert clash r rows = Ret rows' \<Longrightarrow> uniq clash rows'"
  by (drule sql_insert_Ret) (auto simp: uniq_def sorted_wrt_append)

lemma uniq_update_where:
  assumes "uniq clash rows" and "\<And>a b. P a \<Longrightarrow> clash (f a) b \<longleftrightarrow> clash a b"
  shows "uniq clash (update_where P f rows)"
proof -
  have "clash (if P a then f a else a) c \<longleftrightarrow> clash a c" for a c
    using assms(2) by simp
  moreover from this have "clash a (if P b then f b else b) \<longleftrightarrow> clash a b" for a b
    using clash_commute by simp
  ultimately have "clash (if P a then f a else a) (if P b then f b else b) \<longleftrightarrow> clash a b" for a b
    by simp
  then show ?thesis
    using assms(1) by (simp add: uniq_def update_where_def sorted_wrt_map)
qed

text \<open>An update that leaves the keys alone cannot fail.\<close>

lemma update_keeping_keys:
  assumes "uniq clash rows" and "\<And>a b. P a \<Longrightarrow> clash (f a) b \<longleftrightarrow> clash a b"
  shows "sql_update clash P f rows = Ret (update_where P f rows)"
  using uniq_update_where [OF assms] by (simp add: sql_update_def Let_def)

lemma query_row_unique:
  assumes "uniq clash rows" and "x \<in> set rows" and "P x" and "\<And>y. P y \<Longrightarrow> clash x y"
  shows "query_row P rows = Some x"
proof (cases "query_row P rows")
  case None
  with assms show ?thesis by (auto simp: query_row_None)
next
  case (Some y)
  then have "y \<in> set rows" "P y" using query_row_SomeD [of P rows y] by auto
  with assms uniq_clashD [of rows x y] Some show ?thesis by auto
qed

lemma insert_total:
  "(\<And>x. x \<in> set rows \<Longrightarrow> \<not> clash x r) \<Longrightarrow> sql_insert clash r rows = Ret (rows @ [r])"
  by (auto simp: sql_insert_def list_ex_iff)

end

locale upsert_rows = keyed_rows +
  fixes conflict :: "'r \<Rightarrow> 'r \<Rightarrow> bool" and merge :: "'r \<Rightarrow> 'r \<Rightarrow> 'r"
  assumes conflict_clash: "conflict a b \<Longrightarrow> clash a b"
    and conflict_trans: "conflict a r \<Longrightarrow> conflict b r \<Longrightarrow> clash a b"
    and merge_clash: "conflict a r \<Longrightarrow> clash (merge r a) b \<Longrightarrow> clash a b \<or> clash r b"
begin

lemma uniq_upsert: "uniq clash rows \<Longrightarrow> sql_upsert clash conflict merge r rows = Ret rows' \<Longrightarrow> uniq clash rows'"
  using uniq_insert sql_update_Ret by (fastforce simp: sql_upsert_def split: if_splits)

text \<open>
  A successful upsert leaves exactly one row for the conflict target, the inserted one or the
  merged one, and does not touch the others.
\<close>

lemma upsert_rows:
  assumes "uniq clash rows" and "sql_upsert clash conflict merge r rows = Ret rows'"
  obtains (inserted) "\<forall>x \<in> set rows. \<not> clash x r" "set rows' = insert r (set rows)"
  | (merged) x where "x \<in> set rows" "conflict x r"
      "set rows' = insert (merge r x) (set rows - {x})"
proof (cases "list_ex (\<lambda>x. conflict x r) rows")
  case True
  then obtain x where x: "x \<in> set rows" "conflict x r" by (auto simp: list_ex_iff)
  have only: "{y \<in> set rows. conflict y r} = {x}"
    using x uniq_clashD [OF assms(1)] conflict_trans by blast
  have "set rows' = insert (merge r x) (set rows - {x})"
    using assms(2) True only sql_update_Ret [of clash "\<lambda>x. conflict x r" "merge r" rows rows']
    by (auto simp: sql_upsert_def set_update_where)
  with x show ?thesis by (rule merged)
next
  case False
  then have "sql_insert clash r rows = Ret rows'" using assms(2) by (simp add: sql_upsert_def)
  from sql_insert_Ret [OF this] show ?thesis by (intro inserted) auto
qed

text \<open>It succeeds when the new row clashes with no row but the one of its conflict target.\<close>

lemma upsert_total:
  assumes u: "uniq clash rows" and free: "\<And>y. y \<in> set rows \<Longrightarrow> clash r y \<Longrightarrow> conflict y r"
  shows "\<exists>rows'. sql_upsert clash conflict merge r rows = Ret rows'"
proof (cases "list_ex (\<lambda>x. conflict x r) rows")
  case True
  then obtain x where x: "x \<in> set rows" "conflict x r" by (auto simp: list_ex_iff)
  have only: "y = x" if "y \<in> set rows" "conflict y r" for y
    using that x uniq_clashD [OF u] conflict_trans by blast
  have "\<not> clash (if conflict a r then merge r a else a) (if conflict b r then merge r b else b)"
    if ab: "a \<in> set rows" "b \<in> set rows" "\<not> clash a b" for a b
  proof -
    have rx: "\<not> conflict a r \<Longrightarrow> \<not> clash r a" and ry: "\<not> conflict b r \<Longrightarrow> \<not> clash r b"
      using free ab by blast+
    have nab: "\<not> (conflict a r \<and> conflict b r)" using conflict_trans ab by blast
    show ?thesis
      using nab rx ry ab merge_clash [of a r b] merge_clash [of b r a] clash_sym by auto
  qed
  then have "uniq clash (update_where (\<lambda>x. conflict x r) (merge r) rows)"
    using u unfolding uniq_def update_where_def sorted_wrt_map
    by (rule_tac sorted_wrt_mono_rel [of rows "\<lambda>a b. \<not> clash a b"]) auto
  with True show ?thesis by (simp add: sql_upsert_def sql_update_def Let_def)
next
  case False
  then have "\<not> clash x r" if "x \<in> set rows" for x
    using that free clash_sym by (auto simp: list_ex_iff)
  then show ?thesis using False insert_total [of rows r] by (simp add: sql_upsert_def)
qed

end

end
