(* ===== verification/Store_Model.thy ===== *)
theory Store_Model
  imports Models Sql_Table
begin

text \<open>
  The database behind \<open>internal/store/store.go\<close>: the tables of \<open>internal/db/migrations\<close> as lists of
  rows, the SQL statements of the store's methods, and the invariant the UNIQUE constraints
  give.
  \<^item> \<open>db\<close> is the content of the database. A method that writes maps a \<open>db\<close> to its outcome and
    the \<open>db\<close> after it; statements are atomic and methods run one after the other.
  \<^item> \<open>faults\<close> says which statements PostgreSQL fails, and with what error: a lost connection, a
    broken foreign key, a value too long for its column. Violations of UNIQUE constraints are
    computed, not assumed.
  \<^item> \<open>now\<close> is the database clock, \<open>NOW()\<close>, at the call; new ids are arguments.
\<close>

section \<open>Lease lifetimes\<close>

definition offerTimeoutSeconds :: int where "offerTimeoutSeconds = 120"
definition declineQuarantineSeconds :: int where "declineQuarantineSeconds = 3600"

definition leaseBlocksReuse ::
  "LeaseState \<Rightarrow> time option \<Rightarrow> time \<Rightarrow> time \<Rightarrow> time \<Rightarrow> time \<Rightarrow> bool" where
  "leaseBlocksReuse state offeredAt startsAt endsAt updatedAt now =
     (case state of
        LeaseActive \<Rightarrow> now < endsAt
      | LeaseOffered \<Rightarrow>
          (let since = (case offeredAt of Some t \<Rightarrow> t | None \<Rightarrow> startsAt)
           in now < since + offerTimeoutSeconds * Second)
      | LeaseDeclined \<Rightarrow> now < updatedAt + declineQuarantineSeconds * Second
      | _ \<Rightarrow> False)"

abbreviation lease_blocks :: "time \<Rightarrow> lease \<Rightarrow> bool" where
  "lease_blocks now l \<equiv> leaseBlocksReuse (lState l) (lOfferedAt l) (lStartsAt l) (lEndsAt l) (lUpdatedAt l) now"

abbreviation v6_lease_blocks :: "time \<Rightarrow> v6_lease \<Rightarrow> bool" where
  "v6_lease_blocks now l \<equiv> leaseBlocksReuse (vlState l) (vlOfferedAt l) (vlStartsAt l) (vlEndsAt l) (vlUpdatedAt l) now"

section \<open>Tables, statements and faults\<close>

record db =
  dbScopes :: "scope list"
  dbReservations :: "reservation list"
  dbLeases :: "lease list"
  dbV6Leases :: "v6_lease list"
  dbV6Reservations :: "v6_reservation list"
  dbV6Prefixes :: "v6_prefix list"
  dbGroups :: "reservation_group list"
  dbBlacklist :: "mac_blacklist list"
  dbHANodes :: "ha_node list"
  dbServerState :: "(string \<times> string) list"
  dbAllocLogs :: "ip_allocation_log list"
  dbSystemLogs :: "system_log list"

text \<open>A statement is named after the method that issues it, with a suffix when it issues several.\<close>

type_synonym stmt = string
type_synonym faults = "stmt \<Rightarrow> string option"

definition exec :: "faults \<Rightarrow> stmt \<Rightarrow> 'a run \<Rightarrow> 'a run" where
  "exec flt q k = (case flt q of Some e \<Rightarrow> Fail e | None \<Rightarrow> k)"

text \<open>A statement on its own, or a whole transaction: only success changes the database.\<close>

definition settle :: "db \<Rightarrow> ('a \<times> db) run \<Rightarrow> 'a run \<times> db" where
  "settle db r = (case r of Ret (x, db') \<Rightarrow> (Ret x, db') | Fail e \<Rightarrow> (Fail e, db)
                  | Panic \<Rightarrow> (Panic, db) | Hang \<Rightarrow> (Hang, db))"

text \<open>
  \<open>WithTx\<close>: begin, run the body, commit; an error or a panic of the body rolls back (the
  deferred \<open>Rollback\<close>), and so does a failed commit.
\<close>

definition WithTx :: "faults \<Rightarrow> (db \<Rightarrow> ('a \<times> db) run) \<Rightarrow> db \<Rightarrow> 'a run \<times> db" where
  "WithTx flt fn db = settle db (exec flt ''Begin'' (bind_run (fn db) (\<lambda>r. exec flt ''Commit'' (Ret r))))"

text \<open>
  \<open>regexp_replace(host($n), '^::ffff:', '')::inet\<close>: NULL for a nil address; an IPv4-mapped address
  becomes the IPv4 address. An IPv6 address that is not mapped but whose text starts with
  \<open>::ffff:\<close> loses that prefix too, and the rest is no address.
\<close>

definition mangled :: "ip \<Rightarrow> bool" where
  "mangled p = (case zero_run (v6_groups p) of (zs, ze) \<Rightarrow>
      zs = 0 \<and> ze \<le> 4 \<and> v6_groups p ! ze = 65535)"

definition host_inet :: "ip \<Rightarrow> ip option run" where
  "host_inet p =
     (if p = [] then Ret None
      else if To4 p \<noteq> [] then Ret (Some (To4 p))
      else if mangled p then Fail ''invalid input syntax for type inet''
      else Ret (Some p))"

section \<open>Reading rows\<close>

text \<open>The scan functions: IPv4-mapped addresses are read as IPv4; \<open>Reserved\<close> is no column.\<close>

definition scanScope :: "scope \<Rightarrow> scope" where
  "scanScope sc = sc\<lparr>
     scSubnet := map_option (\<lambda>n. n\<lparr>netIP := to4IfPossible (netIP n)\<rparr>) (scSubnet sc),
     scPrefix := map_option (\<lambda>n. n\<lparr>netIP := to4IfPossible (netIP n)\<rparr>) (scPrefix sc),
     scSubnetStr := '''', scPrefixStr := '''',
     scStartIP := to4IfPossible (scStartIP sc), scEndIP := to4IfPossible (scEndIP sc),
     scGateway := ipsTo4 (scGateway sc), scDNS := ipsTo4 (scDNS sc), scExcludedIPs := ipsTo4 (scExcludedIPs sc)\<rparr>"

definition scanReservation :: "reservation \<Rightarrow> reservation" where
  "scanReservation r = r\<lparr>rIPAddr := to4IfPossible (rIPAddr r)\<rparr>"

definition scanLease :: "lease \<Rightarrow> lease" where
  "scanLease l = l\<lparr>lIPAddr := to4IfPossible (lIPAddr l), lReserved := False\<rparr>"

definition scanV6Lease :: "v6_lease \<Rightarrow> v6_lease" where
  "scanV6Lease l = l\<lparr>vlIPAddr := to4IfPossible (vlIPAddr l), vlReserved := False\<rparr>"

definition scanV6Reservation :: "v6_reservation \<Rightarrow> v6_reservation" where
  "scanV6Reservation r = r\<lparr>vrIPAddr := to4IfPossible (vrIPAddr r)\<rparr>"

definition scanV6Prefix :: "v6_prefix \<Rightarrow> v6_prefix" where
  "scanV6Prefix p = p\<lparr>vpPrefix := map_option (\<lambda>n. n\<lparr>netIP := to4IfPossible (netIP n)\<rparr>) (vpPrefix p)\<rparr>"

text \<open>ORDER BY an inet column: the IPv4 addresses first, then by value.\<close>

definition inet_rank :: "ip \<Rightarrow> nat" where
  "inet_rank p = (if length p = 4 then 0 else 2 ^ 32) + foldl (\<lambda>n b. n * 256 + unat b) 0 p"

section \<open>Unique keys and upserts\<close>

definition lease_clash :: "lease \<Rightarrow> lease \<Rightarrow> bool" where
  "lease_clash a b \<longleftrightarrow> lID a = lID b
     \<or> lScopeID a = lScopeID b \<and> (lMACAddr a = lMACAddr b \<or> lIPAddr a = lIPAddr b)"

definition v6_lease_clash :: "v6_lease \<Rightarrow> v6_lease \<Rightarrow> bool" where
  "v6_lease_clash a b \<longleftrightarrow> vlID a = vlID b
     \<or> vlScopeID a = vlScopeID b \<and> (vlDUID a = vlDUID b \<and> vlIAID a = vlIAID b \<or> vlIPAddr a = vlIPAddr b)"

definition v6_prefix_clash :: "v6_prefix \<Rightarrow> v6_prefix \<Rightarrow> bool" where
  "v6_prefix_clash a b \<longleftrightarrow> vpID a = vpID b
     \<or> vpScopeID a = vpScopeID b \<and> (vpDUID a = vpDUID b \<and> vpIAID a = vpIAID b \<or> vpPrefix a = vpPrefix b)"

definition reservation_clash :: "reservation \<Rightarrow> reservation \<Rightarrow> bool" where
  "reservation_clash a b \<longleftrightarrow> rID a = rID b
     \<or> rScopeID a = rScopeID b \<and> (rMACAddr a = rMACAddr b \<or> rIPAddr a = rIPAddr b)"

definition v6_reservation_clash :: "v6_reservation \<Rightarrow> v6_reservation \<Rightarrow> bool" where
  "v6_reservation_clash a b \<longleftrightarrow> vrID a = vrID b
     \<or> vrScopeID a = vrScopeID b \<and> (vrDUID a = vrDUID b \<or> vrIPAddr a = vrIPAddr b)"

definition scope_clash :: "scope \<Rightarrow> scope \<Rightarrow> bool" where
  "scope_clash a b \<longleftrightarrow> scID a = scID b \<or> scName a = scName b"

definition group_clash :: "reservation_group \<Rightarrow> reservation_group \<Rightarrow> bool" where
  "group_clash a b \<longleftrightarrow> gID a = gID b \<or> gName a = gName b"

definition blacklist_clash :: "mac_blacklist \<Rightarrow> mac_blacklist \<Rightarrow> bool" where
  "blacklist_clash a b \<longleftrightarrow> bID a = bID b \<or> bMACAddr a = bMACAddr b"

definition ha_clash :: "ha_node \<Rightarrow> ha_node \<Rightarrow> bool" where
  "ha_clash a b \<longleftrightarrow> nID a = nID b \<or> nNodeID a = nNodeID b"

text \<open>ON CONFLICT (scope_id, ip_addr) DO UPDATE SET ...: the row keeps its id and created_at.\<close>

definition lease_conflict :: "lease \<Rightarrow> lease \<Rightarrow> bool" where
  "lease_conflict x r \<longleftrightarrow> lScopeID x = lScopeID r \<and> lIPAddr x = lIPAddr r"

definition lease_merge :: "lease \<Rightarrow> lease \<Rightarrow> lease" where
  "lease_merge r x = x\<lparr>lMACAddr := lMACAddr r, lHostname := lHostname r, lClientID := lClientID r,
     lState := lState r, lOfferedAt := lOfferedAt r, lStartsAt := lStartsAt r, lEndsAt := lEndsAt r,
     lUpdatedAt := lUpdatedAt r\<rparr>"

definition v6_lease_conflict :: "v6_lease \<Rightarrow> v6_lease \<Rightarrow> bool" where
  "v6_lease_conflict x r \<longleftrightarrow> vlScopeID x = vlScopeID r \<and> vlIPAddr x = vlIPAddr r"

definition v6_lease_merge :: "v6_lease \<Rightarrow> v6_lease \<Rightarrow> v6_lease" where
  "v6_lease_merge r x = x\<lparr>vlDUID := vlDUID r, vlIAID := vlIAID r, vlHostname := vlHostname r,
     vlState := vlState r, vlOfferedAt := vlOfferedAt r, vlStartsAt := vlStartsAt r, vlEndsAt := vlEndsAt r,
     vlUpdatedAt := vlUpdatedAt r\<rparr>"

text \<open>\<open>CreateOrUpdateV6Lease\<close> has the other conflict target, (scope_id, duid, iaid).\<close>

definition v6_client_conflict :: "v6_lease \<Rightarrow> v6_lease \<Rightarrow> bool" where
  "v6_client_conflict x r \<longleftrightarrow> vlScopeID x = vlScopeID r \<and> vlDUID x = vlDUID r \<and> vlIAID x = vlIAID r"

definition v6_client_merge :: "v6_lease \<Rightarrow> v6_lease \<Rightarrow> v6_lease" where
  "v6_client_merge r x = x\<lparr>vlIPAddr := vlIPAddr r, vlHostname := vlHostname r,
     vlState := vlState r, vlOfferedAt := vlOfferedAt r, vlStartsAt := vlStartsAt r, vlEndsAt := vlEndsAt r,
     vlUpdatedAt := vlUpdatedAt r\<rparr>"

definition v6_prefix_conflict :: "v6_prefix \<Rightarrow> v6_prefix \<Rightarrow> bool" where
  "v6_prefix_conflict x r \<longleftrightarrow> vpScopeID x = vpScopeID r \<and> vpDUID x = vpDUID r \<and> vpIAID x = vpIAID r"

definition v6_prefix_merge :: "v6_prefix \<Rightarrow> v6_prefix \<Rightarrow> v6_prefix" where
  "v6_prefix_merge r x = x\<lparr>vpPrefix := vpPrefix r, vpPreferredLifetime := vpPreferredLifetime r,
     vpValidLifetime := vpValidLifetime r, vpState := vpState r, vpStartsAt := vpStartsAt r,
     vpEndsAt := vpEndsAt r, vpUpdatedAt := vpUpdatedAt r\<rparr>"

definition ha_conflict :: "ha_node \<Rightarrow> ha_node \<Rightarrow> bool" where
  "ha_conflict x r \<longleftrightarrow> nNodeID x = nNodeID r"

definition ha_merge :: "ha_node \<Rightarrow> ha_node \<Rightarrow> ha_node" where
  "ha_merge r x = x\<lparr>nClusterID := nClusterID r, nRole := nRole r, nListenAddr := nListenAddr r,
     nVersion := nVersion r, nHealthy := nHealthy r, nLastSeen := nLastSeen r, nUpdatedAt := nUpdatedAt r\<rparr>"

interpretation leases: upsert_rows lease_clash lease_conflict lease_merge
  by unfold_locales (auto simp: lease_clash_def lease_conflict_def lease_merge_def)

interpretation v6_leases: upsert_rows v6_lease_clash v6_lease_conflict v6_lease_merge
  by unfold_locales (auto simp: v6_lease_clash_def v6_lease_conflict_def v6_lease_merge_def)

interpretation v6_clients: upsert_rows v6_lease_clash v6_client_conflict v6_client_merge
  by unfold_locales (auto simp: v6_lease_clash_def v6_client_conflict_def v6_client_merge_def)

interpretation v6_prefixes: upsert_rows v6_prefix_clash v6_prefix_conflict v6_prefix_merge
  by unfold_locales (auto simp: v6_prefix_clash_def v6_prefix_conflict_def v6_prefix_merge_def)

interpretation ha_nodes: upsert_rows ha_clash ha_conflict ha_merge
  by unfold_locales (auto simp: ha_clash_def ha_conflict_def ha_merge_def)

interpretation reservations: keyed_rows reservation_clash
  by unfold_locales (auto simp: reservation_clash_def)

interpretation v6_reservations: keyed_rows v6_reservation_clash
  by unfold_locales (auto simp: v6_reservation_clash_def)

interpretation scopes: keyed_rows scope_clash
  by unfold_locales (auto simp: scope_clash_def)

interpretation groups: keyed_rows group_clash
  by unfold_locales (auto simp: group_clash_def)

interpretation blacklist: keyed_rows blacklist_clash
  by unfold_locales (auto simp: blacklist_clash_def)

section \<open>Server state, blacklist and logs\<close>

definition GetServerState :: "faults \<Rightarrow> string \<Rightarrow> db \<Rightarrow> string run" where
  "GetServerState flt key db = exec flt ''GetServerState''
     (Ret (case query_row (\<lambda>kv. fst kv = key) (dbServerState db) of None \<Rightarrow> '''' | Some kv \<Rightarrow> snd kv))"

definition SetServerState :: "faults \<Rightarrow> string \<Rightarrow> string \<Rightarrow> db \<Rightarrow> unit run \<times> db" where
  "SetServerState flt key value db = settle db (exec flt ''SetServerState''
     (Ret ((), db\<lparr>dbServerState := (if list_ex (\<lambda>kv. fst kv = key) (dbServerState db)
        then update_where (\<lambda>kv. fst kv = key) (\<lambda>kv. (key, value)) (dbServerState db)
        else dbServerState db @ [(key, value)])\<rparr>)))"

definition CreateMACBlacklist :: "faults \<Rightarrow> mac_blacklist \<Rightarrow> db \<Rightarrow> unit run \<times> db" where
  "CreateMACBlacklist flt b db = settle db (exec flt ''CreateMACBlacklist''
     (bind_run (sql_insert blacklist_clash b (dbBlacklist db)) (\<lambda>rows. Ret ((), db\<lparr>dbBlacklist := rows\<rparr>))))"

definition ListMACBlacklist :: "faults \<Rightarrow> db \<Rightarrow> mac_blacklist list run" where
  "ListMACBlacklist flt db = exec flt ''ListMACBlacklist'' (Ret (sort_key (\<lambda>b. - bCreatedAt b) (dbBlacklist db)))"

definition DeleteMACBlacklist :: "faults \<Rightarrow> string \<Rightarrow> db \<Rightarrow> unit run \<times> db" where
  "DeleteMACBlacklist flt ident db = settle db (exec flt ''DeleteMACBlacklist''
     (Ret ((), db\<lparr>dbBlacklist := sql_delete (\<lambda>b. bID b = ident) (dbBlacklist db)\<rparr>)))"

definition IsMACBlacklisted :: "faults \<Rightarrow> string \<Rightarrow> db \<Rightarrow> bool run" where
  "IsMACBlacklisted flt mac db = exec flt ''IsMACBlacklisted''
     (Ret (0 < length (filter (\<lambda>b. bMACAddr b = mac) (dbBlacklist db))))"

definition CreateIPAllocationLog :: "faults \<Rightarrow> ip_allocation_log \<Rightarrow> db \<Rightarrow> unit run \<times> db" where
  "CreateIPAllocationLog flt entry db = settle db (exec flt ''CreateIPAllocationLog''
     (bind_run (host_inet (alIPAddr entry)) (\<lambda>a. bind_run (host_inet (alRelayIP entry)) (\<lambda>r.
        bind_run (sql_insert (\<lambda>x y. alID x = alID y)
          (entry\<lparr>alIPAddr := case_option [] id a, alRelayIP := case_option [] id r\<rparr>) (dbAllocLogs db))
        (\<lambda>rows. Ret ((), db\<lparr>dbAllocLogs := rows\<rparr>))))))"

section \<open>Scopes\<close>

text \<open>The columns a scope is written to; \<open>SubnetStr\<close> and \<open>PrefixStr\<close> are not stored.\<close>

definition scope_row :: "scope \<Rightarrow> scope run" where
  "scope_row sc =
     bind_run (host_inet (scStartIP sc)) (\<lambda>st. bind_run (host_inet (scEndIP sc)) (\<lambda>en.
     bind_run (map_run host_inet (scGateway sc)) (\<lambda>gw. bind_run (map_run host_inet (scDNS sc)) (\<lambda>dns.
     bind_run (map_run host_inet (scExcludedIPs sc)) (\<lambda>ex.
       if st = None \<or> en = None \<or> scSubnet sc = None then Fail ''null value violates not-null constraint''
       else Ret (sc\<lparr>scSubnet := map_option (\<lambda>n. n\<lparr>netIP := to4IfPossible (netIP n)\<rparr>) (scSubnet sc),
         scPrefix := map_option (\<lambda>n. n\<lparr>netIP := to4IfPossible (netIP n)\<rparr>) (scPrefix sc),
         scSubnetStr := '''', scPrefixStr := '''',
         scStartIP := the st, scEndIP := the en,
         scGateway := map (case_option [] id) gw, scDNS := map (case_option [] id) dns,
         scExcludedIPs := map (case_option [] id) ex\<rparr>))))))"

definition CreateScope :: "faults \<Rightarrow> scope \<Rightarrow> db \<Rightarrow> unit run \<times> db" where
  "CreateScope flt sc db = settle db (exec flt ''CreateScope''
     (bind_run (scope_row sc) (\<lambda>r. bind_run (sql_insert scope_clash r (dbScopes db))
       (\<lambda>rows. Ret ((), db\<lparr>dbScopes := rows\<rparr>)))))"

definition GetScopeByID :: "faults \<Rightarrow> string \<Rightarrow> db \<Rightarrow> scope run" where
  "GetScopeByID flt ident db = exec flt ''GetScopeByID''
     (or_no_rows (map_option scanScope (query_row (\<lambda>s. scID s = ident) (dbScopes db))))"

definition GetScopeByName :: "faults \<Rightarrow> string \<Rightarrow> db \<Rightarrow> scope run" where
  "GetScopeByName flt name db = exec flt ''GetScopeByName''
     (or_no_rows (map_option scanScope (query_row (\<lambda>s. scName s = name) (dbScopes db))))"

text \<open>ORDER BY name follows the database's collation, an argument.\<close>

definition ListScopes :: "faults \<Rightarrow> (string \<Rightarrow> nat) \<Rightarrow> db \<Rightarrow> scope list run" where
  "ListScopes flt collate db = exec flt ''ListScopes''
     (Ret (map scanScope (sort_key (\<lambda>s. collate (scName s)) (dbScopes db))))"

definition UpdateScope :: "faults \<Rightarrow> scope \<Rightarrow> db \<Rightarrow> unit run \<times> db" where
  "UpdateScope flt sc db = settle db (exec flt ''UpdateScope''
     (bind_run (scope_row sc) (\<lambda>r. bind_run
        (sql_update scope_clash (\<lambda>s. scID s = scID sc) (\<lambda>s. r\<lparr>scID := scID s, scCreatedAt := scCreatedAt s\<rparr>) (dbScopes db))
        (\<lambda>rows. Ret ((), db\<lparr>dbScopes := rows\<rparr>)))))"

text \<open>Deleting a scope cascades to its reservations, leases and prefixes; logs lose the reference.\<close>

definition DeleteScope :: "faults \<Rightarrow> string \<Rightarrow> db \<Rightarrow> unit run \<times> db" where
  "DeleteScope flt ident db = settle db (exec flt ''DeleteScope''
     (Ret ((), if list_ex (\<lambda>s. scID s = ident) (dbScopes db) then
       db\<lparr>dbScopes := sql_delete (\<lambda>s. scID s = ident) (dbScopes db),
          dbReservations := sql_delete (\<lambda>r. rScopeID r = ident) (dbReservations db),
          dbLeases := sql_delete (\<lambda>l. lScopeID l = ident) (dbLeases db),
          dbV6Leases := sql_delete (\<lambda>l. vlScopeID l = ident) (dbV6Leases db),
          dbV6Reservations := sql_delete (\<lambda>r. vrScopeID r = ident) (dbV6Reservations db),
          dbV6Prefixes := sql_delete (\<lambda>p. vpScopeID p = ident) (dbV6Prefixes db),
          dbAllocLogs := update_where (\<lambda>g. alScopeID g = ident) (\<lambda>g. g\<lparr>alScopeID := ''''\<rparr>) (dbAllocLogs db)\<rparr>
       else db)))"

section \<open>Reservations\<close>

definition CreateReservation :: "faults \<Rightarrow> reservation \<Rightarrow> db \<Rightarrow> unit run \<times> db" where
  "CreateReservation flt r db = settle db (exec flt ''CreateReservation''
     (bind_run (host_inet (rIPAddr r)) (\<lambda>a. case a of
        None \<Rightarrow> Fail ''null value violates not-null constraint''
      | Some q \<Rightarrow> bind_run (sql_insert reservation_clash (r\<lparr>rIPAddr := q\<rparr>) (dbReservations db))
                   (\<lambda>rows. Ret ((), db\<lparr>dbReservations := rows\<rparr>)))))"

definition GetReservationByID :: "faults \<Rightarrow> string \<Rightarrow> db \<Rightarrow> reservation run" where
  "GetReservationByID flt ident db = exec flt ''GetReservationByID''
     (or_no_rows (map_option scanReservation (query_row (\<lambda>r. rID r = ident) (dbReservations db))))"

definition GetReservationByMAC :: "faults \<Rightarrow> string \<Rightarrow> string \<Rightarrow> db \<Rightarrow> reservation run" where
  "GetReservationByMAC flt scopeID mac db = exec flt ''GetReservationByMAC''
     (or_no_rows (map_option scanReservation
        (query_row (\<lambda>r. rScopeID r = scopeID \<and> rMACAddr r = mac) (dbReservations db))))"

definition GetReservationByIP :: "faults \<Rightarrow> string \<Rightarrow> ip \<Rightarrow> db \<Rightarrow> reservation run" where
  "GetReservationByIP flt scopeID p db = exec flt ''GetReservationByIP''
     (bind_run (host_inet p) (\<lambda>a. or_no_rows (map_option scanReservation
        (query_row (\<lambda>r. rScopeID r = scopeID \<and> Some (rIPAddr r) = a) (dbReservations db)))))"

definition ListReservationsByScope :: "faults \<Rightarrow> string \<Rightarrow> db \<Rightarrow> reservation list run" where
  "ListReservationsByScope flt scopeID db = exec flt ''ListReservationsByScope''
     (Ret (map scanReservation (sort_key (\<lambda>r. inet_rank (rIPAddr r))
        (filter (\<lambda>r. rScopeID r = scopeID) (dbReservations db)))))"

definition DeleteReservation :: "faults \<Rightarrow> string \<Rightarrow> db \<Rightarrow> unit run \<times> db" where
  "DeleteReservation flt ident db = settle db (exec flt ''DeleteReservation''
     (Ret ((), db\<lparr>dbReservations := sql_delete (\<lambda>r. rID r = ident) (dbReservations db)\<rparr>)))"

text \<open>\<open>goNow\<close> is \<open>time.Now()\<close> of the node.\<close>

definition UpdateReservation :: "faults \<Rightarrow> time \<Rightarrow> reservation \<Rightarrow> db \<Rightarrow> unit run \<times> db" where
  "UpdateReservation flt goNow r db = settle db (exec flt ''UpdateReservation''
     (bind_run (host_inet (rIPAddr r)) (\<lambda>a. case a of
        None \<Rightarrow> Fail ''null value violates not-null constraint''
      | Some q \<Rightarrow> bind_run (sql_update reservation_clash (\<lambda>x. rID x = rID r)
            (\<lambda>x. x\<lparr>rMACAddr := rMACAddr r, rIPAddr := q, rGroupID := rGroupID r, rHostname := rHostname r,
                   rDescription := rDescription r, rOptions := rOptions r, rUpdatedAt := goNow\<rparr>) (dbReservations db))
          (\<lambda>rows. Ret ((), db\<lparr>dbReservations := rows\<rparr>)))))"

section \<open>Leases\<close>

definition GetLeaseByMAC :: "faults \<Rightarrow> string \<Rightarrow> string \<Rightarrow> db \<Rightarrow> lease run" where
  "GetLeaseByMAC flt scopeID mac db = exec flt ''GetLeaseByMAC''
     (or_no_rows (map_option scanLease (query_row (\<lambda>l. lScopeID l = scopeID \<and> lMACAddr l = mac) (dbLeases db))))"

definition GetLeaseByIP :: "faults \<Rightarrow> string \<Rightarrow> ip \<Rightarrow> db \<Rightarrow> lease run" where
  "GetLeaseByIP flt scopeID p db = exec flt ''GetLeaseByIP''
     (bind_run (host_inet p) (\<lambda>a. or_no_rows (map_option scanLease
        (query_row (\<lambda>l. lScopeID l = scopeID \<and> Some (lIPAddr l) = a) (dbLeases db)))))"

text \<open>The INSERT ... ON CONFLICT (scope_id, ip_addr) of \<open>CreateOrUpdateLease\<close> and \<open>saveLeaseTx\<close>.\<close>

definition upsert_lease :: "lease \<Rightarrow> db \<Rightarrow> (unit \<times> db) run" where
  "upsert_lease l db =
     bind_run (host_inet (lIPAddr l)) (\<lambda>a. case a of
        None \<Rightarrow> Fail ''null value violates not-null constraint''
      | Some q \<Rightarrow> bind_run (sql_upsert lease_clash lease_conflict lease_merge
                     (l\<lparr>lIPAddr := q, lReserved := False\<rparr>) (dbLeases db))
                   (\<lambda>rows. Ret ((), db\<lparr>dbLeases := rows\<rparr>)))"

definition CreateOrUpdateLease :: "faults \<Rightarrow> lease \<Rightarrow> db \<Rightarrow> unit run \<times> db" where
  "CreateOrUpdateLease flt l db = settle db (exec flt ''CreateOrUpdateLease'' (upsert_lease l db))"

definition UpdateLeaseState :: "faults \<Rightarrow> time \<Rightarrow> string \<Rightarrow> LeaseState \<Rightarrow> db \<Rightarrow> unit run \<times> db" where
  "UpdateLeaseState flt now ident state db = settle db (exec flt ''UpdateLeaseState''
     (Ret ((), db\<lparr>dbLeases := update_where (\<lambda>l. lID l = ident)
        (\<lambda>l. l\<lparr>lState := state, lUpdatedAt := now\<rparr>) (dbLeases db)\<rparr>)))"

text \<open>
  \<open>markReservedLeases\<close>: a lease is marked when its address or its client has a reservation in its
  scope. When a list of reservations cannot be read the marks are left out, and the callers
  drop the error.
\<close>

definition markReservedLeases :: "faults \<Rightarrow> db \<Rightarrow> lease list \<Rightarrow> lease list run" where
  "markReservedLeases flt db ls =
     (if ls = [] then Ret []
      else map_run (\<lambda>l. bind_run (ListReservationsByScope flt (lScopeID l) db) (\<lambda>res.
             let reserved = map (\<lambda>r. ipKey (rIPAddr r)) res @ map rMACAddr res
             in Ret (if ipKey (lIPAddr l) \<in> set reserved \<or> lMACAddr l \<in> set reserved
                     then l\<lparr>lReserved := True\<rparr> else l))) ls)"

definition ListLeasesByScope :: "faults \<Rightarrow> string \<Rightarrow> db \<Rightarrow> lease list run" where
  "ListLeasesByScope flt scopeID db = exec flt ''ListLeasesByScope''
     (let ls = map scanLease (sort_key (\<lambda>l. inet_rank (lIPAddr l)) (filter (\<lambda>l. lScopeID l = scopeID) (dbLeases db)))
      in case markReservedLeases flt db ls of Ret ls' \<Rightarrow> Ret ls' | _ \<Rightarrow> Ret ls)"

text \<open>The WHERE clause of \<open>ListActiveLeases\<close>, and with the declined case that of the allocator.\<close>

definition sql_live :: "time \<Rightarrow> LeaseState \<Rightarrow> time option \<Rightarrow> time \<Rightarrow> time \<Rightarrow> bool" where
  "sql_live now state offeredAt startsAt endsAt \<longleftrightarrow>
     state = LeaseActive \<and> endsAt > now
     \<or> state = LeaseOffered \<and> (case offeredAt of Some t \<Rightarrow> t | None \<Rightarrow> startsAt) > now - offerTimeoutSeconds * Second"

definition sql_expired :: "time \<Rightarrow> LeaseState \<Rightarrow> time option \<Rightarrow> time \<Rightarrow> time \<Rightarrow> bool" where
  "sql_expired now state offeredAt startsAt endsAt \<longleftrightarrow>
     state = LeaseActive \<and> endsAt < now
     \<or> state = LeaseOffered \<and> (case offeredAt of Some t \<Rightarrow> t | None \<Rightarrow> startsAt) < now - offerTimeoutSeconds * Second"

definition ListActiveLeases :: "faults \<Rightarrow> time \<Rightarrow> db \<Rightarrow> lease list run" where
  "ListActiveLeases flt now db = exec flt ''ListActiveLeases''
     (Ret (map scanLease (sort_key lEndsAt
        (filter (\<lambda>l. sql_live now (lState l) (lOfferedAt l) (lStartsAt l) (lEndsAt l)) (dbLeases db)))))"

definition ReleaseExpiredLeases :: "faults \<Rightarrow> time \<Rightarrow> db \<Rightarrow> unit run \<times> db" where
  "ReleaseExpiredLeases flt now db = settle db (exec flt ''ReleaseExpiredLeases''
     (Ret ((), db\<lparr>dbLeases := update_where
        (\<lambda>l. sql_expired now (lState l) (lOfferedAt l) (lStartsAt l) (lEndsAt l))
        (\<lambda>l. l\<lparr>lState := LeaseExpired, lUpdatedAt := now\<rparr>) (dbLeases db)\<rparr>)))"

definition DeleteLease :: "faults \<Rightarrow> string \<Rightarrow> db \<Rightarrow> unit run \<times> db" where
  "DeleteLease flt ident db = settle db (exec flt ''DeleteLease''
     (Ret ((), db\<lparr>dbLeases := sql_delete (\<lambda>l. lID l = ident) (dbLeases db)\<rparr>)))"

definition UpdateLeaseStateByMACIP ::
  "faults \<Rightarrow> time \<Rightarrow> string \<Rightarrow> string \<Rightarrow> ip \<Rightarrow> LeaseState \<Rightarrow> db \<Rightarrow> bool run \<times> db" where
  "UpdateLeaseStateByMACIP flt now scopeID mac p state db = settle db (exec flt ''UpdateLeaseStateByMACIP''
     (bind_run (host_inet p) (\<lambda>a.
        let hit = (\<lambda>l. lScopeID l = scopeID \<and> lMACAddr l = mac \<and> Some (lIPAddr l) = a
                     \<and> (lState l = LeaseActive \<or> lState l = LeaseOffered))
        in Ret (0 < length (filter hit (dbLeases db)),
                db\<lparr>dbLeases := update_where hit (\<lambda>l. l\<lparr>lState := state, lUpdatedAt := now\<rparr>) (dbLeases db)\<rparr>))))"

section \<open>Cleanup\<close>

text \<open>COALESCE(NULLIF(a, 0), NULLIF(b, 0), 86400) and COALESCE(NULLIF(a, 0), 86400), in seconds.\<close>

definition retention2 :: "int \<Rightarrow> int \<Rightarrow> int" where
  "retention2 a b = (if a \<noteq> 0 then a else if b \<noteq> 0 then b else 86400)"

definition retention1 :: "int \<Rightarrow> int" where
  "retention1 a = (if a \<noteq> 0 then a else 86400)"

definition stale_lease :: "time \<Rightarrow> db \<Rightarrow> string \<Rightarrow> time \<Rightarrow> bool" where
  "stale_lease now db scopeID endsAt \<longleftrightarrow> list_ex (\<lambda>s. scID s = scopeID
     \<and> endsAt < now - retention2 (scMaxLeaseTime s) (scLeaseTime s) * Second) (dbScopes db)"

definition stale_prefix :: "time \<Rightarrow> db \<Rightarrow> v6_prefix \<Rightarrow> bool" where
  "stale_prefix now db p \<longleftrightarrow> list_ex (\<lambda>s. scID s = vpScopeID p
     \<and> vpEndsAt p < now - retention1 (vpValidLifetime p) * Second) (dbScopes db)"

text \<open>
  One DELETE of \<open>CleanupExpiredLeases\<close>, added to the count so far. The five statements are not
  in a transaction: an error stops the sequence, and what was deleted stays deleted. The
  result is the count with the error, if any.
\<close>

type_synonym cleanup = "(int \<times> string option) \<times> db"

definition cleanup_step :: "faults \<Rightarrow> stmt \<Rightarrow> (db \<Rightarrow> int \<times> db) \<Rightarrow> cleanup \<Rightarrow> cleanup" where
  "cleanup_step flt q del acc = (case acc of ((count, err), db) \<Rightarrow>
     (case err of Some e \<Rightarrow> acc
      | None \<Rightarrow> (case flt q of Some e \<Rightarrow> ((count, Some e), db)
                | None \<Rightarrow> (let (n, db') = del db in ((count + n, None), db')))))"

definition CleanupExpiredLeases :: "faults \<Rightarrow> time \<Rightarrow> db \<Rightarrow> cleanup" where
  "CleanupExpiredLeases flt now db =
     (let stale4 = (\<lambda>db l. stale_lease now db (lScopeID l) (lEndsAt l));
          stale6 = (\<lambda>db l. stale_lease now db (vlScopeID l) (vlEndsAt l));
          oldAlloc = (\<lambda>g. alCreatedAt g < now - 180 * 86400 * Second);
          oldSys = (\<lambda>g. slCreatedAt g < now - 30 * 86400 * Second)
      in cleanup_step flt ''CleanupExpiredLeases.system_logs''
           (\<lambda>db. (int (length (filter oldSys (dbSystemLogs db))),
                  db\<lparr>dbSystemLogs := sql_delete oldSys (dbSystemLogs db)\<rparr>))
         (cleanup_step flt ''CleanupExpiredLeases.ip_allocation_logs''
           (\<lambda>db. (int (length (filter oldAlloc (dbAllocLogs db))),
                  db\<lparr>dbAllocLogs := sql_delete oldAlloc (dbAllocLogs db)\<rparr>))
         (cleanup_step flt ''CleanupExpiredLeases.v6_prefixes''
           (\<lambda>db. (int (length (filter (stale_prefix now db) (dbV6Prefixes db))),
                  db\<lparr>dbV6Prefixes := sql_delete (stale_prefix now db) (dbV6Prefixes db)\<rparr>))
         (cleanup_step flt ''CleanupExpiredLeases.v6_leases''
           (\<lambda>db. (int (length (filter (stale6 db) (dbV6Leases db))),
                  db\<lparr>dbV6Leases := sql_delete (stale6 db) (dbV6Leases db)\<rparr>))
         (cleanup_step flt ''CleanupExpiredLeases.leases''
           (\<lambda>db. (int (length (filter (stale4 db) (dbLeases db))),
                  db\<lparr>dbLeases := sql_delete (stale4 db) (dbLeases db)\<rparr>))
           ((0, None), db))))))"

section \<open>HA nodes\<close>

definition UpsertHANode :: "faults \<Rightarrow> ha_node \<Rightarrow> db \<Rightarrow> unit run \<times> db" where
  "UpsertHANode flt node db = settle db (exec flt ''UpsertHANode''
     (bind_run (sql_upsert ha_clash ha_conflict ha_merge node (dbHANodes db))
       (\<lambda>rows. Ret ((), db\<lparr>dbHANodes := rows\<rparr>))))"

definition GetHANode :: "faults \<Rightarrow> string \<Rightarrow> db \<Rightarrow> ha_node run" where
  "GetHANode flt nodeID db = exec flt ''GetHANode''
     (or_no_rows (query_row (\<lambda>n. nNodeID n = nodeID) (dbHANodes db)))"

definition ListHANodesByCluster :: "faults \<Rightarrow> (string \<Rightarrow> nat) \<Rightarrow> time \<Rightarrow> string \<Rightarrow> int \<Rightarrow> db \<Rightarrow> ha_node list run" where
  "ListHANodesByCluster flt collate now clusterID offlineAfterSeconds db = exec flt ''ListHANodesByCluster''
     (Ret (map (\<lambda>n. n\<lparr>nHealthy := (nLastSeen n > now - offlineAfterSeconds * Second)\<rparr>)
       (sort_key (\<lambda>n. collate (nNodeID n)) (filter (\<lambda>n. nClusterID n = clusterID) (dbHANodes db)))))"

section \<open>DHCPv6 leases\<close>

definition GetV6LeaseByDUID :: "faults \<Rightarrow> string \<Rightarrow> string \<Rightarrow> string \<Rightarrow> db \<Rightarrow> v6_lease run" where
  "GetV6LeaseByDUID flt scopeID duid iaid db = exec flt ''GetV6LeaseByDUID''
     (or_no_rows (map_option scanV6Lease
        (query_row (\<lambda>l. vlScopeID l = scopeID \<and> vlDUID l = duid \<and> vlIAID l = iaid) (dbV6Leases db))))"

definition GetV6LeaseByIP :: "faults \<Rightarrow> string \<Rightarrow> ip \<Rightarrow> db \<Rightarrow> v6_lease run" where
  "GetV6LeaseByIP flt scopeID p db = exec flt ''GetV6LeaseByIP''
     (bind_run (host_inet p) (\<lambda>a. or_no_rows (map_option scanV6Lease
        (query_row (\<lambda>l. vlScopeID l = scopeID \<and> Some (vlIPAddr l) = a) (dbV6Leases db)))))"

definition CreateOrUpdateV6Lease :: "faults \<Rightarrow> v6_lease \<Rightarrow> db \<Rightarrow> unit run \<times> db" where
  "CreateOrUpdateV6Lease flt l db = settle db (exec flt ''CreateOrUpdateV6Lease''
     (bind_run (host_inet (vlIPAddr l)) (\<lambda>a. case a of
        None \<Rightarrow> Fail ''null value violates not-null constraint''
      | Some q \<Rightarrow> bind_run (sql_upsert v6_lease_clash v6_client_conflict v6_client_merge
                     (l\<lparr>vlIPAddr := q, vlReserved := False\<rparr>) (dbV6Leases db))
                   (\<lambda>rows. Ret ((), db\<lparr>dbV6Leases := rows\<rparr>)))))"

definition UpdateV6LeaseState :: "faults \<Rightarrow> time \<Rightarrow> string \<Rightarrow> LeaseState \<Rightarrow> db \<Rightarrow> unit run \<times> db" where
  "UpdateV6LeaseState flt now ident state db = settle db (exec flt ''UpdateV6LeaseState''
     (Ret ((), db\<lparr>dbV6Leases := update_where (\<lambda>l. vlID l = ident)
        (\<lambda>l. l\<lparr>vlState := state, vlUpdatedAt := now\<rparr>) (dbV6Leases db)\<rparr>)))"

definition ListV6ReservationsByScope :: "faults \<Rightarrow> string \<Rightarrow> db \<Rightarrow> v6_reservation list run" where
  "ListV6ReservationsByScope flt scopeID db = exec flt ''ListV6ReservationsByScope''
     (Ret (map scanV6Reservation (sort_key (\<lambda>r. inet_rank (vrIPAddr r))
        (filter (\<lambda>r. vrScopeID r = scopeID) (dbV6Reservations db)))))"

definition markReservedV6Leases :: "faults \<Rightarrow> db \<Rightarrow> v6_lease list \<Rightarrow> v6_lease list run" where
  "markReservedV6Leases flt db ls =
     (if ls = [] then Ret []
      else map_run (\<lambda>l. bind_run (ListV6ReservationsByScope flt (vlScopeID l) db) (\<lambda>res.
             let reserved = map (\<lambda>r. ipKey (vrIPAddr r)) res @ map vrDUID res
             in Ret (if ipKey (vlIPAddr l) \<in> set reserved \<or> vlDUID l \<in> set reserved
                     then l\<lparr>vlReserved := True\<rparr> else l))) ls)"

definition ListV6LeasesByScope :: "faults \<Rightarrow> string \<Rightarrow> db \<Rightarrow> v6_lease list run" where
  "ListV6LeasesByScope flt scopeID db = exec flt ''ListV6LeasesByScope''
     (let ls = map scanV6Lease (sort_key (\<lambda>l. inet_rank (vlIPAddr l)) (filter (\<lambda>l. vlScopeID l = scopeID) (dbV6Leases db)))
      in case markReservedV6Leases flt db ls of Ret ls' \<Rightarrow> Ret ls' | _ \<Rightarrow> Ret ls)"

definition ListActiveV6Leases :: "faults \<Rightarrow> time \<Rightarrow> db \<Rightarrow> v6_lease list run" where
  "ListActiveV6Leases flt now db = exec flt ''ListActiveV6Leases''
     (Ret (map scanV6Lease (sort_key vlEndsAt
        (filter (\<lambda>l. sql_live now (vlState l) (vlOfferedAt l) (vlStartsAt l) (vlEndsAt l)) (dbV6Leases db)))))"

definition ReleaseExpiredV6Leases :: "faults \<Rightarrow> time \<Rightarrow> db \<Rightarrow> unit run \<times> db" where
  "ReleaseExpiredV6Leases flt now db = settle db (exec flt ''ReleaseExpiredV6Leases''
     (Ret ((), db\<lparr>dbV6Leases := update_where
        (\<lambda>l. sql_expired now (vlState l) (vlOfferedAt l) (vlStartsAt l) (vlEndsAt l))
        (\<lambda>l. l\<lparr>vlState := LeaseExpired, vlUpdatedAt := now\<rparr>) (dbV6Leases db)\<rparr>)))"

text \<open>Prefixes have no offered_at: the offer window is measured from starts_at.\<close>

definition ReleaseExpiredV6Prefixes :: "faults \<Rightarrow> time \<Rightarrow> db \<Rightarrow> unit run \<times> db" where
  "ReleaseExpiredV6Prefixes flt now db = settle db (exec flt ''ReleaseExpiredV6Prefixes''
     (Ret ((), db\<lparr>dbV6Prefixes := update_where
        (\<lambda>p. sql_expired now (vpState p) None (vpStartsAt p) (vpEndsAt p))
        (\<lambda>p. p\<lparr>vpState := LeaseExpired, vpUpdatedAt := now\<rparr>) (dbV6Prefixes db)\<rparr>)))"

definition DeleteV6Lease :: "faults \<Rightarrow> string \<Rightarrow> db \<Rightarrow> unit run \<times> db" where
  "DeleteV6Lease flt ident db = settle db (exec flt ''DeleteV6Lease''
     (Ret ((), db\<lparr>dbV6Leases := sql_delete (\<lambda>l. vlID l = ident) (dbV6Leases db)\<rparr>)))"

section \<open>DHCPv6 reservations\<close>

definition CreateV6Reservation :: "faults \<Rightarrow> v6_reservation \<Rightarrow> db \<Rightarrow> unit run \<times> db" where
  "CreateV6Reservation flt r db = settle db (exec flt ''CreateV6Reservation''
     (bind_run (host_inet (vrIPAddr r)) (\<lambda>a. case a of
        None \<Rightarrow> Fail ''null value violates not-null constraint''
      | Some q \<Rightarrow> bind_run (sql_insert v6_reservation_clash (r\<lparr>vrIPAddr := q\<rparr>) (dbV6Reservations db))
                   (\<lambda>rows. Ret ((), db\<lparr>dbV6Reservations := rows\<rparr>)))))"

definition GetV6ReservationByID :: "faults \<Rightarrow> string \<Rightarrow> db \<Rightarrow> v6_reservation run" where
  "GetV6ReservationByID flt ident db = exec flt ''GetV6ReservationByID''
     (or_no_rows (map_option scanV6Reservation (query_row (\<lambda>r. vrID r = ident) (dbV6Reservations db))))"

definition GetV6ReservationByDUID :: "faults \<Rightarrow> string \<Rightarrow> string \<Rightarrow> db \<Rightarrow> v6_reservation run" where
  "GetV6ReservationByDUID flt scopeID duid db = exec flt ''GetV6ReservationByDUID''
     (or_no_rows (map_option scanV6Reservation
        (query_row (\<lambda>r. vrScopeID r = scopeID \<and> vrDUID r = duid) (dbV6Reservations db))))"

definition GetV6ReservationByIP :: "faults \<Rightarrow> string \<Rightarrow> ip \<Rightarrow> db \<Rightarrow> v6_reservation run" where
  "GetV6ReservationByIP flt scopeID p db = exec flt ''GetV6ReservationByIP''
     (bind_run (host_inet p) (\<lambda>a. or_no_rows (map_option scanV6Reservation
        (query_row (\<lambda>r. vrScopeID r = scopeID \<and> Some (vrIPAddr r) = a) (dbV6Reservations db)))))"

definition DeleteV6Reservation :: "faults \<Rightarrow> string \<Rightarrow> db \<Rightarrow> unit run \<times> db" where
  "DeleteV6Reservation flt ident db = settle db (exec flt ''DeleteV6Reservation''
     (Ret ((), db\<lparr>dbV6Reservations := sql_delete (\<lambda>r. vrID r = ident) (dbV6Reservations db)\<rparr>)))"

definition UpdateV6Reservation :: "faults \<Rightarrow> time \<Rightarrow> v6_reservation \<Rightarrow> db \<Rightarrow> unit run \<times> db" where
  "UpdateV6Reservation flt goNow r db = settle db (exec flt ''UpdateV6Reservation''
     (bind_run (host_inet (vrIPAddr r)) (\<lambda>a. case a of
        None \<Rightarrow> Fail ''null value violates not-null constraint''
      | Some q \<Rightarrow> bind_run (sql_update v6_reservation_clash (\<lambda>x. vrID x = vrID r)
            (\<lambda>x. x\<lparr>vrDUID := vrDUID r, vrIPAddr := q, vrGroupID := vrGroupID r, vrHostname := vrHostname r,
                   vrDescription := vrDescription r, vrOptions := vrOptions r, vrUpdatedAt := goNow\<rparr>) (dbV6Reservations db))
          (\<lambda>rows. Ret ((), db\<lparr>dbV6Reservations := rows\<rparr>)))))"

section \<open>Reservation groups\<close>

definition CreateReservationGroup :: "faults \<Rightarrow> reservation_group \<Rightarrow> db \<Rightarrow> unit run \<times> db" where
  "CreateReservationGroup flt g db = settle db (exec flt ''CreateReservationGroup''
     (bind_run (sql_insert group_clash g (dbGroups db)) (\<lambda>rows. Ret ((), db\<lparr>dbGroups := rows\<rparr>))))"

definition GetReservationGroupByID :: "faults \<Rightarrow> string \<Rightarrow> db \<Rightarrow> reservation_group run" where
  "GetReservationGroupByID flt ident db = exec flt ''GetReservationGroupByID''
     (or_no_rows (query_row (\<lambda>g. gID g = ident) (dbGroups db)))"

definition GetReservationGroupByName :: "faults \<Rightarrow> string \<Rightarrow> db \<Rightarrow> reservation_group run" where
  "GetReservationGroupByName flt name db = exec flt ''GetReservationGroupByName''
     (or_no_rows (query_row (\<lambda>g. gName g = name) (dbGroups db)))"

definition ListReservationGroups :: "faults \<Rightarrow> (string \<Rightarrow> nat) \<Rightarrow> db \<Rightarrow> reservation_group list run" where
  "ListReservationGroups flt collate db = exec flt ''ListReservationGroups''
     (Ret (sort_key (\<lambda>g. collate (gName g)) (dbGroups db)))"

definition UpdateReservationGroup :: "faults \<Rightarrow> time \<Rightarrow> reservation_group \<Rightarrow> db \<Rightarrow> unit run \<times> db" where
  "UpdateReservationGroup flt goNow g db = settle db (exec flt ''UpdateReservationGroup''
     (bind_run (sql_update group_clash (\<lambda>x. gID x = gID g)
        (\<lambda>x. x\<lparr>gName := gName g, gDescription := gDescription g, gOptions := gOptions g, gUpdatedAt := goNow\<rparr>) (dbGroups db))
      (\<lambda>rows. Ret ((), db\<lparr>dbGroups := rows\<rparr>))))"

text \<open>Deleting a group clears the group of its reservations (ON DELETE SET NULL).\<close>

definition DeleteReservationGroup :: "faults \<Rightarrow> string \<Rightarrow> db \<Rightarrow> unit run \<times> db" where
  "DeleteReservationGroup flt ident db = settle db (exec flt ''DeleteReservationGroup''
     (Ret ((), if list_ex (\<lambda>g. gID g = ident) (dbGroups db) then
       db\<lparr>dbGroups := sql_delete (\<lambda>g. gID g = ident) (dbGroups db),
          dbReservations := update_where (\<lambda>r. rGroupID r = ident) (\<lambda>r. r\<lparr>rGroupID := ''''\<rparr>) (dbReservations db),
          dbV6Reservations := update_where (\<lambda>r. vrGroupID r = ident) (\<lambda>r. r\<lparr>vrGroupID := ''''\<rparr>) (dbV6Reservations db)\<rparr>
       else db)))"

section \<open>Delegated prefixes\<close>

definition cidr_col :: "ipnet \<Rightarrow> ipnet" where
  "cidr_col n = n\<lparr>netIP := to4IfPossible (netIP n)\<rparr>"

definition GetV6PrefixByDUID :: "faults \<Rightarrow> string \<Rightarrow> string \<Rightarrow> string \<Rightarrow> db \<Rightarrow> v6_prefix run" where
  "GetV6PrefixByDUID flt scopeID duid iaid db = exec flt ''GetV6PrefixByDUID''
     (or_no_rows (map_option scanV6Prefix
        (query_row (\<lambda>p. vpScopeID p = scopeID \<and> vpDUID p = duid \<and> vpIAID p = iaid) (dbV6Prefixes db))))"

definition GetV6PrefixByPrefix :: "faults \<Rightarrow> string \<Rightarrow> ipnet \<Rightarrow> db \<Rightarrow> v6_prefix run" where
  "GetV6PrefixByPrefix flt scopeID n db = exec flt ''GetV6PrefixByPrefix''
     (or_no_rows (map_option scanV6Prefix
        (query_row (\<lambda>p. vpScopeID p = scopeID \<and> vpPrefix p = Some (cidr_col n)) (dbV6Prefixes db))))"

text \<open>The INSERT ... ON CONFLICT (scope_id, duid, iaid) of \<open>CreateOrUpdateV6Prefix\<close> and \<open>saveV6PrefixTx\<close>.\<close>

definition upsert_v6_prefix :: "v6_prefix \<Rightarrow> db \<Rightarrow> (unit \<times> db) run" where
  "upsert_v6_prefix p db = (case vpPrefix p of
        None \<Rightarrow> Fail ''null value violates not-null constraint''
      | Some n \<Rightarrow> bind_run (sql_upsert v6_prefix_clash v6_prefix_conflict v6_prefix_merge
                     (p\<lparr>vpPrefix := Some (cidr_col n)\<rparr>) (dbV6Prefixes db))
                   (\<lambda>rows. Ret ((), db\<lparr>dbV6Prefixes := rows\<rparr>)))"

definition CreateOrUpdateV6Prefix :: "faults \<Rightarrow> v6_prefix \<Rightarrow> db \<Rightarrow> unit run \<times> db" where
  "CreateOrUpdateV6Prefix flt p db = settle db (exec flt ''CreateOrUpdateV6Prefix'' (upsert_v6_prefix p db))"

definition UpdateV6PrefixState :: "faults \<Rightarrow> time \<Rightarrow> string \<Rightarrow> LeaseState \<Rightarrow> db \<Rightarrow> unit run \<times> db" where
  "UpdateV6PrefixState flt now ident state db = settle db (exec flt ''UpdateV6PrefixState''
     (Ret ((), db\<lparr>dbV6Prefixes := update_where (\<lambda>p. vpID p = ident)
        (\<lambda>p. p\<lparr>vpState := state, vpUpdatedAt := now\<rparr>) (dbV6Prefixes db)\<rparr>)))"

definition DeleteV6Prefix :: "faults \<Rightarrow> string \<Rightarrow> db \<Rightarrow> unit run \<times> db" where
  "DeleteV6Prefix flt ident db = settle db (exec flt ''DeleteV6Prefix''
     (Ret ((), db\<lparr>dbV6Prefixes := sql_delete (\<lambda>p. vpID p = ident) (dbV6Prefixes db)\<rparr>)))"

definition ListV6PrefixesByScope :: "faults \<Rightarrow> string \<Rightarrow> db \<Rightarrow> v6_prefix list run" where
  "ListV6PrefixesByScope flt scopeID db = exec flt ''ListV6PrefixesByScope''
     (Ret (map scanV6Prefix (sort_key (\<lambda>p. case vpPrefix p of None \<Rightarrow> 0 | Some n \<Rightarrow> inet_rank (netIP n))
        (filter (\<lambda>p. vpScopeID p = scopeID) (dbV6Prefixes db)))))"

section \<open>DNS lookups\<close>

text \<open>
  \<open>lower\<close> is SQL's LOWER, which depends on the database's locale. A UNION keeps no duplicates and
  has no order.
\<close>

definition in_domain :: "(string \<Rightarrow> string) \<Rightarrow> string \<Rightarrow> db \<Rightarrow> string \<Rightarrow> bool" where
  "in_domain lower domain db scopeID \<longleftrightarrow> list_ex (\<lambda>s. scID s = scopeID
     \<and> (domain = '''' \<or> lower (scDomainName s) = lower domain)) (dbScopes db)"

definition LookupHostname :: "faults \<Rightarrow> (string \<Rightarrow> string) \<Rightarrow> time \<Rightarrow> string \<Rightarrow> string \<Rightarrow> db \<Rightarrow> (ip list \<times> ip list) run" where
  "LookupHostname flt lower now hostname domain db =
     exec flt ''LookupHostname.v4''
       (let v4 = remdups (
              map lIPAddr (filter (\<lambda>l. lHostname l \<noteq> '''' \<and> lState l = LeaseActive \<and> lEndsAt l > now
                 \<and> lower (lHostname l) = lower hostname \<and> in_domain lower domain db (lScopeID l)) (dbLeases db))
            @ map rIPAddr (filter (\<lambda>r. rHostname r \<noteq> '''' \<and> lower (rHostname r) = lower hostname
                 \<and> in_domain lower domain db (rScopeID r)) (dbReservations db)));
            v4' = filter (\<lambda>p. p \<noteq> []) (map to4IfPossible v4)
        in exec flt ''LookupHostname.v6''
          (let v6 = remdups (
                 map vlIPAddr (filter (\<lambda>l. vlHostname l \<noteq> '''' \<and> vlState l = LeaseActive \<and> vlEndsAt l > now
                    \<and> lower (vlHostname l) = lower hostname \<and> in_domain lower domain db (vlScopeID l)) (dbV6Leases db))
               @ map vrIPAddr (filter (\<lambda>r. vrHostname r \<noteq> '''' \<and> lower (vrHostname r) = lower hostname
                    \<and> in_domain lower domain db (vrScopeID r)) (dbV6Reservations db)))
           in Ret (v4', filter (\<lambda>p. p \<noteq> [] \<and> To4 p = []) v6)))"

text \<open>\<open>id <> $3\<close> compares with a column of type UUID: which texts are UUIDs for the database is an argument.\<close>

definition DomainNameTaken ::
  "faults \<Rightarrow> (string \<Rightarrow> bool) \<Rightarrow> (string \<Rightarrow> string) \<Rightarrow> string \<Rightarrow> bool \<Rightarrow> string \<Rightarrow> db \<Rightarrow> bool run" where
  "DomainNameTaken flt isUUID lower domain v6 excludeID db = exec flt ''DomainNameTaken''
     (if \<not> isUUID excludeID then Fail ''invalid input syntax for type uuid''
      else Ret (list_ex (\<lambda>s. scDomainName s \<noteq> '''' \<and> lower (scDomainName s) = lower domain
        \<and> scV6 s = v6 \<and> scID s \<noteq> excludeID) (dbScopes db)))"

text \<open>
  \<open>LookupPTR\<close>: reservations (priority 1) before active leases (priority 2). The v6 branches compare
  with \<open>$1::inet\<close>, which keeps an IPv4-mapped address mapped.
\<close>

definition scope_domain :: "db \<Rightarrow> string \<Rightarrow> string option" where
  "scope_domain db scopeID = map_option scDomainName (query_row (\<lambda>s. scID s = scopeID) (dbScopes db))"

definition ptr_rows :: "time \<Rightarrow> ip option \<Rightarrow> ip \<Rightarrow> db \<Rightarrow> (string \<times> string) list" where
  "ptr_rows now a p db =
     (let res = (\<lambda>(h, sid). map_option (Pair h) (scope_domain db sid))
      in List.map_filter res
          (map (\<lambda>r. (rHostname r, rScopeID r)) (filter (\<lambda>r. Some (rIPAddr r) = a \<and> rHostname r \<noteq> '''') (dbReservations db))
         @ map (\<lambda>r. (vrHostname r, vrScopeID r)) (filter (\<lambda>r. vrIPAddr r = p \<and> vrHostname r \<noteq> '''') (dbV6Reservations db))
         @ map (\<lambda>l. (lHostname l, lScopeID l)) (filter (\<lambda>l. Some (lIPAddr l) = a \<and> lHostname l \<noteq> ''''
              \<and> lState l = LeaseActive \<and> lEndsAt l > now) (dbLeases db))
         @ map (\<lambda>l. (vlHostname l, vlScopeID l)) (filter (\<lambda>l. vlIPAddr l = p \<and> vlHostname l \<noteq> ''''
              \<and> vlState l = LeaseActive \<and> vlEndsAt l > now) (dbV6Leases db))))"

definition LookupPTR :: "faults \<Rightarrow> time \<Rightarrow> ip \<Rightarrow> db \<Rightarrow> (string \<times> string) run" where
  "LookupPTR flt now p db = exec flt ''LookupPTR''
     (bind_run (host_inet p) (\<lambda>a. Ret (case ptr_rows now a p db of [] \<Rightarrow> ('''', '''') | r # _ \<Rightarrow> r)))"

section \<open>The invariant of the database\<close>

text \<open>Addresses are stored in their shortest form; rows satisfy the UNIQUE constraints.\<close>

definition canon :: "ip \<Rightarrow> bool" where
  "canon p \<longleftrightarrow> p \<noteq> [] \<and> to4IfPossible p = p"

definition wf_db :: "db \<Rightarrow> bool" where
  "wf_db db \<longleftrightarrow>
     uniq lease_clash (dbLeases db) \<and> uniq v6_lease_clash (dbV6Leases db)
   \<and> uniq v6_prefix_clash (dbV6Prefixes db) \<and> uniq reservation_clash (dbReservations db)
   \<and> uniq v6_reservation_clash (dbV6Reservations db)
   \<and> (\<forall>l \<in> set (dbLeases db). canon (lIPAddr l) \<and> \<not> lReserved l)
   \<and> (\<forall>l \<in> set (dbV6Leases db). canon (vlIPAddr l) \<and> \<not> vlReserved l)
   \<and> (\<forall>r \<in> set (dbReservations db). canon (rIPAddr r))
   \<and> (\<forall>r \<in> set (dbV6Reservations db). canon (vrIPAddr r))"

lemma exec_Ret [simp]: "exec flt q k = Ret x \<longleftrightarrow> flt q = None \<and> k = Ret x"
  by (simp add: exec_def split: option.splits)

lemma exec_ok [simp]: "flt q = None \<Longrightarrow> exec flt q k = k"
  by (simp add: exec_def)

lemma settle_Ret: "settle db r = (Ret x, db') \<longleftrightarrow> r = Ret (x, db')"
  by (auto simp: settle_def split: run.splits)

lemma settle_keeps:
  assumes "P db" and "\<And>x db'. r = Ret (x, db') \<Longrightarrow> P db'"
  shows "P (snd (settle db r))"
  using assms by (auto simp: settle_def split: run.splits)

lemma WithTx_Ret: "WithTx flt fn db = (Ret x, db') \<longleftrightarrow> flt ''Begin'' = None \<and> flt ''Commit'' = None \<and> fn db = Ret (x, db')"
  by (auto simp: WithTx_def settle_Ret bind_run_Ret_iff)

text \<open>A transaction that does not return a value changes nothing.\<close>

lemma WithTx_rollback: "(\<forall>x. fst (WithTx flt fn db) \<noteq> Ret x) \<Longrightarrow> snd (WithTx flt fn db) = db"
  by (fastforce simp: WithTx_def settle_def split: run.splits)

lemma WithTx_keeps:
  assumes "P db" and "\<And>x db'. fn db = Ret (x, db') \<Longrightarrow> P db'"
  shows "P (snd (WithTx flt fn db))"
  unfolding WithTx_def by (rule settle_keeps [of P]) (use assms in \<open>auto simp: bind_run_Ret_iff\<close>)

lemma host_inet_Some: "host_inet p = Ret (Some q) \<Longrightarrow> q = normalizeIP p \<and> canon q"
  by (auto simp: host_inet_def canon_def normalizeIP_def to4IfPossible_def split: if_splits)

lemma host_inet_None: "host_inet p = Ret None \<longleftrightarrow> p = []"
  by (auto simp: host_inet_def)

lemma bind_host_inet:
  "p \<noteq> [] \<Longrightarrow> bind_run (host_inet p) f = Ret y \<longleftrightarrow> (\<exists>q. host_inet p = Ret (Some q) \<and> f (Some q) = Ret y)"
  by (auto simp: bind_run_Ret_iff host_inet_def split: if_splits)

lemma host_inet_v4 [simp]: "To4 p \<noteq> [] \<Longrightarrow> host_inet p = Ret (Some (To4 p))"
  by (auto simp: host_inet_def To4_def)

lemma canon_normalizeIP: "canon p \<Longrightarrow> normalizeIP p = p"
  by (simp add: canon_def to4IfPossible_eq)

lemma scanLease_row: "canon (lIPAddr l) \<Longrightarrow> \<not> lReserved l \<Longrightarrow> scanLease l = l"
  by (simp add: scanLease_def canon_def)

lemma scanV6Lease_row: "canon (vlIPAddr l) \<Longrightarrow> \<not> vlReserved l \<Longrightarrow> scanV6Lease l = l"
  by (simp add: scanV6Lease_def canon_def)

lemma scanReservation_row: "canon (rIPAddr r) \<Longrightarrow> scanReservation r = r"
  by (simp add: scanReservation_def canon_def)

lemma scanV6Reservation_row: "canon (vrIPAddr r) \<Longrightarrow> scanV6Reservation r = r"
  by (simp add: scanV6Reservation_def canon_def)

lemma query_scan_cases:
  assumes "eo = map_option f (query_row P rows)" and "\<And>x. x \<in> set rows \<Longrightarrow> f x = x"
  shows "case eo of None \<Rightarrow> \<forall>x \<in> set rows. \<not> P x | Some e \<Rightarrow> e \<in> set rows \<and> P e"
  using assms query_row_SomeD [of P rows]
  by (cases "query_row P rows") (auto simp: query_row_None)

end
