(* ===== verification/Pool_Scan.thy ===== *)
theory Pool_Scan
  imports Net_IP
begin

text \<open>
  The search loops of the allocators: \<open>for x := start; x <= end; x++ { if skip(x) { continue };
  return x }\<close> over 32-bit addresses, 128-bit addresses and 64-bit prefix indices. The counter is a
  machine integer, so the loop may wrap around and may never end: it is a partial function,
  None when it runs forever.
  The locale \<open>pool_counter\<close> is what the three counters have in common, a type that counts modulo
  \<open>N\<close>; its lemmas give the result of the loop when the bound is not the largest value, and what
  still holds when it is.
\<close>

partial_function (option) scan ::
  "('n \<Rightarrow> 'n) \<Rightarrow> ('n \<Rightarrow> bool) \<Rightarrow> ('n \<Rightarrow> bool) \<Rightarrow> 'n \<Rightarrow> 'n option option" where
  "scan nxt within skip x =
     (if within x then if skip x then scan nxt within skip (nxt x) else Some (Some x) else Some None)"

declare scan.simps [code]

lemma scan_stop: "\<not> within x \<Longrightarrow> scan nxt within skip x = Some None"
  by (subst scan.simps) simp

lemma scan_hit: "within x \<Longrightarrow> \<not> skip x \<Longrightarrow> scan nxt within skip x = Some (Some x)"
  by (subst scan.simps) simp

lemma scan_skip: "within x \<Longrightarrow> skip x \<Longrightarrow> scan nxt within skip x = scan nxt within skip (nxt x)"
  by (subst scan.simps) simp

text \<open>Whatever the counter does, a result is inside the bound and not skipped.\<close>

lemma scan_result:
  assumes "scan nxt within skip x = Some r" and "r = Some y"
  shows "within y \<and> \<not> skip y"
proof -
  have "\<forall>y. r = Some y \<longrightarrow> within y \<and> \<not> skip y"
  proof (rule scan.raw_induct [where xa = "(((nxt, within), skip), x)" and y = r
      and P = "\<lambda>nxt within skip x r. \<forall>y. r = Some y \<longrightarrow> within y \<and> \<not> skip y", unfolded prod.case])
    show "scan nxt within skip x = Some r" by (rule assms(1))
  qed (auto split: if_splits, blast+)
  with assms(2) show ?thesis by blast
qed

locale pool_counter =
  fixes nxt :: "'n \<Rightarrow> 'n" and num :: "'n \<Rightarrow> nat" and N :: nat
  assumes num_less: "num x < N"
    and num_inj: "num x = num y \<Longrightarrow> x = y"
    and num_nxt: "num (nxt x) = (num x + 1) mod N"
begin

text \<open>The bound \<open>b\<close> is below \<open>N\<close>: the loop ends, with the least value not skipped or exhausted.\<close>

lemma scan_bounded:
  assumes b: "b < N" and w: "\<And>y. within y \<longleftrightarrow> num y < b"
  shows "\<exists>r. scan nxt within skip x = Some r \<and>
    (case r of
       Some y \<Rightarrow> num x \<le> num y \<and> num y < b \<and> \<not> skip y \<and> (\<forall>z. num x \<le> num z \<and> num z < num y \<longrightarrow> skip z)
     | None \<Rightarrow> (\<forall>z. num x \<le> num z \<and> num z < b \<longrightarrow> skip z))"
proof (induction "b - num x" arbitrary: x)
  case 0
  then have "\<not> within x" by (simp add: w)
  then have "scan nxt within skip x = Some None" by (rule scan_stop)
  with 0 show ?case by auto
next
  case (Suc k)
  then have less: "num x < b" by simp
  show ?case
  proof (cases "skip x")
    case False
    then have "scan nxt within skip x = Some (Some x)" using less w scan_hit by metis
    with False less show ?thesis by auto
  next
    case True
    have n: "num (nxt x) = num x + 1" using less b by (simp add: num_nxt)
    have same: "scan nxt within skip x = scan nxt within skip (nxt x)"
      using True less w scan_skip by metis
    have first: "z = x \<or> num (nxt x) \<le> num z" if "num x \<le> num z" for z
      using that n num_inj [of z x] by linarith
    from Suc n have "k = b - num (nxt x)" by simp
    from Suc.hyps(1) [OF this] obtain r where r: "scan nxt within skip (nxt x) = Some r" and
      post: "case r of
        Some y \<Rightarrow> num (nxt x) \<le> num y \<and> num y < b \<and> \<not> skip y \<and> (\<forall>z. num (nxt x) \<le> num z \<and> num z < num y \<longrightarrow> skip z)
      | None \<Rightarrow> (\<forall>z. num (nxt x) \<le> num z \<and> num z < b \<longrightarrow> skip z)" by blast
    then show ?thesis
    proof (cases r)
      case None
      with post first True have "\<forall>z. num x \<le> num z \<and> num z < b \<longrightarrow> skip z" by auto
      with None r same show ?thesis by simp
    next
      case (Some y)
      with post first True n
      have "num x \<le> num y" "\<forall>z. num x \<le> num z \<and> num z < num y \<longrightarrow> skip z" by auto
      with Some post r same show ?thesis by simp
    qed
  qed
qed

lemma scan_Some:
  assumes "b < N" and "\<And>y. within y \<longleftrightarrow> num y < b" and "scan nxt within skip x = Some (Some y)"
  shows "num x \<le> num y" "num y < b" "\<not> skip y" "num x \<le> num z \<Longrightarrow> num z < num y \<Longrightarrow> skip z"
  using scan_bounded [OF assms(1,2), of skip x] assms(3) by auto

lemma scan_None:
  assumes "b < N" and "\<And>y. within y \<longleftrightarrow> num y < b" and "scan nxt within skip x = Some None"
    and "num x \<le> num z" and "num z < b"
  shows "skip z"
  using scan_bounded [OF assms(1,2), of skip x] assms(3-5) by auto

lemma scan_ends:
  assumes "b < N" and "\<And>y. within y \<longleftrightarrow> num y < b"
  shows "scan nxt within skip x \<noteq> None"
  using scan_bounded [OF assms(1,2), of skip x] by auto

text \<open>
  When every value is within the bound, the counter passes its largest value and goes on from
  zero: the loop finds the first free value in cyclic order.
\<close>

lemma scan_wraps:
  assumes all: "\<And>y. within y" and skip: "\<And>z. num x \<le> num z \<Longrightarrow> skip z"
    and z: "num z = 0" and free: "\<not> skip z"
  shows "scan nxt within skip x = Some (Some z)"
  using skip
proof (induction "N - num x" arbitrary: x)
  case 0
  then show ?case using num_less [of x] by simp
next
  case (Suc k)
  have s: "scan nxt within skip x = scan nxt within skip (nxt x)"
    using all Suc.prems scan_skip by (metis le_refl)
  show ?case
  proof (cases "num x + 1 = N")
    case True
    then have "num (nxt x) = 0" by (simp add: num_nxt)
    then have "nxt x = z" using z num_inj by simp
    with s free all show ?thesis by (simp add: scan_hit)
  next
    case False
    then have n: "num (nxt x) = num x + 1" using num_less [of x] by (simp add: num_nxt)
    with Suc have "scan nxt within skip (nxt x) = Some (Some z)" by (intro Suc.hyps(1)) auto
    with s show ?thesis by simp
  qed
qed

end

section \<open>The three counters\<close>

interpretation v4_pool: pool_counter "\<lambda>x :: uint32. x + 1" unat "2 ^ 32"
proof
  show "unat x < 2 ^ 32" for x :: uint32 using unsigned_less [of x, where 'a = nat] by simp
  show "unat x = unat y \<Longrightarrow> x = y" for x y :: uint32 by (rule unsigned_word_eqI)
  show "unat (x + 1) = (unat x + 1) mod 2 ^ 32" for x :: uint32 by (simp add: unat_word_ariths)
qed

interpretation v6_pool: pool_counter ipAddOne val128 "2 ^ 128"
proof
  show "val128 x < 2 ^ 128" for x by (rule val128_bound)
  show "val128 x = val128 y \<Longrightarrow> x = y" for x y by (simp add: val128_inj)
  show "val128 (ipAddOne x) = (val128 x + 1) mod 2 ^ 128" for x by (rule val128_ipAddOne)
qed

interpretation pd_pool: pool_counter "\<lambda>x :: uint64. x + 1" unat "2 ^ 64"
proof
  show "unat x < 2 ^ 64" for x :: uint64 by (rule uint64_bound)
  show "unat x = unat y \<Longrightarrow> x = y" for x y :: uint64 by (rule unsigned_word_eqI)
  show "unat (x + 1) = (unat x + 1) mod 2 ^ 64" for x :: uint64 by (simp add: unat_word_ariths)
qed

end
