(* ===== verification/Store_Alloc.thy ===== *)
theory Store_Alloc
  imports Store_Model Pool_Scan
begin

text \<open>
  The DHCPv4 allocator of \<open>internal/store/store.go\<close>: \<open>AllocateV4Lease\<close> and the transaction helpers it
  calls (the DHCPv6 ones are in \<open>Store_Alloc6\<close>). It runs in a transaction under a scope-level
  advisory lock, so that it is one step on the database; \<open>now\<close> is the database clock at the start
  of the transaction and \<open>uuid\<close> the id drawn for a new row.
  The blocks of a transaction body (the client's existing row, its reservation, the preferred
  address, the pool) are definitions of their own, composed as the code composes them.
\<close>

section \<open>DHCPv4 transaction helpers\<close>

definition getReservationByMACTx :: "faults \<Rightarrow> string \<Rightarrow> string \<Rightarrow> db \<Rightarrow> reservation option run" where
  "getReservationByMACTx flt scopeID mac db = exec flt ''getReservationByMACTx''
     (Ret (map_option scanReservation
        (query_row (\<lambda>r. rScopeID r = scopeID \<and> rMACAddr r = mac) (dbReservations db))))"

definition getReservationByIPTx :: "faults \<Rightarrow> string \<Rightarrow> ip \<Rightarrow> db \<Rightarrow> reservation option run" where
  "getReservationByIPTx flt scopeID p db = exec flt ''getReservationByIPTx''
     (bind_run (host_inet p) (\<lambda>a. Ret (map_option scanReservation
        (query_row (\<lambda>r. rScopeID r = scopeID \<and> Some (rIPAddr r) = a) (dbReservations db)))))"

definition getLeaseByMACTx :: "faults \<Rightarrow> string \<Rightarrow> string \<Rightarrow> db \<Rightarrow> lease option run" where
  "getLeaseByMACTx flt scopeID mac db = exec flt ''getLeaseByMACTx''
     (Ret (map_option scanLease (query_row (\<lambda>l. lScopeID l = scopeID \<and> lMACAddr l = mac) (dbLeases db))))"

definition getLeaseByIPTx :: "faults \<Rightarrow> string \<Rightarrow> ip \<Rightarrow> db \<Rightarrow> lease option run" where
  "getLeaseByIPTx flt scopeID p db = exec flt ''getLeaseByIPTx''
     (bind_run (host_inet p) (\<lambda>a. Ret (map_option scanLease
        (query_row (\<lambda>l. lScopeID l = scopeID \<and> Some (lIPAddr l) = a) (dbLeases db)))))"

definition saveLeaseTx :: "faults \<Rightarrow> lease \<Rightarrow> db \<Rightarrow> (unit \<times> db) run" where
  "saveLeaseTx flt l db = exec flt ''saveLeaseTx'' (upsert_lease l db)"

definition deleteLeaseTx :: "faults \<Rightarrow> string \<Rightarrow> db \<Rightarrow> (unit \<times> db) run" where
  "deleteLeaseTx flt ident db = exec flt ''deleteLeaseTx''
     (Ret ((), db\<lparr>dbLeases := sql_delete (\<lambda>l. lID l = ident) (dbLeases db)\<rparr>))"

definition deleteLeasesByMACTx :: "faults \<Rightarrow> string \<Rightarrow> string \<Rightarrow> db \<Rightarrow> (unit \<times> db) run" where
  "deleteLeasesByMACTx flt scopeID mac db = exec flt ''deleteLeasesByMACTx''
     (Ret ((), db\<lparr>dbLeases := sql_delete (\<lambda>l. lScopeID l = scopeID \<and> lMACAddr l = mac) (dbLeases db)\<rparr>))"

definition ensureIPAvailableTx :: "faults \<Rightarrow> time \<Rightarrow> string \<Rightarrow> ip \<Rightarrow> string \<Rightarrow> db \<Rightarrow> (unit \<times> db) run" where
  "ensureIPAvailableTx flt now scopeID p mac db =
     bind_run (getLeaseByIPTx flt scopeID p db) (\<lambda>existing. case existing of
        None \<Rightarrow> Ret ((), db)
      | Some e \<Rightarrow>
          if lMACAddr e = mac then Ret ((), db)
          else if lease_blocks now e then
            Fail (''reservation ip '' @ ip_String p @ '' in use by '' @ lMACAddr e
                  @ '' (state '' @ state_string (lState e) @ '')'')
          else deleteLeaseTx flt (lID e) db)"

text \<open>The WHERE clause of the allocator's query.\<close>

definition sql_in_use :: "time \<Rightarrow> LeaseState \<Rightarrow> time option \<Rightarrow> time \<Rightarrow> time \<Rightarrow> time \<Rightarrow> bool" where
  "sql_in_use now state offeredAt startsAt endsAt updatedAt \<longleftrightarrow>
     sql_live now state offeredAt startsAt endsAt
     \<or> state = LeaseDeclined \<and> updatedAt > now - declineQuarantineSeconds * Second"

text \<open>The keys of the map \<open>used\<close> that the scope's own lists and the extra addresses contribute.\<close>

definition infra_keys :: "scope \<Rightarrow> ip \<Rightarrow> string list" where
  "infra_keys sc extra = map ipKey (scExcludedIPs sc) @ map ipKey (scGateway sc) @ map ipKey (scDNS sc)
     @ (if extra = [] then [] else [ipKey extra])"

definition used_v4 :: "time \<Rightarrow> scope \<Rightarrow> ip \<Rightarrow> db \<Rightarrow> string list" where
  "used_v4 now sc extra db =
     map (\<lambda>l. ipKey (lIPAddr l)) (filter (\<lambda>l. lScopeID l = scID sc
        \<and> sql_in_use now (lState l) (lOfferedAt l) (lStartsAt l) (lEndsAt l) (lUpdatedAt l)
        \<and> (lState l = LeaseActive \<or> lState l = LeaseOffered \<or> lState l = LeaseDeclined)) (dbLeases db))
     @ map (\<lambda>r. ipKey (rIPAddr r)) (filter (\<lambda>r. rScopeID r = scID sc) (dbReservations db))
     @ infra_keys sc extra"

definition skip_v4 :: "scope \<Rightarrow> string list \<Rightarrow> uint32 \<Rightarrow> bool" where
  "skip_v4 sc used x = (let candidate = uint32ToIP x
     in ipKey candidate \<in> set used \<or> ip_Equal candidate (scStartIP sc) \<or> ip_Equal candidate (scEndIP sc))"

definition allocateIPv4Tx :: "faults \<Rightarrow> time \<Rightarrow> scope \<Rightarrow> ip \<Rightarrow> db \<Rightarrow> ip run" where
  "allocateIPv4Tx flt now sc extra db =
     exec flt ''allocateIPv4Tx.leases'' (exec flt ''allocateIPv4Tx.reservations''
       (let used = used_v4 now sc extra db
        in bind_run (ipToUint32 (To4 (scStartIP sc))) (\<lambda>start. bind_run (ipToUint32 (To4 (scEndIP sc))) (\<lambda>end.
             case scan (\<lambda>x. x + 1) (\<lambda>x. x \<le> end) (skip_v4 sc used) start of
               None \<Rightarrow> Hang
             | Some None \<Rightarrow> Fail ''no available ip in scope''
             | Some (Some x) \<Rightarrow> Ret (uint32ToIP x)))))"

definition isExcludedIP :: "scope \<Rightarrow> ip \<Rightarrow> bool" where
  "isExcludedIP sc p = (let key = ipKey p in
     list_ex (\<lambda>ex. ipKey ex = key) (scExcludedIPs sc)
     \<or> list_ex (\<lambda>gw. ipKey gw = key) (scGateway sc)
     \<or> list_ex (\<lambda>dns. ipKey dns = key) (scDNS sc))"

section \<open>AllocateV4Lease\<close>

text \<open>Defaults and clamping of the lease time, the head of the three allocators.\<close>

definition clampLeaseTime :: "int \<Rightarrow> int \<Rightarrow> int" where
  "clampLeaseTime leaseTime maxLeaseTime =
     (let lt = (if leaseTime = 0 then 3600 else leaseTime);
          mt = (if maxLeaseTime = 0 then 86400 else maxLeaseTime)
      in if mt < lt then mt else lt)"

text \<open>What the blocks of one call share.\<close>

record alloc4 =
  a4Scope :: scope
  a4MAC :: string
  a4ClientID :: string
  a4Hostname :: string
  a4Now :: time
  a4EndsAt :: time
  a4UUID :: string

definition new_lease :: "alloc4 \<Rightarrow> ip \<Rightarrow> lease" where
  "new_lease a p = \<lparr>lID = a4UUID a, lScopeID = scID (a4Scope a), lMACAddr = a4MAC a, lIPAddr = p,
     lHostname = a4Hostname a, lClientID = a4ClientID a, lState = LeaseOffered, lReserved = False,
     lOfferedAt = Some (a4Now a), lStartsAt = a4Now a, lEndsAt = a4EndsAt a, lCreatedAt = a4Now a,
     lUpdatedAt = a4Now a\<rparr>"

definition renewed_lease :: "alloc4 \<Rightarrow> lease \<Rightarrow> lease" where
  "renewed_lease a e =
     (let e = e\<lparr>lHostname := a4Hostname a, lClientID := a4ClientID a\<rparr>;
          e = (if lState e \<noteq> LeaseActive then e\<lparr>lState := LeaseOffered, lOfferedAt := Some (a4Now a)\<rparr> else e)
      in e\<lparr>lStartsAt := a4Now a, lEndsAt := a4EndsAt a, lUpdatedAt := a4Now a\<rparr>)"

definition save_and_return :: "faults \<Rightarrow> lease \<Rightarrow> db \<Rightarrow> (lease \<times> db) run" where
  "save_and_return flt l db = bind_run (saveLeaseTx flt l db) (\<lambda>(_, db'). Ret (l, db'))"

text \<open>
  Block 2, the row this MAC has: keep it (Inl), or delete the client's rows and go on with the
  address it declined, if that is still in quarantine (Inr).
\<close>

definition may_keep4 :: "faults \<Rightarrow> alloc4 \<Rightarrow> reservation option \<Rightarrow> lease \<Rightarrow> db \<Rightarrow> bool run" where
  "may_keep4 flt a res e db =
     (if lState e = LeaseActive \<or> lState e = LeaseOffered then
        bind_run (ipInRange (lIPAddr e) (scStartIP (a4Scope a)) (scEndIP (a4Scope a))) (\<lambda>inRange.
          if inRange then
            bind_run (getReservationByIPTx flt (scID (a4Scope a)) (lIPAddr e) db) (\<lambda>resByIP.
              let reservedForOther = (case resByIP of None \<Rightarrow> False | Some r \<Rightarrow> rMACAddr r \<noteq> a4MAC a)
              in Ret (\<not> reservedForOther \<and>
                   (case res of None \<Rightarrow> True | Some r \<Rightarrow> ipKey (lIPAddr e) = ipKey (rIPAddr r))))
          else Ret False)
      else Ret False)"

definition alloc4_existing ::
  "faults \<Rightarrow> alloc4 \<Rightarrow> reservation option \<Rightarrow> db \<Rightarrow> ((lease + ip) \<times> db) run" where
  "alloc4_existing flt a res db =
     bind_run (getLeaseByMACTx flt (scID (a4Scope a)) (a4MAC a) db) (\<lambda>existing. case existing of
        None \<Rightarrow> Ret (Inr [], db)
      | Some e \<Rightarrow>
          bind_run (may_keep4 flt a res e db) (\<lambda>keep.
            if keep then
              bind_run (save_and_return flt (renewed_lease a e) db) (\<lambda>(l, db'). Ret (Inl l, db'))
            else
              let declinedIP = (if lState e = LeaseDeclined \<and> lease_blocks (a4Now a) e then lIPAddr e else [])
              in bind_run (deleteLeasesByMACTx flt (scID (a4Scope a)) (a4MAC a) db)
                   (\<lambda>(_, db'). Ret (Inr declinedIP, db'))))"

text \<open>Block 3, the client's reservation.\<close>

definition alloc4_reserved :: "faults \<Rightarrow> alloc4 \<Rightarrow> reservation \<Rightarrow> db \<Rightarrow> (lease \<times> db) run" where
  "alloc4_reserved flt a r db =
     bind_run (ensureIPAvailableTx flt (a4Now a) (scID (a4Scope a)) (rIPAddr r) (a4MAC a) db)
       (\<lambda>(_, db'). save_and_return flt (new_lease a (rIPAddr r)) db')"

text \<open>Block 4, the address the client asks for: granted (Some), or not (None).\<close>

definition alloc4_preferred ::
  "faults \<Rightarrow> alloc4 \<Rightarrow> ip \<Rightarrow> ip \<Rightarrow> db \<Rightarrow> (lease option \<times> db) run" where
  "alloc4_preferred flt a preferred declinedIP db =
     (let sc = a4Scope a in
      if preferred \<noteq> [] \<and> (case scSubnet sc of None \<Rightarrow> False | Some n \<Rightarrow> Contains n preferred) then
        bind_run (getReservationByIPTx flt (scID sc) preferred db) (\<lambda>resByIP.
        bind_run (getLeaseByIPTx flt (scID sc) preferred db) (\<lambda>occupied.
          let reservedForOther = (case resByIP of None \<Rightarrow> False | Some r \<Rightarrow> rMACAddr r \<noteq> a4MAC a);
              usable = (\<not> reservedForOther \<and> (case occupied of None \<Rightarrow> True
                         | Some o' \<Rightarrow> lMACAddr o' = a4MAC a \<or> \<not> lease_blocks (a4Now a) o'));
              quarantined = (declinedIP \<noteq> [] \<and> ip_Equal preferred declinedIP)
          in if usable \<and> \<not> quarantined \<and> \<not> isExcludedIP sc preferred then
               bind_run (case occupied of
                   Some o' \<Rightarrow> if lMACAddr o' \<noteq> a4MAC a then deleteLeaseTx flt (lID o') db else Ret ((), db)
                 | None \<Rightarrow> Ret ((), db)) (\<lambda>(_, db').
               bind_run (save_and_return flt (new_lease a preferred) db') (\<lambda>(l, db''). Ret (Some l, db'')))
             else Ret (None, db)))
      else Ret (None, db))"

text \<open>Block 5, the pool.\<close>

definition alloc4_pool :: "faults \<Rightarrow> alloc4 \<Rightarrow> ip \<Rightarrow> db \<Rightarrow> (lease \<times> db) run" where
  "alloc4_pool flt a declinedIP db =
     bind_run (allocateIPv4Tx flt (a4Now a) (a4Scope a) declinedIP db)
       (\<lambda>p. save_and_return flt (new_lease a p) db)"

definition alloc4_tx :: "faults \<Rightarrow> alloc4 \<Rightarrow> ip \<Rightarrow> db \<Rightarrow> (lease \<times> db) run" where
  "alloc4_tx flt a preferred db =
     exec flt ''pg_advisory_xact_lock'' (exec flt ''SELECT NOW()''
       (bind_run (getReservationByMACTx flt (scID (a4Scope a)) (a4MAC a) db) (\<lambda>res.
        bind_run (alloc4_existing flt a res db) (\<lambda>(ex, db').
          case ex of
            Inl l \<Rightarrow> Ret (l, db')
          | Inr declinedIP \<Rightarrow>
             (case res of
                Some r \<Rightarrow> alloc4_reserved flt a r db'
              | None \<Rightarrow> bind_run (alloc4_preferred flt a preferred declinedIP db') (\<lambda>(got, db'').
                  case got of Some l \<Rightarrow> Ret (l, db'')
                  | None \<Rightarrow> alloc4_pool flt a declinedIP db''))))))"

definition AllocateV4Lease ::
  "faults \<Rightarrow> time \<Rightarrow> string \<Rightarrow> scope \<Rightarrow> string \<Rightarrow> string \<Rightarrow> ip \<Rightarrow> string \<Rightarrow> int \<Rightarrow> int \<Rightarrow> db \<Rightarrow> lease run \<times> db" where
  "AllocateV4Lease flt now uuid sc mac clientID preferred hostname leaseTime maxLeaseTime db =
     (let lt = clampLeaseTime leaseTime maxLeaseTime;
          a = \<lparr>a4Scope = sc, a4MAC = mac, a4ClientID = clientID, a4Hostname = hostname, a4Now = now,
               a4EndsAt = now + lt * Second, a4UUID = uuid\<rparr>
      in WithTx flt (alloc4_tx flt a preferred) db)"

end
