(* ===== verification/Alloc4_Safety.thy ===== *)
theory Alloc4_Safety
  imports Store_Alloc
begin

text \<open>
  Correctness of the DHCPv4 allocator. The effect of a successful call on the lease table is
  one replacement: some rows go (the client's own rows, and a stale row at the granted
  address) and one row comes, the client's. \<open>replaced\<close> states that once, the blocks of the
  transaction are shown to be replacements, and the properties follow.
\<close>

section \<open>Replacing rows\<close>

definition replaced :: "('r \<Rightarrow> bool) \<Rightarrow> 'r \<Rightarrow> 'r list \<Rightarrow> 'r list \<Rightarrow> bool" where
  "replaced gone row rows rows' \<longleftrightarrow>
     (\<exists>D. (\<forall>x \<in> D. gone x) \<and> set rows' = insert row (set rows - D))"

lemma replacedI: "\<forall>x \<in> D. gone x \<Longrightarrow> set rows' = insert row (set rows - D) \<Longrightarrow> replaced gone row rows rows'"
  unfolding replaced_def by blast

lemma replaced_after_delete:
  assumes "replaced gone row (sql_delete P rows) rows'" and "\<And>x. P x \<Longrightarrow> x \<in> set rows \<Longrightarrow> gone x"
  shows "replaced gone row rows rows'"
proof -
  from assms(1) obtain D where D: "\<forall>x \<in> D. gone x" "set rows' = insert row ({x \<in> set rows. \<not> P x} - D)"
    by (auto simp: replaced_def)
  have "{x \<in> set rows. \<not> P x} - D = set rows - (D \<union> {x \<in> set rows. P x})" by blast
  with D assms(2) show ?thesis by (intro replacedI [of "D \<union> {x \<in> set rows. P x}"]) auto
qed

lemma replaced_mono:
  "replaced gone row rows rows' \<Longrightarrow> (\<And>x. x \<in> set rows \<Longrightarrow> gone x \<Longrightarrow> gone' x) \<Longrightarrow> replaced gone' row rows rows'"
proof -
  assume r: "replaced gone row rows rows'" and m: "\<And>x. x \<in> set rows \<Longrightarrow> gone x \<Longrightarrow> gone' x"
  from r obtain D where "\<forall>x \<in> D. gone x" "set rows' = insert row (set rows - D)" by (auto simp: replaced_def)
  moreover have "set rows - D = set rows - (D \<inter> set rows)" by blast
  ultimately show ?thesis using m by (intro replacedI [of "D \<inter> set rows"]) auto
qed

lemma replaced_in: "replaced gone row rows rows' \<Longrightarrow> row \<in> set rows'"
  by (auto simp: replaced_def)

lemma replaced_kept: "replaced gone row rows rows' \<Longrightarrow> x \<in> set rows \<Longrightarrow> \<not> gone x \<Longrightarrow> x \<in> set rows'"
  by (auto simp: replaced_def)

lemma replaced_new: "replaced gone row rows rows' \<Longrightarrow> x \<in> set rows' \<Longrightarrow> x = row \<or> x \<in> set rows"
  by (auto simp: replaced_def)

section \<open>Saving a lease\<close>

text \<open>The row carries the lease's data; its id and creation time may be those of an older row.\<close>

definition recorded :: "lease \<Rightarrow> lease \<Rightarrow> bool" where
  "recorded l row \<longleftrightarrow> lScopeID row = lScopeID l \<and> lMACAddr row = lMACAddr l
     \<and> lIPAddr row = normalizeIP (lIPAddr l) \<and> lHostname row = lHostname l \<and> lClientID row = lClientID l
     \<and> lState row = lState l \<and> lOfferedAt row = lOfferedAt l \<and> lStartsAt row = lStartsAt l
     \<and> lEndsAt row = lEndsAt l \<and> lUpdatedAt row = lUpdatedAt l \<and> \<not> lReserved row"

lemma upsert_lease_Ret:
  assumes "upsert_lease l db = Ret (u, db')" and "uniq lease_clash (dbLeases db)"
    and "\<forall>x \<in> set (dbLeases db). \<not> lReserved x"
  obtains row rows where "db' = db\<lparr>dbLeases := rows\<rparr>" "uniq lease_clash rows" "recorded l row"
    "canon (lIPAddr row)"
    "replaced (\<lambda>x. lScopeID x = lScopeID l \<and> lIPAddr x = normalizeIP (lIPAddr l)) row (dbLeases db) rows"
    "lID row = lID l \<or> (\<exists>x \<in> set (dbLeases db). lScopeID x = lScopeID l \<and> lIPAddr x = normalizeIP (lIPAddr l) \<and> lID row = lID x)"
proof -
  from assms(1) obtain q rows where q: "host_inet (lIPAddr l) = Ret (Some q)"
    and u: "sql_upsert lease_clash lease_conflict lease_merge (l\<lparr>lIPAddr := q, lReserved := False\<rparr>) (dbLeases db) = Ret rows"
    and db': "db' = db\<lparr>dbLeases := rows\<rparr>"
    by (auto simp: upsert_lease_def bind_run_Ret_iff split: option.splits)
  note qn = host_inet_Some [OF q]
  note un = leases.uniq_upsert [OF assms(2) u]
  from assms(2) u show ?thesis
  proof (cases rule: leases.upsert_rows)
    case inserted
    then show ?thesis
      using qn un db' by (intro that [of rows "l\<lparr>lIPAddr := q, lReserved := False\<rparr>"])
        (auto simp: recorded_def intro: replacedI [of "{}"])
  next
    case (merged x)
    then have "\<not> lReserved x" using assms(3) by blast
    with merged qn un db' show ?thesis
      by (intro that [of rows "lease_merge (l\<lparr>lIPAddr := q, lReserved := False\<rparr>) x"])
        (auto simp: recorded_def lease_merge_def lease_conflict_def intro!: replacedI [of "{x}"] bexI [of _ x])
  qed
qed

lemma save_and_return_Ret:
  assumes "save_and_return flt l db = Ret (l', db')" and "wf_db db"
  obtains row rows where "l' = l" "db' = db\<lparr>dbLeases := rows\<rparr>" "uniq lease_clash rows" "recorded l row"
    "canon (lIPAddr row)"
    "replaced (\<lambda>x. lScopeID x = lScopeID l \<and> lIPAddr x = normalizeIP (lIPAddr l)) row (dbLeases db) rows"
    "lID row = lID l \<or> (\<exists>x \<in> set (dbLeases db). lScopeID x = lScopeID l \<and> lIPAddr x = normalizeIP (lIPAddr l) \<and> lID row = lID x)"
proof -
  from assms(1) have "upsert_lease l db = Ret ((), db')" and l: "l' = l"
    by (auto simp: save_and_return_def saveLeaseTx_def bind_run_Ret_iff)
  then show ?thesis
    using assms(2) by (elim upsert_lease_Ret) (unfold wf_db_def, blast+, rule that [OF l])
qed

lemma wf_db_replaced:
  assumes "wf_db db" and "uniq lease_clash rows" and "replaced gone row (dbLeases db) rows"
    and "canon (lIPAddr row)" and "\<not> lReserved row"
  shows "wf_db (db\<lparr>dbLeases := rows\<rparr>)"
  using assms(1,2,4,5) replaced_new [OF assms(3)] by (auto simp: wf_db_def)

lemma wf_db_delete: "wf_db db \<Longrightarrow> wf_db (db\<lparr>dbLeases := sql_delete P (dbLeases db)\<rparr>)"
  by (simp add: wf_db_def uniq_delete)

section \<open>The blocks of the transaction\<close>

text \<open>The rows a grant to client \<open>a\<close> at address \<open>q\<close> may remove.\<close>

definition gone4 :: "alloc4 \<Rightarrow> ip \<Rightarrow> lease \<Rightarrow> bool" where
  "gone4 a q x \<longleftrightarrow> lScopeID x = scID (a4Scope a)
     \<and> (lMACAddr x = a4MAC a \<or> lIPAddr x = q \<and> \<not> lease_blocks (a4Now a) x)"

definition grant4 :: "alloc4 \<Rightarrow> lease \<Rightarrow> db \<Rightarrow> db \<Rightarrow> bool" where
  "grant4 a l db db' \<longleftrightarrow> lScopeID l = scID (a4Scope a) \<and> lMACAddr l = a4MAC a \<and> lEndsAt l = a4EndsAt a
     \<and> lStartsAt l = a4Now a \<and> lUpdatedAt l = a4Now a
     \<and> (\<exists>row rows. db' = db\<lparr>dbLeases := rows\<rparr> \<and> uniq lease_clash rows \<and> recorded l row \<and> canon (lIPAddr row)
          \<and> replaced (gone4 a (normalizeIP (lIPAddr l))) row (dbLeases db) rows)"

text \<open>The row that records the lease has the id that is returned to the caller.\<close>

definition same_id :: "lease \<Rightarrow> db \<Rightarrow> bool" where
  "same_id l db' \<longleftrightarrow> (\<exists>row \<in> set (dbLeases db'). recorded l row \<and> lID row = lID l)"

lemma grant4I:
  assumes "save_and_return flt l db1 = Ret (l', db')" and "wf_db db"
    and db1: "db1 = db\<lparr>dbLeases := sql_delete P (dbLeases db)\<rparr>"
    and "lScopeID l = scID (a4Scope a)" "lMACAddr l = a4MAC a" "lEndsAt l = a4EndsAt a"
      "lStartsAt l = a4Now a" "lUpdatedAt l = a4Now a"
    and P: "\<And>x. x \<in> set (dbLeases db) \<Longrightarrow> P x \<Longrightarrow> gone4 a (normalizeIP (lIPAddr l)) x"
    and Q: "\<And>x. x \<in> set (dbLeases db) \<Longrightarrow> \<not> P x \<Longrightarrow> lScopeID x = scID (a4Scope a) \<Longrightarrow> lIPAddr x = normalizeIP (lIPAddr l)
        \<Longrightarrow> gone4 a (normalizeIP (lIPAddr l)) x"
  shows "l' = l \<and> grant4 a l db db' \<and> (same_id l db' \<or> (\<exists>x \<in> set (dbLeases db). \<not> P x
    \<and> lScopeID x = scID (a4Scope a) \<and> lIPAddr x = normalizeIP (lIPAddr l) \<and> lID x \<noteq> lID l))"
proof -
  have "wf_db db1" using wf_db_delete [OF assms(2)] by (simp add: db1)
  with assms(1) obtain row rows where s: "l' = l" "db' = db1\<lparr>dbLeases := rows\<rparr>" "uniq lease_clash rows"
    "recorded l row" "canon (lIPAddr row)"
    "replaced (\<lambda>x. lScopeID x = lScopeID l \<and> lIPAddr x = normalizeIP (lIPAddr l)) row (dbLeases db1) rows"
    "lID row = lID l \<or> (\<exists>x \<in> set (dbLeases db1). lScopeID x = lScopeID l \<and> lIPAddr x = normalizeIP (lIPAddr l) \<and> lID row = lID x)"
    by (rule save_and_return_Ret)
  have "replaced (gone4 a (normalizeIP (lIPAddr l))) row (sql_delete P (dbLeases db)) rows"
    by (rule replaced_mono [OF s(6) [unfolded db1, simplified]]) (use Q assms(4) in auto)
  then have "replaced (gone4 a (normalizeIP (lIPAddr l))) row (dbLeases db) rows"
    by (rule replaced_after_delete) (use P in blast)
  with s assms(4-8) have "l' = l \<and> grant4 a l db db'" unfolding grant4_def db1 by auto
  moreover have "same_id l db' \<or> (\<exists>x \<in> set (dbLeases db). \<not> P x
    \<and> lScopeID x = scID (a4Scope a) \<and> lIPAddr x = normalizeIP (lIPAddr l) \<and> lID x \<noteq> lID l)"
    using s(2,4,7) replaced_in [OF s(6)] assms(4) by (auto simp: same_id_def db1)
  ultimately show ?thesis by blast
qed

lemma delete_nothing [simp]: "sql_delete (\<lambda>x. False) rows = rows"
  by (simp add: sql_delete_def)

lemma delete_twice: "sql_delete Q (sql_delete P rows) = sql_delete (\<lambda>x. P x \<or> Q x) rows"
  by (simp add: sql_delete_def)

lemma delete_none: "(\<And>x. x \<in> set rows \<Longrightarrow> \<not> P x) \<Longrightarrow> sql_delete P rows = rows"
  by (simp add: sql_delete_def)

text \<open>The address \<open>q\<close> is not reserved for a client other than \<open>a\<close>'s.\<close>

definition not_reserved4 :: "db \<Rightarrow> alloc4 \<Rightarrow> ip \<Rightarrow> bool" where
  "not_reserved4 db a q \<longleftrightarrow> (\<forall>r \<in> set (dbReservations db).
     rScopeID r = scID (a4Scope a) \<and> rIPAddr r = q \<longrightarrow> rMACAddr r = a4MAC a)"

lemma getReservationByIPTx_Ret:
  assumes "getReservationByIPTx flt sid p db = Ret ro" and "wf_db db" and "p \<noteq> []"
    and "r \<in> set (dbReservations db)" "rScopeID r = sid" "rIPAddr r = normalizeIP p"
  shows "ro = Some r"
proof -
  from assms(1,3) obtain q where q: "host_inet p = Ret (Some q)" and
    ro: "ro = map_option scanReservation (query_row (\<lambda>r. rScopeID r = sid \<and> rIPAddr r = q) (dbReservations db))"
    by (auto simp: getReservationByIPTx_def bind_host_inet)
  have "query_row (\<lambda>r. rScopeID r = sid \<and> rIPAddr r = q) (dbReservations db) = Some r"
    by (rule reservations.query_row_unique)
      (use assms host_inet_Some [OF q] in \<open>auto simp: wf_db_def reservation_clash_def\<close>)
  with ro assms(2,4) show ?thesis by (simp add: wf_db_def scanReservation_row)
qed

lemma getReservationByIPTx_cases:
  assumes "getReservationByIPTx flt sid p db = Ret ro" and "wf_db db" and "p \<noteq> []"
  shows "case ro of
      None \<Rightarrow> \<forall>r \<in> set (dbReservations db). \<not> (rScopeID r = sid \<and> rIPAddr r = normalizeIP p)
    | Some r \<Rightarrow> r \<in> set (dbReservations db) \<and> rScopeID r = sid \<and> rIPAddr r = normalizeIP p"
proof -
  from assms(1,3) obtain q where q: "host_inet p = Ret (Some q)" and
    ro: "ro = map_option scanReservation (query_row (\<lambda>r. rScopeID r = sid \<and> rIPAddr r = q) (dbReservations db))"
    by (auto simp: getReservationByIPTx_def bind_host_inet)
  from host_inet_Some [OF q] have "q = normalizeIP p" by simp
  from query_scan_cases [OF ro [unfolded this]] show ?thesis
    using assms(2) by (simp add: wf_db_def scanReservation_row)
qed

lemma not_reserved4I:
  assumes "getReservationByIPTx flt (scID (a4Scope a)) p db = Ret ro" and "wf_db db" and "p \<noteq> []"
    and "\<not> (case ro of None \<Rightarrow> False | Some r \<Rightarrow> rMACAddr r \<noteq> a4MAC a)"
  shows "not_reserved4 db a (normalizeIP p)"
  using getReservationByIPTx_Ret [OF assms(1-3)] assms(4) by (fastforce simp: not_reserved4_def)

lemma getLeaseByMACTx_Ret:
  assumes "getLeaseByMACTx flt sid mac db = Ret eo" and "wf_db db"
  shows "case eo of
      None \<Rightarrow> \<forall>x \<in> set (dbLeases db). \<not> (lScopeID x = sid \<and> lMACAddr x = mac)
    | Some e \<Rightarrow> e \<in> set (dbLeases db) \<and> lScopeID e = sid \<and> lMACAddr e = mac"
proof -
  have eo: "eo = map_option scanLease (query_row (\<lambda>l. lScopeID l = sid \<and> lMACAddr l = mac) (dbLeases db))"
    using assms(1) by (simp add: getLeaseByMACTx_def)
  show ?thesis by (rule query_scan_cases [OF eo]) (use assms(2) in \<open>simp add: wf_db_def scanLease_row\<close>)
qed

lemma getLeaseByIPTx_Ret:
  assumes "getLeaseByIPTx flt sid p db = Ret eo" and "wf_db db" and "p \<noteq> []"
  shows "case eo of
      None \<Rightarrow> \<forall>x \<in> set (dbLeases db). \<not> (lScopeID x = sid \<and> lIPAddr x = normalizeIP p)
    | Some e \<Rightarrow> e \<in> set (dbLeases db) \<and> lScopeID e = sid \<and> lIPAddr e = normalizeIP p"
proof -
  from assms(1,3) obtain q where q: "host_inet p = Ret (Some q)" and
    eo: "eo = map_option scanLease (query_row (\<lambda>l. lScopeID l = sid \<and> lIPAddr l = q) (dbLeases db))"
    by (auto simp: getLeaseByIPTx_def bind_host_inet)
  from host_inet_Some [OF q] have "q = normalizeIP p" by simp
  from query_scan_cases [OF eo [unfolded this]] show ?thesis
    using assms(2) by (simp add: wf_db_def scanLease_row)
qed

lemma lease_at_unique:
  "wf_db db \<Longrightarrow> x \<in> set (dbLeases db) \<Longrightarrow> y \<in> set (dbLeases db) \<Longrightarrow> lScopeID x = lScopeID y
    \<Longrightarrow> lIPAddr x = lIPAddr y \<or> lMACAddr x = lMACAddr y \<Longrightarrow> x = y"
  by (rule leases.uniq_clashD [of "dbLeases db"]) (auto simp: wf_db_def lease_clash_def)

lemma renewed_lease_simps [simp]:
  "lScopeID (renewed_lease a e) = lScopeID e" "lMACAddr (renewed_lease a e) = lMACAddr e"
  "lIPAddr (renewed_lease a e) = lIPAddr e" "lEndsAt (renewed_lease a e) = a4EndsAt a"
  "lStartsAt (renewed_lease a e) = a4Now a" "lUpdatedAt (renewed_lease a e) = a4Now a"
  by (simp_all add: renewed_lease_def Let_def)

lemma new_lease_simps [simp]:
  "lScopeID (new_lease a p) = scID (a4Scope a)" "lMACAddr (new_lease a p) = a4MAC a"
  "lIPAddr (new_lease a p) = p" "lEndsAt (new_lease a p) = a4EndsAt a"
  "lStartsAt (new_lease a p) = a4Now a" "lUpdatedAt (new_lease a p) = a4Now a"
  by (simp_all add: new_lease_def)

text \<open>The condition under which the client's row is kept, on the database.\<close>

definition keeps4 :: "alloc4 \<Rightarrow> reservation option \<Rightarrow> db \<Rightarrow> lease \<Rightarrow> bool" where
  "keeps4 a res db e \<longleftrightarrow> e \<in> set (dbLeases db) \<and> lScopeID e = scID (a4Scope a) \<and> lMACAddr e = a4MAC a
     \<and> (lState e = LeaseActive \<or> lState e = LeaseOffered)
     \<and> ipInRange (lIPAddr e) (scStartIP (a4Scope a)) (scEndIP (a4Scope a)) = Ret True
     \<and> not_reserved4 db a (lIPAddr e)
     \<and> (case res of None \<Rightarrow> True | Some r \<Rightarrow> ipKey (lIPAddr e) = ipKey (rIPAddr r))"

definition own_rows :: "alloc4 \<Rightarrow> lease \<Rightarrow> bool" where
  "own_rows a x \<longleftrightarrow> lScopeID x = scID (a4Scope a) \<and> lMACAddr x = a4MAC a"

lemma may_keep4_True:
  assumes "may_keep4 flt a res e db = Ret True" and "wf_db db"
    and "e \<in> set (dbLeases db)" "lScopeID e = scID (a4Scope a)" "lMACAddr e = a4MAC a"
  shows "keeps4 a res db e"
proof -
  have c: "canon (lIPAddr e)" using assms(2,3) by (simp add: wf_db_def)
  then have n: "lIPAddr e \<noteq> []" "normalizeIP (lIPAddr e) = lIPAddr e"
    by (simp_all add: canon_def canon_normalizeIP)
  from assms(1) obtain ro where ro: "getReservationByIPTx flt (scID (a4Scope a)) (lIPAddr e) db = Ret ro"
    and "\<not> (case ro of None \<Rightarrow> False | Some r \<Rightarrow> rMACAddr r \<noteq> a4MAC a)"
    and rest: "lState e = LeaseActive \<or> lState e = LeaseOffered"
      "ipInRange (lIPAddr e) (scStartIP (a4Scope a)) (scEndIP (a4Scope a)) = Ret True"
      "case res of None \<Rightarrow> True | Some r \<Rightarrow> ipKey (lIPAddr e) = ipKey (rIPAddr r)"
    by (auto simp: may_keep4_def bind_run_Ret_iff Let_def split: if_splits)
  then have "not_reserved4 db a (lIPAddr e)"
    using not_reserved4I [OF ro assms(2) n(1)] n(2) by simp
  with rest assms(3-5) show ?thesis by (simp add: keeps4_def)
qed

lemma alloc4_existing_Ret:
  assumes "alloc4_existing flt a res db = Ret (r, db')" and w: "wf_db db"
  obtains (kept) e where "r = Inl (renewed_lease a e)" "keeps4 a res db e" "grant4 a (renewed_lease a e) db db'"
      "same_id (renewed_lease a e) db'"
  | (dropped) declinedIP where "r = Inr declinedIP"
      "db' = db\<lparr>dbLeases := sql_delete (own_rows a) (dbLeases db)\<rparr>"
      "\<forall>e \<in> set (dbLeases db). own_rows a e \<and> lState e = LeaseDeclined \<and> lease_blocks (a4Now a) e
         \<longrightarrow> declinedIP = lIPAddr e"
proof -
  from assms(1) obtain eo where eo: "getLeaseByMACTx flt (scID (a4Scope a)) (a4MAC a) db = Ret eo"
    by (auto simp: alloc4_existing_def bind_run_Ret_iff)
  note mac = getLeaseByMACTx_Ret [OF eo w]
  show ?thesis
  proof (cases eo)
    case None
    then have "r = Inr []" "db' = db" using assms(1) eo by (auto simp: alloc4_existing_def)
    moreover have "sql_delete (own_rows a) (dbLeases db) = dbLeases db"
      using mac None by (intro delete_none) (auto simp: own_rows_def)
    ultimately show ?thesis using mac None by (intro dropped) (auto simp: own_rows_def)
  next
    case (Some e)
    with mac have e: "e \<in> set (dbLeases db)" "lScopeID e = scID (a4Scope a)" "lMACAddr e = a4MAC a" by auto
    from assms(1) eo Some obtain keep where k: "may_keep4 flt a res e db = Ret keep"
      by (auto simp: alloc4_existing_def bind_run_Ret_iff)
    show ?thesis
    proof (cases keep)
      case True
      with k have kp: "keeps4 a res db e" using may_keep4_True [OF _ w e] by simp
      from assms(1) eo Some k True obtain l where s: "save_and_return flt (renewed_lease a e) db = Ret (l, db')"
        and r: "r = Inl l"
        by (auto simp: alloc4_existing_def bind_run_Ret_iff)
      have at: "x = e" if "x \<in> set (dbLeases db)" "lScopeID x = scID (a4Scope a)"
        "lIPAddr x = normalizeIP (lIPAddr (renewed_lease a e))" for x
      proof -
        have "canon (lIPAddr e)" using w e by (simp add: wf_db_def)
        then show ?thesis using lease_at_unique [OF w that(1) e(1)] that e by (simp add: canon_normalizeIP)
      qed
      have own: "gone4 a q e" for q using e by (simp add: gone4_def)
      have "lID (renewed_lease a e) = lID e" by (simp add: renewed_lease_def Let_def)
      with at grant4I [OF s w, where P = "\<lambda>_. False" and a = a] own e
      have "l = renewed_lease a e \<and> grant4 a (renewed_lease a e) db db' \<and> same_id (renewed_lease a e) db'"
        by simp metis
      with kp r show ?thesis by (intro kept) auto
    next
      case False
      with assms(1) eo Some k have "r = Inr (if lState e = LeaseDeclined \<and> lease_blocks (a4Now a) e then lIPAddr e else [])"
        and "db' = db\<lparr>dbLeases := sql_delete (own_rows a) (dbLeases db)\<rparr>"
        by (auto simp: alloc4_existing_def bind_run_Ret_iff Let_def deleteLeasesByMACTx_def own_rows_def [abs_def])
      moreover have "x = e" if "x \<in> set (dbLeases db)" "own_rows a x" for x
        using lease_at_unique [OF w that(1) e(1)] that(2) e by (simp add: own_rows_def)
      ultimately show ?thesis by (intro dropped) auto
    qed
  qed
qed

section \<open>Making room at an address\<close>

text \<open>The SQL predicate of the allocators and the Go predicate \<open>leaseBlocksReuse\<close> agree.\<close>

lemma in_use_iff: "sql_in_use now st off s e u \<longleftrightarrow> leaseBlocksReuse st off s e u now"
  by (cases st) (auto simp: sql_in_use_def sql_live_def leaseBlocksReuse_def Let_def)

lemma leaseBlocksReuse_states:
  "leaseBlocksReuse st off s e u now \<Longrightarrow> st = LeaseActive \<or> st = LeaseOffered \<or> st = LeaseDeclined"
  by (cases st) (simp_all add: leaseBlocksReuse_def)

text \<open>After this step on the table, the address \<open>q\<close> is free for client \<open>mac\<close>: only stale rows went.\<close>

definition makes_room :: "time \<Rightarrow> string \<Rightarrow> ip \<Rightarrow> string \<Rightarrow> db \<Rightarrow> db \<Rightarrow> bool" where
  "makes_room now sid q mac db db' \<longleftrightarrow>
     (\<exists>P. db' = db\<lparr>dbLeases := sql_delete P (dbLeases db)\<rparr>
        \<and> (\<forall>x \<in> set (dbLeases db). P x \<longrightarrow> lScopeID x = sid \<and> lIPAddr x = q \<and> \<not> lease_blocks now x)
        \<and> (\<forall>x \<in> set (dbLeases db). lScopeID x = sid \<and> lIPAddr x = q \<longrightarrow> P x \<or> lMACAddr x = mac))"

lemma makes_room_nothing:
  assumes "\<forall>x \<in> set (dbLeases db). lScopeID x = sid \<and> lIPAddr x = q \<longrightarrow> lMACAddr x = mac"
  shows "makes_room now sid q mac db db"
  unfolding makes_room_def using assms by (intro exI [of _ "\<lambda>_. False"]) auto

lemma makes_room_delete:
  assumes w: "wf_db db" and e: "e \<in> set (dbLeases db)" "lScopeID e = sid" "lIPAddr e = q" "\<not> lease_blocks now e"
    and d: "deleteLeaseTx flt (lID e) db = Ret (u, db')"
  shows "makes_room now sid q mac db db'"
proof -
  have "x = e" if "x \<in> set (dbLeases db)" "lID x = lID e" for x
    using that e(1) w leases.uniq_clashD [of "dbLeases db" x e] by (auto simp: wf_db_def lease_clash_def)
  moreover have "x = e" if "x \<in> set (dbLeases db)" "lScopeID x = sid" "lIPAddr x = q" for x
    using lease_at_unique [OF w that(1) e(1)] that e by simp
  moreover have "db' = db\<lparr>dbLeases := sql_delete (\<lambda>l. lID l = lID e) (dbLeases db)\<rparr>"
    using d by (simp add: deleteLeaseTx_def)
  ultimately show ?thesis
    using e(2-4) unfolding makes_room_def by (intro exI [of _ "\<lambda>l. lID l = lID e"]) blast
qed

lemma ensureIPAvailableTx_Ret:
  assumes "ensureIPAvailableTx flt now sid p mac db = Ret (u, db')" and w: "wf_db db" and "p \<noteq> []"
  shows "makes_room now sid (normalizeIP p) mac db db'"
proof -
  from assms(1) obtain eo where eo: "getLeaseByIPTx flt sid p db = Ret eo"
    by (auto simp: ensureIPAvailableTx_def bind_run_Ret_iff)
  note at = getLeaseByIPTx_Ret [OF eo w assms(3)]
  show ?thesis
  proof (cases eo)
    case None
    then have "db' = db" using assms(1) eo by (simp add: ensureIPAvailableTx_def)
    with at None show ?thesis by (auto intro: makes_room_nothing)
  next
    case (Some e)
    with at have e: "e \<in> set (dbLeases db)" "lScopeID e = sid" "lIPAddr e = normalizeIP p" by auto
    show ?thesis
    proof (cases "lMACAddr e = mac")
      case True
      then have "db' = db" using assms(1) eo Some by (simp add: ensureIPAvailableTx_def)
      moreover have "x = e" if "x \<in> set (dbLeases db)" "lScopeID x = sid" "lIPAddr x = normalizeIP p" for x
        using lease_at_unique [OF w that(1) e(1)] that e by simp
      ultimately show ?thesis using True by (auto intro: makes_room_nothing)
    next
      case False
      then have "\<not> lease_blocks now e" "deleteLeaseTx flt (lID e) db = Ret (u, db')"
        using assms(1) eo Some by (auto simp: ensureIPAvailableTx_def split: if_splits)
      then show ?thesis using makes_room_delete [OF w e] by blast
    qed
  qed
qed

definition drop_own :: "alloc4 \<Rightarrow> db \<Rightarrow> db" where
  "drop_own a db = db\<lparr>dbLeases := sql_delete (own_rows a) (dbLeases db)\<rparr>"

lemma wf_drop_own: "wf_db db \<Longrightarrow> wf_db (drop_own a db)"
  by (simp add: drop_own_def wf_db_delete)

lemma not_reserved_drop_own [simp]: "not_reserved4 (drop_own a db) a q = not_reserved4 db a q"
  by (simp add: not_reserved4_def drop_own_def)

text \<open>A new lease for the client, once its own rows are gone and there is room at the address.\<close>

lemma grant_after_room:
  assumes s: "save_and_return flt (new_lease a p) db2 = Ret (l, db')" and w: "wf_db db"
    and room: "makes_room (a4Now a) (scID (a4Scope a)) (normalizeIP p) (a4MAC a) (drop_own a db) db2"
  shows "l = new_lease a p \<and> grant4 a (new_lease a p) db db' \<and> same_id (new_lease a p) db'"
proof -
  from room obtain P where
    db2: "db2 = db\<lparr>dbLeases := sql_delete (\<lambda>x. own_rows a x \<or> P x) (dbLeases db)\<rparr>"
    and P: "\<And>x. x \<in> set (dbLeases db) \<Longrightarrow> \<not> own_rows a x \<Longrightarrow> P x
        \<Longrightarrow> lScopeID x = scID (a4Scope a) \<and> lIPAddr x = normalizeIP p \<and> \<not> lease_blocks (a4Now a) x"
    and Q: "\<And>x. x \<in> set (dbLeases db) \<Longrightarrow> \<not> own_rows a x \<Longrightarrow> lScopeID x = scID (a4Scope a)
        \<Longrightarrow> lIPAddr x = normalizeIP p \<Longrightarrow> P x \<or> lMACAddr x = a4MAC a"
    by (auto simp: makes_room_def drop_own_def delete_twice)
  have none: "own_rows a x \<or> P x" if "x \<in> set (dbLeases db)" "lScopeID x = scID (a4Scope a)"
    "lIPAddr x = normalizeIP (lIPAddr (new_lease a p))" for x
    using that Q [of x] own_rows_def [of a x] unfolding new_lease_simps by blast
  have gone: "gone4 a (normalizeIP (lIPAddr (new_lease a p))) x"
    if "x \<in> set (dbLeases db)" "own_rows a x \<or> P x" for x
    unfolding gone4_def new_lease_simps using that P [of x] own_rows_def [of a x] by blast
  from none grant4I [OF s w db2 _ _ _ _ _ gone] show ?thesis by (simp only: new_lease_simps) blast
qed

lemma alloc4_reserved_Ret:
  assumes "alloc4_reserved flt a r (drop_own a db) = Ret (l, db')" and w: "wf_db db" and "rIPAddr r \<noteq> []"
  shows "l = new_lease a (rIPAddr r) \<and> grant4 a l db db' \<and> same_id l db'"
proof -
  from assms(1) obtain u db2 where
    e: "ensureIPAvailableTx flt (a4Now a) (scID (a4Scope a)) (rIPAddr r) (a4MAC a) (drop_own a db) = Ret (u, db2)"
    and s: "save_and_return flt (new_lease a (rIPAddr r)) db2 = Ret (l, db')"
    by (auto simp: alloc4_reserved_def bind_run_Ret_iff)
  show ?thesis
    using grant_after_room [OF s w ensureIPAvailableTx_Ret [OF e wf_drop_own [OF w] assms(3)]] by simp
qed

text \<open>The guards under which the preferred address is granted.\<close>

definition wanted4 :: "alloc4 \<Rightarrow> ip \<Rightarrow> ip \<Rightarrow> bool" where
  "wanted4 a preferred declinedIP \<longleftrightarrow> preferred \<noteq> []
     \<and> (\<exists>n. scSubnet (a4Scope a) = Some n \<and> Contains n preferred)
     \<and> \<not> (declinedIP \<noteq> [] \<and> ip_Equal preferred declinedIP) \<and> \<not> isExcludedIP (a4Scope a) preferred"

lemma alloc4_preferred_Ret:
  assumes "alloc4_preferred flt a preferred declinedIP (drop_own a db) = Ret (got, db')" and w: "wf_db db"
  shows "case got of None \<Rightarrow> db' = drop_own a db
    | Some l \<Rightarrow> l = new_lease a preferred \<and> grant4 a l db db' \<and> same_id l db' \<and> wanted4 a preferred declinedIP
        \<and> not_reserved4 db a (normalizeIP preferred)"
proof (cases got)
  case None
  then show ?thesis using assms(1)
    by (auto simp: alloc4_preferred_def Let_def bind_run_Ret_iff split: if_splits option.splits)
next
  case (Some l)
  let ?db = "drop_own a db"
  have c: "preferred \<noteq> []" "case scSubnet (a4Scope a) of None \<Rightarrow> False | Some n \<Rightarrow> Contains n preferred"
    using assms(1) Some by (auto simp: alloc4_preferred_def Let_def split: if_splits)
  with assms(1) Some obtain ro eo u db2 where
    ro: "getReservationByIPTx flt (scID (a4Scope a)) preferred ?db = Ret ro"
      "\<not> (case ro of None \<Rightarrow> False | Some r \<Rightarrow> rMACAddr r \<noteq> a4MAC a)"
    and eo: "getLeaseByIPTx flt (scID (a4Scope a)) preferred ?db = Ret eo"
      "case eo of None \<Rightarrow> True | Some o' \<Rightarrow> lMACAddr o' = a4MAC a \<or> \<not> lease_blocks (a4Now a) o'"
    and ex: "\<not> (declinedIP \<noteq> [] \<and> ip_Equal preferred declinedIP)" "\<not> isExcludedIP (a4Scope a) preferred"
    and d: "(case eo of Some o' \<Rightarrow> if lMACAddr o' \<noteq> a4MAC a then deleteLeaseTx flt (lID o') ?db else Ret ((), ?db)
         | None \<Rightarrow> Ret ((), ?db)) = Ret (u, db2)"
    and s: "save_and_return flt (new_lease a preferred) db2 = Ret (l, db')"
    by (auto simp: alloc4_preferred_def Let_def bind_run_Ret_iff split: if_splits)
  note w' = wf_drop_own [OF w, of a]
  note at = getLeaseByIPTx_Ret [OF eo(1) w' c(1)]
  have "makes_room (a4Now a) (scID (a4Scope a)) (normalizeIP preferred) (a4MAC a) ?db db2"
  proof (cases eo)
    case None
    with d at show ?thesis by (auto intro: makes_room_nothing)
  next
    case (Some e)
    with at have e: "e \<in> set (dbLeases ?db)" "lScopeID e = scID (a4Scope a)" "lIPAddr e = normalizeIP preferred" by auto
    then have "lMACAddr e \<noteq> a4MAC a" by (auto simp: drop_own_def own_rows_def)
    with Some eo(2) d show ?thesis using makes_room_delete [OF w' e] by simp
  qed
  then have "l = new_lease a preferred \<and> grant4 a (new_lease a preferred) db db' \<and> same_id (new_lease a preferred) db'"
    by (rule grant_after_room [OF s w])
  moreover have "not_reserved4 db a (normalizeIP preferred)"
    using not_reserved4I [OF ro(1) w' c(1) ro(2)] by simp
  ultimately show ?thesis
    using Some c ex by (auto simp: wanted4_def split: option.splits)
qed

section \<open>The pool\<close>

lemma normalizeIP_uint32ToIP [simp]: "normalizeIP (uint32ToIP x) = PutUint32 x"
  by (simp add: normalizeIP_def)

lemma uint32ToIP_not_Nil [simp]: "uint32ToIP x \<noteq> []"
  by (simp add: uint32ToIP_def IPv4_def)

lemma ipKey_uint32ToIP: "ipKey (uint32ToIP x) = ipKey (PutUint32 x)"
  using ipKey_normalizeIP [of "uint32ToIP x"] by simp

lemma allocateIPv4Tx_Ret:
  assumes "allocateIPv4Tx flt now sc extra db = Ret p"
  obtains x where "p = uint32ToIP x" "\<not> skip_v4 sc (used_v4 now sc extra db) x"
proof -
  from assms obtain s e where r: "(case scan (\<lambda>x. x + 1) (\<lambda>x. x \<le> e) (skip_v4 sc (used_v4 now sc extra db)) s of
      None \<Rightarrow> Hang | Some None \<Rightarrow> Fail ''no available ip in scope'' | Some (Some x) \<Rightarrow> Ret (uint32ToIP x)) = Ret p"
    unfolding allocateIPv4Tx_def Let_def exec_Ret bind_run_Ret_iff by blast
  then obtain x where x: "scan (\<lambda>x. x + 1) (\<lambda>x. x \<le> e) (skip_v4 sc (used_v4 now sc extra db)) s = Some (Some x)"
    "p = uint32ToIP x"
    by (cases "scan (\<lambda>x. x + 1) (\<lambda>x. x \<le> e) (skip_v4 sc (used_v4 now sc extra db)) s")
      (auto split: option.splits)
  from scan_result [OF x(1) refl] x(2) show ?thesis by (intro that) blast+
qed

text \<open>An address the loop returns has no live lease, no reservation, and is not infrastructure.\<close>

lemma not_skipped:
  assumes "\<not> skip_v4 sc (used_v4 now sc extra db) w"
  shows "l \<in> set (dbLeases db) \<Longrightarrow> lScopeID l = scID sc \<Longrightarrow> lIPAddr l = PutUint32 w \<Longrightarrow> \<not> lease_blocks now l"
    and "r \<in> set (dbReservations db) \<Longrightarrow> rScopeID r = scID sc \<Longrightarrow> rIPAddr r \<noteq> PutUint32 w"
    and "\<not> isExcludedIP sc (uint32ToIP w)"
    and "extra \<noteq> [] \<Longrightarrow> ipKey extra \<noteq> ipKey (uint32ToIP w)"
proof -
  have u: "ipKey (PutUint32 w) \<notin> set (used_v4 now sc extra db)"
    using assms by (simp add: skip_v4_def Let_def ipKey_uint32ToIP)
  show "\<not> lease_blocks now l" if l: "l \<in> set (dbLeases db)" "lScopeID l = scID sc" "lIPAddr l = PutUint32 w"
  proof
    assume b: "lease_blocks now l"
    from leaseBlocksReuse_states [OF b] b l have "ipKey (lIPAddr l) \<in> set (used_v4 now sc extra db)"
      unfolding used_v4_def in_use_iff set_append set_map set_filter by (intro UnI1 image_eqI [of _ _ l]) auto
    with u l(3) show False by simp
  qed
  show "rIPAddr r \<noteq> PutUint32 w" if r: "r \<in> set (dbReservations db)" "rScopeID r = scID sc"
  proof
    assume "rIPAddr r = PutUint32 w"
    moreover from r have "ipKey (rIPAddr r) \<in> set (used_v4 now sc extra db)" unfolding used_v4_def by auto
    ultimately show False using u by simp
  qed
  from u show "\<not> isExcludedIP sc (uint32ToIP w)"
    by (auto simp: isExcludedIP_def used_v4_def infra_keys_def ipKey_uint32ToIP list_ex_iff Let_def rev_image_eqI)
  from u show "extra \<noteq> [] \<Longrightarrow> ipKey extra \<noteq> ipKey (uint32ToIP w)"
    by (auto simp: used_v4_def infra_keys_def ipKey_uint32ToIP)
qed

lemma alloc4_pool_Ret:
  assumes "alloc4_pool flt a declinedIP (drop_own a db) = Ret (l, db')" and w: "wf_db db"
  obtains x where "l = new_lease a (uint32ToIP x)" "grant4 a l db db'" "not_reserved4 db a (PutUint32 x)"
    "\<not> isExcludedIP (a4Scope a) (uint32ToIP x)" "declinedIP \<noteq> [] \<Longrightarrow> ipKey declinedIP \<noteq> ipKey (uint32ToIP x)"
    "allocateIPv4Tx flt (a4Now a) (a4Scope a) declinedIP (drop_own a db) = Ret (uint32ToIP x)"
    "\<not> skip_v4 (a4Scope a) (used_v4 (a4Now a) (a4Scope a) declinedIP (drop_own a db)) x"
proof -
  from assms(1) obtain p where p: "allocateIPv4Tx flt (a4Now a) (a4Scope a) declinedIP (drop_own a db) = Ret p"
    and s: "save_and_return flt (new_lease a p) (drop_own a db) = Ret (l, db')"
    by (auto simp: alloc4_pool_def bind_run_Ret_iff)
  from p obtain x where x: "p = uint32ToIP x"
    "\<not> skip_v4 (a4Scope a) (used_v4 (a4Now a) (a4Scope a) declinedIP (drop_own a db)) x"
    by (rule allocateIPv4Tx_Ret)
  note free = not_skipped [OF x(2)]
  have "l = new_lease a p \<and> grant4 a (new_lease a p) db db' \<and> (same_id (new_lease a p) db' \<or>
      (\<exists>x \<in> set (dbLeases db). \<not> own_rows a x \<and> lScopeID x = scID (a4Scope a)
        \<and> lIPAddr x = normalizeIP (lIPAddr (new_lease a p)) \<and> lID x \<noteq> lID (new_lease a p)))"
  proof (rule grant4I [OF s w drop_own_def])
    fix y assume y: "y \<in> set (dbLeases db)" "\<not> own_rows a y" "lScopeID y = scID (a4Scope a)"
      "lIPAddr y = normalizeIP (lIPAddr (new_lease a p))"
    then have "\<not> lease_blocks (a4Now a) y"
      using free(1) [of y] by (simp add: x(1) drop_own_def)
    with y show "gone4 a (normalizeIP (lIPAddr (new_lease a p))) y" unfolding gone4_def by blast
  qed (auto simp: gone4_def own_rows_def)
  moreover have "not_reserved4 db a (PutUint32 x)"
    using free(2) by (auto simp: not_reserved4_def drop_own_def)
  ultimately show ?thesis using free(3,4) p x(2) by (intro that [of x]) (simp_all add: x(1))
qed

text \<open>The pool does not hand out the address the client asked for in the subnet and was refused.\<close>

lemma pool_not_refused:
  assumes "alloc4_preferred flt a preferred declinedIP db = Ret (None, db')" and w: "wf_db db"
    and x: "\<not> skip_v4 (a4Scope a) (used_v4 (a4Now a) (a4Scope a) declinedIP db) x"
    and c: "preferred \<noteq> []" "scSubnet (a4Scope a) = Some n" "Contains n preferred"
  shows "normalizeIP preferred \<noteq> PutUint32 x"
proof
  assume eq: "normalizeIP preferred = PutUint32 x"
  then have key: "ipKey preferred = ipKey (uint32ToIP x)"
    using ipKey_normalizeIP [of preferred] ipKey_uint32ToIP [of x] by simp
  note free = not_skipped [OF x]
  from assms(1) c obtain ro eo where
    ro: "getReservationByIPTx flt (scID (a4Scope a)) preferred db = Ret ro"
    and eo: "getLeaseByIPTx flt (scID (a4Scope a)) preferred db = Ret eo"
    and no: "\<not> (\<not> (case ro of None \<Rightarrow> False | Some r \<Rightarrow> rMACAddr r \<noteq> a4MAC a)
        \<and> (case eo of None \<Rightarrow> True | Some o' \<Rightarrow> lMACAddr o' = a4MAC a \<or> \<not> lease_blocks (a4Now a) o')
        \<and> \<not> (declinedIP \<noteq> [] \<and> ip_Equal preferred declinedIP) \<and> \<not> isExcludedIP (a4Scope a) preferred)"
    by (auto simp: alloc4_preferred_def Let_def bind_run_Ret_iff split: if_splits)
  have "ro = None" using getReservationByIPTx_cases [OF ro w c(1)] free(2) eq by (cases ro) auto
  moreover have "\<not> lease_blocks (a4Now a) e" if "eo = Some e" for e
    using getLeaseByIPTx_Ret [OF eo w c(1)] free(1) eq that by simp
  moreover have "\<not> isExcludedIP (a4Scope a) preferred" using free(3) key by (simp add: isExcludedIP_def)
  moreover have "\<not> (declinedIP \<noteq> [] \<and> ip_Equal preferred declinedIP)"
    using free(4) key ipKey_Equal [of preferred declinedIP] by auto
  ultimately show False using no by (cases eo) auto
qed

section \<open>The transaction\<close>

lemma getReservationByMACTx_Ret:
  assumes "getReservationByMACTx flt sid mac db = Ret ro" and "wf_db db"
  shows "case ro of
      None \<Rightarrow> \<forall>x \<in> set (dbReservations db). \<not> (rScopeID x = sid \<and> rMACAddr x = mac)
    | Some r \<Rightarrow> r \<in> set (dbReservations db) \<and> rScopeID r = sid \<and> rMACAddr r = mac"
proof -
  have ro: "ro = map_option scanReservation (query_row (\<lambda>r. rScopeID r = sid \<and> rMACAddr r = mac) (dbReservations db))"
    using assms(1) by (simp add: getReservationByMACTx_def)
  show ?thesis by (rule query_scan_cases [OF ro]) (use assms(2) in \<open>simp add: wf_db_def scanReservation_row\<close>)
qed

lemma reservation_unique:
  "wf_db db \<Longrightarrow> x \<in> set (dbReservations db) \<Longrightarrow> y \<in> set (dbReservations db) \<Longrightarrow> rScopeID x = rScopeID y
    \<Longrightarrow> rIPAddr x = rIPAddr y \<or> rMACAddr x = rMACAddr y \<Longrightarrow> x = y"
  by (rule reservations.uniq_clashD [of "dbReservations db"]) (auto simp: wf_db_def reservation_clash_def)

text \<open>The client's declined row that is still in quarantine gives \<open>declinedIP\<close>.\<close>

definition quarantined4 :: "alloc4 \<Rightarrow> db \<Rightarrow> ip \<Rightarrow> bool" where
  "quarantined4 a db q \<longleftrightarrow> (\<exists>e \<in> set (dbLeases db). own_rows a e \<and> lState e = LeaseDeclined
     \<and> lease_blocks (a4Now a) e \<and> lIPAddr e = q)"

text \<open>The ways a lease is granted.\<close>

datatype path4 = Kept lease | Reserved reservation | Preferred | Pooled uint32

definition path4_ok :: "alloc4 \<Rightarrow> ip \<Rightarrow> db \<Rightarrow> lease \<Rightarrow> path4 \<Rightarrow> bool" where
  "path4_ok a preferred db l path =
     (case path of
        Kept e \<Rightarrow> (\<exists>res. keeps4 a res db e) \<and> l = renewed_lease a e
          \<and> (\<forall>r \<in> set (dbReservations db). rScopeID r = scID (a4Scope a) \<and> rMACAddr r = a4MAC a
                \<longrightarrow> ipKey (lIPAddr e) = ipKey (rIPAddr r))
      | Reserved r \<Rightarrow> r \<in> set (dbReservations db) \<and> rScopeID r = scID (a4Scope a) \<and> rMACAddr r = a4MAC a
          \<and> l = new_lease a (rIPAddr r)
      | Preferred \<Rightarrow> l = new_lease a preferred \<and> preferred \<noteq> []
          \<and> (\<exists>n. scSubnet (a4Scope a) = Some n \<and> Contains n preferred)
          \<and> \<not> isExcludedIP (a4Scope a) preferred
          \<and> (\<forall>r \<in> set (dbReservations db). \<not> (rScopeID r = scID (a4Scope a) \<and> rMACAddr r = a4MAC a))
          \<and> (\<forall>q. quarantined4 a db q \<longrightarrow> \<not> ip_Equal preferred q)
      | Pooled x \<Rightarrow> l = new_lease a (uint32ToIP x) \<and> \<not> isExcludedIP (a4Scope a) (uint32ToIP x)
          \<and> (\<forall>r \<in> set (dbReservations db). \<not> (rScopeID r = scID (a4Scope a) \<and> rMACAddr r = a4MAC a))
          \<and> (\<forall>q. quarantined4 a db q \<longrightarrow> ipKey q \<noteq> ipKey (uint32ToIP x))
          \<and> (preferred \<noteq> [] \<and> (\<exists>n. scSubnet (a4Scope a) = Some n \<and> Contains n preferred)
                \<longrightarrow> normalizeIP preferred \<noteq> PutUint32 x))"

lemma alloc4_tx_Ret:
  assumes "alloc4_tx flt a preferred db = Ret (l, db')" and w: "wf_db db"
  shows "grant4 a l db db' \<and> not_reserved4 db a (normalizeIP (lIPAddr l)) \<and> (\<exists>path. path4_ok a preferred db l path \<and> (same_id l db' \<or> (\<exists>x. path = Pooled x)))"
proof -
  from assms(1) obtain ro ex db1 where
    ro: "getReservationByMACTx flt (scID (a4Scope a)) (a4MAC a) db = Ret ro"
    and ex: "alloc4_existing flt a ro db = Ret (ex, db1)"
    by (auto simp: alloc4_tx_def bind_run_Ret_iff)
  note rm = getReservationByMACTx_Ret [OF ro w]
  from ex w show ?thesis
  proof (cases rule: alloc4_existing_Ret)
    case (kept e)
    then have l: "l = renewed_lease a e" "db' = db1" using assms(1) ro ex by (auto simp: alloc4_tx_def)
    from kept(2) w have c: "normalizeIP (lIPAddr e) = lIPAddr e"
      by (auto simp: keeps4_def wf_db_def canon_normalizeIP)
    have "ipKey (lIPAddr e) = ipKey (rIPAddr r)"
      if "r \<in> set (dbReservations db)" "rScopeID r = scID (a4Scope a) \<and> rMACAddr r = a4MAC a" for r
      using that kept(2) rm reservation_unique [OF w, of _ r] by (cases ro) (auto simp: keeps4_def)
    with kept l have "path4_ok a preferred db l (Kept e)" by (auto simp: path4_ok_def)
    with kept l c show ?thesis by (auto simp: keeps4_def)
  next
    case (dropped declinedIP)
    then have db1: "db1 = drop_own a db" by (simp add: drop_own_def)
    have q: "q = declinedIP \<and> q \<noteq> []" if "quarantined4 a db q" for q
      using that dropped(3) w by (auto simp: quarantined4_def wf_db_def canon_def)
    show ?thesis
    proof (cases ro)
      case (Some r)
      with assms(1) ro ex dropped have res: "alloc4_reserved flt a r (drop_own a db) = Ret (l, db')"
        by (auto simp: alloc4_tx_def drop_own_def)
      from Some rm have r: "r \<in> set (dbReservations db)" "rScopeID r = scID (a4Scope a)" "rMACAddr r = a4MAC a" by auto
      then have c: "canon (rIPAddr r)" using w by (simp add: wf_db_def)
      then have "l = new_lease a (rIPAddr r) \<and> grant4 a l db db' \<and> same_id l db'"
        by (intro alloc4_reserved_Ret [OF res w]) (simp add: canon_def)
      moreover have "not_reserved4 db a (rIPAddr r)"
        using reservation_unique [OF w, of _ r] r by (auto simp: not_reserved4_def)
      ultimately show ?thesis
        using r c by (auto simp: canon_normalizeIP path4_ok_def intro!: exI [of _ "Reserved r"])
    next
      case None
      with rm have nores: "\<forall>r \<in> set (dbReservations db). \<not> (rScopeID r = scID (a4Scope a) \<and> rMACAddr r = a4MAC a)" by simp
      from None assms(1) ro ex dropped(1) db1 obtain got db2 where
        pr: "alloc4_preferred flt a preferred declinedIP (drop_own a db) = Ret (got, db2)"
        by (auto simp: alloc4_tx_def bind_run_Ret_iff)
      note pref = alloc4_preferred_Ret [OF pr w]
      show ?thesis
      proof (cases got)
        case (Some l')
        with None assms(1) ro ex dropped(1) db1 pr have "l' = l" "db2 = db'" by (auto simp: alloc4_tx_def)
        with Some pref nores q show ?thesis
          by (auto simp: path4_ok_def wanted4_def intro!: exI [of _ Preferred])
      next
        case None
        with \<open>ro = None\<close> assms(1) ro ex dropped(1) db1 pr pref
        have "alloc4_pool flt a declinedIP (drop_own a db) = Ret (l, db')" by (auto simp: alloc4_tx_def)
        from this w obtain x where "l = new_lease a (uint32ToIP x)" "grant4 a l db db'"
          "not_reserved4 db a (PutUint32 x)" "\<not> isExcludedIP (a4Scope a) (uint32ToIP x)"
          "declinedIP \<noteq> [] \<Longrightarrow> ipKey declinedIP \<noteq> ipKey (uint32ToIP x)"
          and x: "\<not> skip_v4 (a4Scope a) (used_v4 (a4Now a) (a4Scope a) declinedIP (drop_own a db)) x"
          by (rule alloc4_pool_Ret) blast
        then show ?thesis
          using nores q pool_not_refused [OF pr [unfolded None] wf_drop_own [OF w] x] by (auto simp: path4_ok_def intro!: exI [of _ "Pooled x"])
      qed
    qed
  qed
qed

section \<open>A small network\<close>

text \<open>A scope with a pool of ten addresses, for the witnesses.\<close>

definition demo_scope :: scope where
  "demo_scope = \<lparr>scID = ''s1'', scName = ''lan'', scV6 = False,
     scSubnet = Some \<lparr>netIP = [192, 168, 1, 0], netMask = [255, 255, 255, 0]\<rparr>, scPrefix = None,
     scSubnetStr = '''', scPrefixStr = '''', scStartIP = [192, 168, 1, 10], scEndIP = [192, 168, 1, 20],
     scGateway = [[192, 168, 1, 1]], scDNS = [[192, 168, 1, 12]], scExcludedIPs = [[192, 168, 1, 11]],
     scDomainName = ''lan'', scLeaseTime = 3600, scMaxLeaseTime = 7200, scEnabled = True, scPDEnabled = False,
     scOptions = None, scCreatedAt = 0, scUpdatedAt = 0\<rparr>"

definition demo_lease :: lease where
  "demo_lease = \<lparr>lID = ''l1'', lScopeID = ''s1'', lMACAddr = ''aa'', lIPAddr = [192, 168, 1, 13],
     lHostname = ''h'', lClientID = '''', lState = LeaseActive, lReserved = False, lOfferedAt = Some 0,
     lStartsAt = 0, lEndsAt = 3600 * Second, lCreatedAt = 0, lUpdatedAt = 0\<rparr>"

definition demo_reservation :: reservation where
  "demo_reservation = \<lparr>rID = ''r1'', rScopeID = ''s1'', rGroupID = '''', rMACAddr = ''cc'',
     rIPAddr = [192, 168, 1, 14], rHostname = ''printer'', rDescription = '''', rOptions = None,
     rCreatedAt = 0, rUpdatedAt = 0\<rparr>"

definition demo_db :: db where
  "demo_db = \<lparr>dbScopes = [demo_scope], dbReservations = [demo_reservation], dbLeases = [demo_lease], dbV6Leases = [],
     dbV6Reservations = [], dbV6Prefixes = [], dbGroups = [], dbBlacklist = [], dbHANodes = [],
     dbServerState = [], dbAllocLogs = [], dbSystemLogs = []\<rparr>"

abbreviation no_faults :: faults where "no_faults \<equiv> \<lambda>_. None"

lemma demo_db_wf: "wf_db demo_db"
  by (simp add: wf_db_def demo_db_def demo_lease_def demo_reservation_def uniq_def canon_def to4IfPossible_def)

definition demo_args :: alloc4 where
  "demo_args = \<lparr>a4Scope = demo_scope, a4MAC = ''bb'', a4ClientID = '''', a4Hostname = ''host'', a4Now = Second,
     a4EndsAt = 3601 * Second, a4UUID = ''u1''\<rparr>"

lemma demo_alloc:
  "AllocateV4Lease no_faults Second ''u1'' demo_scope ''bb'' '''' [] ''host'' 0 7200 demo_db
   = (Ret (new_lease demo_args (IPv4 192 168 1 15)),
      demo_db\<lparr>dbLeases := [demo_lease, new_lease demo_args [192, 168, 1, 15]]\<rparr>)"
  by code_simp

section \<open>Properties\<close>

lemma AllocateV4Lease_Ret:
  assumes "AllocateV4Lease flt now uuid sc mac clientID preferred hostname leaseTime maxLeaseTime db = (Ret l, db')"
    and "wf_db db"
  obtains a path where "a4Scope a = sc" "a4MAC a = mac" "a4Now a = now"
    "a4EndsAt a = now + clampLeaseTime leaseTime maxLeaseTime * Second"
    "grant4 a l db db'" "not_reserved4 db a (normalizeIP (lIPAddr l))" "path4_ok a preferred db l path"
    "same_id l db' \<or> (\<exists>x. path = Pooled x)"
proof -
  let ?a = "\<lparr>a4Scope = sc, a4MAC = mac, a4ClientID = clientID, a4Hostname = hostname, a4Now = now,
    a4EndsAt = now + clampLeaseTime leaseTime maxLeaseTime * Second, a4UUID = uuid\<rparr>"
  have "alloc4_tx flt ?a preferred db = Ret (l, db')"
    using assms(1) by (simp add: AllocateV4Lease_def WithTx_Ret Let_def)
  from alloc4_tx_Ret [OF this assms(2)] show ?thesis by (auto intro: that [of ?a])
qed

text \<open>
  C4. No lease is stolen: when \<open>AllocateV4Lease\<close> grants an address, every lease of another client
  in that scope that still occupies its address (active and unexpired, offered within the
  offer window, or declined within the quarantine) is still in the table, unchanged, and the
  granted address is not one of theirs.
\<close>

theorem alloc4_no_steal:
  assumes "wf_db db"
    and "AllocateV4Lease flt now uuid sc mac clientID preferred hostname leaseTime maxLeaseTime db = (Ret l, db')"
    and "x \<in> set (dbLeases db)" and "lScopeID x = scID sc" and "lMACAddr x \<noteq> mac" and "lease_blocks now x"
  shows "x \<in> set (dbLeases db') \<and> lIPAddr x \<noteq> normalizeIP (lIPAddr l)"
proof -
  from assms(2,1) obtain a path where a: "a4Scope a = sc" "a4MAC a = mac" "a4Now a = now" and g: "grant4 a l db db'"
    by (rule AllocateV4Lease_Ret)
  from g obtain row rows where db': "db' = db\<lparr>dbLeases := rows\<rparr>" and u: "uniq lease_clash rows"
    and rec: "recorded l row" and rep: "replaced (gone4 a (normalizeIP (lIPAddr l))) row (dbLeases db) rows"
    and l: "lScopeID l = scID sc" "lMACAddr l = mac"
    using a by (auto simp: grant4_def)
  from replaced_kept [OF rep assms(3)] assms(5,6) a have x: "x \<in> set rows" by (simp add: gone4_def)
  have "lIPAddr x \<noteq> normalizeIP (lIPAddr l)"
  proof
    assume "lIPAddr x = normalizeIP (lIPAddr l)"
    then have "lease_clash x row" using rec l assms(4) by (simp add: recorded_def lease_clash_def)
    with leases.uniq_clashD [OF u x replaced_in [OF rep]] have "x = row" by blast
    with rec l assms(5) show False by (simp add: recorded_def)
  qed
  with x db' show ?thesis by simp
qed

theorem alloc4_no_steal_witness:
  "demo_lease \<in> set (dbLeases (demo_db\<lparr>dbLeases := [demo_lease, new_lease demo_args [192, 168, 1, 15]]\<rparr>))
   \<and> lIPAddr demo_lease \<noteq> normalizeIP (lIPAddr (new_lease demo_args (IPv4 192 168 1 15)))"
  by (rule alloc4_no_steal [OF demo_db_wf demo_alloc])
    (simp_all add: demo_db_def demo_lease_def demo_scope_def leaseBlocksReuse_def)

text \<open>
  C25. The grant is recorded and touches nothing else: after a successful call the lease table
  has a row with the scope, client, address, state and times of the returned lease; every
  other row was there before; a row that went was the client's own or a stale row at the
  granted address; no other table changes, and the UNIQUE constraints hold.
\<close>

theorem alloc4_recorded:
  assumes "wf_db db"
    and "AllocateV4Lease flt now uuid sc mac clientID preferred hostname leaseTime maxLeaseTime db = (Ret l, db')"
  shows "lScopeID l = scID sc \<and> lMACAddr l = mac \<and> lStartsAt l = now
    \<and> lEndsAt l = now + clampLeaseTime leaseTime maxLeaseTime * Second
    \<and> (\<exists>row \<in> set (dbLeases db'). recorded l row \<and> (\<forall>x \<in> set (dbLeases db'). x = row \<or> x \<in> set (dbLeases db)))
    \<and> (\<forall>x \<in> set (dbLeases db) - set (dbLeases db'). lScopeID x = scID sc
         \<and> (lMACAddr x = mac \<or> lIPAddr x = normalizeIP (lIPAddr l) \<and> \<not> lease_blocks now x))
    \<and> db' = db\<lparr>dbLeases := dbLeases db'\<rparr> \<and> wf_db db'"
proof -
  from assms(2,1) obtain a path where a: "a4Scope a = sc" "a4MAC a = mac" "a4Now a = now"
    "a4EndsAt a = now + clampLeaseTime leaseTime maxLeaseTime * Second" and g: "grant4 a l db db'"
    by (rule AllocateV4Lease_Ret)
  from g obtain row rows where db': "db' = db\<lparr>dbLeases := rows\<rparr>" and u: "uniq lease_clash rows"
    and rec: "recorded l row" and c: "canon (lIPAddr row)"
    and rep: "replaced (gone4 a (normalizeIP (lIPAddr l))) row (dbLeases db) rows"
    by (auto simp: grant4_def)
  have "wf_db db'"
    unfolding db' using wf_db_replaced [OF assms(1) u rep c] rec by (simp add: recorded_def)
  moreover have "gone4 a (normalizeIP (lIPAddr l)) x" if "x \<in> set (dbLeases db) - set rows" for x
    using replaced_kept [OF rep] that by blast
  ultimately show ?thesis
    using g a replaced_in [OF rep] replaced_new [OF rep] rec by (auto simp: db' grant4_def gone4_def)
qed

theorem alloc4_recorded_witness:
  "\<exists>row \<in> set (dbLeases (demo_db\<lparr>dbLeases := [demo_lease, new_lease demo_args [192, 168, 1, 15]]\<rparr>)).
     recorded (new_lease demo_args (IPv4 192 168 1 15)) row"
  using alloc4_recorded [OF demo_db_wf demo_alloc] by blast

text \<open>A client with a reservation is given the reserved address.\<close>

lemma AllocateV4Lease_reserved:
  assumes "wf_db db"
    and "AllocateV4Lease flt now uuid sc mac clientID preferred hostname leaseTime maxLeaseTime db = (Ret l, db')"
    and "r \<in> set (dbReservations db)" and "rScopeID r = scID sc"
  shows "rMACAddr r = mac \<Longrightarrow> ipKey (lIPAddr l) = ipKey (rIPAddr r)"
    and "rMACAddr r \<noteq> mac \<Longrightarrow> rIPAddr r \<noteq> normalizeIP (lIPAddr l)"
proof -
  from assms(2,1) obtain a path where a: "a4Scope a = sc" "a4MAC a = mac"
    and n: "not_reserved4 db a (normalizeIP (lIPAddr l))" and p: "path4_ok a preferred db l path"
    by (rule AllocateV4Lease_Ret)
  have u: "r' = r" if "r' \<in> set (dbReservations db)" "rScopeID r' = scID sc" "rMACAddr r' = rMACAddr r" for r'
    using reservation_unique [OF assms(1) that(1) assms(3)] that assms(4) by simp
  show "ipKey (lIPAddr l) = ipKey (rIPAddr r)" if "rMACAddr r = mac"
  proof (cases path)
    case (Reserved r')
    then have "r' = r" using p a that by (intro u) (auto simp: path4_ok_def)
    with Reserved p show ?thesis by (simp add: path4_ok_def)
  qed (use p that assms(3,4) a in \<open>auto simp: path4_ok_def\<close>)
  show "rIPAddr r \<noteq> normalizeIP (lIPAddr l)" if "rMACAddr r \<noteq> mac"
    using n a assms(3,4) that by (auto simp: not_reserved4_def)
qed

text \<open>
  C13. Reservations win and are respected: a client with a reservation in the scope gets the
  reserved address (the same key), and nobody gets an address that is reserved for another
  client of the scope.
\<close>

theorem alloc4_reservations:
  assumes "wf_db db"
    and "AllocateV4Lease flt now uuid sc mac clientID preferred hostname leaseTime maxLeaseTime db = (Ret l, db')"
    and "r \<in> set (dbReservations db)" and "rScopeID r = scID sc"
  shows "(rMACAddr r = mac \<longrightarrow> ipKey (lIPAddr l) = ipKey (rIPAddr r))
       \<and> (rMACAddr r \<noteq> mac \<longrightarrow> rIPAddr r \<noteq> normalizeIP (lIPAddr l))"
  using AllocateV4Lease_reserved [OF assms] by blast

theorem alloc4_reservations_witness:
  "rIPAddr demo_reservation \<noteq> normalizeIP (lIPAddr (new_lease demo_args (IPv4 192 168 1 15)))"
  using alloc4_reservations [OF demo_db_wf demo_alloc, of demo_reservation]
  by (simp add: demo_db_def demo_reservation_def demo_scope_def)

text \<open>
  C27. A fresh address is a proper one: a client with no reservation and no active or offered
  lease never gets an excluded, gateway or DNS address, nor the address it declined while
  that is in quarantine.
\<close>

theorem alloc4_fresh_address:
  assumes "wf_db db"
    and "AllocateV4Lease flt now uuid sc mac clientID preferred hostname leaseTime maxLeaseTime db = (Ret l, db')"
    and "\<forall>r \<in> set (dbReservations db). \<not> (rScopeID r = scID sc \<and> rMACAddr r = mac)"
    and "\<forall>e \<in> set (dbLeases db). lScopeID e = scID sc \<and> lMACAddr e = mac \<longrightarrow>
           lState e \<noteq> LeaseActive \<and> lState e \<noteq> LeaseOffered"
  shows "\<not> isExcludedIP sc (lIPAddr l)
    \<and> (\<forall>e \<in> set (dbLeases db). lScopeID e = scID sc \<and> lMACAddr e = mac \<and> lState e = LeaseDeclined
         \<and> lease_blocks now e \<longrightarrow> normalizeIP (lIPAddr l) \<noteq> lIPAddr e)"
proof -
  from assms(2,1) obtain a path where a: "a4Scope a = sc" "a4MAC a = mac" "a4Now a = now"
    and g: "grant4 a l db db'" and p: "path4_ok a preferred db l path"
    by (rule AllocateV4Lease_Ret)
  have fresh: "\<not> isExcludedIP sc (lIPAddr l)
      \<and> (\<forall>q. quarantined4 a db q \<longrightarrow> ipKey q \<noteq> ipKey (lIPAddr l) \<or> \<not> ip_Equal (lIPAddr l) q)"
    using p assms(3,4) a by (cases path) (auto simp: path4_ok_def keeps4_def)
  have "normalizeIP (lIPAddr l) \<noteq> lIPAddr e"
    if e: "e \<in> set (dbLeases db)" "lScopeID e = scID sc" "lMACAddr e = mac" "lState e = LeaseDeclined"
      "lease_blocks now e" for e
  proof
    assume n: "normalizeIP (lIPAddr l) = lIPAddr e"
    have "quarantined4 a db (lIPAddr e)" using e a by (auto simp: quarantined4_def own_rows_def)
    moreover have "ipKey (lIPAddr e) = ipKey (lIPAddr l)" by (simp flip: n)
    moreover have "ip_Equal (lIPAddr l) (lIPAddr e)"
      using ip_Equal_normalizeIP [of "lIPAddr l"] n by simp
    ultimately show False using fresh by blast
  qed
  with fresh show ?thesis by blast
qed

definition declined_db :: db where
  "declined_db = demo_db\<lparr>dbLeases := [demo_lease\<lparr>lMACAddr := ''bb'', lState := LeaseDeclined\<rparr>]\<rparr>"

lemma declined_db_wf: "wf_db declined_db"
  by (simp add: wf_db_def declined_db_def demo_db_def demo_lease_def demo_reservation_def uniq_def canon_def to4IfPossible_def)

lemma declined_alloc:
  "AllocateV4Lease no_faults Second ''u1'' demo_scope ''bb'' '''' [192, 168, 1, 13] ''host'' 0 7200 declined_db
   = (Ret (new_lease demo_args (IPv4 192 168 1 15)),
      declined_db\<lparr>dbLeases := [new_lease demo_args [192, 168, 1, 15]]\<rparr>)"
  by code_simp

theorem alloc4_fresh_address_witness:
  "\<not> isExcludedIP demo_scope (IPv4 192 168 1 15) \<and> normalizeIP (IPv4 192 168 1 15) \<noteq> [192, 168, 1, 13]"
  using alloc4_fresh_address [OF declined_db_wf declined_alloc]
  by (simp add: declined_db_def demo_db_def demo_lease_def demo_reservation_def demo_scope_def leaseBlocksReuse_def
      declineQuarantineSeconds_def)

text \<open>The lease a client holds is found, and kept when it is in range and not reserved for another.\<close>

lemma own_lease_found:
  assumes w: "wf_db db" and e: "e \<in> set (dbLeases db)"
  shows "getLeaseByMACTx no_faults (lScopeID e) (lMACAddr e) db = Ret (Some e)"
proof -
  have "canon (lIPAddr e)" "\<not> lReserved e" using w e by (auto simp: wf_db_def)
  moreover have "query_row (\<lambda>l. lScopeID l = lScopeID e \<and> lMACAddr l = lMACAddr e) (dbLeases db) = Some e"
    by (rule leases.query_row_unique) (use w e in \<open>auto simp: wf_db_def lease_clash_def\<close>)
  ultimately show ?thesis by (simp add: getLeaseByMACTx_def scanLease_row)
qed

lemma own_lease_kept:
  assumes w: "wf_db db" and h: "host_inet (lIPAddr e) = Ret (Some (lIPAddr e))"
    and rng: "ipInRange (lIPAddr e) (scStartIP (a4Scope a)) (scEndIP (a4Scope a)) = Ret True"
    and st: "lState e = LeaseActive"
    and mine: "\<forall>r \<in> set (dbReservations db). rScopeID r = scID (a4Scope a) \<longrightarrow>
        (rIPAddr r = lIPAddr e \<longleftrightarrow> rMACAddr r = a4MAC a)"
  shows "\<exists>ro. getReservationByMACTx no_faults (scID (a4Scope a)) (a4MAC a) db = Ret ro \<and> may_keep4 no_faults a ro e db = Ret True"
proof -
  let ?sid = "scID (a4Scope a)"
  obtain ro where ro: "getReservationByMACTx no_faults ?sid (a4MAC a) db = Ret ro"
    by (simp add: getReservationByMACTx_def)
  obtain rb where rb: "getReservationByIPTx no_faults ?sid (lIPAddr e) db = Ret rb"
    using h by (simp add: getReservationByIPTx_def)
  have q: "rb = map_option scanReservation (query_row (\<lambda>r. rScopeID r = ?sid \<and> rIPAddr r = lIPAddr e) (dbReservations db))"
    using rb h by (auto simp: getReservationByIPTx_def)
  have "rb = None \<or> (\<exists>r. rb = Some r \<and> rMACAddr r = a4MAC a)"
    using query_scan_cases [OF q] w mine by (cases rb) (auto simp: wf_db_def scanReservation_row)
  moreover have "ro = None \<or> (\<exists>r. ro = Some r \<and> rIPAddr r = lIPAddr e)"
    using getReservationByMACTx_Ret [OF ro w] mine by (cases ro) auto
  ultimately show ?thesis
    using ro st rng rb by (auto simp: may_keep4_def Let_def)
qed

text \<open>
  C26. A client keeps its active lease: when its row is active, in the pool range and not
  reserved for another client, and its own reservation, if any, names the same address, a
  fault-free call succeeds, returns that address still active (it is not demoted to offered
  by a bare DISCOVER), and the row is active until the new end time.
\<close>

theorem alloc4_renews_active:
  assumes w: "wf_db db" and e: "e \<in> set (dbLeases db)" "lScopeID e = scID sc" "lMACAddr e = mac"
    and st: "lState e = LeaseActive"
    and rng: "ipInRange (lIPAddr e) (scStartIP sc) (scEndIP sc) = Ret True"
    and four: "length (lIPAddr e) = 4"
    and mine: "\<forall>r \<in> set (dbReservations db). rScopeID r = scID sc \<longrightarrow>
        (rIPAddr r = lIPAddr e \<longleftrightarrow> rMACAddr r = mac)"
  shows "\<exists>l db'. AllocateV4Lease no_faults now uuid sc mac clientID preferred hostname leaseTime maxLeaseTime db = (Ret l, db')
    \<and> lIPAddr l = lIPAddr e \<and> lState l = LeaseActive
    \<and> (\<exists>row \<in> set (dbLeases db'). lScopeID row = scID sc \<and> lMACAddr row = mac \<and> lIPAddr row = lIPAddr e
         \<and> lState row = LeaseActive \<and> lEndsAt row = now + clampLeaseTime leaseTime maxLeaseTime * Second)"
proof -
  define a where "a = \<lparr>a4Scope = sc, a4MAC = mac, a4ClientID = clientID, a4Hostname = hostname, a4Now = now,
    a4EndsAt = now + clampLeaseTime leaseTime maxLeaseTime * Second, a4UUID = uuid\<rparr>"
  let ?l = "renewed_lease a e"
  have c: "canon (lIPAddr e)" "\<not> lReserved e" "lIPAddr e \<noteq> []" using w e(1) by (auto simp: wf_db_def canon_def)
  have h: "host_inet (lIPAddr e) = Ret (Some (lIPAddr e))" using four c(3) by (simp add: host_inet_def)
  have me: "getLeaseByMACTx no_faults (scID sc) mac db = Ret (Some e)"
    using own_lease_found [OF w e(1)] e(2,3) by simp
  obtain ro where ro: "getReservationByMACTx no_faults (scID sc) mac db = Ret ro" and keep: "may_keep4 no_faults a ro e db = Ret True"
    using own_lease_kept [of db e a] w h rng st mine by (auto simp: a_def)
  have free: "lease_conflict y (?l\<lparr>lReserved := False\<rparr>)"
    if y: "y \<in> set (dbLeases db)" "lease_clash (?l\<lparr>lReserved := False\<rparr>) y" for y
  proof -
    have "lease_clash e y" using y(2) by (simp add: lease_clash_def renewed_lease_def Let_def st)
    then have "y = e" using leases.uniq_clashD [of "dbLeases db" e y] w e(1) y(1) by (simp add: wf_db_def)
    then show ?thesis by (simp add: lease_conflict_def)
  qed
  from leases.upsert_total [of "dbLeases db" "?l\<lparr>lReserved := False\<rparr>", OF _ free] w obtain rows where
    "sql_upsert lease_clash lease_conflict lease_merge (?l\<lparr>lReserved := False\<rparr>) (dbLeases db) = Ret rows"
    by (auto simp: wf_db_def)
  then have s: "save_and_return no_faults ?l db = Ret (?l, db\<lparr>dbLeases := rows\<rparr>)"
    using h by (simp add: save_and_return_def saveLeaseTx_def upsert_lease_def renewed_lease_def st Let_def)
  then have call: "AllocateV4Lease no_faults now uuid sc mac clientID preferred hostname leaseTime maxLeaseTime db
      = (Ret ?l, db\<lparr>dbLeases := rows\<rparr>)"
    using me ro keep unfolding AllocateV4Lease_def Let_def a_def [symmetric]
    by (simp add: WithTx_Ret alloc4_tx_def alloc4_existing_def) (simp add: a_def)
  have l: "lState ?l = LeaseActive" by (simp add: renewed_lease_def st Let_def)
  from s w obtain row rows' where eq: "db\<lparr>dbLeases := rows\<rparr> = db\<lparr>dbLeases := rows'\<rparr>" and row: "recorded ?l row"
    "replaced (\<lambda>x. lScopeID x = lScopeID ?l \<and> lIPAddr x = normalizeIP (lIPAddr ?l)) row (dbLeases db) rows'"
    by (rule save_and_return_Ret) auto
  from arg_cong [OF eq, of dbLeases] row have "row \<in> set rows" "recorded ?l row" by (auto dest: replaced_in)
  with call l c e show ?thesis
    by (intro exI [of _ ?l] exI [of _ "db\<lparr>dbLeases := rows\<rparr>"] conjI)
      (auto simp: recorded_def canon_normalizeIP a_def intro!: bexI [of _ row])
qed

theorem alloc4_renews_active_witness:
  "\<exists>l db'. AllocateV4Lease no_faults Second ''u1'' demo_scope ''aa'' '''' [] ''host'' 3600 7200 demo_db = (Ret l, db')
    \<and> lIPAddr l = lIPAddr demo_lease \<and> lState l = LeaseActive
    \<and> (\<exists>row \<in> set (dbLeases db'). lScopeID row = scID demo_scope \<and> lMACAddr row = ''aa'' \<and> lIPAddr row = lIPAddr demo_lease
         \<and> lState row = LeaseActive \<and> lEndsAt row = Second + clampLeaseTime 3600 7200 * Second)"
proof (rule alloc4_renews_active [OF demo_db_wf])
  show "ipInRange (lIPAddr demo_lease) (scStartIP demo_scope) (scEndIP demo_scope) = Ret True" by code_simp
qed (simp_all add: demo_db_def demo_lease_def demo_scope_def demo_reservation_def)

end
