(* ===== verification/Alloc4_Pool.thy ===== *)
theory Alloc4_Pool
  imports Alloc4_Safety
begin

text \<open>
  The pool search of \<open>allocateIPv4Tx\<close> against its specification: which addresses of the pool are
  free is stated on the database, without keys or counters (\<open>free_v4\<close>); the code returns the
  least free address strictly between the pool's ends, or its error when there is none. The
  last theorem shows where the 32-bit counter leaves the pool.
\<close>

text \<open>The addresses the search looks at are IPv4, as in a DHCPv4 scope.\<close>

definition all_v4 :: "scope \<Rightarrow> ip \<Rightarrow> db \<Rightarrow> bool" where
  "all_v4 sc extra db \<longleftrightarrow>
     (\<forall>l \<in> set (dbLeases db). lScopeID l = scID sc \<longrightarrow> To4 (lIPAddr l) \<noteq> [])
   \<and> (\<forall>r \<in> set (dbReservations db). rScopeID r = scID sc \<longrightarrow> To4 (rIPAddr r) \<noteq> [])
   \<and> (\<forall>p \<in> set (scExcludedIPs sc @ scGateway sc @ scDNS sc). To4 p \<noteq> [])
   \<and> (extra = [] \<or> To4 extra \<noteq> [])"

definition free_v4 :: "time \<Rightarrow> scope \<Rightarrow> ip \<Rightarrow> db \<Rightarrow> uint32 \<Rightarrow> bool" where
  "free_v4 now sc extra db x \<longleftrightarrow>
     (\<forall>l \<in> set (dbLeases db). lScopeID l = scID sc \<and> To4 (lIPAddr l) = PutUint32 x \<longrightarrow> \<not> lease_blocks now l)
   \<and> (\<forall>r \<in> set (dbReservations db). rScopeID r = scID sc \<longrightarrow> To4 (rIPAddr r) \<noteq> PutUint32 x)
   \<and> (\<forall>p \<in> set (scExcludedIPs sc @ scGateway sc @ scDNS sc). To4 p \<noteq> PutUint32 x)
   \<and> (extra = [] \<or> To4 extra \<noteq> PutUint32 x)"

lemma ipKey_eq_v4: "To4 p \<noteq> [] \<Longrightarrow> ipKey p = ipKey (PutUint32 x) \<longleftrightarrow> To4 p = PutUint32 x"
proof -
  assume p: "To4 p \<noteq> []"
  then have "ipKey p = ipKey (To4 p)" by (simp add: ipKey_def)
  then show ?thesis using ipKey_v4_inj [of "To4 p" "PutUint32 x"] To4_length [OF p] by simp
qed

lemma used_v4_iff:
  assumes "all_v4 sc extra db"
  shows "ipKey (PutUint32 x) \<in> set (used_v4 now sc extra db) \<longleftrightarrow> \<not> free_v4 now sc extra db x"
proof -
  let ?k = "ipKey (PutUint32 x)"
  have l: "ipKey (lIPAddr l) = ?k \<longleftrightarrow> To4 (lIPAddr l) = PutUint32 x"
    if "l \<in> set (dbLeases db)" "lScopeID l = scID sc" for l
    using that assms ipKey_eq_v4 by (auto simp: all_v4_def)
  have r: "ipKey (rIPAddr r) = ?k \<longleftrightarrow> To4 (rIPAddr r) = PutUint32 x"
    if "r \<in> set (dbReservations db)" "rScopeID r = scID sc" for r
    using that assms ipKey_eq_v4 by (auto simp: all_v4_def)
  have i: "ipKey p = ?k \<longleftrightarrow> To4 p = PutUint32 x" if "p \<in> set (scExcludedIPs sc @ scGateway sc @ scDNS sc)" for p
    using that assms ipKey_eq_v4 unfolding all_v4_def by blast
  have leases: "?k \<in> (\<lambda>l. ipKey (lIPAddr l)) ` {l \<in> set (dbLeases db). lScopeID l = scID sc \<and> lease_blocks now l
        \<and> (lState l = LeaseActive \<or> lState l = LeaseOffered \<or> lState l = LeaseDeclined)}
      \<longleftrightarrow> (\<exists>l \<in> set (dbLeases db). lScopeID l = scID sc \<and> To4 (lIPAddr l) = PutUint32 x \<and> lease_blocks now l)"
    using l leaseBlocksReuse_states by (fastforce simp: image_iff)
  have res: "?k \<in> (\<lambda>r. ipKey (rIPAddr r)) ` {r \<in> set (dbReservations db). rScopeID r = scID sc}
      \<longleftrightarrow> (\<exists>r \<in> set (dbReservations db). rScopeID r = scID sc \<and> To4 (rIPAddr r) = PutUint32 x)"
    using r by (fastforce simp: image_iff)
  have infra: "?k \<in> set (infra_keys sc extra) \<longleftrightarrow>
      (\<exists>p \<in> set (scExcludedIPs sc @ scGateway sc @ scDNS sc). To4 p = PutUint32 x)
      \<or> extra \<noteq> [] \<and> To4 extra = PutUint32 x"
  proof -
    have "?k \<in> set (infra_keys sc extra) \<longleftrightarrow>
        (\<exists>p \<in> set (scExcludedIPs sc @ scGateway sc @ scDNS sc). ?k = ipKey p) \<or> extra \<noteq> [] \<and> ?k = ipKey extra"
      by (auto simp: infra_keys_def image_iff)
    moreover have "extra \<noteq> [] \<Longrightarrow> ?k = ipKey extra \<longleftrightarrow> To4 extra = PutUint32 x"
      using assms ipKey_eq_v4 [of extra x] by (auto simp: all_v4_def)
    ultimately show ?thesis using i by (simp only: eq_commute [of "ipKey (PutUint32 x)"]) blast
  qed
  show ?thesis
    unfolding used_v4_def set_append Un_iff set_map set_filter in_use_iff leases res infra free_v4_def by blast
qed

lemma unat_max32: "unat (- 1 :: uint32) = 4294967295"
  by (simp add: unsigned_minus_1_eq_mask mask_eq_exp_minus_1)

lemma Uint32_eq_iff: "length p = 4 \<Longrightarrow> p = PutUint32 x \<longleftrightarrow> Uint32 p = x"
  using PutUint32_Uint32_list [of p] by auto

lemma skip_v4_iff:
  assumes "all_v4 sc extra db" and "To4 (scStartIP sc) \<noteq> []" and "To4 (scEndIP sc) \<noteq> []"
  shows "skip_v4 sc (used_v4 now sc extra db) x \<longleftrightarrow>
    \<not> free_v4 now sc extra db x \<or> x = Uint32 (To4 (scStartIP sc)) \<or> x = Uint32 (To4 (scEndIP sc))"
proof -
  have len: "length (uint32ToIP x) = 4 \<or> length (uint32ToIP x) = 16"
    by (simp add: uint32ToIP_def IPv4_def)
  have "ip_Equal (uint32ToIP x) p \<longleftrightarrow> x = Uint32 (To4 p)" if p: "To4 p \<noteq> []" for p
  proof -
    have "length p = 4 \<or> length p = 16" using p by (auto simp: To4_def split: if_splits)
    then have "ip_Equal (uint32ToIP x) p \<longleftrightarrow> PutUint32 x = To4 p"
      using ip_Equal_iff [OF len] p by (simp add: normalizeIP_def)
    also have "\<dots> \<longleftrightarrow> x = Uint32 (To4 p)"
      using Uint32_eq_iff [of "To4 p" x] To4_length [OF p] by auto
    finally show ?thesis .
  qed
  then show ?thesis
    using assms(2,3) used_v4_iff [OF assms(1), of x now] by (auto simp: skip_v4_def Let_def ipKey_uint32ToIP)
qed

section \<open>Properties\<close>

text \<open>
  C11. The pool is searched completely and in order: unless the pool ends at 255.255.255.255,
  the search returns, and its result is the least free address strictly between the pool's
  first and last address; it fails, with its error, exactly when no such address is free.
\<close>

theorem pool4_least_free:
  assumes "all_v4 sc extra db" and "To4 (scStartIP sc) \<noteq> []" and "To4 (scEndIP sc) \<noteq> []"
    and "Uint32 (To4 (scEndIP sc)) < - 1"
    and "flt ''allocateIPv4Tx.leases'' = None" and "flt ''allocateIPv4Tx.reservations'' = None"
  shows "case allocateIPv4Tx flt now sc extra db of
      Ret p \<Rightarrow> (\<exists>x. p = uint32ToIP x \<and> Uint32 (To4 (scStartIP sc)) < x \<and> x < Uint32 (To4 (scEndIP sc))
        \<and> free_v4 now sc extra db x
        \<and> (\<forall>y. Uint32 (To4 (scStartIP sc)) < y \<and> y < x \<longrightarrow> \<not> free_v4 now sc extra db y))
    | Fail e \<Rightarrow> e = ''no available ip in scope''
        \<and> (\<forall>y. Uint32 (To4 (scStartIP sc)) < y \<and> y < Uint32 (To4 (scEndIP sc)) \<longrightarrow> \<not> free_v4 now sc extra db y)
    | _ \<Rightarrow> False"
proof -
  define s e where "s = Uint32 (To4 (scStartIP sc))" and "e = Uint32 (To4 (scEndIP sc))"
  let ?skip = "skip_v4 sc (used_v4 now sc extra db)"
  have skip: "?skip x \<longleftrightarrow> \<not> free_v4 now sc extra db x \<or> x = s \<or> x = e" for x
    using skip_v4_iff [OF assms(1-3)] by (simp add: s_def e_def)
  have "unat e + 1 < 2 ^ 32"
  proof -
    have "unat e < unat (- 1 :: uint32)" using assms(4) by (simp add: e_def word_less_nat_alt)
    then show ?thesis by (simp add: unat_max32)
  qed
  moreover have "y \<le> e \<longleftrightarrow> unat y < unat e + 1" for y by (simp add: word_le_nat_alt less_Suc_eq_le)
  ultimately obtain r where r: "scan (\<lambda>x. x + 1) (\<lambda>x. x \<le> e) ?skip s = Some r"
    and post: "case r of
       Some y \<Rightarrow> unat s \<le> unat y \<and> unat y < unat e + 1 \<and> \<not> ?skip y \<and> (\<forall>z. unat s \<le> unat z \<and> unat z < unat y \<longrightarrow> ?skip z)
     | None \<Rightarrow> (\<forall>z. unat s \<le> unat z \<and> unat z < unat e + 1 \<longrightarrow> ?skip z)"
    using v4_pool.scan_bounded [of "unat e + 1" "\<lambda>x. x \<le> e" ?skip s] by blast
  have run: "allocateIPv4Tx flt now sc extra db
      = (case r of None \<Rightarrow> Fail ''no available ip in scope'' | Some x \<Rightarrow> Ret (uint32ToIP x))"
    using assms r by (simp add: allocateIPv4Tx_def ipToUint32_To4 s_def e_def split: option.splits)
  show ?thesis
  proof (cases r)
    case None
    with post skip have "\<forall>y. s < y \<and> y < e \<longrightarrow> \<not> free_v4 now sc extra db y"
      by (fastforce simp: word_less_nat_alt)
    with None run show ?thesis by (simp add: s_def e_def)
  next
    case (Some x)
    with post have p: "s \<le> x" "x \<le> e" "\<not> ?skip x" "\<forall>z. s \<le> z \<and> z < x \<longrightarrow> ?skip z"
      by (simp_all add: word_less_nat_alt word_le_nat_alt less_Suc_eq_le)
    then have "s < x" "x < e" "free_v4 now sc extra db x" using skip by auto
    moreover have "\<forall>y. s < y \<and> y < x \<longrightarrow> \<not> free_v4 now sc extra db y"
      using p skip \<open>x < e\<close> by fastforce
    ultimately show ?thesis using Some run by (auto simp: s_def e_def)
  qed
qed

lemma demo_all_v4: "all_v4 demo_scope [] demo_db"
  by (simp add: all_v4_def demo_scope_def demo_db_def demo_lease_def demo_reservation_def)

lemma demo_pool: "allocateIPv4Tx no_faults Second demo_scope [] demo_db = Ret (IPv4 192 168 1 15)"
  by code_simp

theorem pool4_least_free_witness:
  "\<exists>x. IPv4 192 168 1 15 = uint32ToIP x \<and> free_v4 Second demo_scope [] demo_db x
     \<and> Uint32 [192, 168, 1, 10] < x \<and> x < Uint32 [192, 168, 1, 20]
     \<and> (\<forall>y. Uint32 [192, 168, 1, 10] < y \<and> y < x \<longrightarrow> \<not> free_v4 Second demo_scope [] demo_db y)"
proof -
  have "Uint32 (To4 (scEndIP demo_scope)) < - 1" by code_simp
  with pool4_least_free [OF demo_all_v4, of no_faults Second] show ?thesis
    by (auto simp: demo_scope_def demo_pool [unfolded demo_scope_def])
qed

text \<open>
  C35. The counter wraps: when a pool ends at 255.255.255.255 and every address from its start
  on is taken, the loop condition never fails; the search goes on from 0.0.0.0 and hands out
  that address, which lies below the pool's start, instead of reporting exhaustion.
\<close>

theorem pool4_wraps:
  assumes "all_v4 sc extra db" and "To4 (scStartIP sc) \<noteq> []" and "scEndIP sc = [255, 255, 255, 255]"
    and "0 < Uint32 (To4 (scStartIP sc))"
    and "\<forall>x. Uint32 (To4 (scStartIP sc)) < x \<and> x < - 1 \<longrightarrow> \<not> free_v4 now sc extra db x"
    and "free_v4 now sc extra db 0"
    and "flt ''allocateIPv4Tx.leases'' = None" and "flt ''allocateIPv4Tx.reservations'' = None"
  shows "allocateIPv4Tx flt now sc extra db = Ret (IPv4 0 0 0 0)"
proof -
  define s where "s = Uint32 (To4 (scStartIP sc))"
  let ?skip = "skip_v4 sc (used_v4 now sc extra db)"
  have e: "To4 (scEndIP sc) \<noteq> []" "Uint32 (To4 (scEndIP sc)) = - 1"
    by (simp_all add: assms(3) Uint32_def)
  have skip: "?skip x \<longleftrightarrow> \<not> free_v4 now sc extra db x \<or> x = s \<or> x = - 1" for x
    using skip_v4_iff [OF assms(1,2) e(1)] e(2) by (simp add: s_def)
  have "?skip z" if "unat s \<le> unat z" for z
  proof (cases "z = s \<or> z = - 1")
    case True
    then show ?thesis using skip by auto
  next
    case False
    with that have "s < z" by (metis word_le_nat_alt order_le_less)
    moreover have "z < - 1" using False by (metis word_order.not_eq_extremum)
    ultimately show ?thesis using assms(5) skip by (simp add: s_def)
  qed
  moreover have "\<not> ?skip 0" using skip assms(4,6) by (auto simp: s_def)
  ultimately have "scan (\<lambda>x. x + 1) (\<lambda>x. x \<le> - 1) ?skip s = Some (Some 0)"
    by (intro v4_pool.scan_wraps) (simp_all add: word_order.extremum)
  with assms(2,7,8) e show ?thesis
    by (simp add: allocateIPv4Tx_def ipToUint32_To4 s_def uint32ToIP_def)
qed

definition edge_scope :: scope where
  "edge_scope = demo_scope\<lparr>scStartIP := [255, 255, 255, 254], scEndIP := [255, 255, 255, 255]\<rparr>"

theorem pool4_wraps_witness: "allocateIPv4Tx no_faults 0 edge_scope [] demo_db = Ret (IPv4 0 0 0 0)"
proof (rule pool4_wraps)
  show "\<forall>x. Uint32 (To4 (scStartIP edge_scope)) < x \<and> x < - 1 \<longrightarrow> \<not> free_v4 0 edge_scope [] demo_db x"
  proof (intro allI impI)
    fix x :: uint32
    assume "Uint32 (To4 (scStartIP edge_scope)) < x \<and> x < - 1"
    moreover have "Uint32 (To4 (scStartIP edge_scope)) = 0xFFFFFFFE" by code_simp
    ultimately have "4294967294 < unat x" "unat x < 4294967295"
      by (simp_all add: word_less_nat_alt unat_max32)
    then show "\<not> free_v4 0 edge_scope [] demo_db x" by simp
  qed
  show "0 < Uint32 (To4 (scStartIP edge_scope))" by code_simp
  show "free_v4 0 edge_scope [] demo_db 0"
    by (simp add: free_v4_def edge_scope_def demo_scope_def demo_db_def demo_lease_def demo_reservation_def PutUint32_def)
qed (simp_all add: all_v4_def edge_scope_def demo_scope_def demo_db_def demo_lease_def demo_reservation_def)

end
