(* ===== verification/Net_ParseIP.thy ===== *)
theory Net_ParseIP
  imports Net_IP
begin

text \<open>
  \<open>net.ParseIP\<close> (that is \<open>netip.ParseAddr\<close> without zones), which the program uses on every address
  that comes from JSON. The result is the 16-byte form, or nil (the empty list). The lemmas
  show that it reads back what \<open>IP.String\<close> prints for an IPv4 address.
\<close>

section \<open>Dotted decimal\<close>

definition is_digit :: "char \<Rightarrow> bool" where
  "is_digit c \<longleftrightarrow> 48 \<le> (of_char c :: nat) \<and> (of_char c :: nat) \<le> 57"

text \<open>
  \<open>parseIPv4Fields\<close>: \<open>val\<close> and \<open>digLen\<close> belong to the field being read, \<open>pos\<close> counts the finished
  fields, which are in \<open>acc\<close>. A field has no leading zero and is at most 255.
\<close>

fun v4_fields :: "nat \<Rightarrow> nat \<Rightarrow> bytes \<Rightarrow> string \<Rightarrow> bytes option" where
  "v4_fields val digLen acc [] =
     (if digLen = 0 \<or> length acc \<noteq> 3 then None else Some (acc @ [of_nat val]))"
| "v4_fields val digLen acc (c # cs) =
     (if is_digit c then
        (if digLen = 1 \<and> val = 0 then None
         else let v = val * 10 + (of_char c - 48) in
           if 255 < v then None else v4_fields v (digLen + 1) acc cs)
      else if c = CHR ''.'' then
        (if digLen = 0 \<or> length acc = 3 then None else v4_fields 0 0 (acc @ [of_nat val]) cs)
      else None)"

definition parseIPv4 :: "string \<Rightarrow> bytes option" where
  "parseIPv4 s = v4_fields 0 0 [] s"

section \<open>Colon-separated hexadecimal\<close>

definition hex_val :: "char \<Rightarrow> nat option" where
  "hex_val c = (let n = of_char c :: nat in
     if 48 \<le> n \<and> n \<le> 57 then Some (n - 48)
     else if 97 \<le> n \<and> n \<le> 102 then Some (n - 87)
     else if 65 \<le> n \<and> n \<le> 70 then Some (n - 55)
     else None)"

text \<open>A group: its value, the number of digits and the rest; None for more than four digits.\<close>

fun hex_group :: "nat \<Rightarrow> nat \<Rightarrow> string \<Rightarrow> (nat \<times> nat \<times> string) option" where
  "hex_group acc off [] = Some (acc, off, [])"
| "hex_group acc off (c # cs) =
     (case hex_val c of
        None \<Rightarrow> Some (acc, off, c # cs)
      | Some d \<Rightarrow> if 3 < off then None else hex_group (acc * 16 + d) (off + 1) cs)"

text \<open>
  The loop of \<open>parseIPv6\<close>: the bytes so far, the position of the ellipsis, and the rest; each
  round adds two bytes or ends, so eight rounds are enough.
\<close>

fun v6_loop :: "nat \<Rightarrow> bytes \<Rightarrow> nat option \<Rightarrow> string \<Rightarrow> (bytes \<times> nat option \<times> string) option" where
  "v6_loop 0 out ell s = Some (out, ell, s)"
| "v6_loop (Suc k) out ell s =
     (case hex_group 0 0 s of
        None \<Rightarrow> None
      | Some (acc, off, rest) \<Rightarrow>
          if off = 0 then None
          else if rest \<noteq> [] \<and> hd rest = CHR ''.'' then
            (if ell = None \<and> length out \<noteq> 12 then None
             else if 16 < length out + 4 then None
             else (case parseIPv4 s of None \<Rightarrow> None | Some v4 \<Rightarrow> Some (out @ v4, ell, [])))
          else
            let out' = out @ [of_nat (acc div 256), of_nat acc] in
            if rest = [] then Some (out', ell, [])
            else if hd rest \<noteq> CHR '':'' then None
            else if tl rest = [] then None
            else if hd (tl rest) = CHR '':'' then
              (if ell \<noteq> None then None
               else if tl (tl rest) = [] then Some (out', Some (length out'), [])
               else v6_loop k out' (Some (length out')) (tl (tl rest)))
            else v6_loop k out' ell (tl rest))"

definition parseIPv6 :: "string \<Rightarrow> bytes option" where
  "parseIPv6 s =
     (let dcolon = (2 \<le> length s \<and> s ! 0 = CHR '':'' \<and> s ! 1 = CHR '':'');
          s' = (if dcolon then drop 2 s else s);
          ell = (if dcolon then Some 0 else None)
      in if dcolon \<and> s' = [] then Some (replicate 16 0)
         else (case v6_loop 8 [] ell s' of
             None \<Rightarrow> None
           | Some (out, ell, rest) \<Rightarrow>
               if rest \<noteq> [] then None
               else if length out < 16 then
                 (case ell of None \<Rightarrow> None
                  | Some e \<Rightarrow> Some (take e out @ replicate (16 - length out) 0 @ drop e out))
               else if ell \<noteq> None then None
               else Some out))"

text \<open>\<open>ParseAddr\<close> looks for the first separator; a zone makes \<open>ParseIP\<close> return nil.\<close>

definition ParseIP :: "string \<Rightarrow> ip" where
  "ParseIP s =
     (case List.find (\<lambda>c. c = CHR ''.'' \<or> c = CHR '':'' \<or> c = CHR ''%'') s of
        Some c \<Rightarrow>
          if c = CHR ''.'' then (case parseIPv4 s of None \<Rightarrow> [] | Some p \<Rightarrow> v4InV6Prefix @ p)
          else if c = CHR '':'' then
            (if CHR ''%'' \<in> set s then [] else (case parseIPv6 s of None \<Rightarrow> [] | Some p \<Rightarrow> p))
          else []
      | None \<Rightarrow> [])"

section \<open>Reading back a printed IPv4 address\<close>

lemma is_digit_dot [simp]: "\<not> is_digit (CHR ''.'')"
  by (simp add: is_digit_def)

lemma v4_fields_octet:
  assumes "n < 256"
  shows "v4_fields 0 0 acc (dec_string n @ rest) = v4_fields n (length (dec_string n)) acc rest"
proof (cases "n < 10")
  case True
  then show ?thesis by (simp add: dec_string.simps [of n] is_digit_def)
next
  case False
  show ?thesis
  proof (cases "n < 100")
    case True
    with False have "dec_string n = [char_of (48 + n div 10), char_of (48 + n mod 10)]" "0 < n div 10" "n div 10 < 10"
      by (auto simp: dec_string.simps [of n] dec_string.simps [of "n div 10"])
    moreover have "n mod 10 \<le> 9" by presburger
    ultimately show ?thesis using assms by (simp add: is_digit_def Let_def)
  next
    case f: False
    have a: "0 < n div 100" "n div 100 < 3" using assms f by auto
    have "n div 10 div 10 = n div 100" by simp
    moreover have "\<not> n div 10 < 10" "n div 100 < 10" using f a by auto
    ultimately have d: "dec_string n = [char_of (48 + n div 100), char_of (48 + n div 10 mod 10), char_of (48 + n mod 10)]"
      using f False by (simp add: dec_string.simps [of n] dec_string.simps [of "n div 10"] dec_string.simps [of "n div 100"])
    have digit: "k mod 10 \<le> 9" for k :: nat by presburger
    define h t u where "h = n div 100" and "t = n div 10 mod 10" and "u = n mod 10"
    have s: "h * 10 + t = n div 10" "n div 10 * 10 + u = n"
      unfolding h_def t_def u_def using \<open>n div 10 div 10 = n div 100\<close> by (metis div_mult_mod_eq)+
    have m: "0 < h" "h \<le> 9" "t \<le> 9" "u \<le> 9" "n div 10 \<le> 255" "h \<le> 255"
      using a assms digit by (simp_all add: h_def t_def u_def)
    show ?thesis unfolding d h_def [symmetric] t_def [symmetric] u_def [symmetric]
      using m s assms by (simp add: is_digit_def Let_def)
  qed
qed

lemma dec_string_not_Nil [simp]: "dec_string n \<noteq> []"
  by (subst dec_string.simps) simp

lemma v4_fields_dot:
  "k \<noteq> 0 \<Longrightarrow> length acc < 3 \<Longrightarrow> v4_fields n k acc (CHR ''.'' # rest) = v4_fields 0 0 (acc @ [of_nat n]) rest"
  by (simp add: is_digit_def)

lemma parseIPv4_string:
  assumes "length p = 4"
  shows "parseIPv4 (v4_string p) = Some p"
proof -
  obtain a b c d where p: "p = [a, b, c, d]" using list_of_length4 [OF assms] by blast
  have bound: "unat x < 256" for x :: byte using unsigned_less [of x, where 'a = nat] by simp
  show ?thesis
    using v4_fields_octet [OF bound [of d], of "[a, b, c]" "[]"]
    by (simp add: parseIPv4_def p v4_string_def v4_fields_octet [OF bound] v4_fields_dot)
qed

lemma find_dot_v4_string:
  assumes "length p = 4"
  shows "List.find (\<lambda>c. c = CHR ''.'' \<or> c = CHR '':'' \<or> c = CHR ''%'') (v4_string p) = Some (CHR ''.'')"
proof -
  obtain a b c d where p: "p = [a, b, c, d]" using list_of_length4 [OF assms] by blast
  have find_append: "\<forall>x \<in> set xs. \<not> P x \<Longrightarrow> P y \<Longrightarrow> List.find P (xs @ y # ys) = Some y" for P xs and y :: char and ys
    by (induction xs) auto
  have "c \<noteq> CHR ''.'' \<and> c \<noteq> CHR '':'' \<and> c \<noteq> CHR ''%''" if "c \<in> set (dec_string n)" for c n
    using dec_string_digits [OF that] by auto
  then show ?thesis unfolding p v4_string_def by (simp add: find_append)
qed

theorem ParseIP_v4_string: "length p = 4 \<Longrightarrow> ParseIP (v4_string p) = v4InV6Prefix @ p"
  by (simp add: ParseIP_def find_dot_v4_string parseIPv4_string)

lemma To4_ParseIP_v4_string [simp]: "length p = 4 \<Longrightarrow> To4 (ParseIP (v4_string p)) = p"
  by (simp add: ParseIP_v4_string To4_def)

lemma ip_String_4: "length p = 4 \<Longrightarrow> ip_String p = v4_string p"
  by (auto simp: ip_String_def)

end
