(* ===== verification/Dhcp4_Options.thy ===== *)
theory Dhcp4_Options
  imports Dhcp4_Packet Models Net_ParseIP
begin

text \<open>
  Typed option values, \<open>internal/dhcp/options.go\<close> and the types of \<open>option_registry.go\<close>: \<open>BuildOption\<close>
  (a value of the configuration to wire bytes), \<open>ParseOptionValue\<close> (wire bytes to a value) and
  their helpers. A nil byte slice is None.
  What Go leaves to the implementation is a parameter, \<open>go_float\<close>: the text of a \<open>float64\<close> under
  \<open>%v\<close>, and the conversion of a \<open>float64\<close> that does not fit the integer type.
  The lemmas: \<open>BuildOption\<close> inverts \<open>ParseOptionValue\<close> on well-formed option data, classless routes
  included, and \<open>BuildOption\<close> panics exactly on a route whose mask needs more than four bytes.
\<close>

section \<open>Floating point\<close>

record go_float =
  gfFormat :: "rat \<Rightarrow> string"
  gfToUint :: "rat \<Rightarrow> uint64"
  gfToInt :: "rat \<Rightarrow> 64 word"

definition trunc :: "rat \<Rightarrow> int" where
  "trunc r = (if 0 \<le> r then \<lfloor>r\<rfloor> else \<lceil>r\<rceil>)"

definition float_uint64 :: "go_float \<Rightarrow> rat \<Rightarrow> uint64" where
  "float_uint64 g r = (if 0 \<le> trunc r \<and> trunc r < 2 ^ 64 then word_of_int (trunc r) else gfToUint g r)"

definition float_int64 :: "go_float \<Rightarrow> rat \<Rightarrow> 64 word" where
  "float_int64 g r = (if - (2 ^ 63) \<le> trunc r \<and> trunc r < 2 ^ 63 then word_of_int (trunc r) else gfToInt g r)"

section \<open>strconv and strings\<close>

definition int_string :: "int \<Rightarrow> string" where
  "int_string i = (if i < 0 then CHR ''-'' # dec_string (nat (- i)) else dec_string (nat i))"

definition all_digits :: "string \<Rightarrow> bool" where
  "all_digits s \<longleftrightarrow> s \<noteq> [] \<and> list_all is_digit s"

definition syntax_error :: "string \<Rightarrow> string \<Rightarrow> string" where
  "syntax_error f s = ''strconv.'' @ f @ '': parsing '' @ s @ '': invalid syntax''"

definition range_error :: "string \<Rightarrow> string \<Rightarrow> string" where
  "range_error f s = ''strconv.'' @ f @ '': parsing '' @ s @ '': value out of range''"

definition ParseUint10 :: "string \<Rightarrow> uint64 run" where
  "ParseUint10 s = (if \<not> all_digits s then Fail (syntax_error ''ParseUint'' s)
     else if 2 ^ 64 \<le> dec_value s then Fail (range_error ''ParseUint'' s)
     else Ret (of_nat (dec_value s)))"

definition ParseInt10 :: "string \<Rightarrow> 64 word run" where
  "ParseInt10 s =
     (let neg = (s \<noteq> [] \<and> hd s = CHR ''-'');
          d = (if s \<noteq> [] \<and> (hd s = CHR ''-'' \<or> hd s = CHR ''+'') then tl s else s)
      in if \<not> all_digits d then Fail (syntax_error ''ParseInt'' s)
         else if (if neg then 2 ^ 63 < dec_value d else 2 ^ 63 \<le> dec_value d) then Fail (range_error ''ParseInt'' s)
         else Ret (if neg then - of_nat (dec_value d) else of_nat (dec_value d)))"

definition ParseBool :: "string \<Rightarrow> bool run" where
  "ParseBool s =
     (if s \<in> {''1'', ''t'', ''T'', ''true'', ''TRUE'', ''True''} then Ret True
      else if s \<in> {''0'', ''f'', ''F'', ''false'', ''FALSE'', ''False''} then Ret False
      else Fail (syntax_error ''ParseBool'' s))"

text \<open>
  \<open>strings.TrimSpace\<close> on valid UTF-8: the encodings of the characters \<open>unicode.IsSpace\<close> accepts are
  dropped from both ends.
\<close>

definition space_seqs :: "nat list list" where
  "space_seqs = [[9], [10], [11], [12], [13], [32], [194, 133], [194, 160], [225, 154, 128],
     [226, 128, 128], [226, 128, 129], [226, 128, 130], [226, 128, 131], [226, 128, 132], [226, 128, 133],
     [226, 128, 134], [226, 128, 135], [226, 128, 136], [226, 128, 137], [226, 128, 138],
     [226, 128, 168], [226, 128, 169], [226, 128, 175], [226, 129, 159], [227, 128, 128]]"

definition starts_with :: "string \<Rightarrow> nat list \<Rightarrow> bool" where
  "starts_with s p \<longleftrightarrow> map of_char (take (length p) s) = p"

function trim_left :: "nat list list \<Rightarrow> string \<Rightarrow> string" where
  "trim_left seqs s = (case List.find (\<lambda>p. p \<noteq> [] \<and> starts_with s p) seqs of
     None \<Rightarrow> s | Some p \<Rightarrow> trim_left seqs (drop (length p) s))"
  by pat_completeness auto
termination
proof (relation "measure (\<lambda>(seqs, s). length s)")
  fix seqs s p
  assume "List.find (\<lambda>p. p \<noteq> [] \<and> starts_with s p) seqs = Some p"
  then have p: "p \<noteq> []" "map of_char (take (length p) s) = p"
    using find_SomeD by (fastforce simp: starts_with_def)+
  then have "length (take (length p) s) = length p" by (metis length_map)
  with p show "((seqs, drop (length p) s), seqs, s) \<in> measure (\<lambda>(seqs, s). length s)"
    by (cases s) auto
qed auto

declare trim_left.simps [simp del]

definition TrimSpace :: "string \<Rightarrow> string" where
  "TrimSpace s = rev (trim_left (map rev space_seqs) (rev (trim_left space_seqs s)))"

fun split_at :: "char \<Rightarrow> string \<Rightarrow> string list" where
  "split_at sep [] = [[]]"
| "split_at sep (c # cs) = (if c = sep then [] # split_at sep cs
     else (case split_at sep cs of [] \<Rightarrow> [[c]] | w # ws \<Rightarrow> (c # w) # ws))"

section \<open>Conversions of interface values\<close>

text \<open>\<open>fmt.Sprintf("%v", v)\<close>.\<close>

fun join_space :: "string list \<Rightarrow> string" where
  "join_space [] = []"
| "join_space [s] = s"
| "join_space (s # ss) = s @ '' '' @ join_space ss"

fun fmt_v :: "go_float \<Rightarrow> gvalue \<Rightarrow> string" where
  "fmt_v g GNil = ''<nil>''"
| "fmt_v g (GBool b) = (if b then ''true'' else ''false'')"
| "fmt_v g (GFloat r) = gfFormat g r"
| "fmt_v g (GStr s) = s"
| "fmt_v g (GList vs) = ''['' @ join_space (map (fmt_v g) vs) @ '']''"
| "fmt_v g (GMap kvs) = ''map['' @ join_space (map (\<lambda>kt. fst kt @ '':'' @ snd kt)
     (sort_key fst (map (\<lambda>kv. (fst kv, fmt_v g (snd kv))) kvs))) @ '']''"
| "fmt_v g (GStrs ss) = ''['' @ join_space ss @ '']''"
| "fmt_v g (GU8 w) = dec_string (unat w)"
| "fmt_v g (GU16 w) = dec_string (unat w)"
| "fmt_v g (GU32 w) = dec_string (unat w)"
| "fmt_v g (GI32 w) = int_string (sint w)"

fun type_name :: "gvalue \<Rightarrow> string" where
  "type_name GNil = ''<nil>''"
| "type_name (GBool _) = ''bool''"
| "type_name (GFloat _) = ''float64''"
| "type_name (GStr _) = ''string''"
| "type_name (GList _) = ''[]interface {}''"
| "type_name (GMap _) = ''map[string]interface {}''"
| "type_name (GStrs _) = ''[]string''"
| "type_name (GU8 _) = ''uint8''"
| "type_name (GU16 _) = ''uint16''"
| "type_name (GU32 _) = ''uint32''"
| "type_name (GI32 _) = ''int32''"

definition toString :: "go_float \<Rightarrow> gvalue \<Rightarrow> string" where
  "toString g v = (case v of GStr s \<Rightarrow> s | _ \<Rightarrow> fmt_v g v)"

definition toUint64 :: "go_float \<Rightarrow> gvalue \<Rightarrow> uint64 run" where
  "toUint64 g v = (case v of
     GU32 w \<Rightarrow> Ret (ucast w) | GU16 w \<Rightarrow> Ret (ucast w) | GU8 w \<Rightarrow> Ret (ucast w)
   | GFloat r \<Rightarrow> Ret (float_uint64 g r) | GStr s \<Rightarrow> ParseUint10 s
   | _ \<Rightarrow> Fail (''cannot convert '' @ type_name v @ '' to uint64''))"

definition toInt64 :: "go_float \<Rightarrow> gvalue \<Rightarrow> 64 word run" where
  "toInt64 g v = (case v of
     GI32 w \<Rightarrow> Ret (scast w) | GU32 w \<Rightarrow> Ret (ucast w) | GU16 w \<Rightarrow> Ret (ucast w) | GU8 w \<Rightarrow> Ret (ucast w)
   | GFloat r \<Rightarrow> Ret (float_int64 g r) | GStr s \<Rightarrow> ParseInt10 s
   | _ \<Rightarrow> Fail (''cannot convert '' @ type_name v @ '' to int64''))"

definition toBool :: "gvalue \<Rightarrow> bool run" where
  "toBool v = (case v of
     GBool b \<Rightarrow> Ret b | GStr s \<Rightarrow> ParseBool s | GFloat r \<Rightarrow> Ret (r \<noteq> 0)
   | _ \<Rightarrow> Fail (''cannot convert '' @ type_name v @ '' to bool''))"

definition parseIP :: "go_float \<Rightarrow> gvalue \<Rightarrow> ip run" where
  "parseIP g v = (let s = toString g v; p = ParseIP s
     in if p = [] then Fail (''invalid IP: '' @ s) else Ret p)"

definition parse_ip_text :: "string \<Rightarrow> ip run" where
  "parse_ip_text s = (let p = ParseIP s in if p = [] then Fail (''invalid IP: '' @ s) else Ret p)"

definition parseIPList :: "go_float \<Rightarrow> gvalue \<Rightarrow> ip list run" where
  "parseIPList g v = (case v of
     GStrs ss \<Rightarrow> map_run parse_ip_text ss
   | GList vs \<Rightarrow> map_run (\<lambda>item. parse_ip_text (toString g item)) vs
   | GStr s \<Rightarrow> map_run parse_ip_text (filter (\<lambda>p. p \<noteq> []) (map TrimSpace (split_at (CHR '','') s)))
   | _ \<Rightarrow> Fail ''invalid IP list type'')"

text \<open>\<open>hexDecodeString\<close>: \<open>ParseUint\<close> in base 16 with 8 bits accepts exactly two hexadecimal digits here.\<close>

fun hex_pairs :: "string \<Rightarrow> bytes run" where
  "hex_pairs (a # b # s) =
     (case (hex_val a, hex_val b) of
        (Some x, Some y) \<Rightarrow> bind_run (hex_pairs s) (\<lambda>r. Ret (of_nat (x * 16 + y) # r))
      | _ \<Rightarrow> Fail (syntax_error ''ParseUint'' [a, b]))"
| "hex_pairs _ = Ret []"

definition hexDecodeString :: "string \<Rightarrow> bytes run" where
  "hexDecodeString s = (if odd (length s) then Fail ''invalid hex string length'' else hex_pairs s)"

definition parseHex :: "go_float \<Rightarrow> gvalue \<Rightarrow> bytes run" where
  "parseHex g v = hexDecodeString (filter (\<lambda>c. c \<noteq> CHR '':'') (filter (\<lambda>c. c \<noteq> CHR '' '') (toString g v)))"

section \<open>Classless routes\<close>

text \<open>
  Decoding a JSON object into a struct: keys match without regard to ASCII case and are
  processed in the order \<open>json.Marshal\<close> wrote them, sorted.
\<close>

definition fold_name :: "string \<Rightarrow> string" where
  "fold_name s = map (\<lambda>c. let n = of_char c :: nat in if 65 \<le> n \<and> n \<le> 90 then char_of (n + 32) else c) s"

definition fields_of :: "string \<Rightarrow> (string \<times> gvalue) list \<Rightarrow> gvalue list" where
  "fields_of name kvs = map snd (filter (\<lambda>kv. fold_name (fst kv) = name) (sort_key fst kvs))"

text \<open>A string field and an int field; null leaves the field alone, another type is an error.\<close>

fun string_field :: "string \<Rightarrow> gvalue list \<Rightarrow> string run" where
  "string_field acc [] = Ret acc"
| "string_field acc (GStr s # vs) = string_field s vs"
| "string_field acc (GNil # vs) = string_field acc vs"
| "string_field acc (_ # vs) = Fail ''json: cannot unmarshal into Go struct field of type string''"

fun int_field :: "int \<Rightarrow> gvalue list \<Rightarrow> int run" where
  "int_field acc [] = Ret acc"
| "int_field acc (GFloat r # vs) =
     (if of_int \<lfloor>r\<rfloor> = r \<and> - (2 ^ 63) \<le> r \<and> r < 2 ^ 63 \<and> \<bar>r\<bar> < 10 ^ 21 then int_field \<lfloor>r\<rfloor> vs
      else Fail ''json: cannot unmarshal number into Go struct field of type int'')"
| "int_field acc (GU8 w # vs) = int_field (uint w) vs"
| "int_field acc (GNil # vs) = int_field acc vs"
| "int_field acc (_ # vs) = Fail ''json: cannot unmarshal into Go struct field of type int''"

record route =
  rtDestination :: string
  rtMask :: int
  rtRouter :: string

definition decode_route :: "gvalue \<Rightarrow> route run" where
  "decode_route v = (case v of
     GMap kvs \<Rightarrow> bind_run (string_field '''' (fields_of ''destination'' kvs)) (\<lambda>d.
        bind_run (int_field 0 (fields_of ''mask'' kvs)) (\<lambda>m.
        bind_run (string_field '''' (fields_of ''router'' kvs)) (\<lambda>r.
          Ret \<lparr>rtDestination = d, rtMask = m, rtRouter = r\<rparr>)))
   | GNil \<Rightarrow> Ret \<lparr>rtDestination = '''', rtMask = 0, rtRouter = ''''\<rparr>
   | _ \<Rightarrow> Fail ''json: cannot unmarshal into Go value'')"

definition decode_routes :: "gvalue \<Rightarrow> route list run" where
  "decode_routes v = (case v of
     GList vs \<Rightarrow> map_run decode_route vs
   | GNil \<Rightarrow> Ret []
   | GStrs [] \<Rightarrow> Ret []
   | _ \<Rightarrow> Fail ''json: cannot unmarshal into Go value of type []struct'')"

text \<open>Go's \<open>/\<close> truncates towards zero; slicing \<open>dest[:n]\<close> outside 0..4 panics.\<close>

definition go_div8 :: "int \<Rightarrow> int" where
  "go_div8 i = (if 0 \<le> i then i div 8 else - ((- i) div 8))"

definition build_route :: "route \<Rightarrow> bytes run" where
  "build_route r =
     (let dest = To4 (ParseIP (rtDestination r)); router = To4 (ParseIP (rtRouter r));
          maskBytes = go_div8 (rtMask r + 7)
      in if dest = [] \<or> router = [] then Fail ''invalid route''
         else if maskBytes < 0 \<or> 4 < maskBytes then Panic
         else Ret ([word_of_int (rtMask r)] @ take (nat maskBytes) dest @ router))"

definition buildClasslessRoutes :: "gvalue \<Rightarrow> bytes option run" where
  "buildClasslessRoutes v = bind_run (decode_routes v) (\<lambda>rs. bind_run (map_run build_route rs) (\<lambda>bs.
     Ret (if bs = [] then None else Some (concat bs))))"

text \<open>The loop of \<open>parseClasslessRoutes\<close>; \<open>(mask + 7) / 8\<close> is computed in a byte.\<close>

definition route_value :: "bytes \<Rightarrow> byte \<Rightarrow> bytes \<Rightarrow> gvalue" where
  "route_value dest msk router = GMap [(''destination'', GStr (ip_String dest)), (''mask'', GU8 msk),
     (''router'', GStr (ip_String router))]"

function parse_routes :: "bytes \<Rightarrow> gvalue list" where
  "parse_routes data = (case data of [] \<Rightarrow> []
     | msk # rest \<Rightarrow>
         let maskBytes = unat ((msk + 7) div 8) in
         if length rest < maskBytes + 4 then []
         else let dest = take 4 (take maskBytes rest @ replicate 4 0);
                  router = take 4 (drop maskBytes rest)
              in route_value dest msk router # parse_routes (drop (maskBytes + 4) rest))"
  by pat_completeness auto
termination by (relation "measure length") auto

declare parse_routes.simps [simp del]

definition parseClasslessRoutes :: "bytes \<Rightarrow> gvalue" where
  "parseClasslessRoutes data = GList (parse_routes data)"

section \<open>BuildOption and ParseOptionValue\<close>

definition BuildOption :: "go_float \<Rightarrow> byte \<Rightarrow> option_value \<Rightarrow> bytes option run" where
  "BuildOption g code v =
     (let t = ovType v; x = ovValue v in
      if t = ''ip'' then bind_run (parseIP g x) (\<lambda>p. Ret (IPToBytes p))
      else if t = ''ips'' then bind_run (parseIPList g x) (\<lambda>ps. Ret (IPsToBytes ps))
      else if t = ''string'' then Ret (Some (bytes_of_string (toString g x)))
      else if t = ''uint8'' then bind_run (toUint64 g x) (\<lambda>n. Ret (Some [ucast n]))
      else if t = ''uint16'' then bind_run (toUint64 g x) (\<lambda>n. Ret (Some (PutUint16 (ucast n))))
      else if t = ''uint32'' then bind_run (toUint64 g x) (\<lambda>n. Ret (Some (Uint32ToBytes (ucast n))))
      else if t = ''int32'' then bind_run (toInt64 g x) (\<lambda>n. Ret (Some (PutUint32 (ucast n))))
      else if t = ''hex'' then bind_run (parseHex g x) (\<lambda>b. Ret (Some b))
      else if t = ''bool'' then bind_run (toBool x) (\<lambda>b. Ret (Some (if b then [1] else [0])))
      else if t = ''routes'' then buildClasslessRoutes x
      else Fail (''unsupported option type '' @ t))"

text \<open>The types of \<open>OptionRegistry\<close>, by type.\<close>

definition OptionRegistry :: "(string \<times> byte list) list" where
  "OptionRegistry = [
      (''none'', [0, 255]),
      (''ip'', [1, 16, 28, 32, 50, 54, 108, 150, 159]),
      (''int32'', [2]),
      (''ips'', [3, 4, 5, 6, 7, 8, 9, 10, 11, 41, 42, 44, 45, 48, 49, 65, 68, 69, 70, 71, 72, 73,
        74, 75, 76, 85, 138, 143]),
      (''string'', [12, 14, 15, 17, 18, 40, 56, 60, 62, 64, 66, 67, 77, 83, 86, 100, 101, 114, 117,
        141, 147, 161, 209, 210, 213]),
      (''uint16'', [13, 22, 26, 57]),
      (''uint8'', [19, 20, 23, 27, 29, 30, 31, 34, 36, 37, 39, 46, 52, 53, 116, 145, 156, 157]),
      (''hex'', [21, 25, 43, 47, 55, 61, 63, 78, 79, 80, 81, 82, 84, 87, 88, 89, 90, 91, 92, 93,
        94, 95, 96, 97, 98, 99, 109, 110, 111, 112, 113, 115, 118, 119, 120, 122, 123,
        124, 125, 126, 127, 128, 129, 130, 131, 132, 133, 134, 135, 136, 137, 139, 140,
        142, 144, 146, 148, 149, 151, 158, 160, 162, 175, 176, 177, 208, 212, 220, 221]),
      (''uint32'', [24, 35, 38, 51, 58, 59, 152, 153, 154, 155, 211]),
      (''routes'', [33, 121])]"

definition registry_type :: "byte \<Rightarrow> string option" where
  "registry_type code = map_option fst (List.find (\<lambda>tc. code \<in> set (snd tc)) OptionRegistry)"

fun ip_chunks :: "bytes \<Rightarrow> string list" where
  "ip_chunks (a # b # c # d # r) = ip_String [a, b, c, d] # ip_chunks r"
| "ip_chunks _ = []"

definition ParseOptionValue :: "byte \<Rightarrow> bytes \<Rightarrow> option_value" where
  "ParseOptionValue code data =
     (let hex = \<lparr>ovType = ''hex'', ovValue = GStr (hex_bytes data)\<rparr> in
      case registry_type code of None \<Rightarrow> hex
      | Some t \<Rightarrow>
         if t = ''ip'' \<and> 4 \<le> length data then \<lparr>ovType = ''ip'', ovValue = GStr (ip_String (take 4 data))\<rparr>
         else if t = ''ips'' then \<lparr>ovType = ''ips'', ovValue = GStrs (ip_chunks data)\<rparr>
         else if t = ''uint32'' \<and> 4 \<le> length data then \<lparr>ovType = ''uint32'', ovValue = GU32 (Uint32 (take 4 data))\<rparr>
         else if t = ''int32'' \<and> 4 \<le> length data then \<lparr>ovType = ''int32'', ovValue = GI32 (Uint32 (take 4 data))\<rparr>
         else if t = ''uint16'' \<and> 2 \<le> length data then \<lparr>ovType = ''uint16'', ovValue = GU16 (Uint16 (take 2 data))\<rparr>
         else if t = ''uint8'' \<and> 1 \<le> length data then \<lparr>ovType = ''uint8'', ovValue = GU8 (data ! 0)\<rparr>
         else if t = ''string'' then \<lparr>ovType = ''string'', ovValue = GStr (string_of_bytes data)\<rparr>
         else if t = ''routes'' then \<lparr>ovType = ''routes'', ovValue = parseClasslessRoutes data\<rparr>
         else hex)"

section \<open>Lemmas\<close>

lemma hex_val_digit [simp]: "n < 16 \<Longrightarrow> hex_val (hex_digit n) = Some n"
  by (auto simp: hex_val_def hex_digit_def Let_def)

lemma hex_pairs_hex_bytes: "hex_pairs (hex_bytes bs) = Ret bs"
proof (induction bs)
  case Nil
  then show ?case by (simp add: hex_bytes_def)
next
  case (Cons b bs)
  then have IH: "hex_pairs (concat (map hex_byte bs)) = Ret bs" by (simp add: hex_bytes_def)
  have b: "of_nat (unat (drop_bit 4 b) * 16 + unat (b AND 15)) = b"
    unfolding nibbles_value by simp
  have "hex_bytes (b # bs) = hex_digit (unat (drop_bit 4 b)) # hex_digit (unat (b AND 15)) # concat (map hex_byte bs)"
    by (simp add: hex_bytes_def hex_byte_def)
  then show ?case
    by (simp only: hex_pairs.simps hex_val_digit unat_high_nibble unat_low_nibble prod.case option.case IH bind_run.simps b)
qed

lemma length_hex_bytes [simp]: "length (hex_bytes bs) = 2 * length bs"
  by (induction bs) (simp_all add: hex_bytes_def)

lemma hex_digit_not_sep: "n < 16 \<Longrightarrow> hex_digit n \<noteq> CHR '':'' \<and> hex_digit n \<noteq> CHR '' ''"
proof -
  assume "n < 16"
  then have "(of_char (hex_digit n) :: nat) \<noteq> of_char (CHR '':'') \<and> (of_char (hex_digit n) :: nat) \<noteq> of_char (CHR '' '')"
    by (auto simp: hex_digit_def)
  then show ?thesis by auto
qed

lemma hex_bytes_chars: "c \<in> set (hex_bytes bs) \<Longrightarrow> c \<noteq> CHR '':'' \<and> c \<noteq> CHR '' ''"
  using hex_digit_not_sep [OF unat_high_nibble] hex_digit_not_sep [OF unat_low_nibble]
  by (auto simp: hex_bytes_def hex_byte_def)

lemma parseHex_hex_bytes [simp]: "parseHex g (GStr (hex_bytes bs)) = Ret bs"
proof -
  have "filter (\<lambda>c. c \<noteq> CHR '':'') (filter (\<lambda>c. c \<noteq> CHR '' '') (hex_bytes bs)) = hex_bytes bs"
    using hex_bytes_chars by (auto simp: filter_id_conv)
  then show ?thesis by (simp add: parseHex_def toString_def hexDecodeString_def hex_pairs_hex_bytes)
qed

text \<open>Addresses in an option.\<close>

lemma v4InV6Prefix_not_Nil [simp]: "v4InV6Prefix \<noteq> []"
  using length_v4InV6Prefix by fastforce

lemma parse_ip_text_4 [simp]: "length p = 4 \<Longrightarrow> parse_ip_text (ip_String p) = Ret (v4InV6Prefix @ p)"
  by (simp add: parse_ip_text_def ip_String_4 ParseIP_v4_string)

lemma To4_mapped [simp]: "length p = 4 \<Longrightarrow> To4 (v4InV6Prefix @ p) = p"
  by (simp add: To4_def)

fun chunks4 :: "bytes \<Rightarrow> ip list" where
  "chunks4 (a # b # c # d # r) = [a, b, c, d] # chunks4 r"
| "chunks4 _ = []"

lemma ip_chunks_parse: "map_run parse_ip_text (ip_chunks data) = Ret (map ((@) v4InV6Prefix) (chunks4 data))"
  by (induction data rule: chunks4.induct) simp_all

lemma chunks4_concat: "length data mod 4 = 0 \<Longrightarrow> concat (map To4 (map ((@) v4InV6Prefix) (chunks4 data))) = data"
proof (induction data rule: chunks4.induct)
  case (1 a b c d r)
  have "length (a # b # c # d # r) = length r + 4" by simp
  with 1 show ?case by (simp only: mod_add_self2 chunks4.simps) simp
qed simp_all

lemma ucast_widened [simp]:
  "(ucast (ucast (w :: 32 word) :: 64 word) :: 32 word) = w"
  "(ucast (ucast (h :: 16 word) :: 64 word) :: 16 word) = h"
  "(ucast (ucast (b :: 8 word) :: 64 word) :: 8 word) = b"
  by (auto intro!: bit_word_eqI simp: bit_simps)

lemma ucast_scast_32: "(ucast (scast (w :: 32 word) :: 64 word) :: 32 word) = w"
  by (rule bit_word_eqI) (auto simp: bit_simps)

section \<open>Routes\<close>

text \<open>A route on the wire: the mask length, as many bytes of the destination as it needs, the router.\<close>

definition wire_route :: "byte \<times> bytes \<times> bytes \<Rightarrow> bytes" where
  "wire_route r = (case r of (m, d, t) \<Rightarrow> [m] @ d @ t)"

definition ok_route :: "byte \<times> bytes \<times> bytes \<Rightarrow> bool" where
  "ok_route r = (case r of (m, d, t) \<Rightarrow> m \<le> 32 \<and> length d = (unat m + 7) div 8 \<and> length t = 4)"

lemma mask_bytes: "(m :: byte) \<le> 32 \<Longrightarrow> unat ((m + 7) div 8) = (unat m + 7) div 8"
proof -
  assume "m \<le> 32"
  then have "unat m \<le> 32" by (simp add: word_le_nat_alt)
  then have "unat (m + 7) = unat m + 7" by (simp add: unat_word_ariths)
  then show ?thesis by (simp add: unat_div)
qed

lemma parse_routes_wire:
  assumes "ok_route (m, d, t)"
  shows "parse_routes (wire_route (m, d, t) @ rest)
    = route_value (take 4 (d @ replicate 4 0)) m t # parse_routes rest"
  using assms by (subst parse_routes.simps) (simp add: wire_route_def ok_route_def mask_bytes Let_def)

lemma fields_of_route [simp]:
  "fields_of ''destination'' [(''destination'', a), (''mask'', b), (''router'', c)] = [a]"
  "fields_of ''mask'' [(''destination'', a), (''mask'', b), (''router'', c)] = [b]"
  "fields_of ''router'' [(''destination'', a), (''mask'', b), (''router'', c)] = [c]"
  by (simp_all add: fields_of_def fold_name_def Let_def)

lemma build_route_value:
  assumes "ok_route (m, d, t)"
  shows "bind_run (decode_route (route_value (take 4 (d @ replicate 4 0)) m t)) build_route
    = Ret (wire_route (m, d, t))"
proof -
  from assms have m: "unat m \<le> 32" and d: "length d = (unat m + 7) div 8" and t: "length t = 4"
    by (simp_all add: ok_route_def word_le_nat_alt)
  then have d4: "length d \<le> 4" "length (take 4 (d @ replicate 4 0)) = 4" by auto
  have mb: "go_div8 (uint m + 7) = int (length d)"
  proof -
    have "uint m = int (unat m)" by simp
    then have "go_div8 (uint m + 7) = int (unat m + 7) div 8" by (simp add: go_div8_def)
    then show ?thesis by (simp only: d zdiv_int of_nat_numeral)
  qed
  have dec: "decode_route (route_value (take 4 (d @ replicate 4 0)) m t)
      = Ret \<lparr>rtDestination = ip_String (take 4 (d @ replicate 4 0)), rtMask = uint m, rtRouter = ip_String t\<rparr>"
    by (simp add: decode_route_def route_value_def)
  have "take (length d) (take 4 (d @ replicate 4 0)) = d" using d4(1) by (simp add: min_def)
  moreover have "t \<noteq> []" "take 4 (d @ replicate 4 0) \<noteq> []" using t d4(2) by auto
  moreover have "To4 (ParseIP (ip_String p)) = p" if "length p = 4" for p
    using that by (simp add: ip_String_4)
  ultimately show ?thesis
    using d4 t unfolding dec bind_run.simps build_route_def route.simps mb Let_def
    by (simp only: wire_route_def prod.case) simp
qed

lemma build_routes_value:
  assumes "list_all ok_route rs"
  shows "bind_run (map_run decode_route (parse_routes (concat (map wire_route rs)))) (map_run build_route)
    = Ret (map wire_route rs)"
  using assms
proof (induction rs)
  case Nil
  then show ?case by (simp add: parse_routes.simps [of "[]"])
next
  case (Cons r rs)
  obtain m d t where r: "r = (m, d, t)" by (cases r)
  with Cons have ok: "ok_route (m, d, t)" by simp
  let ?v = "route_value (take 4 (d @ replicate 4 0)) m t"
  from build_route_value [OF ok] obtain x where x: "decode_route ?v = Ret x" "build_route x = Ret (wire_route (m, d, t))"
    by (auto simp: bind_run_Ret_iff)
  from Cons obtain xs where xs: "map_run decode_route (parse_routes (concat (map wire_route rs))) = Ret xs"
    "map_run build_route xs = Ret (map wire_route rs)"
    by (auto simp: bind_run_Ret_iff)
  show ?case using x xs by (simp add: r parse_routes_wire [OF ok])
qed

section \<open>Properties\<close>

text \<open>Option data of the length its registered type asks for.\<close>

definition well_sized :: "byte \<Rightarrow> bytes \<Rightarrow> bool" where
  "well_sized code data = (case registry_type code of None \<Rightarrow> True
     | Some t \<Rightarrow>
         if t = ''ip'' \<or> t = ''uint32'' \<or> t = ''int32'' then length data = 4
         else if t = ''ips'' then data \<noteq> [] \<and> length data mod 4 = 0
         else if t = ''uint16'' then length data = 2
         else if t = ''uint8'' then length data = 1
         else if t = ''routes'' then (\<exists>rs. rs \<noteq> [] \<and> list_all ok_route rs \<and> data = concat (map wire_route rs))
         else True)"

lemma build_parse_ip:
  "registry_type code = Some ''ip'' \<Longrightarrow> length data = 4 \<Longrightarrow> BuildOption g code (ParseOptionValue code data) = Ret (Some data)"
  by (cases data) (simp_all add: ParseOptionValue_def BuildOption_def parseIP_def toString_def Let_def
    ip_String_4 ParseIP_v4_string IPToBytes_def)

lemma build_parse_ips:
  assumes "registry_type code = Some ''ips''" "data \<noteq> []" "length data mod 4 = 0"
  shows "BuildOption g code (ParseOptionValue code data) = Ret (Some data)"
proof -
  have "IPsToBytes (map ((@) v4InV6Prefix) (chunks4 data)) = Some data"
    unfolding IPsToBytes_def chunks4_concat [OF assms(3)] Let_def using assms(2) by simp
  with assms(1) show ?thesis
    by (simp add: ParseOptionValue_def BuildOption_def parseIPList_def Let_def ip_chunks_parse)
qed

lemma build_parse_uint32:
  "registry_type code = Some ''uint32'' \<Longrightarrow> length data = 4 \<Longrightarrow> BuildOption g code (ParseOptionValue code data) = Ret (Some data)"
  by (simp add: ParseOptionValue_def BuildOption_def toUint64_def Let_def Uint32ToBytes_def PutUint32_Uint32_list)

lemma build_parse_int32:
  "registry_type code = Some ''int32'' \<Longrightarrow> length data = 4 \<Longrightarrow> BuildOption g code (ParseOptionValue code data) = Ret (Some data)"
  by (simp add: ParseOptionValue_def BuildOption_def toInt64_def Let_def ucast_scast_32 PutUint32_Uint32_list)

lemma build_parse_uint16:
  "registry_type code = Some ''uint16'' \<Longrightarrow> length data = 2 \<Longrightarrow> BuildOption g code (ParseOptionValue code data) = Ret (Some data)"
  by (simp add: ParseOptionValue_def BuildOption_def toUint64_def Let_def PutUint16_Uint16_list)

lemma build_parse_uint8:
  "registry_type code = Some ''uint8'' \<Longrightarrow> length data = 1 \<Longrightarrow> BuildOption g code (ParseOptionValue code data) = Ret (Some data)"
  by (cases data) (simp_all add: ParseOptionValue_def BuildOption_def toUint64_def Let_def)

lemma build_parse_string:
  "registry_type code = Some ''string'' \<Longrightarrow> BuildOption g code (ParseOptionValue code data) = Ret (Some data)"
  by (simp add: ParseOptionValue_def BuildOption_def toString_def Let_def)

lemma build_parse_routes:
  assumes "registry_type code = Some ''routes''" "rs \<noteq> []" "list_all ok_route rs" "data = concat (map wire_route rs)"
  shows "BuildOption g code (ParseOptionValue code data) = Ret (Some data)"
  using build_routes_value [OF assms(3)] assms
  by (auto simp: ParseOptionValue_def BuildOption_def buildClasslessRoutes_def decode_routes_def
    parseClasslessRoutes_def Let_def bind_run_Ret_iff)

lemma build_parse_hex:
  assumes "registry_type code = Some t" "\<not> t = ''ip''" "\<not> t = ''ips''" "\<not> t = ''uint32''" "\<not> t = ''int32''"
    "\<not> t = ''uint16''" "\<not> t = ''uint8''" "\<not> t = ''string''" "\<not> t = ''routes''"
  shows "BuildOption g code (ParseOptionValue code data) = Ret (Some data)"
  using assms by (simp add: ParseOptionValue_def BuildOption_def Let_def)

lemma eight_ways:
  "(A \<longrightarrow> P) \<Longrightarrow> (B \<longrightarrow> P) \<Longrightarrow> (C \<longrightarrow> P) \<Longrightarrow> (D \<longrightarrow> P) \<Longrightarrow> (E \<longrightarrow> P) \<Longrightarrow> (F \<longrightarrow> P) \<Longrightarrow> (G \<longrightarrow> P) \<Longrightarrow> (H \<longrightarrow> P)
    \<Longrightarrow> (\<not> A \<longrightarrow> \<not> B \<longrightarrow> \<not> C \<longrightarrow> \<not> D \<longrightarrow> \<not> E \<longrightarrow> \<not> F \<longrightarrow> \<not> G \<longrightarrow> \<not> H \<longrightarrow> P) \<Longrightarrow> P"
  by blast

text \<open>
  C36. The high-level form of an option loses nothing: for every option code and all data of the
  length its registered type asks for (any data for strings, hex and unknown codes), building
  the option from the value that \<open>ParseOptionValue\<close> makes of the data gives the data back.
\<close>

theorem build_parse_option:
  assumes "well_sized code data"
  shows "BuildOption g code (ParseOptionValue code data) = Ret (Some data)"
proof (cases "registry_type code")
  case None
  then show ?thesis by (simp add: ParseOptionValue_def BuildOption_def Let_def)
next
  case t: (Some t)
  let ?G = "BuildOption g code (ParseOptionValue code data) = Ret (Some data)"
  have ip: "t = ''ip'' \<longrightarrow> ?G" and ips: "t = ''ips'' \<longrightarrow> ?G"
    and u32: "t = ''uint32'' \<longrightarrow> ?G" and i32: "t = ''int32'' \<longrightarrow> ?G"
    and u16: "t = ''uint16'' \<longrightarrow> ?G" and u8: "t = ''uint8'' \<longrightarrow> ?G"
    using t assms by (simp_all add: well_sized_def build_parse_ip build_parse_ips build_parse_uint32
      build_parse_int32 build_parse_uint16 build_parse_uint8)
  have str: "t = ''string'' \<longrightarrow> ?G" using t by (simp add: build_parse_string)
  have routes: "t = ''routes'' \<longrightarrow> ?G" using t assms build_parse_routes by (auto simp: well_sized_def)
  show ?thesis
    by (rule eight_ways [OF ip ips u32 i32 u16 u8 str routes]) (use build_parse_hex [OF t] in simp)
qed

definition demo_float :: go_float where
  "demo_float = \<lparr>gfFormat = (\<lambda>_. ''''), gfToUint = (\<lambda>_. 0), gfToInt = (\<lambda>_. 0)\<rparr>"

theorem build_parse_option_witness:
  "BuildOption demo_float 6 (ParseOptionValue 6 [8, 8, 8, 8, 1, 1, 1, 1]) = Ret (Some [8, 8, 8, 8, 1, 1, 1, 1])"
proof (rule build_parse_option)
  have "registry_type 6 = Some ''ips''" by code_simp
  then show "well_sized 6 [8, 8, 8, 8, 1, 1, 1, 1]" by (simp add: well_sized_def)
qed

text \<open>
  A configured route can crash the server: \<open>buildClasslessRoutes\<close> slices the destination
  without checking the mask, so a route with valid addresses panics exactly when its mask is
  above 32 (or below -14); every other route is built or rejected with an error.
\<close>

theorem route_panics_iff:
  "build_route r = Panic \<longleftrightarrow>
     To4 (ParseIP (rtDestination r)) \<noteq> [] \<and> To4 (ParseIP (rtRouter r)) \<noteq> [] \<and> (32 < rtMask r \<or> rtMask r < - 14)"
proof -
  have pos: "4 < x div 8 \<longleftrightarrow> 40 \<le> x" "x div 8 < 0 \<longleftrightarrow> x < 0" "0 < x div 8 \<longleftrightarrow> 8 \<le> x" for x :: int
    by presburger+
  have "4 < go_div8 (rtMask r + 7) \<longleftrightarrow> 32 < rtMask r"
    using pos [of "rtMask r + 7"] pos [of "- (rtMask r + 7)"] by (auto simp: go_div8_def)
  moreover have "go_div8 (rtMask r + 7) < 0 \<longleftrightarrow> rtMask r < - 14"
    using pos [of "rtMask r + 7"] pos [of "- (rtMask r + 7)"] by (auto simp: go_div8_def)
  ultimately show ?thesis by (simp add: build_route_def Let_def)
qed

end
