(* ===== verification/Dhcp4_Server.thy ===== *)
theory Dhcp4_Server
  imports Dhcp4_Options Store_Alloc
begin

text \<open>
  The DHCPv4 server, \<open>internal/dhcp/server.go\<close>: scope matching, the server identifier, option
  layering, the destination of a reply, the handlers of the five client messages and the
  buffer of local DISCOVERs.
  \<^item> \<open>server4\<close> is the state of a node: its cached scopes, the pending DISCOVERs, the configured
    interface index and whether the raw socket is open. The lease state is in the database.
  \<^item> \<open>env4\<close> holds what a run depends on beside its input: statement faults and clocks, new ids,
    the interfaces of the host, the order in which Go ranges over a map, whether the raw send
    succeeds, what other nodes do to the database while this one waits.
  \<^item> A handler gives the replies it sends, the new database, and how it ended: a panic in a
    handler stops the whole process (\<open>Crashed\<close>).
  Logging and metrics are left out; the replies are packets, which \<open>Marshal\<close> encodes.
\<close>

section \<open>Configuration, state and environment\<close>

record config4 =
  cfgInterface :: string
  cfgClusterEnabled :: bool
  cfgDiscoverReplyDelay :: int
  cfgNodeID :: string

record server4 =
  svScopes :: "scope list"
  svPending :: "string \<rightharpoonup> packet"
  svCfgIfIndex :: int
  svRawFd :: bool

record iface =
  ifHardwareAddr :: bytes
  ifAddrs :: "ipnet list option"

record env4 =
  eFaults :: faults
  eNow :: "stmt \<Rightarrow> time"
  eGoNow :: time
  eUUID :: string
  eLogUUID :: string
  eIfaceByIndex :: "int \<Rightarrow> iface option"
  eIfaceByName :: "string \<Rightarrow> iface option"
  eInterfaceAddrs :: "ipnet list option"
  eFloat :: go_float
  eRange :: "option_map \<Rightarrow> string list"
  eRawSend :: bool
  eMeanwhile :: "db \<Rightarrow> db"
  eTimeout :: bool

definition DefaultLeaseTime :: int where "DefaultLeaseTime = 3600"
definition DefaultMaxLeaseTime :: int where "DefaultMaxLeaseTime = 86400"

section \<open>Client strings\<close>

text \<open>The length of the valid UTF-8 sequence at the head of the bytes, 0 when there is none.\<close>

definition cont :: "byte \<Rightarrow> bool" where "cont b \<longleftrightarrow> 128 \<le> b \<and> b \<le> 191"

definition utf8_len :: "bytes \<Rightarrow> nat" where
  "utf8_len s = (case s of
     [] \<Rightarrow> 0
   | a # r \<Rightarrow>
       if a < 128 then 1
       else if 194 \<le> a \<and> a \<le> 223 then (case r of b # _ \<Rightarrow> if cont b then 2 else 0 | _ \<Rightarrow> 0)
       else if 224 \<le> a \<and> a \<le> 239 then
         (case r of b # c # _ \<Rightarrow>
            if cont b \<and> cont c \<and> (a = 224 \<longrightarrow> 160 \<le> b) \<and> (a = 237 \<longrightarrow> b \<le> 159) then 3 else 0 | _ \<Rightarrow> 0)
       else if 240 \<le> a \<and> a \<le> 244 then
         (case r of b # c # d # _ \<Rightarrow>
            if cont b \<and> cont c \<and> cont d \<and> (a = 240 \<longrightarrow> 144 \<le> b) \<and> (a = 244 \<longrightarrow> b \<le> 143) then 4 else 0 | _ \<Rightarrow> 0)
       else 0)"

text \<open>\<open>strings.ToValidUTF8(s, "")\<close>: bytes that are not part of a valid sequence are dropped.\<close>

function to_valid_utf8 :: "bytes \<Rightarrow> bytes" where
  "to_valid_utf8 s = (if s = [] then []
     else if utf8_len s = 0 then to_valid_utf8 (tl s)
     else take (utf8_len s) s @ to_valid_utf8 (drop (utf8_len s) s))"
  by pat_completeness auto
termination by (relation "measure length") auto

declare to_valid_utf8.simps [simp del]

definition sanitizeUTF8 :: "string \<Rightarrow> string" where
  "sanitizeUTF8 s = TrimSpace (filter (\<lambda>c. (of_char c :: nat) \<noteq> 0) (string_of_bytes (to_valid_utf8 (bytes_of_string s))))"

definition clientIDString :: "bytes \<Rightarrow> string" where
  "clientIDString data = (if data = [] then '''' else hex_bytes data)"

definition messageTypeName :: "byte \<Rightarrow> string" where
  "messageTypeName t =
     (if t = DHCPDiscover then ''discover'' else if t = DHCPOffer then ''offer''
      else if t = DHCPRequest then ''request'' else if t = DHCPDecline then ''decline''
      else if t = DHCPACK then ''ack'' else if t = DHCPNAK then ''nak''
      else if t = DHCPRelease then ''release'' else if t = DHCPInform then ''inform'' else ''unknown'')"

text \<open>
  \<open>strconvAtoi\<close> ranges over the runes of a string; a byte outside ASCII is no digit. \<open>n\<close> is a
  64-bit \<open>int\<close> and wraps.
\<close>

fun atoi_loop :: "64 word \<Rightarrow> string \<Rightarrow> 64 word option" where
  "atoi_loop n [] = Some n"
| "atoi_loop n (c # cs) = (if \<not> is_digit c then None else atoi_loop (n * 10 + of_nat (of_char c - 48)) cs)"

definition strconvAtoi :: "string \<Rightarrow> int option" where
  "strconvAtoi s = map_option sint (atoi_loop 0 s)"

definition parseOptionCode :: "string \<Rightarrow> byte" where
  "parseOptionCode s = (case strconvAtoi s of
     Some code \<Rightarrow> if 0 \<le> code \<and> code \<le> 255 then word_of_int code else 0
   | None \<Rightarrow> 0)"

section \<open>Interfaces and the server identifier\<close>

definition zero_addr :: "ip \<Rightarrow> bool" where
  "zero_addr p \<longleftrightarrow> ip_Equal p IPv4zero"

text \<open>The first usable address among an interface's, as an IPNet.\<close>

definition first_v4 :: "ipnet list \<Rightarrow> ipnet option" where
  "first_v4 addrs = List.find (\<lambda>n. To4 (netIP n) \<noteq> [] \<and> \<not> IsLoopback (netIP n)) addrs"

definition interfaceIPv4 :: "env4 \<Rightarrow> int \<Rightarrow> ip" where
  "interfaceIPv4 env ifIndex = (case eIfaceByIndex env ifIndex of None \<Rightarrow> []
     | Some i \<Rightarrow> (case ifAddrs i of None \<Rightarrow> []
        | Some addrs \<Rightarrow> (case first_v4 addrs of None \<Rightarrow> [] | Some n \<Rightarrow> To4 (netIP n))))"

definition interfaceSubnet :: "env4 \<Rightarrow> int \<Rightarrow> ipnet option" where
  "interfaceSubnet env ifIndex = (case eIfaceByIndex env ifIndex of None \<Rightarrow> None
     | Some i \<Rightarrow> (case ifAddrs i of None \<Rightarrow> None
        | Some addrs \<Rightarrow> map_option (\<lambda>n. \<lparr>netIP = ip_Mask (netIP n) (netMask n), netMask = netMask n\<rparr>) (first_v4 addrs)))"

text \<open>The loop over all host addresses, with its fallback.\<close>

definition host_identifier :: "env4 \<Rightarrow> ip" where
  "host_identifier env = (case eInterfaceAddrs env of None \<Rightarrow> IPv4 127 0 0 1
     | Some addrs \<Rightarrow> (case first_v4 addrs of None \<Rightarrow> IPv4 127 0 0 1 | Some n \<Rightarrow> To4 (netIP n)))"

definition configured_identifier :: "env4 \<Rightarrow> config4 \<Rightarrow> ip option" where
  "configured_identifier env cfg = (case eIfaceByName env (cfgInterface cfg) of None \<Rightarrow> None
     | Some i \<Rightarrow> map_option (\<lambda>n. To4 (netIP n))
         (List.find (\<lambda>n. To4 (netIP n) \<noteq> []) (case ifAddrs i of None \<Rightarrow> [] | Some addrs \<Rightarrow> addrs)))"

definition serverIdentifierFor :: "env4 \<Rightarrow> config4 \<Rightarrow> packet \<Rightarrow> ip" where
  "serverIdentifierFor env cfg req =
     (let direct = (zero_addr (GIAddr req) \<and> IfIndex req \<noteq> 0)
      in if direct \<and> interfaceIPv4 env (IfIndex req) \<noteq> [] then interfaceIPv4 env (IfIndex req)
         else let useConfigured = (\<not> zero_addr (GIAddr req) \<or> direct)
              in if useConfigured \<and> cfgInterface cfg \<noteq> '''' then
                   (case configured_identifier env cfg of Some p \<Rightarrow> p | None \<Rightarrow> host_identifier env)
                 else host_identifier env)"

definition empty_packet :: packet where
  "empty_packet = \<lparr>Op = 0, HType = 0, HLen = 0, Hops = 0, XID = 0, Secs = 0, Flags = 0, CIAddr = [], YIAddr = [],
     SIAddr = [], GIAddr = [], CHAddr = [], SName = replicate 64 0, File = replicate 128 0, Options = Map.empty,
     BootFile = '''', IfIndex = 0\<rparr>"

definition serverIdentifier :: "env4 \<Rightarrow> config4 \<Rightarrow> ip" where
  "serverIdentifier env cfg = serverIdentifierFor env cfg empty_packet"

definition setServerIdentifier :: "env4 \<Rightarrow> config4 \<Rightarrow> packet \<Rightarrow> packet \<Rightarrow> packet" where
  "setServerIdentifier env cfg reply req =
     AppendOption reply OptServerIdentifier (IPToBytes (serverIdentifierFor env cfg req))"

section \<open>matchScope\<close>

text \<open>Whether an enabled scope is a candidate; a nil subnet would be dereferenced.\<close>

definition scope_matches :: "env4 \<Rightarrow> config4 \<Rightarrow> packet \<Rightarrow> scope \<Rightarrow> bool run" where
  "scope_matches env cfg req sc =
     (if \<not> scEnabled sc then Ret False
      else (case scSubnet sc of None \<Rightarrow> Panic
      | Some n \<Rightarrow>
         let giaddr = normalizeIP (GIAddr req); ciaddr = normalizeIP (CIAddr req) in
         Ret (if Contains n giaddr \<and> \<not> zero_addr giaddr then True
              else if Contains n ciaddr \<and> \<not> zero_addr ciaddr then True
              else if zero_addr giaddr \<and> zero_addr ciaddr then
                Contains n (case interfaceSubnet env (IfIndex req) of
                    Some l \<Rightarrow> netIP l
                  | None \<Rightarrow> ip_Mask (serverIdentifier env cfg) [255, 255, 255, 255])
              else False)))"

fun select_run :: "('a \<Rightarrow> bool run) \<Rightarrow> 'a list \<Rightarrow> 'a list run" where
  "select_run f [] = Ret []"
| "select_run f (x # xs) = bind_run (f x) (\<lambda>b. bind_run (select_run f xs) (\<lambda>ys. Ret (if b then x # ys else ys)))"

text \<open>\<open>Mask.Size()\<close> gives 0 ones for a mask that is no prefix.\<close>

definition mask_ones :: "scope \<Rightarrow> nat" where
  "mask_ones sc = (case scSubnet sc of None \<Rightarrow> 0 | Some n \<Rightarrow> Mask_Size (netMask n))"

definition most_specific :: "scope \<Rightarrow> scope list \<Rightarrow> scope" where
  "most_specific c cs = foldl (\<lambda>best sc. if 0 < mask_ones best \<and> mask_ones best < mask_ones sc then sc else best) c cs"

definition matchScope :: "env4 \<Rightarrow> config4 \<Rightarrow> server4 \<Rightarrow> packet \<Rightarrow> scope run" where
  "matchScope env cfg sv req =
     bind_run (select_run (scope_matches env cfg req) (svScopes sv)) (\<lambda>cands. case cands of
        [] \<Rightarrow> Fail ''no matching scope''
      | c # cs \<Rightarrow> Ret (most_specific c cs))"

section \<open>Options of a reply\<close>

definition groupOptionsForReservation :: "env4 \<Rightarrow> db \<Rightarrow> reservation option \<Rightarrow> raw_json" where
  "groupOptionsForReservation env db r = (case r of None \<Rightarrow> None
     | Some r \<Rightarrow> if rGroupID r = '''' then None
        else (case GetReservationGroupByID (eFaults env) (rGroupID r) db of Ret g \<Rightarrow> gOptions g | _ \<Rightarrow> None))"

text \<open>\<open>optionMapToValue\<close>: through JSON into the struct; what does not fit its field is dropped.\<close>

definition optionMapToValue :: "gvalue \<Rightarrow> option_value" where
  "optionMapToValue v = (case v of
     GMap kvs \<Rightarrow>
       \<lparr>ovType = foldl (\<lambda>acc x. case x of GStr s \<Rightarrow> s | _ \<Rightarrow> acc) '''' (fields_of ''type'' kvs),
        ovValue = (case fields_of ''value'' kvs of [] \<Rightarrow> GNil | vs \<Rightarrow> last vs)\<rparr>
   | _ \<Rightarrow> \<lparr>ovType = '''', ovValue = GNil\<rparr>)"

text \<open>One layer of configured options, over the keys in range order.\<close>

fun option_layer :: "go_float \<Rightarrow> option_map \<Rightarrow> string list \<Rightarrow> options \<Rightarrow> options run" where
  "option_layer g m [] o' = Ret o'"
| "option_layer g m (k # ks) o' =
     (case m k of None \<Rightarrow> option_layer g m ks o'
      | Some v \<Rightarrow>
         let code = parseOptionCode k in
         if code = 0 then option_layer g m ks o'
         else (case BuildOption g code (optionMapToValue v) of
                 Ret raw \<Rightarrow> option_layer g m ks (Opt_Set o' code raw)
               | Fail e \<Rightarrow> option_layer g m ks o'
               | Panic \<Rightarrow> Panic
               | Hang \<Rightarrow> Hang))"

definition lease_time_options :: "int \<Rightarrow> options \<Rightarrow> options" where
  "lease_time_options leaseTime o' =
     (if 0 < leaseTime then
        let o' = Opt_Set o' OptIPAddressLeaseTime (Some (Uint32ToBytes (word_of_int leaseTime)));
            o' = Opt_Set o' OptRenewalTimeValue (Some (Uint32ToBytes (word_of_int (leaseTime div 2))))
        in Opt_Set o' OptRebindingTimeValue (Some (Uint32ToBytes (word_of_int (leaseTime * 7 div 8))))
      else o')"

definition scope_options :: "scope \<Rightarrow> options \<Rightarrow> options" where
  "scope_options sc o' =
     (let o' = (if scGateway sc \<noteq> [] then Opt_Set o' OptRouter (IPsToBytes (scGateway sc)) else o');
          o' = (if scDNS sc \<noteq> [] then Opt_Set o' OptDomainNameServer (IPsToBytes (scDNS sc)) else o');
          o' = (if scDomainName sc \<noteq> '''' then Opt_Set o' OptDomainName (Some (bytes_of_string (scDomainName sc))) else o')
      in (case scSubnet sc of None \<Rightarrow> o' | Some n \<Rightarrow> Opt_Set o' OptSubnetMask (IPToBytes (netMask n))))"

text \<open>The filter by the parameter request list; the mandatory options are always kept.\<close>

definition copy_option :: "options \<Rightarrow> options \<Rightarrow> byte \<Rightarrow> options" where
  "copy_option from acc code = (case Opt_Get from code of None \<Rightarrow> acc | Some v \<Rightarrow> Opt_Set acc code (Some v))"

definition filter_options :: "bytes \<Rightarrow> options \<Rightarrow> options" where
  "filter_options prl o' =
     (if prl = [] then o'
      else foldl (copy_option o')
        (foldl (copy_option o') (Opt_Set Map.empty OptDHCPMessageType (o' OptDHCPMessageType)) prl)
        [OptServerIdentifier, OptIPAddressLeaseTime, OptRenewalTimeValue, OptRebindingTimeValue])"

definition applyOptions ::
  "env4 \<Rightarrow> packet \<Rightarrow> packet \<Rightarrow> scope \<Rightarrow> reservation option \<Rightarrow> raw_json \<Rightarrow> int \<Rightarrow> packet run" where
  "applyOptions env req reply sc res groupOpts leaseTime =
     (let scopeOpts = ParseOptionMap (scOptions sc);
          groupOptMap = ParseOptionMap groupOpts;
          resOptMap = (case res of None \<Rightarrow> Map.empty | Some r \<Rightarrow> ParseOptionMap (rOptions r));
          o0 = scope_options sc (lease_time_options leaseTime (Options reply))
      in bind_run (option_layer (eFloat env) groupOptMap (eRange env groupOptMap) o0) (\<lambda>o1.
         bind_run (option_layer (eFloat env) scopeOpts (eRange env scopeOpts) o1) (\<lambda>o2.
         bind_run (if res = None then Ret o2 else option_layer (eFloat env) resOptMap (eRange env resOptMap) o2) (\<lambda>o3.
           Ret (reply\<lparr>Options := filter_options (ParameterRequestList (Options req)) o3\<rparr>)))))"

section \<open>Sending a reply\<close>

text \<open>A UDP datagram to an address and port, or a raw frame to a hardware address.\<close>

datatype dest = UDP ip nat | Frame bytes

record sent =
  sDest :: dest
  sOutIf :: int
  sReply :: packet

definition outIfIndex :: "server4 \<Rightarrow> packet \<Rightarrow> int" where
  "outIfIndex sv reply = (if svCfgIfIndex sv \<noteq> 0 then svCfgIfIndex sv else IfIndex reply)"

text \<open>\<open>sendRawUnicast\<close> succeeds when every step does; building and sending the frame is \<open>eRawSend\<close>.\<close>

definition sendRawUnicast :: "env4 \<Rightarrow> config4 \<Rightarrow> server4 \<Rightarrow> packet \<Rightarrow> bool" where
  "sendRawUnicast env cfg sv reply =
     (let ifIndex = outIfIndex sv reply in
      ifIndex \<noteq> 0
      \<and> (case eIfaceByIndex env ifIndex of None \<Rightarrow> False | Some i \<Rightarrow> ifHardwareAddr i \<noteq> [])
      \<and> serverIdentifierFor env cfg reply \<noteq> []
      \<and> svRawFd sv \<and> eRawSend env)"

definition reply_dest :: "env4 \<Rightarrow> config4 \<Rightarrow> server4 \<Rightarrow> packet \<Rightarrow> dest" where
  "reply_dest env cfg sv reply =
     (let giaddr = normalizeIP (GIAddr reply); ciaddr = normalizeIP (CIAddr reply) in
      if \<not> zero_addr giaddr then UDP giaddr 67
      else if MessageType (Options reply) = DHCPNAK \<or> Flags reply AND 0x8000 \<noteq> 0
              \<or> zero_addr (YIAddr reply) \<and> zero_addr ciaddr then UDP IPv4bcast 68
      else if \<not> zero_addr ciaddr then UDP ciaddr 68
      else if sendRawUnicast env cfg sv reply then Frame (CHAddr reply)
      else UDP IPv4bcast 68)"

definition sendReply :: "env4 \<Rightarrow> config4 \<Rightarrow> server4 \<Rightarrow> packet \<Rightarrow> sent" where
  "sendReply env cfg sv reply =
     \<lparr>sDest = reply_dest env cfg sv reply, sOutIf = outIfIndex sv reply, sReply = reply\<rparr>"

definition sendNAK :: "env4 \<Rightarrow> config4 \<Rightarrow> server4 \<Rightarrow> packet \<Rightarrow> string \<Rightarrow> sent" where
  "sendNAK env cfg sv req reason =
     (let reply = setServerIdentifier env cfg (ReplyFromRequest req DHCPNAK) req
      in sendReply env cfg sv (AppendOption reply OptMessage (Some (bytes_of_string reason))))"

section \<open>Handlers\<close>

text \<open>How a handler ends: normally, by a panic, or not at all; the replies it sent and the database it leaves.\<close>

datatype ending = Finished | Crashed | Stuck

record out4 =
  oSent :: "sent list"
  oDb :: db
  oEnd :: ending

abbreviation done4 :: "sent list \<Rightarrow> db \<Rightarrow> out4" where
  "done4 ss db \<equiv> \<lparr>oSent = ss, oDb = db, oEnd = Finished\<rparr>"

text \<open>Using the result of a call: an error goes to \<open>bad\<close>, a panic or a hang ends the handler.\<close>

definition on_result :: "'a run \<Rightarrow> db \<Rightarrow> ('a \<Rightarrow> out4) \<Rightarrow> (string \<Rightarrow> out4) \<Rightarrow> out4" where
  "on_result r db ok bad = (case r of Ret x \<Rightarrow> ok x | Fail e \<Rightarrow> bad e
     | Panic \<Rightarrow> \<lparr>oSent = [], oDb = db, oEnd = Crashed\<rparr> | Hang \<Rightarrow> \<lparr>oSent = [], oDb = db, oEnd = Stuck\<rparr>)"

definition isBlacklisted :: "env4 \<Rightarrow> db \<Rightarrow> string \<Rightarrow> bool" where
  "isBlacklisted env db mac = (case IsMACBlacklisted (eFaults env) mac db of Ret b \<Rightarrow> b | _ \<Rightarrow> False)"

text \<open>\<open>logIPAllocation\<close>: one row in ip_allocation_logs; a failure is only logged.\<close>

definition logIPAllocation ::
  "env4 \<Rightarrow> config4 \<Rightarrow> scope \<Rightarrow> string \<Rightarrow> ip \<Rightarrow> string \<Rightarrow> packet \<Rightarrow> string \<Rightarrow> db \<Rightarrow> db" where
  "logIPAllocation env cfg sc mac p action req hostname db =
     snd (CreateIPAllocationLog (eFaults env)
       \<lparr>alID = eLogUUID env, alNodeID = cfgNodeID cfg, alScopeID = scID sc, alScopeName = scName sc,
        alMACAddr = mac, alDUID = '''', alIAID = '''', alIPAddr = p, alPrefix = None, alAction = action,
        alClientInfo = Some (JObj [(''client_id'', JStr (clientIDString (ClientIdentifier (Options req)))),
          (''hostname'', JStr hostname), (''message_type'', JStr (messageTypeName (MessageType (Options req))))]),
        alRelayIP = normalizeIP (GIAddr req), alCreatedAt = eGoNow env\<rparr> db)"

definition reservation_of :: "env4 \<Rightarrow> string \<Rightarrow> string \<Rightarrow> db \<Rightarrow> reservation option" where
  "reservation_of env scopeID mac db =
     (case GetReservationByMAC (eFaults env) scopeID mac db of Ret r \<Rightarrow> Some r | _ \<Rightarrow> None)"

text \<open>A peer already holds an offer or a lease for this client.\<close>

definition peer_offered :: "env4 \<Rightarrow> string \<Rightarrow> string \<Rightarrow> db \<Rightarrow> bool" where
  "peer_offered env scopeID mac db = (case GetLeaseByMAC (eFaults env) scopeID mac db of
     Ret l \<Rightarrow> lState l = LeaseActive \<or> lState l = LeaseOffered | _ \<Rightarrow> False)"

definition client_id :: "packet \<Rightarrow> string" where
  "client_id req = (let c = clientIDString (ClientIdentifier (Options req))
     in if c = '''' then mac_String (CHAddr req) else c)"

definition or_default :: "int \<Rightarrow> int \<Rightarrow> int" where
  "or_default d t = (if t = 0 then d else t)"

text \<open>The part of \<open>processDiscover\<close> after the scope and the cluster delay.\<close>

definition discover_offer :: "env4 \<Rightarrow> config4 \<Rightarrow> server4 \<Rightarrow> packet \<Rightarrow> scope \<Rightarrow> db \<Rightarrow> out4" where
  "discover_offer env cfg sv req sc db =
     (let mac = mac_String (CHAddr req);
          leaseTime = or_default DefaultLeaseTime (scLeaseTime sc);
          maxLeaseTime = or_default DefaultMaxLeaseTime (scMaxLeaseTime sc);
          reservation = reservation_of env (scID sc) mac db;
          groupOpts = groupOptionsForReservation env db reservation;
          (r, db1) = AllocateV4Lease (eFaults env) (eNow env ''AllocateV4Lease'') (eUUID env) sc mac (client_id req)
             (RequestedIP (Options req)) (sanitizeUTF8 (HostName (Options req))) leaseTime maxLeaseTime db
      in on_result r db1 (\<lambda>l.
           let db2 = logIPAllocation env cfg sc mac (lIPAddr l) ''offer'' req (lHostname l) db1;
               reply = (ReplyFromRequest req DHCPOffer)\<lparr>YIAddr := lIPAddr l\<rparr>;
               reply = setServerIdentifier env cfg reply req
           in on_result (applyOptions env req reply sc reservation groupOpts leaseTime) db2
                (\<lambda>reply. done4 [sendReply env cfg sv reply] db2) (\<lambda>_. done4 [] db2))
         (\<lambda>_. done4 [] db1))"

definition processDiscover :: "env4 \<Rightarrow> config4 \<Rightarrow> server4 \<Rightarrow> packet \<Rightarrow> db \<Rightarrow> out4" where
  "processDiscover env cfg sv req db =
     (let mac = mac_String (CHAddr req) in
      on_result (matchScope env cfg sv req) db (\<lambda>sc.
        if \<not> scEnabled sc then done4 [] db
        else if cfgClusterEnabled cfg \<and> 0 < cfgDiscoverReplyDelay cfg then
          (if peer_offered env (scID sc) mac db then done4 [] db
           else if eTimeout env then done4 [] db
           else let db' = eMeanwhile env db
                in if peer_offered env (scID sc) mac db' then done4 [] db'
                   else discover_offer env cfg sv req sc db')
        else discover_offer env cfg sv req sc db)
      (\<lambda>_. done4 [] db))"

text \<open>
  The buffer of local DISCOVERs: a timer fires \<open>firePendingDiscover\<close> after a short wait unless a
  relayed copy arrives first; a newer local DISCOVER replaces the buffered one.
\<close>

definition schedulePendingDiscover :: "server4 \<Rightarrow> packet \<Rightarrow> string \<Rightarrow> server4" where
  "schedulePendingDiscover sv req mac = sv\<lparr>svPending := (svPending sv)(mac \<mapsto> req)\<rparr>"

definition cancelPendingDiscover :: "server4 \<Rightarrow> string \<Rightarrow> server4" where
  "cancelPendingDiscover sv mac = sv\<lparr>svPending := (svPending sv)(mac := None)\<rparr>"

definition firePendingDiscover :: "env4 \<Rightarrow> config4 \<Rightarrow> server4 \<Rightarrow> string \<Rightarrow> db \<Rightarrow> server4 \<times> out4" where
  "firePendingDiscover env cfg sv mac db =
     (case svPending sv mac of
        None \<Rightarrow> (sv, done4 [] db)
      | Some req \<Rightarrow> (let sv' = cancelPendingDiscover sv mac in (sv', processDiscover env cfg sv' req db)))"

definition handleDiscover :: "env4 \<Rightarrow> config4 \<Rightarrow> server4 \<Rightarrow> packet \<Rightarrow> db \<Rightarrow> server4 \<times> out4" where
  "handleDiscover env cfg sv req db =
     (let mac = mac_String (CHAddr req) in
      if isBlacklisted env db mac then (sv, done4 [] db)
      else if \<not> zero_addr (GIAddr req) then
        (let sv' = cancelPendingDiscover sv mac in (sv', processDiscover env cfg sv' req db))
      else (schedulePendingDiscover sv req mac, done4 [] db))"

text \<open>The lease time of a REQUEST: the scope's, shortened at the client's wish, at most the scope's maximum.\<close>

definition request_lease_time :: "scope \<Rightarrow> packet \<Rightarrow> int" where
  "request_lease_time sc req =
     (let lt = or_default DefaultLeaseTime (scLeaseTime sc);
          lt = (case Opt_Get (Options req) OptIPAddressLeaseTime of
                  Some b \<Rightarrow> if length b = 4 then
                      (let rl = uint (Uint32 b) in if 0 < rl \<and> rl < lt then rl else lt) else lt
                | None \<Rightarrow> lt);
          mt = or_default DefaultMaxLeaseTime (scMaxLeaseTime sc)
      in if mt < lt then mt else lt)"

definition requested_ip :: "packet \<Rightarrow> ip" where
  "requested_ip req = (let p = RequestedIP (Options req); p = (if p = [] then CIAddr req else p)
     in if p \<noteq> [] then normalizeIP p else p)"

text \<open>The part of \<open>handleRequest\<close> after the lease is allocated: refuse, or activate and acknowledge.\<close>

definition request_ack ::
  "env4 \<Rightarrow> config4 \<Rightarrow> server4 \<Rightarrow> packet \<Rightarrow> scope \<Rightarrow> reservation option \<Rightarrow> raw_json \<Rightarrow> int \<Rightarrow> lease \<Rightarrow> db \<Rightarrow> out4" where
  "request_ack env cfg sv req sc reservation groupOpts leaseTime l db1 =
     (let mac = mac_String (CHAddr req);
          requestedIP = requested_ip req;
          ciaddr = normalizeIP (CIAddr req)
      in if requestedIP \<noteq> [] \<and> \<not> ip_Equal (lIPAddr l) requestedIP then
           done4 [sendNAK env cfg sv req ''requested ip unavailable''] db1
         else let (u, db2) = UpdateLeaseState (eFaults env) (eNow env ''UpdateLeaseState'') (lID l) LeaseActive db1
              in on_result u db2 (\<lambda>_.
                   let isRenewal = (requestedIP \<noteq> [] \<and> ciaddr \<noteq> [] \<and> \<not> zero_addr ciaddr \<and> ip_Equal ciaddr requestedIP);
                       reply = (ReplyFromRequest req DHCPACK)\<lparr>YIAddr := lIPAddr l\<rparr>;
                       reply = setServerIdentifier env cfg reply req
                   in on_result (applyOptions env req reply sc reservation groupOpts leaseTime) db2 (\<lambda>reply.
                        done4 [sendReply env cfg sv reply]
                          (logIPAllocation env cfg sc mac (lIPAddr l) (if isRenewal then ''renew'' else ''ack'') req (lHostname l) db2))
                      (\<lambda>_. done4 [] db2))
                 (\<lambda>_. done4 [sendNAK env cfg sv req ''database error''] db2))"

text \<open>Allocating or confirming the lease.\<close>

definition request_alloc ::
  "env4 \<Rightarrow> config4 \<Rightarrow> server4 \<Rightarrow> packet \<Rightarrow> scope \<Rightarrow> reservation option \<Rightarrow> raw_json \<Rightarrow> db \<Rightarrow> out4" where
  "request_alloc env cfg sv req sc reservation groupOpts db =
     (let leaseTime = request_lease_time sc req;
          (r, db1) = AllocateV4Lease (eFaults env) (eNow env ''AllocateV4Lease'') (eUUID env) sc (mac_String (CHAddr req))
             (client_id req) (requested_ip req) (sanitizeUTF8 (HostName (Options req))) leaseTime
             (or_default DefaultMaxLeaseTime (scMaxLeaseTime sc)) db
      in on_result r db1 (\<lambda>l. request_ack env cfg sv req sc reservation groupOpts leaseTime l db1)
           (\<lambda>_. done4 [sendNAK env cfg sv req ''ip unavailable''] db1))"

definition handleRequest :: "env4 \<Rightarrow> config4 \<Rightarrow> server4 \<Rightarrow> packet \<Rightarrow> db \<Rightarrow> out4" where
  "handleRequest env cfg sv req db =
     (let serverID = ServerID (Options req); mac = mac_String (CHAddr req); nak = sendNAK env cfg sv req in
      if serverID \<noteq> [] \<and> \<not> ip_Equal serverID (serverIdentifierFor env cfg req) then done4 [] db
      else if isBlacklisted env db mac then done4 [nak ''mac blacklisted''] db
      else on_result (matchScope env cfg sv req) db (\<lambda>sc.
        if \<not> scEnabled sc then done4 [nak ''scope disabled''] db
        else
          let requestedIP = requested_ip req;
              reservation = reservation_of env (scID sc) mac db;
              groupOpts = groupOptionsForReservation env db reservation
          in if (case reservation of None \<Rightarrow> False
                 | Some r \<Rightarrow> requestedIP \<noteq> [] \<and> ipKey requestedIP \<noteq> ipKey (rIPAddr r)) then
               done4 [nak ''requested ip mismatch reservation''] db
             else (case scSubnet sc of
               None \<Rightarrow> if requestedIP \<noteq> [] then \<lparr>oSent = [], oDb = db, oEnd = Crashed\<rparr>
                       else request_alloc env cfg sv req sc reservation groupOpts db
             | Some n \<Rightarrow>
                 if requestedIP \<noteq> [] \<and> \<not> Contains n requestedIP then done4 [nak ''ip out of subnet''] db
                 else request_alloc env cfg sv req sc reservation groupOpts db))
      (\<lambda>_. done4 [nak ''no scope''] db))"

definition handleRelease :: "env4 \<Rightarrow> config4 \<Rightarrow> server4 \<Rightarrow> packet \<Rightarrow> db \<Rightarrow> out4" where
  "handleRelease env cfg sv req db =
     on_result (matchScope env cfg sv req) db (\<lambda>sc.
       let mac = mac_String (CHAddr req); p = normalizeIP (CIAddr req) in
       if p = [] \<or> zero_addr p then done4 [] db
       else let (r, db1) = UpdateLeaseStateByMACIP (eFaults env) (eNow env ''UpdateLeaseStateByMACIP'') (scID sc) mac p LeaseReleased db
            in on_result r db1 (\<lambda>ok.
                 done4 [] (if ok then logIPAllocation env cfg sc mac p ''release'' req '''' db1 else db1))
               (\<lambda>_. done4 [] db1))
     (\<lambda>_. done4 [] db)"

definition handleDecline :: "env4 \<Rightarrow> config4 \<Rightarrow> server4 \<Rightarrow> packet \<Rightarrow> db \<Rightarrow> out4" where
  "handleDecline env cfg sv req db =
     on_result (matchScope env cfg sv req) db (\<lambda>sc.
       let mac = mac_String (CHAddr req);
           p = RequestedIP (Options req);
           p = (if p \<noteq> [] then normalizeIP p else normalizeIP (CIAddr req)) in
       if p = [] \<or> zero_addr p then done4 [] db
       else let (r, db1) = UpdateLeaseStateByMACIP (eFaults env) (eNow env ''UpdateLeaseStateByMACIP'') (scID sc) mac p LeaseDeclined db
            in on_result r db1 (\<lambda>ok.
                 done4 [] (if ok then logIPAllocation env cfg sc mac p ''decline'' req '''' db1 else db1))
               (\<lambda>_. done4 [] db1))
     (\<lambda>_. done4 [] db)"

definition handleInform :: "env4 \<Rightarrow> config4 \<Rightarrow> server4 \<Rightarrow> packet \<Rightarrow> db \<Rightarrow> out4" where
  "handleInform env cfg sv req db =
     on_result (matchScope env cfg sv req) db (\<lambda>sc.
       let mac = mac_String (CHAddr req);
           reservation = reservation_of env (scID sc) mac db;
           groupOpts = groupOptionsForReservation env db reservation;
           reply = (ReplyFromRequest req DHCPACK)\<lparr>YIAddr := IPv4zero\<rparr>;
           reply = setServerIdentifier env cfg reply req
       in on_result (applyOptions env req reply sc reservation groupOpts 0) db
            (\<lambda>reply. done4 [sendReply env cfg sv reply] db) (\<lambda>_. done4 [] db))
     (\<lambda>_. done4 [] db)"

definition handlePacket :: "env4 \<Rightarrow> config4 \<Rightarrow> server4 \<Rightarrow> bytes \<Rightarrow> int \<Rightarrow> db \<Rightarrow> server4 \<times> out4" where
  "handlePacket env cfg sv data ifIndex db =
     (case ParsePacket data of
        Ret p \<Rightarrow>
          let req = p\<lparr>IfIndex := ifIndex\<rparr>; t = MessageType (Options req) in
          if HType req \<noteq> 1 \<or> HLen req \<noteq> 6 then (sv, done4 [] db)
          else if t = DHCPDiscover then handleDiscover env cfg sv req db
          else if t = DHCPRequest then (sv, handleRequest env cfg sv req db)
          else if t = DHCPRelease then (sv, handleRelease env cfg sv req db)
          else if t = DHCPDecline then (sv, handleDecline env cfg sv req db)
          else if t = DHCPInform then (sv, handleInform env cfg sv req db)
          else (sv, done4 [] db)
      | _ \<Rightarrow> (sv, done4 [] db))"

text \<open>\<open>reloadScopes\<close> and one tick of \<open>refreshLoop\<close>; errors are logged and the rest of the tick goes on.\<close>

definition reloadScopes :: "env4 \<Rightarrow> (string \<Rightarrow> nat) \<Rightarrow> server4 \<Rightarrow> db \<Rightarrow> server4" where
  "reloadScopes env collate sv db = (case ListScopes (eFaults env) collate db of
     Ret scopes \<Rightarrow> sv\<lparr>svScopes := scopes\<rparr> | _ \<Rightarrow> sv)"

definition refresh_tick :: "env4 \<Rightarrow> (string \<Rightarrow> nat) \<Rightarrow> server4 \<Rightarrow> db \<Rightarrow> server4 \<times> db" where
  "refresh_tick env collate sv db =
     (let db' = snd (ReleaseExpiredLeases (eFaults env) (eNow env ''ReleaseExpiredLeases'') db)
      in (reloadScopes env collate sv db', db'))"

end
