(* ===== verification/Dhcp4_Reply.thy ===== *)
theory Dhcp4_Reply
  imports Dhcp4_Server
begin

text \<open>
  What a DHCPv4 reply holds and where it goes: the scope a request is matched to, the options
  of the reply (configured layers, lease times, the parameter request list), option codes in
  the configuration, and that every reply echoes its request and returns the way it came.
\<close>

section \<open>matchScope\<close>

lemma select_run_Ret:
  "select_run f xs = Ret ys \<longleftrightarrow> (\<forall>x \<in> set xs. \<exists>b. f x = Ret b) \<and> ys = filter (\<lambda>x. f x = Ret True) xs"
proof (induction xs arbitrary: ys)
  case (Cons x xs)
  then show ?case by (cases "f x"; cases "select_run f xs") (auto simp: bind_run_Ret_iff)
qed auto

lemma most_specific_Cons:
  "most_specific c (x # xs) = most_specific (if 0 < mask_ones c \<and> mask_ones c < mask_ones x then x else c) xs"
  by (simp add: most_specific_def)

lemma most_specific_Nil [simp]: "most_specific c [] = c"
  by (simp add: most_specific_def)

lemma most_specific_in: "most_specific c cs \<in> set (c # cs)"
proof (induction cs arbitrary: c)
  case (Cons x xs)
  then show ?case using Cons [of c] Cons [of x] by (auto simp: most_specific_Cons)
qed simp

lemma most_specific_max:
  "0 < mask_ones c \<Longrightarrow> x \<in> set (c # cs) \<Longrightarrow> mask_ones x \<le> mask_ones (most_specific c cs)"
proof (induction cs arbitrary: c x)
  case (Cons y ys)
  let ?b = "if 0 < mask_ones c \<and> mask_ones c < mask_ones y then y else c"
  have "0 < mask_ones ?b" using Cons.prems(1) by auto
  note IH = Cons.IH [OF this]
  have "mask_ones ?b \<le> mask_ones (most_specific ?b ys)" by (rule IH) simp
  moreover have "mask_ones c \<le> mask_ones ?b" "mask_ones y \<le> mask_ones ?b" using Cons.prems(1) by auto
  moreover have "mask_ones x \<le> mask_ones (most_specific ?b ys)" if "x \<in> set ys" using that by (intro IH) simp
  ultimately show ?case using Cons.prems(2) unfolding most_specific_Cons by fastforce
qed simp

lemma most_specific_zero: "mask_ones c = 0 \<Longrightarrow> most_specific c cs = c"
  by (induction cs) (simp_all add: most_specific_Cons)

lemma matchScope_Ret:
  assumes "matchScope env cfg sv req = Ret sc"
  obtains c cs where "filter (\<lambda>s. scope_matches env cfg req s = Ret True) (svScopes sv) = c # cs"
    "sc = most_specific c cs" "sc \<in> set (svScopes sv)" "scope_matches env cfg req sc = Ret True"
proof -
  from assms obtain cands where "select_run (scope_matches env cfg req) (svScopes sv) = Ret cands"
    and sc: "(case cands of [] \<Rightarrow> Fail ''no matching scope'' | c # cs \<Rightarrow> Ret (most_specific c cs)) = Ret sc"
    by (auto simp: matchScope_def bind_run_Ret_iff)
  then have f: "cands = filter (\<lambda>s. scope_matches env cfg req s = Ret True) (svScopes sv)"
    by (simp add: select_run_Ret)
  from sc obtain c cs where c: "cands = c # cs" "sc = most_specific c cs" by (cases cands) auto
  with most_specific_in [of c cs] have "sc \<in> set cands" by simp
  with f c show ?thesis by (intro that [of c cs]) auto
qed

lemma scope_matches_enabled: "scope_matches env cfg req sc = Ret True \<Longrightarrow> scEnabled sc"
  by (auto simp: scope_matches_def split: if_splits)

lemma matchScope_enabled: "matchScope env cfg sv req = Ret sc \<Longrightarrow> scEnabled sc"
  by (elim matchScope_Ret) (rule scope_matches_enabled)

text \<open>
  C29. The scope a request is served from is enabled and contains the relay's address, the client's
  own address, or the subnet the request came in on; unless some subnet is a /0 (or has a mask
  that is no prefix), no other scope that matches the request has a longer prefix.
\<close>

theorem matchScope_best:
  assumes "matchScope env cfg sv req = Ret sc" and "\<forall>s \<in> set (svScopes sv). 0 < mask_ones s"
  shows "sc \<in> set (svScopes sv) \<and> scEnabled sc
    \<and> (\<exists>n. scSubnet sc = Some n
        \<and> (Contains n (normalizeIP (GIAddr req)) \<and> \<not> zero_addr (normalizeIP (GIAddr req))
           \<or> Contains n (normalizeIP (CIAddr req)) \<and> \<not> zero_addr (normalizeIP (CIAddr req))
           \<or> zero_addr (normalizeIP (GIAddr req)) \<and> zero_addr (normalizeIP (CIAddr req))
             \<and> (case interfaceSubnet env (IfIndex req) of Some l \<Rightarrow> Contains n (netIP l)
                | None \<Rightarrow> Contains n (ip_Mask (serverIdentifier env cfg) [255, 255, 255, 255]))))
    \<and> (\<forall>s \<in> set (svScopes sv). scope_matches env cfg req s = Ret True \<longrightarrow> mask_ones s \<le> mask_ones sc)"
proof -
  from assms(1) obtain c cs where
    f: "filter (\<lambda>s. scope_matches env cfg req s = Ret True) (svScopes sv) = c # cs"
    and sc: "sc = most_specific c cs" "sc \<in> set (svScopes sv)" "scope_matches env cfg req sc = Ret True"
    by (rule matchScope_Ret)
  have "c \<in> set (svScopes sv)" using arg_cong [OF f, of set] by auto
  with assms(2) have "0 < mask_ones c" by blast
  moreover have "s \<in> set (c # cs)" if "s \<in> set (svScopes sv)" "scope_matches env cfg req s = Ret True" for s
    using that arg_cong [OF f, of set] by auto
  ultimately have "mask_ones s \<le> mask_ones sc"
    if "s \<in> set (svScopes sv)" "scope_matches env cfg req s = Ret True" for s
    using most_specific_max that sc(1) by blast
  moreover have "\<exists>n. scSubnet sc = Some n
        \<and> (Contains n (normalizeIP (GIAddr req)) \<and> \<not> zero_addr (normalizeIP (GIAddr req))
           \<or> Contains n (normalizeIP (CIAddr req)) \<and> \<not> zero_addr (normalizeIP (CIAddr req))
           \<or> zero_addr (normalizeIP (GIAddr req)) \<and> zero_addr (normalizeIP (CIAddr req))
             \<and> (case interfaceSubnet env (IfIndex req) of Some l \<Rightarrow> Contains n (netIP l)
                | None \<Rightarrow> Contains n (ip_Mask (serverIdentifier env cfg) [255, 255, 255, 255])))"
    using sc(3) by (auto simp: scope_matches_def Let_def split: if_splits option.splits)
  ultimately show ?thesis using sc scope_matches_enabled by blast
qed

text \<open>A server on 192.168.1.2 with one interface, for the witnesses.\<close>

definition demo_if :: iface where
  "demo_if = \<lparr>ifHardwareAddr = [2, 0, 0, 0, 0, 1],
     ifAddrs = Some [\<lparr>netIP = [192, 168, 1, 2], netMask = [255, 255, 255, 0]\<rparr>]\<rparr>"

definition demo_env :: env4 where
  "demo_env = \<lparr>eFaults = (\<lambda>_. None), eNow = (\<lambda>_. Second), eGoNow = Second, eUUID = ''u1'', eLogUUID = ''g1'',
     eIfaceByIndex = (\<lambda>i. if i = 2 then Some demo_if else None), eIfaceByName = (\<lambda>_. None),
     eInterfaceAddrs = ifAddrs demo_if, eFloat = demo_float, eRange = (\<lambda>_. []), eRawSend = True,
     eMeanwhile = (\<lambda>d. d), eTimeout = False\<rparr>"

definition demo_cfg :: config4 where
  "demo_cfg = \<lparr>cfgInterface = '''', cfgClusterEnabled = False, cfgDiscoverReplyDelay = 0, cfgNodeID = ''n1''\<rparr>"

definition wide_scope :: scope where
  "wide_scope = \<lparr>scID = ''s0'', scName = ''wide'', scV6 = False,
     scSubnet = Some \<lparr>netIP = [192, 168, 0, 0], netMask = [255, 255, 0, 0]\<rparr>, scPrefix = None,
     scSubnetStr = '''', scPrefixStr = '''', scStartIP = [192, 168, 2, 10], scEndIP = [192, 168, 2, 20],
     scGateway = [], scDNS = [], scExcludedIPs = [],
     scDomainName = '''', scLeaseTime = 0, scMaxLeaseTime = 0, scEnabled = True, scPDEnabled = False,
     scOptions = None, scCreatedAt = 0, scUpdatedAt = 0\<rparr>"

definition lan_scope :: scope where
  "lan_scope = wide_scope\<lparr>scID := ''s1'', scName := ''lan'', scLeaseTime := 3600, scMaxLeaseTime := 7200,
     scSubnet := Some \<lparr>netIP = [192, 168, 1, 0], netMask = [255, 255, 255, 0]\<rparr>,
     scStartIP := [192, 168, 1, 10], scEndIP := [192, 168, 1, 20]\<rparr>"

definition demo_sv :: server4 where
  "demo_sv = \<lparr>svScopes = [wide_scope, lan_scope], svPending = Map.empty, svCfgIfIndex = 0, svRawFd = True\<rparr>"

definition demo_request :: packet where
  "demo_request = empty_packet\<lparr>Op := 1, HType := 1, HLen := 6, XID := 7, CIAddr := [0, 0, 0, 0],
     GIAddr := [0, 0, 0, 0], CHAddr := [2, 0, 0, 0, 0, 9], IfIndex := 2,
     Options := [OptDHCPMessageType \<mapsto> [DHCPRequest], OptRequestedIPAddr \<mapsto> [192, 168, 1, 15],
       OptIPAddressLeaseTime \<mapsto> [0, 0, 2, 88], OptParameterRequestList \<mapsto> [1, 3]]\<rparr>"

lemma demo_matchScope: "matchScope demo_env demo_cfg demo_sv demo_request = Ret lan_scope"
  by code_simp

theorem matchScope_best_witness:
  "lan_scope \<in> set (svScopes demo_sv) \<and> mask_ones wide_scope \<le> mask_ones lan_scope"
proof -
  have "\<forall>s \<in> set (svScopes demo_sv). 0 < mask_ones s" by code_simp
  note b = matchScope_best [OF demo_matchScope this]
  have "scope_matches demo_env demo_cfg demo_request wide_scope = Ret True" by code_simp
  with b show ?thesis by (auto simp: demo_sv_def)
qed

section \<open>Options of a reply\<close>

lemma Opt_Set_other [simp]: "c \<noteq> code \<Longrightarrow> Opt_Set o' code d c = o' c"
  by (simp add: Opt_Set_def split: option.splits)

lemma Opt_Set_same [simp]: "Opt_Set o' code d code = d"
  by (simp add: Opt_Set_def split: option.splits)

lemma copy_options:
  "foldl (copy_option from) acc codes c = (if c \<in> set codes \<and> from c \<noteq> None then from c else acc c)"
proof (induction codes arbitrary: acc)
  case (Cons a codes)
  then show ?case by (cases "a = c") (auto simp: copy_option_def Opt_Get_def split: option.splits)
qed simp

text \<open>The options a reply always carries.\<close>

definition mandatory :: "byte set" where
  "mandatory = {OptDHCPMessageType, OptServerIdentifier, OptIPAddressLeaseTime, OptRenewalTimeValue, OptRebindingTimeValue}"

lemma filter_options_lookup:
  "filter_options prl o' c = (if prl = [] \<or> c \<in> set prl \<union> mandatory then o' c else None)"
  by (auto simp: filter_options_def copy_options mandatory_def Opt_Set_def
      simp del: foldl_Cons foldl_Nil split: option.splits)

text \<open>
  The filter by the parameter request list is a restriction: with a list, the reply keeps an
  option exactly when it is requested or mandatory, with its value; with no list it keeps all.
\<close>

theorem filter_options_restrict:
  "filter_options prl o' = (if prl = [] then o' else o' |` (set prl \<union> mandatory))"
  by (rule ext) (simp add: filter_options_lookup restrict_map_def)

text \<open>
  The value option \<open>c\<close> has after a layer of configured options: the layer's own when it has one that
  builds, the value \<open>d\<close> from below otherwise.
\<close>

definition layered :: "go_float \<Rightarrow> option_map \<Rightarrow> string list \<Rightarrow> byte \<Rightarrow> bytes option \<Rightarrow> bytes option" where
  "layered g m ks c d =
     (case List.find (\<lambda>k. m k \<noteq> None \<and> parseOptionCode k = c) ks of
        None \<Rightarrow> d
      | Some k \<Rightarrow> (case BuildOption g c (optionMapToValue (the (m k))) of Ret raw \<Rightarrow> raw | _ \<Rightarrow> d))"

definition one_key_per_code :: "option_map \<Rightarrow> bool" where
  "one_key_per_code m \<longleftrightarrow> inj_on parseOptionCode {k \<in> dom m. parseOptionCode k \<noteq> 0}"

lemma layered_Nil [simp]: "layered g m [] c d = d"
  by (simp add: layered_def)

lemma layered_skip: "m k = None \<or> parseOptionCode k \<noteq> c \<Longrightarrow> layered g m (k # ks) c d = layered g m ks c d"
  by (auto simp: layered_def)

lemma layered_hit:
  "m k = Some v \<Longrightarrow> parseOptionCode k = c \<Longrightarrow> layered g m (k # ks) c d =
     (case BuildOption g c (optionMapToValue v) of Ret raw \<Rightarrow> raw | _ \<Rightarrow> d)"
  by (auto simp: layered_def)

text \<open>A layer whose entry for \<open>c\<close> is \<open>k\<close> gives the same value wherever \<open>k\<close> stands in the range order.\<close>

lemma layered_again:
  assumes "one_key_per_code m" and "m k = Some v" and "parseOptionCode k = c" "c \<noteq> 0"
  shows "layered g m ks c (case BuildOption g c (optionMapToValue v) of Ret raw \<Rightarrow> raw | _ \<Rightarrow> d)
    = (case BuildOption g c (optionMapToValue v) of Ret raw \<Rightarrow> raw | _ \<Rightarrow> d)"
proof (cases "List.find (\<lambda>k. m k \<noteq> None \<and> parseOptionCode k = c) ks")
  case (Some k')
  then have "m k' \<noteq> None" "parseOptionCode k' = c" by (auto simp: find_Some_iff)
  with assms have "k' = k" unfolding one_key_per_code_def by (auto elim!: inj_onD)
  with Some assms show ?thesis by (simp add: layered_def split: run.splits)
qed (simp add: layered_def)

lemma option_layer_Ret:
  assumes "option_layer g m ks o' = Ret o''" and "one_key_per_code m"
  shows "o'' c = (if c = 0 then o' c else layered g m ks c (o' c))"
  using assms(1)
proof (induction ks arbitrary: o')
  case (Cons k ks)
  show ?case
  proof (cases "m k = None \<or> parseOptionCode k = 0")
    case True
    with Cons.prems have "option_layer g m ks o' = Ret o''" by (auto split: option.splits)
    from Cons.IH [OF this] True show ?thesis by (auto simp: layered_skip)
  next
    case False
    then obtain v where v: "m k = Some v" "parseOptionCode k \<noteq> 0" by auto
    let ?b = "BuildOption g (parseOptionCode k) (optionMapToValue v)"
    from Cons.prems v obtain o1 where o1: "option_layer g m ks o1 = Ret o''"
      "o1 = (case ?b of Ret raw \<Rightarrow> Opt_Set o' (parseOptionCode k) raw | _ \<Rightarrow> o')"
      by (auto simp: Let_def split: run.splits)
    show ?thesis
    proof (cases "parseOptionCode k = c")
      case True
      then have "o1 c = (case BuildOption g c (optionMapToValue v) of Ret raw \<Rightarrow> raw | _ \<Rightarrow> o' c)"
        using o1(2) by (simp split: run.splits)
      with Cons.IH [OF o1(1)] layered_again [OF assms(2) v(1) True] layered_hit [of m k v c g ks "o' c"] True v
      show ?thesis by simp
    next
      case False
      then have "o1 c = o' c" using o1(2) by (simp split: run.splits)
      with Cons.IH [OF o1(1)] layered_skip [of m k c g ks "o' c"] False show ?thesis by auto
    qed
  qed
qed simp

text \<open>The three layers over the options the server derives from the scope and the lease time.\<close>

definition layers ::
  "env4 \<Rightarrow> scope \<Rightarrow> reservation option \<Rightarrow> raw_json \<Rightarrow> byte \<Rightarrow> bytes option \<Rightarrow> bytes option" where
  "layers env sc res groupOpts c d =
     (let over = (\<lambda>raw. layered (eFloat env) (ParseOptionMap raw) (eRange env (ParseOptionMap raw)) c)
      in (case res of None \<Rightarrow> (\<lambda>x. x) | Some r \<Rightarrow> over (rOptions r)) (over (scOptions sc) (over groupOpts d)))"

text \<open>
  C28. Option layering: when no layer names one code twice, each option of a reply has the
  reservation's value if the reservation configures one that builds, else the scope's, else the
  group's, else the value derived from the scope and the lease time, whatever order the
  maps are ranged in; and the parameter request list restricts the result.
\<close>

theorem applyOptions_layers:
  assumes "applyOptions env req reply sc res groupOpts leaseTime = Ret reply'"
    and "one_key_per_code (ParseOptionMap groupOpts)" and "one_key_per_code (ParseOptionMap (scOptions sc))"
    and "\<forall>r. res = Some r \<longrightarrow> one_key_per_code (ParseOptionMap (rOptions r))" and "c \<noteq> 0"
  shows "Options reply' c =
    (if ParameterRequestList (Options req) = [] \<or> c \<in> set (ParameterRequestList (Options req)) \<union> mandatory
     then layers env sc res groupOpts c (scope_options sc (lease_time_options leaseTime (Options reply)) c)
     else None)"
proof -
  from assms(1) obtain o1 o2 o3 where
    o1: "option_layer (eFloat env) (ParseOptionMap groupOpts) (eRange env (ParseOptionMap groupOpts))
      (scope_options sc (lease_time_options leaseTime (Options reply))) = Ret o1"
    and o2: "option_layer (eFloat env) (ParseOptionMap (scOptions sc)) (eRange env (ParseOptionMap (scOptions sc))) o1 = Ret o2"
    and o3: "case res of None \<Rightarrow> o3 = o2
      | Some r \<Rightarrow> option_layer (eFloat env) (ParseOptionMap (rOptions r)) (eRange env (ParseOptionMap (rOptions r))) o2 = Ret o3"
    and r: "Options reply' = filter_options (ParameterRequestList (Options req)) o3"
    by (cases res) (auto simp: applyOptions_def Let_def bind_run_Ret_iff)
  note l1 = option_layer_Ret [OF o1 assms(2), of c] and l2 = option_layer_Ret [OF o2 assms(3), of c]
  have "o3 c = layers env sc res groupOpts c (scope_options sc (lease_time_options leaseTime (Options reply)) c)"
  proof (cases res)
    case (Some r)
    with o3 assms(4) option_layer_Ret [of "eFloat env" "ParseOptionMap (rOptions r)" _ o2 o3 c]
    show ?thesis using assms(5) l1 l2 by (simp add: layers_def Let_def)
  qed (use o3 assms(5) l1 l2 in \<open>simp add: layers_def Let_def\<close>)
  with r show ?thesis by (simp add: filter_options_lookup)
qed

definition string_option :: "string \<Rightarrow> string \<Rightarrow> string \<times> json" where
  "string_option code s = (code, JObj [(''type'', JStr ''string''), (''value'', JStr s)])"

definition layer_env :: env4 where
  "layer_env = demo_env\<lparr>eRange := \<lambda>m. filter (\<lambda>k. m k \<noteq> None) [''15'', ''66'', ''67'']\<rparr>"

definition layer_scope :: scope where
  "layer_scope = lan_scope\<lparr>scDomainName := ''base'',
     scOptions := Some (JObj [string_option ''15'' ''scope'', string_option ''66'' ''scope''])\<rparr>"

definition layer_reservation :: reservation where
  "layer_reservation = \<lparr>rID = ''r1'', rScopeID = ''s1'', rGroupID = '''', rMACAddr = ''cc'',
     rIPAddr = [192, 168, 1, 14], rHostname = '''', rDescription = '''',
     rOptions = Some (JObj [string_option ''66'' ''host'']), rCreatedAt = 0, rUpdatedAt = 0\<rparr>"

lemma one_key_per_codeI:
  assumes "dom m \<subseteq> set ks" and "distinct (map parseOptionCode ks)"
  shows "one_key_per_code m"
  using assms unfolding one_key_per_code_def distinct_map by (blast intro: inj_on_subset)

theorem applyOptions_layers_witness:
  "\<exists>reply. applyOptions layer_env (demo_request\<lparr>Options := Map.empty\<rparr>) empty_packet layer_scope
      (Some layer_reservation) (Some (JObj [string_option ''67'' ''group''])) 0 = Ret reply
    \<and> map (Options reply) [15, 66, 67]
      = [Some (bytes_of_string ''scope''), Some (bytes_of_string ''host''), Some (bytes_of_string ''group'')]"
proof -
  let ?g = "Some (JObj [string_option ''67'' ''group''])"
  let ?call = "applyOptions layer_env (demo_request\<lparr>Options := Map.empty\<rparr>) empty_packet layer_scope (Some layer_reservation) ?g 0"
  have "(case ?call of Ret _ \<Rightarrow> True | _ \<Rightarrow> False)" by code_simp
  then obtain reply where r: "?call = Ret reply" by (auto split: run.splits)
  have keys: "one_key_per_code (ParseOptionMap raw)" if "raw \<in> {?g, scOptions layer_scope, rOptions layer_reservation}" for raw
  proof (rule one_key_per_codeI [of _ "[''15'', ''66'', ''67'']"])
    show "dom (ParseOptionMap raw) \<subseteq> set [''15'', ''66'', ''67'']"
      using that by (auto simp: ParseOptionMap_def string_option_def layer_scope_def layer_reservation_def split: if_splits)
    show "distinct (map parseOptionCode [''15'', ''66'', ''67''])" by code_simp
  qed
  have prl: "ParameterRequestList (Options (demo_request\<lparr>Options := Map.empty\<rparr>)) = []" by code_simp
  note c = applyOptions_layers [OF r keys keys, unfolded prl, simplified]
  have k: "one_key_per_code (ParseOptionMap (rOptions layer_reservation))" by (rule keys) simp
  have v: "layers layer_env layer_scope (Some layer_reservation) ?g 15
        (scope_options layer_scope (lease_time_options 0 (Options empty_packet)) 15) = Some (bytes_of_string ''scope'')"
      "layers layer_env layer_scope (Some layer_reservation) ?g 66
        (scope_options layer_scope (lease_time_options 0 (Options empty_packet)) 66) = Some (bytes_of_string ''host'')"
      "layers layer_env layer_scope (Some layer_reservation) ?g 67
        (scope_options layer_scope (lease_time_options 0 (Options empty_packet)) 67) = Some (bytes_of_string ''group'')"
    by code_simp+
  have "Options reply 15 = Some (bytes_of_string ''scope'')" "Options reply 66 = Some (bytes_of_string ''host'')"
    "Options reply 67 = Some (bytes_of_string ''group'')"
    using c [of 15] c [of 66] c [of 67] v k by simp_all
  with r show ?thesis by simp
qed

section \<open>Codes in the configuration\<close>

lemma atoi_loop_digits:
  "(\<And>c. c \<in> set s \<Longrightarrow> is_digit c) \<Longrightarrow>
     atoi_loop n s = Some (foldl (\<lambda>n c. n * 10 + of_nat (of_char c - 48)) n s)"
  by (induction s arbitrary: n) simp_all

lemma foldl_of_nat:
  "foldl (\<lambda>n c. n * 10 + of_nat (f c)) (of_nat k) s = (of_nat (foldl (\<lambda>n c. n * 10 + f c) k s) :: 64 word)"
proof (induction s arbitrary: k)
  case (Cons c s)
  have "of_nat k * 10 + of_nat (f c) = (of_nat (k * 10 + f c) :: 64 word)" by simp
  with Cons show ?case by (simp only: foldl_Cons)
qed simp

text \<open>
  Option codes in the configuration: the decimal text of a number \<open>n\<close> up to 255 names the option
  \<open>n\<close>; a larger number names no option, except that the 64-bit accumulator wraps, so that \<open>n\<close> counts
  modulo \<open>2 ^ 64\<close>.
\<close>

theorem parseOptionCode_dec:
  "parseOptionCode (dec_string n) = (if n mod 2 ^ 64 \<le> 255 then of_nat (n mod 2 ^ 64) else 0)"
proof -
  let ?w = "of_nat n :: 64 word"
  have "atoi_loop 0 (dec_string n) = Some ?w"
    using atoi_loop_digits [of "dec_string n" 0] dec_string_digits [of _ n] dec_value_string [of n]
      foldl_of_nat [of "\<lambda>c. of_char c - 48" 0 "dec_string n"]
    by (simp add: is_digit_def dec_value_def)
  then have a: "strconvAtoi (dec_string n) = Some (sint ?w)" by (simp add: strconvAtoi_def)
  have u: "uint ?w = int (n mod 2 ^ 64)" by (simp add: uint_nat unat_of_nat)
  have s: "sint ?w = (if n mod 2 ^ 64 < 2 ^ 63 then int (n mod 2 ^ 64) else int (n mod 2 ^ 64) - 2 ^ 64)"
  proof -
    have shift: "(x + 2 ^ 63) mod 2 ^ 64 - 2 ^ 63 = (if x < 2 ^ 63 then x else x - 2 ^ 64)"
      if "0 \<le> x" "x < 2 ^ 64" for x :: int
      using that mod_add_self2 [of "x - 2 ^ 63" "2 ^ 64"] by (cases "x < 2 ^ 63") (simp_all add: add.commute)
    show ?thesis
      unfolding sint_uint u using shift [of "int (n mod 2 ^ 64)"]
      by (simp add: signed_take_bit_eq_take_bit_shift take_bit_eq_mod)
  qed
  show ?thesis
    unfolding parseOptionCode_def a using s by auto
qed

section \<open>Replies\<close>

text \<open>What a reply takes over from its request.\<close>

definition echoes :: "packet \<Rightarrow> packet \<Rightarrow> bool" where
  "echoes req reply \<longleftrightarrow> Op reply = BootReply \<and> HType reply = HType req \<and> HLen reply = HLen req \<and> XID reply = XID req
     \<and> Flags reply = Flags req \<and> CIAddr reply = CIAddr req \<and> GIAddr reply = GIAddr req
     \<and> CHAddr reply = CHAddr req \<and> IfIndex reply = IfIndex req"

definition answers :: "env4 \<Rightarrow> config4 \<Rightarrow> server4 \<Rightarrow> packet \<Rightarrow> out4 \<Rightarrow> bool" where
  "answers env cfg sv req o' \<longleftrightarrow> length (oSent o') \<le> 1
     \<and> (\<forall>s \<in> set (oSent o'). \<exists>reply. s = sendReply env cfg sv reply \<and> echoes req reply)"

lemma echoes_ReplyFromRequest [simp]: "echoes req (ReplyFromRequest req t)"
  unfolding echoes_def ReplyFromRequest_def packet.simps by blast

lemma echoes_update [simp]:
  "echoes req (p\<lparr>YIAddr := y\<rparr>) = echoes req p" "echoes req (p\<lparr>Options := q\<rparr>) = echoes req p"
  by (simp_all add: echoes_def)

lemma echoes_AppendOption [simp]:
  "echoes req (AppendOption p c d) = echoes req p" "echoes req (setServerIdentifier env cfg p r) = echoes req p"
  by (simp_all add: AppendOption_def setServerIdentifier_def)

lemma applyOptions_reply:
  assumes "applyOptions env r reply sc res groupOpts lt = Ret reply'"
  obtains o3 where "reply' = reply\<lparr>Options := o3\<rparr>"
  using assms unfolding applyOptions_def Let_def bind_run_Ret_iff run.inject by blast

lemma applyOptions_echoes:
  "applyOptions env r reply sc res groupOpts lt = Ret reply' \<Longrightarrow> echoes req reply' = echoes req reply"
  by (elim applyOptions_reply) simp

lemma applyOptions_YIAddr: "applyOptions env r reply sc res groupOpts lt = Ret reply' \<Longrightarrow> YIAddr reply' = YIAddr reply"
  by (elim applyOptions_reply) simp

lemma YIAddr_setServerIdentifier [simp]: "YIAddr (setServerIdentifier env cfg p r) = YIAddr p"
  by (simp add: setServerIdentifier_def AppendOption_def)

named_theorems answers_intro \<open>introduction rules for \<open>answers\<close>\<close>

lemma answers_none [answers_intro]: "answers env cfg sv req (done4 [] db)"
  by (simp add: answers_def)

lemma answers_nak [answers_intro]: "answers env cfg sv req (done4 [sendNAK env cfg sv req reason] db)"
  by (auto simp: answers_def sendNAK_def Let_def)

lemma answers_reply [answers_intro]:
  "echoes req reply \<Longrightarrow> answers env cfg sv req (done4 [sendReply env cfg sv reply] db)"
  by (auto simp: answers_def)

lemma answers_crash [answers_intro]: "answers env cfg sv req \<lparr>oSent = [], oDb = db, oEnd = e\<rparr>"
  by (simp add: answers_def)

lemma answers_on_result [answers_intro]:
  "(\<And>x. r = Ret x \<Longrightarrow> answers env cfg sv req (ok x)) \<Longrightarrow> (\<And>e. answers env cfg sv req (bad e))
    \<Longrightarrow> answers env cfg sv req (on_result r db ok bad)"
  by (cases r) (auto simp: on_result_def intro: answers_intro)

lemma answers_applied [answers_intro]:
  assumes "echoes req reply"
  shows "answers env cfg sv req (on_result (applyOptions env req reply sc res groupOpts lt) db
           (\<lambda>reply. done4 [sendReply env cfg sv reply] db') (\<lambda>_. done4 [] db))"
  using assms by (intro answers_intro) (simp add: applyOptions_echoes)

lemma answers_discover_offer: "answers env cfg sv req (discover_offer env cfg sv req sc db)"
  unfolding discover_offer_def Let_def split_beta
  by (intro answers_intro) (simp_all add: answers_intro)

lemma answers_processDiscover: "answers env cfg sv req (processDiscover env cfg sv req db)"
  unfolding processDiscover_def Let_def
  by (intro answers_intro) (simp_all add: answers_intro answers_discover_offer)

lemma answers_request_ack: "answers env cfg sv req (request_ack env cfg sv req sc res groupOpts lt l db)"
  unfolding request_ack_def Let_def split_beta
  by (auto intro!: answers_intro simp: applyOptions_echoes)

lemma answers_request_alloc: "answers env cfg sv req (request_alloc env cfg sv req sc res groupOpts db)"
  unfolding request_alloc_def Let_def split_beta
  by (intro answers_intro answers_request_ack)

lemma answers_handleRequest: "answers env cfg sv req (handleRequest env cfg sv req db)"
  unfolding handleRequest_def Let_def
  by (auto intro!: answers_intro answers_request_alloc split: option.split)

lemma answers_handleInform: "answers env cfg sv req (handleInform env cfg sv req db)"
  unfolding handleInform_def Let_def by (intro answers_intro) simp

lemma silent_handleRelease [simp]: "oSent (handleRelease env cfg sv req db) = []"
  by (simp add: handleRelease_def Let_def split_beta on_result_def split: run.split)

lemma silent_handleDecline [simp]: "oSent (handleDecline env cfg sv req db) = []"
  by (simp add: handleDecline_def Let_def split_beta on_result_def split: run.split)

lemma answers_handleDiscover:
  "\<exists>sv'. answers env cfg sv' req (snd (handleDiscover env cfg sv req db))
     \<and> svCfgIfIndex sv' = svCfgIfIndex sv \<and> svRawFd sv' = svRawFd sv"
  using answers_processDiscover [of env cfg "cancelPendingDiscover sv (mac_String (CHAddr req))" req db]
  by (auto simp: handleDiscover_def Let_def cancelPendingDiscover_def intro: answers_none)

lemma sendReply_cong:
  "svCfgIfIndex sv' = svCfgIfIndex sv \<Longrightarrow> svRawFd sv' = svRawFd sv \<Longrightarrow> sendReply env cfg sv' r = sendReply env cfg sv r"
  by (simp add: sendReply_def reply_dest_def outIfIndex_def sendRawUnicast_def Let_def)

lemma answers_if: "answers env cfg sv req a \<Longrightarrow> answers env cfg sv req b \<Longrightarrow> answers env cfg sv req (if c then a else b)"
  by simp

lemma answers_silent: "oSent o' = [] \<Longrightarrow> answers env cfg sv req o'"
  by (simp add: answers_def)

lemma answers_handlePacket:
  assumes "ParsePacket data = Ret p"
  shows "answers env cfg sv (p\<lparr>IfIndex := ifIndex\<rparr>) (snd (handlePacket env cfg sv data ifIndex db))"
proof -
  let ?req = "p\<lparr>IfIndex := ifIndex\<rparr>"
  obtain sv' where "answers env cfg sv' ?req (snd (handleDiscover env cfg sv ?req db))"
    and sv': "svCfgIfIndex sv' = svCfgIfIndex sv" "svRawFd sv' = svRawFd sv"
    using answers_handleDiscover by blast
  then have d: "answers env cfg sv ?req (snd (handleDiscover env cfg sv ?req db))"
    unfolding answers_def sendReply_cong [OF sv'] by blast
  show ?thesis
    unfolding handlePacket_def assms run.case Let_def if_distrib [of snd] snd_conv
    by (intro answers_if d answers_none answers_handleRequest answers_handleInform
        answers_silent [OF silent_handleRelease] answers_silent [OF silent_handleDecline])
qed

lemma sendReply_dest:
  assumes "echoes req reply"
  shows "if \<not> zero_addr (normalizeIP (GIAddr req)) then sDest (sendReply env cfg sv reply) = UDP (normalizeIP (GIAddr req)) 67
       else if Flags req AND 0x8000 \<noteq> 0 then sDest (sendReply env cfg sv reply) = UDP IPv4bcast 68
       else sDest (sendReply env cfg sv reply) \<in> {UDP IPv4bcast 68, UDP (normalizeIP (CIAddr req)) 68, Frame (CHAddr req)}"
  using assms by (simp add: sendReply_def reply_dest_def Let_def echoes_def)

text \<open>
  C22. Replies: a packet gets at most one reply. It is a BOOTREPLY with the transaction id, hardware
  address, flags and addresses of the request. A relayed request is answered to the relay's
  port 67, even by a NAK; any other reply goes to port 68 of the client's own address, or by
  broadcast, or in a frame to the client's hardware address; and a reply to a client that
  set the broadcast flag is broadcast.
\<close>

theorem replies_return_to_sender:
  assumes "ParsePacket data = Ret req" and "out = snd (handlePacket env cfg sv data ifIndex db)"
  shows "length (oSent out) \<le> 1 \<and> (\<forall>s \<in> set (oSent out).
      echoes (req\<lparr>IfIndex := ifIndex\<rparr>) (sReply s)
    \<and> (if \<not> zero_addr (normalizeIP (GIAddr req)) then sDest s = UDP (normalizeIP (GIAddr req)) 67
       else if Flags req AND 0x8000 \<noteq> 0 then sDest s = UDP IPv4bcast 68
       else sDest s \<in> {UDP IPv4bcast 68, UDP (normalizeIP (CIAddr req)) 68, Frame (CHAddr req)}))"
proof -
  let ?req = "req\<lparr>IfIndex := ifIndex\<rparr>"
  have a: "answers env cfg sv ?req out" using answers_handlePacket [OF assms(1)] assms(2) by simp
  have "echoes ?req (sReply s) \<and>
      (if \<not> zero_addr (normalizeIP (GIAddr req)) then sDest s = UDP (normalizeIP (GIAddr req)) 67
       else if Flags req AND 0x8000 \<noteq> 0 then sDest s = UDP IPv4bcast 68
       else sDest s \<in> {UDP IPv4bcast 68, UDP (normalizeIP (CIAddr req)) 68, Frame (CHAddr req)})"
    if "s \<in> set (oSent out)" for s
  proof -
    from a that obtain reply where s: "s = sendReply env cfg sv reply" and e: "echoes ?req reply"
      unfolding answers_def by blast
    have "sReply s = reply" by (simp add: s sendReply_def)
    with e sendReply_dest [OF e, of env cfg sv] show ?thesis by (simp add: s split: if_split_asm)
  qed
  with a show ?thesis unfolding answers_def by blast
qed

definition discover_bytes :: bytes where
  "discover_bytes = Marshal [OptDHCPMessageType]
     (demo_request\<lparr>GIAddr := [192, 168, 1, 1], CIAddr := [0, 0, 0, 0], YIAddr := [0, 0, 0, 0], SIAddr := [0, 0, 0, 0],
        Options := [OptDHCPMessageType \<mapsto> [DHCPInform]]\<rparr>)"

definition empty_db :: db where
  "empty_db = \<lparr>dbScopes = [], dbReservations = [], dbLeases = [], dbV6Leases = [],
     dbV6Reservations = [], dbV6Prefixes = [], dbGroups = [], dbBlacklist = [], dbHANodes = [],
     dbServerState = [], dbAllocLogs = [], dbSystemLogs = []\<rparr>"

theorem replies_return_to_sender_witness:
  "map sDest (oSent (snd (handlePacket demo_env demo_cfg demo_sv discover_bytes 2 empty_db))) = [UDP [192, 168, 1, 1] 67]"
proof -
  let ?out = "snd (handlePacket demo_env demo_cfg demo_sv discover_bytes 2 empty_db)"
  have "case ParsePacket discover_bytes of Ret p \<Rightarrow> GIAddr p = [192, 168, 1, 1] | _ \<Rightarrow> False" by code_simp
  then obtain req where r: "ParsePacket discover_bytes = Ret req" "GIAddr req = [192, 168, 1, 1]"
    by (auto split: run.splits)
  have g: "\<not> zero_addr [192, 168, 1, 1]" "normalizeIP [192, 168, 1, 1] = [192, 168, 1, 1]" by code_simp+
  have "length (oSent ?out) = 1" by code_simp
  then obtain s where s: "oSent ?out = [s]" by (auto simp: length_Suc_conv)
  from replies_return_to_sender [OF r(1) refl, of demo_env demo_cfg demo_sv 2 empty_db]
  have "sDest s = UDP [192, 168, 1, 1] 67" by (simp add: s r(2) g)
  with s show ?thesis by simp
qed

end
