(* ===== verification/Dhcp4_Safety.thy ===== *)
theory Dhcp4_Safety
  imports Dhcp4_Reply Alloc4_Safety
begin

text \<open>
  The DHCPv4 handlers and the lease table: an acknowledged address is bound to its client, an
  offered one is held for it, a client's packets leave the live leases of other clients alone,
  and RELEASE and DECLINE reach only the sender's own lease.
\<close>

section \<open>What one client's packet may change\<close>

text \<open>
  \<open>client_step now mac db db'\<close>: the tables keep their constraints, and no live lease of another client
  is touched.
\<close>

definition client_step :: "time \<Rightarrow> string \<Rightarrow> db \<Rightarrow> db \<Rightarrow> bool" where
  "client_step now mac db db' \<longleftrightarrow> wf_db db'
     \<and> (\<forall>x \<in> set (dbLeases db). lMACAddr x \<noteq> mac \<and> lease_blocks now x \<longrightarrow> x \<in> set (dbLeases db'))"

lemma client_step_refl [simp]: "wf_db db \<Longrightarrow> client_step now mac db db"
  by (simp add: client_step_def)

lemma client_step_trans:
  "client_step now mac db db1 \<Longrightarrow> client_step now mac db1 db2 \<Longrightarrow> client_step now mac db db2"
  by (auto simp: client_step_def)

lemma client_step_wf: "client_step now mac db db' \<Longrightarrow> wf_db db'"
  by (simp add: client_step_def)

text \<open>Writing an allocation log changes no other table.\<close>

lemma logIPAllocation_tables:
  obtains rows where "logIPAllocation env cfg sc mac p action req hostname db = db\<lparr>dbAllocLogs := rows\<rparr>"
proof -
  have "\<exists>rows. logIPAllocation env cfg sc mac p action req hostname db = db\<lparr>dbAllocLogs := rows\<rparr>"
    unfolding logIPAllocation_def CreateIPAllocationLog_def
    by (rule settle_keeps) (auto simp: bind_run_Ret_iff intro: exI [of _ "dbAllocLogs db"])
  then show ?thesis using that by blast
qed

lemma logIPAllocation_leases [simp]: "dbLeases (logIPAllocation env cfg sc mac p action req hostname db) = dbLeases db"
  using logIPAllocation_tables [of env cfg sc mac p action req hostname db] by (metis db.select_convs db.surjective db.update_convs(11))

lemma logIPAllocation_wf [simp]: "wf_db (logIPAllocation env cfg sc mac p action req hostname db) = wf_db db"
proof -
  obtain rows where "logIPAllocation env cfg sc mac p action req hostname db = db\<lparr>dbAllocLogs := rows\<rparr>"
    by (rule logIPAllocation_tables)
  then show ?thesis by (simp add: wf_db_def)
qed

lemma client_step_log [simp]:
  "client_step now mac db (logIPAllocation env cfg sc m p action req hostname db') = client_step now mac db db'"
  by (simp add: client_step_def)

text \<open>A lease granted to \<open>mac\<close>.\<close>

lemma grant4_step:
  assumes "grant4 a l db db'" and "wf_db db"
  shows "client_step (a4Now a) (a4MAC a) db db'"
proof -
  from assms(1) obtain row rows where db': "db' = db\<lparr>dbLeases := rows\<rparr>" and u: "uniq lease_clash rows"
    and rec: "recorded l row" and c: "canon (lIPAddr row)"
    and rep: "replaced (gone4 a (normalizeIP (lIPAddr l))) row (dbLeases db) rows"
    by (auto simp: grant4_def)
  have "wf_db db'" unfolding db' using wf_db_replaced [OF assms(2) u rep c] rec by (simp add: recorded_def)
  moreover have "x \<in> set rows" if "x \<in> set (dbLeases db)" "lMACAddr x \<noteq> a4MAC a" "lease_blocks (a4Now a) x" for x
    using replaced_kept [OF rep that(1)] that by (simp add: gone4_def)
  ultimately show ?thesis by (simp add: client_step_def db')
qed

lemma AllocateV4Lease_step:
  assumes "AllocateV4Lease flt now uuid sc mac clientID preferred hostname leaseTime maxLeaseTime db = (r, db')"
    and "wf_db db"
  shows "client_step now mac db db'"
proof (cases "\<exists>l. r = Ret l")
  case True
  then obtain l where "AllocateV4Lease flt now uuid sc mac clientID preferred hostname leaseTime maxLeaseTime db = (Ret l, db')"
    using assms(1) by blast
  from this assms(2) obtain a path where "a4MAC a = mac" "a4Now a = now" "grant4 a l db db'"
    by (rule AllocateV4Lease_Ret)
  with grant4_step [OF _ assms(2)] show ?thesis by blast
next
  case False
  let ?a = "\<lparr>a4Scope = sc, a4MAC = mac, a4ClientID = clientID, a4Hostname = hostname, a4Now = now,
    a4EndsAt = now + clampLeaseTime leaseTime maxLeaseTime * Second, a4UUID = uuid\<rparr>"
  have "WithTx flt (alloc4_tx flt ?a preferred) db = (r, db')"
    using assms(1) by (simp add: AllocateV4Lease_def Let_def)
  with WithTx_rollback [of flt "alloc4_tx flt ?a preferred" db] False have "db' = db" by auto
  with assms(2) show ?thesis by simp
qed

text \<open>Setting the state of rows by id, or by client and address, keeps the constraints.\<close>

lemma wf_db_set_state:
  assumes "wf_db db"
  shows "wf_db (db\<lparr>dbLeases := update_where P (\<lambda>l. l\<lparr>lState := st, lUpdatedAt := t\<rparr>) (dbLeases db)\<rparr>)"
proof -
  have "uniq lease_clash (update_where P (\<lambda>l. l\<lparr>lState := st, lUpdatedAt := t\<rparr>) (dbLeases db))"
    using assms by (intro leases.uniq_update_where) (auto simp: wf_db_def lease_clash_def)
  with assms show ?thesis by (auto simp: wf_db_def set_update_where)
qed

lemma set_state_step:
  assumes "wf_db db" and "\<And>x. x \<in> set (dbLeases db) \<Longrightarrow> P x \<Longrightarrow> lMACAddr x = mac"
  shows "client_step now mac db (db\<lparr>dbLeases := update_where P (\<lambda>l. l\<lparr>lState := st, lUpdatedAt := t\<rparr>) (dbLeases db)\<rparr>)"
  using wf_db_set_state [OF assms(1)] assms(2) by (auto simp: client_step_def set_update_where)

lemma UpdateLeaseState_db:
  "snd (UpdateLeaseState flt t ident st db)
     \<in> {db, db\<lparr>dbLeases := update_where (\<lambda>l. lID l = ident) (\<lambda>l. l\<lparr>lState := st, lUpdatedAt := t\<rparr>) (dbLeases db)\<rparr>}"
  unfolding UpdateLeaseState_def by (rule settle_keeps) auto

lemma UpdateLeaseStateByMACIP_db:
  obtains P where "\<forall>x. P x \<longrightarrow> lScopeID x = sid \<and> lMACAddr x = mac \<and> lIPAddr x = normalizeIP p \<and> lState x \<in> {LeaseActive, LeaseOffered}"
    "snd (UpdateLeaseStateByMACIP flt t sid mac p st db)
       = db\<lparr>dbLeases := update_where P (\<lambda>l. l\<lparr>lState := st, lUpdatedAt := t\<rparr>) (dbLeases db)\<rparr>"
proof -
  have none: "update_where (\<lambda>_. False) f rows = rows" for f :: "lease \<Rightarrow> lease" and rows by (simp add: update_where_def)
  have "\<exists>P. (\<forall>x. P x \<longrightarrow> lScopeID x = sid \<and> lMACAddr x = mac \<and> lIPAddr x = normalizeIP p \<and> lState x \<in> {LeaseActive, LeaseOffered})
    \<and> snd (UpdateLeaseStateByMACIP flt t sid mac p st db)
       = db\<lparr>dbLeases := update_where P (\<lambda>l. l\<lparr>lState := st, lUpdatedAt := t\<rparr>) (dbLeases db)\<rparr>"
    unfolding UpdateLeaseStateByMACIP_def
  proof (rule settle_keeps, goal_cases)
    case 1
    then show ?case by (intro exI [of _ "\<lambda>_. False"]) (simp add: none)
  next
    case (2 ok db')
    then obtain q where q: "host_inet p = Ret q" and db': "db' = db\<lparr>dbLeases := update_where
        (\<lambda>l. lScopeID l = sid \<and> lMACAddr l = mac \<and> Some (lIPAddr l) = q \<and> (lState l = LeaseActive \<or> lState l = LeaseOffered))
        (\<lambda>l. l\<lparr>lState := st, lUpdatedAt := t\<rparr>) (dbLeases db)\<rparr>"
      by (auto simp: bind_run_Ret_iff Let_def)
    then show ?case using host_inet_Some [of p] by (intro exI conjI, intro allI impI) (auto simp: q)
  qed
  then show ?thesis using that by blast
qed

section \<open>REQUEST\<close>

lemma Contains_normalizeIP [simp]: "Contains n (normalizeIP p) = Contains n p"
  by (simp add: Contains_def normalizeIP_def Let_def split_beta To4_def)

lemma RequestedIP_4: "RequestedIP o' \<noteq> [] \<Longrightarrow> length (RequestedIP o') = 4"
  by (auto simp: RequestedIP_def split: option.splits if_splits)

lemma requested_ip_4: "length (CIAddr req) = 4 \<Longrightarrow> length (requested_ip req) = 4"
  using RequestedIP_4 [of "Options req"] by (auto simp: requested_ip_def Let_def)

text \<open>The lease time before the scope's maximum is applied.\<close>

definition wished_lease_time :: "scope \<Rightarrow> packet \<Rightarrow> int" where
  "wished_lease_time sc req = (let lt = or_default DefaultLeaseTime (scLeaseTime sc) in
     case Opt_Get (Options req) OptIPAddressLeaseTime of
       Some b \<Rightarrow> if length b = 4 \<and> 0 < uint (Uint32 b) \<and> uint (Uint32 b) < lt then uint (Uint32 b) else lt
     | None \<Rightarrow> lt)"

lemma request_lease_time_min:
  "request_lease_time sc req = min (wished_lease_time sc req) (or_default DefaultMaxLeaseTime (scMaxLeaseTime sc))"
  unfolding request_lease_time_def wished_lease_time_def Let_def min_def
  by (cases "Opt_Get (Options req) OptIPAddressLeaseTime") simp_all

lemma or_default_nonzero: "d \<noteq> 0 \<Longrightarrow> or_default d t \<noteq> 0"
  by (simp add: or_default_def)

lemma wished_nonzero: "wished_lease_time sc req \<noteq> 0"
  using or_default_nonzero [of DefaultLeaseTime "scLeaseTime sc"]
  by (simp add: wished_lease_time_def Let_def DefaultLeaseTime_def split: option.splits)

lemma clamp_min: "m \<noteq> 0 \<Longrightarrow> t \<noteq> 0 \<Longrightarrow> clampLeaseTime (min t m) m = min t m"
  by (auto simp: clampLeaseTime_def Let_def min_def)

lemma request_lease_time_clamp:
  "clampLeaseTime (request_lease_time sc req) (or_default DefaultMaxLeaseTime (scMaxLeaseTime sc)) = request_lease_time sc req"
  unfolding request_lease_time_min
  by (intro clamp_min or_default_nonzero wished_nonzero) (simp add: DefaultMaxLeaseTime_def)

text \<open>The client holds the lease a reply promises: an active row with its end time.\<close>

definition bound :: "db \<Rightarrow> scope \<Rightarrow> string \<Rightarrow> ip \<Rightarrow> time \<Rightarrow> bool" where
  "bound db sc mac p ends \<longleftrightarrow> (\<exists>row \<in> set (dbLeases db). lScopeID row = scID sc \<and> lMACAddr row = mac
     \<and> lIPAddr row = normalizeIP p \<and> lState row = LeaseActive \<and> lEndsAt row = ends)"

lemma bound_log [simp]: "bound (logIPAllocation env cfg sc' m q action req hostname db) sc mac p ends = bound db sc mac p ends"
  by (simp add: bound_def)

lemma request_granted:
  assumes "AllocateV4Lease flt now uuid sc mac clientID preferred hostname leaseTime maxLeaseTime db = (Ret l, db1)"
    and "wf_db db" and "preferred \<noteq> []" and "scSubnet sc = Some n" "Contains n preferred" and "ip_Equal (lIPAddr l) preferred"
  obtains row where "row \<in> set (dbLeases db1)" "recorded l row" "lID row = lID l" "lScopeID l = scID sc"
    "lMACAddr l = mac" "lEndsAt l = now + clampLeaseTime leaseTime maxLeaseTime * Second"
proof -
  from assms(1,2) obtain a path where a: "a4Scope a = sc" "a4MAC a = mac"
    "a4EndsAt a = now + clampLeaseTime leaseTime maxLeaseTime * Second"
    and g: "grant4 a l db db1" and p: "path4_ok a preferred db l path"
    and i: "same_id l db1 \<or> (\<exists>x. path = Pooled x)"
    by (rule AllocateV4Lease_Ret)
  have "path \<noteq> Pooled x" for x
  proof
    assume "path = Pooled x"
    with p have "l = new_lease a (uint32ToIP x)" "normalizeIP preferred \<noteq> PutUint32 x"
      using assms(3-5) a by (simp_all add: path4_ok_def)
    with normalize_Equal [OF assms(6)] show False by simp
  qed
  with i have "same_id l db1" by blast
  then obtain row where "row \<in> set (dbLeases db1)" "recorded l row" "lID row = lID l"
    unfolding same_id_def by blast
  moreover from g a have "lScopeID l = scID sc" "lMACAddr l = mac"
    "lEndsAt l = now + clampLeaseTime leaseTime maxLeaseTime * Second"
    unfolding grant4_def by simp_all
  ultimately show ?thesis by (rule that)
qed

lemma request_ack_safe:
  assumes al: "AllocateV4Lease flt now uuid sc (mac_String (CHAddr req)) clientID (requested_ip req) hostname leaseTime maxLeaseTime db = (Ret l, db1)"
    and w: "wf_db db" and q: "requested_ip req \<noteq> []" and n: "scSubnet sc = Some n" "Contains n (requested_ip req)"
    and o': "o' = request_ack env cfg sv req sc res groupOpts lt l db1"
  shows "client_step now (mac_String (CHAddr req)) db (oDb o')
    \<and> (\<forall>s \<in> set (oSent o'). (\<exists>reason. s = sendNAK env cfg sv req reason)
         \<or> ip_Equal (YIAddr (sReply s)) (requested_ip req)
           \<and> bound (oDb o') sc (mac_String (CHAddr req)) (YIAddr (sReply s)) (now + clampLeaseTime leaseTime maxLeaseTime * Second))"
proof (cases "ip_Equal (lIPAddr l) (requested_ip req)")
  case False
  with AllocateV4Lease_step [OF al w] q show ?thesis by (auto simp: o' request_ack_def Let_def)
next
  case True
  let ?mac = "mac_String (CHAddr req)"
  from al w q n True obtain row where row: "row \<in> set (dbLeases db1)" "recorded l row" "lID row = lID l"
    "lScopeID l = scID sc" "lMACAddr l = ?mac" "lEndsAt l = now + clampLeaseTime leaseTime maxLeaseTime * Second"
    by (rule request_granted)
  have s1: "client_step now ?mac db db1" by (rule AllocateV4Lease_step [OF al w])
  then have w1: "wf_db db1" by (rule client_step_wf)
  let ?t = "eNow env ''UpdateLeaseState''"
  obtain u db2 where u: "UpdateLeaseState (eFaults env) ?t (lID l) LeaseActive db1 = (u, db2)" by fastforce
  have own: "lMACAddr x = ?mac" if "x \<in> set (dbLeases db1)" "lID x = lID l" for x
    using leases.uniq_clashD [of "dbLeases db1" x row] w1 row that by (auto simp: wf_db_def lease_clash_def recorded_def)
  have "client_step now ?mac db1 db2"
    using UpdateLeaseState_db [of "eFaults env" ?t "lID l" LeaseActive db1] set_state_step [OF w1, of "\<lambda>x. lID x = lID l"] own w1
    by (auto simp: u)
  with s1 have s2: "client_step now ?mac db db2" by (rule client_step_trans)
  have b: "bound db2 sc ?mac (lIPAddr l) (now + clampLeaseTime leaseTime maxLeaseTime * Second)" if "u = Ret ()"
  proof -
    have "db2 = db1\<lparr>dbLeases := update_where (\<lambda>x. lID x = lID l) (\<lambda>l. l\<lparr>lState := LeaseActive, lUpdatedAt := ?t\<rparr>) (dbLeases db1)\<rparr>"
      using u that by (simp add: UpdateLeaseState_def settle_Ret)
    then show ?thesis using row unfolding bound_def
      by (intro bexI [of _ "row\<lparr>lState := LeaseActive, lUpdatedAt := ?t\<rparr>"]) (auto simp: recorded_def set_update_where)
  qed
  have yi: "YIAddr reply' = lIPAddr l" if "applyOptions env req (setServerIdentifier env cfg
      ((ReplyFromRequest req DHCPACK)\<lparr>YIAddr := lIPAddr l\<rparr>) req) sc res groupOpts lt = Ret reply'" for reply'
    using applyOptions_YIAddr [OF that] by simp
  show ?thesis
    using s2 b True yi unfolding o' request_ack_def Let_def u prod.case
    by (cases u; cases "applyOptions env req (setServerIdentifier env cfg
      ((ReplyFromRequest req DHCPACK)\<lparr>YIAddr := lIPAddr l\<rparr>) req) sc res groupOpts lt")
      (auto simp: on_result_def sendReply_def)
qed

text \<open>The promise of a reply to a REQUEST, and what the whole handler keeps.\<close>

definition request_ok :: "env4 \<Rightarrow> config4 \<Rightarrow> server4 \<Rightarrow> packet \<Rightarrow> scope \<Rightarrow> db \<Rightarrow> out4 \<Rightarrow> bool" where
  "request_ok env cfg sv req sc db o' \<longleftrightarrow>
     client_step (eNow env ''AllocateV4Lease'') (mac_String (CHAddr req)) db (oDb o')
   \<and> (\<forall>s \<in> set (oSent o'). (\<exists>reason. s = sendNAK env cfg sv req reason)
        \<or> ip_Equal (YIAddr (sReply s)) (requested_ip req)
          \<and> (\<exists>n. scSubnet sc = Some n \<and> Contains n (YIAddr (sReply s)))
          \<and> bound (oDb o') sc (mac_String (CHAddr req)) (YIAddr (sReply s))
               (eNow env ''AllocateV4Lease'' + request_lease_time sc req * Second))"

lemma Contains_Equal: "ip_Equal p q \<Longrightarrow> Contains n p = Contains n q"
  using normalize_Equal [of p q] Contains_normalizeIP [of n p] Contains_normalizeIP [of n q] by simp

lemma request_ok_nak: "wf_db db \<Longrightarrow> request_ok env cfg sv req sc db (done4 [sendNAK env cfg sv req reason] db)"
  by (auto simp: request_ok_def)

lemma request_ok_silent: "wf_db db \<Longrightarrow> request_ok env cfg sv req sc db \<lparr>oSent = [], oDb = db, oEnd = e\<rparr>"
  by (simp add: request_ok_def)

lemma request_alloc_ok:
  assumes w: "wf_db db" and q: "requested_ip req \<noteq> []" and n: "scSubnet sc = Some n" "Contains n (requested_ip req)"
  shows "request_ok env cfg sv req sc db (request_alloc env cfg sv req sc res groupOpts db)"
proof -
  let ?mac = "mac_String (CHAddr req)" and ?now = "eNow env ''AllocateV4Lease''"
  let ?max = "or_default DefaultMaxLeaseTime (scMaxLeaseTime sc)"
  obtain r db1 where al: "AllocateV4Lease (eFaults env) ?now (eUUID env) sc ?mac (client_id req) (requested_ip req)
      (sanitizeUTF8 (HostName (Options req))) (request_lease_time sc req) ?max db = (r, db1)" by fastforce
  note step = AllocateV4Lease_step [OF al w]
  show ?thesis
  proof (cases "\<exists>l. r = Ret l")
    case True
    then obtain l where r: "r = Ret l" by blast
    let ?o = "request_ack env cfg sv req sc res groupOpts (request_lease_time sc req) l db1"
    have eq: "request_alloc env cfg sv req sc res groupOpts db = ?o"
      by (simp add: request_alloc_def Let_def al r on_result_def)
    have "Contains n (YIAddr (sReply s))" if "ip_Equal (YIAddr (sReply s)) (requested_ip req)" for s
      using Contains_Equal [OF that] n(2) by simp
    with request_ack_safe [OF al [unfolded r] w q n refl, of env cfg sv res groupOpts "request_lease_time sc req"] n(1)
    show ?thesis unfolding request_ok_def request_lease_time_clamp eq by blast
  next
    case False
    then have "request_alloc env cfg sv req sc res groupOpts db
        \<in> {done4 [sendNAK env cfg sv req ''ip unavailable''] db1, \<lparr>oSent = [], oDb = db1, oEnd = Crashed\<rparr>,
           \<lparr>oSent = [], oDb = db1, oEnd = Stuck\<rparr>}"
      by (cases r) (simp_all add: request_alloc_def Let_def al on_result_def)
    with step show ?thesis by (auto simp: request_ok_def)
  qed
qed

lemma handleRequest_ok:
  assumes w: "wf_db db" and c: "length (CIAddr req) = 4"
  shows "(\<exists>sc. matchScope env cfg sv req = Ret sc \<and> request_ok env cfg sv req sc db (handleRequest env cfg sv req db))
    \<or> oDb (handleRequest env cfg sv req db) = db
      \<and> (\<forall>s \<in> set (oSent (handleRequest env cfg sv req db)). \<exists>reason. s = sendNAK env cfg sv req reason)"
proof (cases "matchScope env cfg sv req")
  case (Ret sc)
  have q: "requested_ip req \<noteq> []" using requested_ip_4 [OF c] by auto
  have "request_ok env cfg sv req sc db (handleRequest env cfg sv req db)"
    unfolding handleRequest_def Let_def Ret on_result_def run.case
    using request_ok_nak [OF w] request_ok_silent [OF w] request_alloc_ok [OF w q] q
    by (simp split: option.split)
  with Ret show ?thesis by blast
qed (auto simp: handleRequest_def Let_def on_result_def)

text \<open>
  C2. An acknowledged address is the client's: a reply to a REQUEST is a NAK, or it carries the very
  address the client asked for, in the subnet of the enabled scope the request matched, and when
  it is sent the database holds an active lease of that address for this client, which ends
  the granted lease time after the allocation.
\<close>

theorem request_ack_bound:
  assumes "wf_db db" and "length (CIAddr req) = 4" and "s \<in> set (oSent (handleRequest env cfg sv req db))"
  shows "(\<exists>reason. s = sendNAK env cfg sv req reason)
    \<or> (\<exists>sc n row. matchScope env cfg sv req = Ret sc \<and> scEnabled sc \<and> scSubnet sc = Some n
        \<and> Contains n (YIAddr (sReply s)) \<and> ip_Equal (YIAddr (sReply s)) (requested_ip req)
        \<and> row \<in> set (dbLeases (oDb (handleRequest env cfg sv req db)))
        \<and> lScopeID row = scID sc \<and> lMACAddr row = mac_String (CHAddr req) \<and> lIPAddr row = normalizeIP (YIAddr (sReply s))
        \<and> lState row = LeaseActive \<and> lEndsAt row = eNow env ''AllocateV4Lease'' + request_lease_time sc req * Second)"
  using handleRequest_ok [OF assms(1,2), of env cfg sv] assms(3) matchScope_enabled [of env cfg sv req]
  unfolding request_ok_def bound_def by blast

lemma lan_request:
  "let out = handleRequest demo_env demo_cfg demo_sv demo_request demo_db in
     map (\<lambda>s. YIAddr (sReply s)) (oSent out) = [[192, 168, 1, 15]]
     \<and> map (\<lambda>s. MessageType (Options (sReply s))) (oSent out) = [DHCPACK]
     \<and> map lIPAddr (dbLeases (oDb out)) = [[192, 168, 1, 13], [192, 168, 1, 15]]"
  by code_simp

theorem request_ack_bound_witness:
  "\<exists>s row. oSent (handleRequest demo_env demo_cfg demo_sv demo_request demo_db) = [s]
     \<and> row \<in> set (dbLeases (oDb (handleRequest demo_env demo_cfg demo_sv demo_request demo_db)))
     \<and> lIPAddr row = [192, 168, 1, 15] \<and> lState row = LeaseActive \<and> lEndsAt row = Second + 600 * Second"
proof -
  let ?out = "handleRequest demo_env demo_cfg demo_sv demo_request demo_db"
  from lan_request obtain s where s: "oSent ?out = [s]" "YIAddr (sReply s) = [192, 168, 1, 15]"
    "MessageType (Options (sReply s)) = DHCPACK"
    by (auto simp: Let_def map_eq_Cons_conv)
  have c: "length (CIAddr demo_request) = 4" by code_simp
  have nak: "MessageType (Options (sReply (sendNAK demo_env demo_cfg demo_sv demo_request reason))) = DHCPNAK" for reason
    by (simp add: sendNAK_def sendReply_def MessageType_def AppendOption_def setServerIdentifier_def
        ReplyFromRequest_def SetMessageType_def Let_def)
  have "s \<in> set (oSent ?out)" by (simp add: s)
  from request_ack_bound [OF demo_db_wf c this] nak s(2,3) demo_matchScope
  obtain row where "row \<in> set (dbLeases (oDb ?out))" "lIPAddr row = normalizeIP [192, 168, 1, 15]" "lState row = LeaseActive"
    "lEndsAt row = eNow demo_env ''AllocateV4Lease'' + request_lease_time lan_scope demo_request * Second" by auto
  moreover have "eNow demo_env ''AllocateV4Lease'' = Second" "request_lease_time lan_scope demo_request = 600"
    "normalizeIP [192, 168, 1, 15] = [192, 168, 1, 15]" by code_simp+
  ultimately show ?thesis using s(1) by auto
qed

section \<open>DISCOVER\<close>

text \<open>The client has an offer that counts from \<open>now\<close>, or a lease, and nobody else a reservation for it.\<close>

definition held :: "db \<Rightarrow> scope \<Rightarrow> string \<Rightarrow> ip \<Rightarrow> time \<Rightarrow> time \<Rightarrow> bool" where
  "held db sc mac p now ends \<longleftrightarrow>
     (\<exists>row \<in> set (dbLeases db). lScopeID row = scID sc \<and> lMACAddr row = mac \<and> lIPAddr row = normalizeIP p
        \<and> (lState row = LeaseActive \<or> lState row = LeaseOffered \<and> lOfferedAt row = Some now) \<and> lEndsAt row = ends)
   \<and> (\<forall>r \<in> set (dbReservations db). rScopeID r = scID sc \<and> rIPAddr r = normalizeIP p \<longrightarrow> rMACAddr r = mac)"

lemma held_log [simp]: "held (logIPAllocation env cfg sc' m q action req hostname db) sc mac p now ends = held db sc mac p now ends"
proof -
  obtain rows where "logIPAllocation env cfg sc' m q action req hostname db = db\<lparr>dbAllocLogs := rows\<rparr>"
    by (rule logIPAllocation_tables)
  then show ?thesis by (simp add: held_def)
qed

lemma granted_held:
  assumes "AllocateV4Lease flt now uuid sc mac clientID preferred hostname leaseTime maxLeaseTime db = (Ret l, db')" and w: "wf_db db"
  shows "held db' sc mac (lIPAddr l) now (now + clampLeaseTime leaseTime maxLeaseTime * Second)"
proof -
  from assms obtain a path where a: "a4Scope a = sc" "a4MAC a = mac" "a4Now a = now"
    "a4EndsAt a = now + clampLeaseTime leaseTime maxLeaseTime * Second"
    and g: "grant4 a l db db'" and r: "not_reserved4 db a (normalizeIP (lIPAddr l))" and p: "path4_ok a preferred db l path"
    by (rule AllocateV4Lease_Ret)
  from g obtain row rows where db': "db' = db\<lparr>dbLeases := rows\<rparr>" and rec: "recorded l row"
    and rep: "replaced (gone4 a (normalizeIP (lIPAddr l))) row (dbLeases db) rows"
    and l: "lScopeID l = scID sc" "lMACAddr l = mac" "lEndsAt l = now + clampLeaseTime leaseTime maxLeaseTime * Second"
    using a by (auto simp: grant4_def)
  have new: "lState (new_lease a q) = LeaseOffered \<and> lOfferedAt (new_lease a q) = Some now" for q
    by (simp add: new_lease_def a)
  have "lState l = LeaseActive \<or> lState l = LeaseOffered \<and> lOfferedAt l = Some now"
    using p new a by (cases path) (auto simp: path4_ok_def renewed_lease_def Let_def)
  with rec l replaced_in [OF rep] r a show ?thesis
    unfolding held_def not_reserved4_def db' by (auto simp: recorded_def intro!: bexI [of _ row])
qed

definition discover_ok :: "env4 \<Rightarrow> packet \<Rightarrow> scope \<Rightarrow> db \<Rightarrow> out4 \<Rightarrow> bool" where
  "discover_ok env req sc db o' \<longleftrightarrow> client_step (eNow env ''AllocateV4Lease'') (mac_String (CHAddr req)) db (oDb o')
     \<and> (\<forall>s \<in> set (oSent o'). held (oDb o') sc (mac_String (CHAddr req)) (YIAddr (sReply s)) (eNow env ''AllocateV4Lease'')
          (eNow env ''AllocateV4Lease'' + clampLeaseTime (scLeaseTime sc) (scMaxLeaseTime sc) * Second))"

lemma clamp_defaults:
  "clampLeaseTime (or_default DefaultLeaseTime t) (or_default DefaultMaxLeaseTime m) = clampLeaseTime t m"
  by (simp add: clampLeaseTime_def or_default_def DefaultLeaseTime_def DefaultMaxLeaseTime_def Let_def)

lemma discover_offer_ok:
  assumes w: "wf_db db"
  shows "discover_ok env req sc db (discover_offer env cfg sv req sc db)"
proof -
  let ?mac = "mac_String (CHAddr req)" and ?now = "eNow env ''AllocateV4Lease''"
  let ?lt = "or_default DefaultLeaseTime (scLeaseTime sc)" and ?max = "or_default DefaultMaxLeaseTime (scMaxLeaseTime sc)"
  let ?res = "reservation_of env (scID sc) ?mac db"
  obtain r db1 where al: "AllocateV4Lease (eFaults env) ?now (eUUID env) sc ?mac (client_id req) (RequestedIP (Options req))
      (sanitizeUTF8 (HostName (Options req))) ?lt ?max db = (r, db1)" by fastforce
  note step = AllocateV4Lease_step [OF al w]
  show ?thesis
  proof (cases r)
    case (Ret l)
    note h = granted_held [OF al [unfolded Ret] w, unfolded clamp_defaults]
    let ?reply = "setServerIdentifier env cfg ((ReplyFromRequest req DHCPOffer)\<lparr>YIAddr := lIPAddr l\<rparr>) req"
    have yi: "YIAddr reply' = lIPAddr l"
      if "applyOptions env req ?reply sc ?res (groupOptionsForReservation env db ?res) ?lt = Ret reply'" for reply'
      using applyOptions_YIAddr [OF that] by simp
    show ?thesis
      using step h yi unfolding discover_offer_def discover_ok_def Let_def al prod.case Ret
      by (cases "applyOptions env req ?reply sc ?res (groupOptionsForReservation env db ?res) ?lt")
        (auto simp: on_result_def sendReply_def)
  qed (use step in \<open>auto simp: discover_offer_def discover_ok_def Let_def al on_result_def\<close>)
qed

lemma processDiscover_cases:
  obtains (quiet) d e where "processDiscover env cfg sv req db = \<lparr>oSent = [], oDb = d, oEnd = e\<rparr>" "d \<in> {db, eMeanwhile env db}"
  | (offer) sc d where "matchScope env cfg sv req = Ret sc" "d \<in> {db, eMeanwhile env db}"
      "processDiscover env cfg sv req db = discover_offer env cfg sv req sc d"
proof (cases "matchScope env cfg sv req")
  case (Ret sc)
  let ?mac = "mac_String (CHAddr req)"
  have "processDiscover env cfg sv req db \<in> {done4 [] db, done4 [] (eMeanwhile env db)}
    \<or> processDiscover env cfg sv req db \<in> {discover_offer env cfg sv req sc db, discover_offer env cfg sv req sc (eMeanwhile env db)}"
    by (simp add: processDiscover_def Let_def on_result_def Ret)
  with Ret show ?thesis using quiet offer by blast
qed (use quiet in \<open>simp_all add: processDiscover_def Let_def on_result_def\<close>)

text \<open>
  C20. An offered address is held: when \<open>processDiscover\<close> sends an offer, the database holds the address
  for this client, by an offer made at that moment or by its active lease, until the end of the
  lease time of the scope (at most its maximum); and no other client has it reserved.
\<close>

theorem offer_held:
  assumes "wf_db db" and "wf_db (eMeanwhile env db)" and "s \<in> set (oSent (processDiscover env cfg sv req db))"
  shows "\<exists>sc row. matchScope env cfg sv req = Ret sc \<and> scEnabled sc
    \<and> row \<in> set (dbLeases (oDb (processDiscover env cfg sv req db)))
    \<and> lScopeID row = scID sc \<and> lMACAddr row = mac_String (CHAddr req) \<and> lIPAddr row = normalizeIP (YIAddr (sReply s))
    \<and> (lState row = LeaseActive \<or> lState row = LeaseOffered \<and> lOfferedAt row = Some (eNow env ''AllocateV4Lease''))
    \<and> lEndsAt row = eNow env ''AllocateV4Lease'' + clampLeaseTime (scLeaseTime sc) (scMaxLeaseTime sc) * Second
    \<and> (\<forall>r \<in> set (dbReservations (oDb (processDiscover env cfg sv req db))).
         rScopeID r = scID sc \<and> rIPAddr r = normalizeIP (YIAddr (sReply s)) \<longrightarrow> rMACAddr r = mac_String (CHAddr req))"
proof -
  from assms(3) obtain sc db1 where sc: "matchScope env cfg sv req = Ret sc" and d: "db1 \<in> {db, eMeanwhile env db}"
    and eq: "processDiscover env cfg sv req db = discover_offer env cfg sv req sc db1"
    by (cases rule: processDiscover_cases [of env cfg sv req db]) auto
  have "wf_db db1" using d assms(1,2) by auto
  from discover_offer_ok [OF this, of env req sc cfg sv] assms(3) sc matchScope_enabled [OF sc]
  show ?thesis unfolding eq discover_ok_def held_def by blast
qed

lemma lan_offer:
  "map (\<lambda>s. YIAddr (sReply s)) (oSent (processDiscover demo_env demo_cfg demo_sv demo_request demo_db)) = [[192, 168, 1, 15]]"
  by code_simp

theorem offer_held_witness:
  "\<exists>row \<in> set (dbLeases (oDb (processDiscover demo_env demo_cfg demo_sv demo_request demo_db))).
     lIPAddr row = [192, 168, 1, 15] \<and> lMACAddr row = mac_String [2, 0, 0, 0, 0, 9]"
proof -
  from lan_offer obtain s where s: "oSent (processDiscover demo_env demo_cfg demo_sv demo_request demo_db) = [s]"
    "YIAddr (sReply s) = [192, 168, 1, 15]" by (auto simp: map_eq_Cons_conv)
  have m: "wf_db (eMeanwhile demo_env demo_db)" using demo_db_wf by (simp add: demo_env_def)
  have i: "s \<in> set (oSent (processDiscover demo_env demo_cfg demo_sv demo_request demo_db))" by (simp add: s)
  have "CHAddr demo_request = [2, 0, 0, 0, 0, 9]" "normalizeIP [192, 168, 1, 15] = [192, 168, 1, 15]" by code_simp+
  with offer_held [OF demo_db_wf m i] s(2) show ?thesis by auto
qed

section \<open>RELEASE and DECLINE\<close>

text \<open>
  \<open>frees sid mac p db db'\<close>: the only rows that change are live leases of \<open>mac\<close> at \<open>p\<close> in the scope, which get
  the state \<open>st\<close>.
\<close>

definition frees :: "string \<Rightarrow> string \<Rightarrow> ip \<Rightarrow> LeaseState \<Rightarrow> db \<Rightarrow> db \<Rightarrow> bool" where
  "frees sid mac p st db db' \<longleftrightarrow> (\<exists>P t rows. db' = db\<lparr>dbLeases := update_where P (\<lambda>l. l\<lparr>lState := st, lUpdatedAt := t\<rparr>) (dbLeases db), dbAllocLogs := rows\<rparr>
     \<and> (\<forall>x. P x \<longrightarrow> lScopeID x = sid \<and> lMACAddr x = mac \<and> lIPAddr x = normalizeIP p \<and> lState x \<in> {LeaseActive, LeaseOffered}))"

lemma frees_refl [simp]: "frees sid mac p st db db"
  unfolding frees_def by (rule exI [of _ "\<lambda>_. False"]) (auto simp: update_where_def intro!: exI [of _ "dbAllocLogs db"])

lemma frees_log: "frees sid mac p st db db' \<Longrightarrow> frees sid mac p st db (logIPAllocation env cfg sc m q action req hostname db')"
proof -
  obtain rows where l: "logIPAllocation env cfg sc m q action req hostname db' = db'\<lparr>dbAllocLogs := rows\<rparr>"
    by (rule logIPAllocation_tables)
  assume "frees sid mac p st db db'"
  then show ?thesis unfolding frees_def l
    by (elim exE conjE, intro exI conjI, assumption?) (auto intro: exI [of _ rows])
qed

lemma frees_update: "frees sid mac p st db (snd (UpdateLeaseStateByMACIP flt t sid mac p st db))"
proof -
  obtain P where P: "\<forall>x. P x \<longrightarrow> lScopeID x = sid \<and> lMACAddr x = mac \<and> lIPAddr x = normalizeIP p \<and> lState x \<in> {LeaseActive, LeaseOffered}"
    "snd (UpdateLeaseStateByMACIP flt t sid mac p st db)
       = db\<lparr>dbLeases := update_where P (\<lambda>l. l\<lparr>lState := st, lUpdatedAt := t\<rparr>) (dbLeases db)\<rparr>"
    by (rule UpdateLeaseStateByMACIP_db [where flt = flt and t = t and sid = sid and mac = mac and p = p and st = st and db = db])
  then show ?thesis unfolding frees_def by (intro exI [of _ P] exI [of _ t] exI [of _ "dbAllocLogs db"]) auto
qed

lemma frees_step: "frees sid mac p st db db' \<Longrightarrow> wf_db db \<Longrightarrow> client_step now mac db db'"
  unfolding frees_def
proof (elim exE conjE)
  fix P t rows
  assume "wf_db db" and P: "\<forall>x. P x \<longrightarrow> lScopeID x = sid \<and> lMACAddr x = mac \<and> lIPAddr x = normalizeIP p \<and> lState x \<in> {LeaseActive, LeaseOffered}"
    and db': "db' = db\<lparr>dbLeases := update_where P (\<lambda>l. l\<lparr>lState := st, lUpdatedAt := t\<rparr>) (dbLeases db), dbAllocLogs := rows\<rparr>"
  then have "client_step now mac db (db\<lparr>dbLeases := update_where P (\<lambda>l. l\<lparr>lState := st, lUpdatedAt := t\<rparr>) (dbLeases db)\<rparr>)"
    by (intro set_state_step) auto
  then show ?thesis by (simp add: client_step_def wf_db_def db')
qed

lemma handleRelease_frees:
  "oDb (handleRelease env cfg sv req db) = db
   \<or> (\<exists>sc. matchScope env cfg sv req = Ret sc
       \<and> frees (scID sc) (mac_String (CHAddr req)) (CIAddr req) LeaseReleased db (oDb (handleRelease env cfg sv req db)))"
proof (cases "matchScope env cfg sv req")
  case (Ret sc)
  let ?u = "UpdateLeaseStateByMACIP (eFaults env) (eNow env ''UpdateLeaseStateByMACIP'') (scID sc) (mac_String (CHAddr req))
    (normalizeIP (CIAddr req)) LeaseReleased db"
  have "frees (scID sc) (mac_String (CHAddr req)) (CIAddr req) LeaseReleased db (snd ?u)"
    using frees_update [of "scID sc" "mac_String (CHAddr req)" "normalizeIP (CIAddr req)"] by (simp add: frees_def)
  with Ret show ?thesis
    by (cases "fst ?u") (auto simp: handleRelease_def Let_def on_result_def split_beta intro: frees_log)
qed (simp_all add: handleRelease_def on_result_def)

definition declined_ip :: "packet \<Rightarrow> ip" where
  "declined_ip req = (let p = RequestedIP (Options req) in if p \<noteq> [] then normalizeIP p else normalizeIP (CIAddr req))"

lemma handleDecline_frees:
  "oDb (handleDecline env cfg sv req db) = db
   \<or> (\<exists>sc. matchScope env cfg sv req = Ret sc
       \<and> frees (scID sc) (mac_String (CHAddr req)) (declined_ip req) LeaseDeclined db (oDb (handleDecline env cfg sv req db)))"
proof (cases "matchScope env cfg sv req")
  case (Ret sc)
  let ?u = "UpdateLeaseStateByMACIP (eFaults env) (eNow env ''UpdateLeaseStateByMACIP'') (scID sc) (mac_String (CHAddr req))
    (declined_ip req) LeaseDeclined db"
  have eq: "(if RequestedIP (Options req) \<noteq> [] then normalizeIP (RequestedIP (Options req)) else normalizeIP (CIAddr req)) = declined_ip req"
    by (simp add: declined_ip_def Let_def)
  have "frees (scID sc) (mac_String (CHAddr req)) (declined_ip req) LeaseDeclined db (snd ?u)" by (rule frees_update)
  with Ret show ?thesis unfolding handleDecline_def Let_def eq
    by (cases "fst ?u") (auto simp: on_result_def split_beta intro: frees_log)
qed (simp_all add: handleDecline_def on_result_def)

text \<open>
  C21. RELEASE and DECLINE reach only the sender's own lease: neither is answered, and a lease that
  is not an active or offered lease of the sending hardware address at the named address, in
  the scope the packet matched, is left as it was.
\<close>

theorem release_decline_own:
  assumes "x \<in> set (dbLeases db)"
    and "(handler, p) \<in> {(handleRelease, normalizeIP (CIAddr req)), (handleDecline, declined_ip req)}"
    and "x \<notin> set (dbLeases (oDb (handler env cfg sv req db)))"
  shows "oSent (handler env cfg sv req db) = []
    \<and> (\<exists>sc. matchScope env cfg sv req = Ret sc \<and> lScopeID x = scID sc) \<and> lMACAddr x = mac_String (CHAddr req)
    \<and> lIPAddr x = normalizeIP p \<and> (lState x = LeaseActive \<or> lState x = LeaseOffered)"
proof -
  have f: "lScopeID x = sid \<and> lMACAddr x = mac \<and> lIPAddr x = normalizeIP q \<and> (lState x = LeaseActive \<or> lState x = LeaseOffered)"
    if "frees sid mac q st db db'" "x \<notin> set (dbLeases db')" for sid mac q st db'
    using that assms(1) by (auto simp: frees_def set_update_where)
  from assms(2) show ?thesis
  proof (elim insertE)
    assume h: "(handler, p) = (handleRelease, normalizeIP (CIAddr req))"
    then show ?thesis using handleRelease_frees [of env cfg sv req db] f assms(1,3) by fastforce
  next
    assume h: "(handler, p) = (handleDecline, declined_ip req)"
    then show ?thesis using handleDecline_frees [of env cfg sv req db] f assms(1,3) by fastforce
  qed simp
qed

definition own_lease :: lease where
  "own_lease = demo_lease\<lparr>lMACAddr := ''02:00:00:00:00:09''\<rparr>"

definition own_db :: db where
  "own_db = demo_db\<lparr>dbLeases := [own_lease]\<rparr>"

definition demo_release :: packet where
  "demo_release = demo_request\<lparr>CIAddr := [192, 168, 1, 13], Options := [OptDHCPMessageType \<mapsto> [DHCPRelease]]\<rparr>"

lemma own_release: "map lState (dbLeases (oDb (handleRelease demo_env demo_cfg demo_sv demo_release own_db))) = [LeaseReleased]"
  by code_simp

theorem release_decline_own_witness:
  "own_lease \<notin> set (dbLeases (oDb (handleRelease demo_env demo_cfg demo_sv demo_release own_db)))
   \<and> lMACAddr own_lease = mac_String (CHAddr demo_release)"
proof -
  have "lState own_lease = LeaseActive" by (simp add: own_lease_def demo_lease_def)
  then have n: "own_lease \<notin> set (dbLeases (oDb (handleRelease demo_env demo_cfg demo_sv demo_release own_db)))"
    using own_release by (auto simp: map_eq_Cons_conv)
  have i: "own_lease \<in> set (dbLeases own_db)" by (simp add: own_db_def)
  from release_decline_own [where handler = handleRelease and req = demo_release and env = demo_env and cfg = demo_cfg
      and sv = demo_sv and p = "normalizeIP (CIAddr demo_release)", OF i _ n] n show ?thesis by simp
qed

end
