(* ===== verification/Dhcp4_Node.thy ===== *)
theory Dhcp4_Node
  imports Dhcp4_Safety
begin

text \<open>
  A DHCPv4 node as a state machine over its own state and the shared database. An event is a
  packet, the timer of a buffered DISCOVER, or a tick of the refresh loop; each runs in an
  environment of its own (clock, faults, what the other nodes did while it waited). The
  reachable states keep the constraints of the database and a well-formed buffer, and a lease
  in force survives every run without an event of its own client.
\<close>

section \<open>Events\<close>

datatype event4 = Recv bytes int | Fire string | Tick

type_synonym node4 = "server4 \<times> db"

fun node_step :: "config4 \<Rightarrow> (string \<Rightarrow> nat) \<Rightarrow> env4 \<Rightarrow> event4 \<Rightarrow> node4 \<Rightarrow> node4" where
  "node_step cfg collate env (Recv data ifIndex) (sv, db) = (let (sv', o') = handlePacket env cfg sv data ifIndex db in (sv', oDb o'))"
| "node_step cfg collate env (Fire mac) (sv, db) = (let (sv', o') = firePendingDiscover env cfg sv mac db in (sv', oDb o'))"
| "node_step cfg collate env Tick (sv, db) = refresh_tick env collate sv db"

text \<open>The client an event is about.\<close>

fun event_mac :: "event4 \<Rightarrow> string option" where
  "event_mac (Recv data _) = (case ParsePacket data of Ret p \<Rightarrow> Some (mac_String (CHAddr p)) | _ \<Rightarrow> None)"
| "event_mac (Fire mac) = Some mac"
| "event_mac Tick = None"

text \<open>The buffer holds local DISCOVERs of Ethernet clients, each under its hardware address.\<close>

definition wf_pending :: "server4 \<Rightarrow> bool" where
  "wf_pending sv \<longleftrightarrow> (\<forall>mac p. svPending sv mac = Some p \<longrightarrow> mac_String (CHAddr p) = mac \<and> zero_addr (GIAddr p)
     \<and> MessageType (Options p) = DHCPDiscover \<and> HType p = 1 \<and> HLen p = 6)"

definition wf_node :: "node4 \<Rightarrow> bool" where
  "wf_node s \<longleftrightarrow> wf_pending (fst s) \<and> wf_db (snd s)"

text \<open>What an event relies on: the other nodes keep the constraints of the database, which it enforces.\<close>

definition peers_ok :: "env4 \<Rightarrow> bool" where
  "peers_ok env \<longleftrightarrow> (\<forall>d. wf_db d \<longrightarrow> wf_db (eMeanwhile env d))"

text \<open>A run of a node from a state.\<close>

inductive runs :: "config4 \<Rightarrow> (string \<Rightarrow> nat) \<Rightarrow> node4 \<Rightarrow> (env4 \<times> event4) list \<Rightarrow> node4 \<Rightarrow> bool"
  for cfg collate
where
  Init: "runs cfg collate s [] s"
| Step: "runs cfg collate s es (sv, db) \<Longrightarrow> peers_ok env \<Longrightarrow> runs cfg collate s (es @ [(env, e)]) (node_step cfg collate env e (sv, db))"

section \<open>One step\<close>

text \<open>The events of a client other than \<open>x\<close>'s leave a live lease \<open>x\<close> alone.\<close>

definition spares :: "env4 \<Rightarrow> lease \<Rightarrow> bool" where
  "spares env x \<longleftrightarrow> (\<forall>d. wf_db d \<longrightarrow> x \<in> set (dbLeases d) \<longrightarrow> x \<in> set (dbLeases (eMeanwhile env d)))
     \<and> (\<forall>q. lease_blocks (eNow env q) x)"

lemma processDiscover_step:
  assumes "wf_db db" and "peers_ok env"
  shows "wf_db (oDb (processDiscover env cfg sv req db))"
    and "x \<in> set (dbLeases db) \<Longrightarrow> lMACAddr x \<noteq> mac_String (CHAddr req) \<Longrightarrow> spares env x
      \<Longrightarrow> x \<in> set (dbLeases (oDb (processDiscover env cfg sv req db)))"
proof -
  have m: "wf_db (eMeanwhile env db)" using assms by (simp add: peers_ok_def)
  show "wf_db (oDb (processDiscover env cfg sv req db))"
  proof (cases rule: processDiscover_cases [of env cfg sv req db])
    case (offer sc d)
    then show ?thesis using discover_offer_ok [of d env req sc cfg sv] assms m by (auto simp: discover_ok_def client_step_def)
  qed (use assms m in auto)
  assume x: "x \<in> set (dbLeases db)" "lMACAddr x \<noteq> mac_String (CHAddr req)" "spares env x"
  then have xm: "x \<in> set (dbLeases (eMeanwhile env db))" using assms by (simp add: spares_def)
  show "x \<in> set (dbLeases (oDb (processDiscover env cfg sv req db)))"
  proof (cases rule: processDiscover_cases [of env cfg sv req db])
    case (offer sc d)
    then have "x \<in> set (dbLeases d)" "wf_db d" using x xm m assms by auto
    with discover_offer_ok [of d env req sc cfg sv] x offer show ?thesis
      by (auto simp: discover_ok_def client_step_def spares_def)
  qed (use x xm in auto)
qed

lemma handlers_step:
  assumes "wf_db db" and "length (CIAddr req) = 4"
    and "o' \<in> {handleRequest env cfg sv req db, handleRelease env cfg sv req db, handleDecline env cfg sv req db, handleInform env cfg sv req db}"
  shows "client_step (eNow env ''AllocateV4Lease'') (mac_String (CHAddr req)) db (oDb o')"
proof -
  have "oDb (handleInform env cfg sv req db) = db"
    by (simp add: handleInform_def Let_def on_result_def split: run.split)
  moreover have "client_step (eNow env ''AllocateV4Lease'') (mac_String (CHAddr req)) db (oDb (handleRequest env cfg sv req db))"
    using handleRequest_ok [OF assms(1,2), of env cfg sv] assms(1) by (auto simp: request_ok_def)
  ultimately show ?thesis
    using assms(1,3) handleRelease_frees [of env cfg sv req db] handleDecline_frees [of env cfg sv req db] frees_step by fastforce
qed

text \<open>A packet that does nothing, is a DISCOVER, or goes to one of the other handlers.\<close>

lemma handlePacket_cases:
  obtains (ignored) "handlePacket env cfg sv data ifIndex db = (sv, done4 [] db)"
  | (discover) p where "ParsePacket data = Ret p" "HType p = 1" "HLen p = 6" "MessageType (Options p) = DHCPDiscover"
      "handlePacket env cfg sv data ifIndex db = handleDiscover env cfg sv (p\<lparr>IfIndex := ifIndex\<rparr>) db"
  | (other) req o' where "event_mac (Recv data ifIndex) = Some (mac_String (CHAddr req))" "length (CIAddr req) = 4"
      "handlePacket env cfg sv data ifIndex db = (sv, o')"
      "o' \<in> {handleRequest env cfg sv req db, handleRelease env cfg sv req db, handleDecline env cfg sv req db, handleInform env cfg sv req db}"
proof (cases "ParsePacket data")
  case (Ret p)
  let ?req = "p\<lparr>IfIndex := ifIndex\<rparr>"
  have "handlePacket env cfg sv data ifIndex db = (sv, done4 [] db)
    \<or> HType p = 1 \<and> HLen p = 6 \<and> MessageType (Options p) = DHCPDiscover
      \<and> handlePacket env cfg sv data ifIndex db = handleDiscover env cfg sv ?req db
    \<or> (\<exists>o' \<in> {handleRequest env cfg sv ?req db, handleRelease env cfg sv ?req db, handleDecline env cfg sv ?req db, handleInform env cfg sv ?req db}.
        handlePacket env cfg sv data ifIndex db = (sv, o'))"
    by (simp add: handlePacket_def Ret Let_def)
  moreover have "event_mac (Recv data ifIndex) = Some (mac_String (CHAddr ?req))" "length (CIAddr ?req) = 4"
    using Ret ParsePacket_wf [OF Ret] by (simp_all add: wf_packet_def)
  ultimately show ?thesis using Ret ignored discover other by blast
qed (use ignored in \<open>simp_all add: handlePacket_def\<close>)

lemma wf_pending_cancel: "wf_pending sv \<Longrightarrow> wf_pending (cancelPendingDiscover sv mac)"
  by (simp add: wf_pending_def cancelPendingDiscover_def)

lemma wf_pending_schedule:
  "wf_pending sv \<Longrightarrow> zero_addr (GIAddr req) \<Longrightarrow> MessageType (Options req) = DHCPDiscover \<Longrightarrow> HType req = 1 \<Longrightarrow> HLen req = 6
    \<Longrightarrow> wf_pending (schedulePendingDiscover sv req (mac_String (CHAddr req)))"
  by (auto simp: wf_pending_def schedulePendingDiscover_def split: if_splits)

lemma handleDiscover_cases:
  obtains (quiet) "handleDiscover env cfg sv req db = (sv, done4 [] db)"
  | (relayed) "handleDiscover env cfg sv req db =
        (cancelPendingDiscover sv (mac_String (CHAddr req)), processDiscover env cfg (cancelPendingDiscover sv (mac_String (CHAddr req))) req db)"
  | (buffered) "zero_addr (GIAddr req)" "handleDiscover env cfg sv req db = (schedulePendingDiscover sv req (mac_String (CHAddr req)), done4 [] db)"
  by (cases "isBlacklisted env db (mac_String (CHAddr req))"; cases "zero_addr (GIAddr req)")
    (simp_all add: handleDiscover_def Let_def)

lemma ReleaseExpiredLeases_keeps:
  assumes "wf_db db"
  shows "wf_db (snd (ReleaseExpiredLeases flt now db))"
    and "x \<in> set (dbLeases db) \<Longrightarrow> lease_blocks now x \<Longrightarrow> x \<in> set (dbLeases (snd (ReleaseExpiredLeases flt now db)))"
proof -
  show "wf_db (snd (ReleaseExpiredLeases flt now db))"
    unfolding ReleaseExpiredLeases_def by (rule settle_keeps) (use assms wf_db_set_state in auto)
  assume x: "x \<in> set (dbLeases db)" "lease_blocks now x"
  then have "\<not> sql_expired now (lState x) (lOfferedAt x) (lStartsAt x) (lEndsAt x)"
    by (cases "lState x") (auto simp: sql_expired_def leaseBlocksReuse_def Let_def)
  then show "x \<in> set (dbLeases (snd (ReleaseExpiredLeases flt now db)))"
    unfolding ReleaseExpiredLeases_def by - (rule settle_keeps, use x in \<open>auto simp: set_update_where\<close>)
qed

lemma handlePacket_wf:
  assumes "wf_node (sv, db)" and "peers_ok env" and "handlePacket env cfg sv data ifIndex db = (sv', o')"
  shows "wf_node (sv', oDb o')"
proof (cases rule: handlePacket_cases [of env cfg sv data ifIndex db])
  case ignored
  with assms show ?thesis by auto
next
  case (discover p)
  let ?req = "p\<lparr>IfIndex := ifIndex\<rparr>"
  show ?thesis
  proof (cases rule: handleDiscover_cases [of env cfg sv ?req db])
    case buffered
    with assms discover show ?thesis using wf_pending_schedule [of sv ?req] by (auto simp: wf_node_def)
  qed (use assms discover wf_pending_cancel processDiscover_step(1) in \<open>auto simp: wf_node_def\<close>)
next
  case (other req out)
  with handlers_step [OF _ other(2,4)] assms show ?thesis by (auto simp: wf_node_def client_step_def)
qed

lemma handlePacket_spares:
  assumes "wf_node (sv, db)" and "peers_ok env" and "handlePacket env cfg sv data ifIndex db = (sv', o')"
    and x: "x \<in> set (dbLeases db)" "spares env x" "event_mac (Recv data ifIndex) \<noteq> Some (lMACAddr x)"
  shows "x \<in> set (dbLeases (oDb o'))"
proof (cases rule: handlePacket_cases [of env cfg sv data ifIndex db])
  case ignored
  with assms show ?thesis by auto
next
  case (discover p)
  let ?req = "p\<lparr>IfIndex := ifIndex\<rparr>"
  have "lMACAddr x \<noteq> mac_String (CHAddr ?req)" using x(3) discover(1) by auto
  with assms have "x \<in> set (dbLeases (oDb (processDiscover env cfg sv'' ?req db)))" for sv''
    by (intro processDiscover_step(2)) (auto simp: wf_node_def)
  then show ?thesis
    by (cases rule: handleDiscover_cases [of env cfg sv ?req db]) (use assms discover in auto)
next
  case (other req out)
  with handlers_step [OF _ other(2,4)] assms show ?thesis
    by (auto simp: wf_node_def client_step_def spares_def)
qed

lemma firePendingDiscover_cases:
  obtains (idle) "firePendingDiscover env cfg sv mac db = (sv, done4 [] db)"
  | (fires) req where "svPending sv mac = Some req"
      "firePendingDiscover env cfg sv mac db = (cancelPendingDiscover sv mac, processDiscover env cfg (cancelPendingDiscover sv mac) req db)"
  by (cases "svPending sv mac") (simp_all add: firePendingDiscover_def Let_def)

section \<open>Runs\<close>

lemma node_step_wf:
  assumes "wf_node s" and "peers_ok env"
  shows "wf_node (node_step cfg collate env e s)"
proof (cases s)
  case (Pair sv db)
  show ?thesis
  proof (cases e)
    case (Recv data ifIndex)
    obtain sv' o' where "handlePacket env cfg sv data ifIndex db = (sv', o')" by fastforce
    with assms Pair Recv handlePacket_wf show ?thesis by simp
  next
    case (Fire mac)
    show ?thesis
      by (cases rule: firePendingDiscover_cases [of env cfg sv mac db])
        (use assms Pair Fire wf_pending_cancel processDiscover_step(1) in \<open>auto simp: wf_node_def\<close>)
  next
    case Tick
    with assms Pair ReleaseExpiredLeases_keeps(1) show ?thesis
      by (auto simp: refresh_tick_def Let_def wf_node_def wf_pending_def reloadScopes_def split: run.split)
  qed
qed

lemma node_step_spares:
  assumes "wf_node (sv, db)" and "peers_ok env" and "x \<in> set (dbLeases db)" "spares env x" "event_mac e \<noteq> Some (lMACAddr x)"
  shows "x \<in> set (dbLeases (snd (node_step cfg collate env e (sv, db))))"
proof (cases e)
  case (Recv data ifIndex)
  obtain sv' o' where "handlePacket env cfg sv data ifIndex db = (sv', o')" by fastforce
  with assms Recv handlePacket_spares [of sv db env cfg data ifIndex sv' o' x] show ?thesis by simp
next
  case (Fire mac)
  show ?thesis
  proof (cases rule: firePendingDiscover_cases [of env cfg sv mac db])
    case (fires req)
    then have "mac_String (CHAddr req) = mac" using assms(1) by (simp add: wf_node_def wf_pending_def)
    with assms Fire fires show ?thesis by (auto simp: wf_node_def intro!: processDiscover_step(2))
  qed (use assms Fire in auto)
next
  case Tick
  with assms ReleaseExpiredLeases_keeps(2) show ?thesis
    by (simp add: refresh_tick_def Let_def wf_node_def spares_def)
qed

lemma runs_wf: "runs cfg collate s es s' \<Longrightarrow> wf_node s \<Longrightarrow> wf_node s'"
  by (induction rule: runs.induct) (simp_all add: node_step_wf)

text \<open>
  C14. Every reachable state of a node is well-formed: started with an empty buffer on a database that
  meets its constraints, whatever packets, timers and ticks a node processes, the constraints
  hold, and each buffered request is a DISCOVER that came without a relay, under the address
  of the client that sent it.
\<close>

theorem node_invariant:
  assumes "runs cfg collate (sv, db) es (sv', db')" and "svPending sv = Map.empty" and "wf_db db"
  shows "wf_db db' \<and> (\<forall>mac p. svPending sv' mac = Some p \<longrightarrow> mac_String (CHAddr p) = mac \<and> zero_addr (GIAddr p)
    \<and> MessageType (Options p) = DHCPDiscover)"
  using runs_wf [OF assms(1)] assms(2,3) by (auto simp: wf_node_def wf_pending_def)

lemma demo_peers [simp]: "peers_ok demo_env"
  by (simp add: peers_ok_def demo_env_def)

definition demo_events :: "(env4 \<times> event4) list" where
  "demo_events = [(demo_env, Tick), (demo_env, Recv discover_bytes 2)]"

lemma runs_two:
  assumes "peers_ok env1" "peers_ok env2"
  shows "runs cfg collate s [(env1, e1), (env2, e2)] (node_step cfg collate env2 e2 (node_step cfg collate env1 e1 s))"
proof -
  have *: "runs cfg collate s (es @ [(env, e)]) (node_step cfg collate env e t)"
    if "runs cfg collate s es t" "peers_ok env" for es env e t
    using that by (cases t) (simp add: runs.Step)
  from * [OF * [OF runs.Init assms(1)] assms(2), of e1 e2] show ?thesis by simp
qed

lemma demo_run: "runs demo_cfg (\<lambda>_. 0) (demo_sv, demo_db) demo_events
    (node_step demo_cfg (\<lambda>_. 0) demo_env (Recv discover_bytes 2) (node_step demo_cfg (\<lambda>_. 0) demo_env Tick (demo_sv, demo_db)))"
  unfolding demo_events_def by (rule runs_two) simp_all

theorem node_invariant_witness:
  "wf_db (snd (node_step demo_cfg (\<lambda>_. 0) demo_env (Recv discover_bytes 2)
     (node_step demo_cfg (\<lambda>_. 0) demo_env Tick (demo_sv, demo_db))))"
proof -
  have p: "svPending demo_sv = Map.empty" by (simp add: demo_sv_def)
  from node_invariant [of demo_cfg "\<lambda>_. 0" demo_sv demo_db demo_events "fst s" "snd s" for s] demo_run p demo_db_wf
  show ?thesis by (metis prod.collapse)
qed

text \<open>
  C3. A lease in force outlasts any run of the server: as long as it blocks reuse at every clock
  reading, no event is its own client's, and the other nodes spare it, the row stays in the
  table unchanged, and no other row of the scope has its address.
\<close>

theorem lease_survives:
  assumes "runs cfg collate (sv, db) es (sv', db')" and "svPending sv = Map.empty" and "wf_db db"
    and "x \<in> set (dbLeases db)"
    and "\<forall>(env, e) \<in> set es. spares env x \<and> event_mac e \<noteq> Some (lMACAddr x)"
  shows "x \<in> set (dbLeases db') \<and> (\<forall>y \<in> set (dbLeases db'). lScopeID y = lScopeID x \<and> lIPAddr y = lIPAddr x \<longrightarrow> y = x)"
proof -
  have w: "wf_node (sv, db)" using assms(2,3) by (simp add: wf_node_def wf_pending_def)
  have "x \<in> set (dbLeases (snd s'))" if "runs cfg collate s es s'" "wf_node s" "x \<in> set (dbLeases (snd s))"
    "\<forall>(env, e) \<in> set es. spares env x \<and> event_mac e \<noteq> Some (lMACAddr x)" for s s' es
    using that
  proof (induction rule: runs.induct)
    case (Step s es sv1 db1 env e)
    have "wf_node (sv1, db1)" using runs_wf [OF Step.hyps(1)] Step.prems by simp
    then show ?case using Step by (intro node_step_spares) auto
  qed simp
  from this [OF assms(1) w] assms(4,5) have x: "x \<in> set (dbLeases db')" by simp
  from runs_wf [OF assms(1) w] have "wf_db db'" by (simp add: wf_node_def)
  then show ?thesis using x lease_at_unique by blast
qed

theorem lease_survives_witness:
  "demo_lease \<in> set (dbLeases (snd (node_step demo_cfg (\<lambda>_. 0) demo_env (Recv discover_bytes 2)
     (node_step demo_cfg (\<lambda>_. 0) demo_env Tick (demo_sv, demo_db)))))"
proof -
  have p: "svPending demo_sv = Map.empty" "demo_lease \<in> set (dbLeases demo_db)" by (simp_all add: demo_sv_def demo_db_def)
  have "spares demo_env demo_lease"
    by (simp add: spares_def demo_env_def demo_lease_def leaseBlocksReuse_def)
  moreover have "event_mac (Recv discover_bytes 2) \<noteq> Some (lMACAddr demo_lease)" by code_simp
  ultimately have "\<forall>(env, e) \<in> set demo_events. spares env demo_lease \<and> event_mac e \<noteq> Some (lMACAddr demo_lease)"
    by (simp add: demo_events_def)
  with lease_survives [of demo_cfg "\<lambda>_. 0" demo_sv demo_db demo_events "fst s" "snd s" demo_lease for s] demo_run p demo_db_wf
  show ?thesis by (metis prod.collapse)
qed

end
