(* ===== verification/Dhcp6_Packet.thy ===== *)
theory Dhcp6_Packet
  imports Net_IP
begin

text \<open>
  The DHCPv6 wire format, \<open>internal/dhcpv6/packet.go\<close>: client messages, relay messages, the option
  list, the nested options of IA_NA and IA_PD, and the builders of option values.
  \<^item> Options are a list here: the order and repetitions are kept, \<open>Get\<close> takes the first.
  \<^item> The loop over the options computes \<open>4+length\<close> in 16 bits; \<open>parse_options6\<close> keeps that width,
    so that a length of 65532 or more gives the slice \<open>options[4:n]\<close> with \<open>n < 4\<close>, a panic.
  \<^item> The data of an option of length 0 is \<open>append([]byte(nil))\<close>, which is nil: nil and empty
    are both \<open>[]\<close>.
  The lemmas: what is parsed is exactly what the bytes are the encoding of, when the parser panics,
  the round trips of both message kinds, of addresses and prefixes and of domain lists.
\<close>

section \<open>Constants\<close>

abbreviation (input) MsgTypeSolicit :: byte where "MsgTypeSolicit \<equiv> 1"
abbreviation (input) MsgTypeAdvertise :: byte where "MsgTypeAdvertise \<equiv> 2"
abbreviation (input) MsgTypeRequest :: byte where "MsgTypeRequest \<equiv> 3"
abbreviation (input) MsgTypeConfirm :: byte where "MsgTypeConfirm \<equiv> 4"
abbreviation (input) MsgTypeRenew :: byte where "MsgTypeRenew \<equiv> 5"
abbreviation (input) MsgTypeRebind :: byte where "MsgTypeRebind \<equiv> 6"
abbreviation (input) MsgTypeReply :: byte where "MsgTypeReply \<equiv> 7"
abbreviation (input) MsgTypeRelease :: byte where "MsgTypeRelease \<equiv> 8"
abbreviation (input) MsgTypeDecline :: byte where "MsgTypeDecline \<equiv> 9"
abbreviation (input) MsgTypeInformationRequest :: byte where "MsgTypeInformationRequest \<equiv> 11"
abbreviation (input) MsgTypeRelayForw :: byte where "MsgTypeRelayForw \<equiv> 12"
abbreviation (input) MsgTypeRelayRepl :: byte where "MsgTypeRelayRepl \<equiv> 13"

abbreviation (input) OptClientID :: uint16 where "OptClientID \<equiv> 1"
abbreviation (input) OptServerID :: uint16 where "OptServerID \<equiv> 2"
abbreviation (input) OptIANA :: uint16 where "OptIANA \<equiv> 3"
abbreviation (input) OptIATA :: uint16 where "OptIATA \<equiv> 4"
abbreviation (input) OptIAAddr :: uint16 where "OptIAAddr \<equiv> 5"
abbreviation (input) OptRelayMsg :: uint16 where "OptRelayMsg \<equiv> 9"
abbreviation (input) OptStatusCode :: uint16 where "OptStatusCode \<equiv> 13"
abbreviation (input) OptRapidCommit :: uint16 where "OptRapidCommit \<equiv> 14"
abbreviation (input) OptInterfaceID :: uint16 where "OptInterfaceID \<equiv> 18"
abbreviation (input) OptDNSServers :: uint16 where "OptDNSServers \<equiv> 23"
abbreviation (input) OptDomainList :: uint16 where "OptDomainList \<equiv> 24"
abbreviation (input) OptIAPD :: uint16 where "OptIAPD \<equiv> 25"
abbreviation (input) OptIAPrefix :: uint16 where "OptIAPrefix \<equiv> 26"
abbreviation (input) OptSNTPServers :: uint16 where "OptSNTPServers \<equiv> 31"

section \<open>Options\<close>

record option6 =
  o6Code :: uint16
  o6Data :: bytes

type_synonym options6 = "option6 list"

definition Get6 :: "options6 \<Rightarrow> uint16 \<Rightarrow> option6 option" where
  "Get6 o' code = List.find (\<lambda>opt. o6Code opt = code) o'"

definition Add6 :: "options6 \<Rightarrow> uint16 \<Rightarrow> bytes \<Rightarrow> options6" where
  "Add6 o' code data = o' @ [\<lparr>o6Code = code, o6Data = data\<rparr>]"

text \<open>The bytes of one option; the length field has 16 bits.\<close>

definition option_bytes6 :: "option6 \<Rightarrow> bytes" where
  "option_bytes6 opt = PutUint16 (o6Code opt) @ PutUint16 (of_nat (length (o6Data opt))) @ o6Data opt"

definition marshal_options6 :: "options6 \<Rightarrow> bytes" where
  "marshal_options6 opts = concat (map option_bytes6 opts)"

text \<open>The loop of \<open>ParsePacket\<close> and \<open>ParseRelayPacket\<close>.\<close>

function parse_options6 :: "bytes \<Rightarrow> options6 run" where
  "parse_options6 options =
     (if length options < 4 then Ret []
      else let code = Uint16 (slice 0 2 options);
               length6 = Uint16 (slice 2 4 options);
               n = unat (4 + length6)
           in if length options < n then Fail ''truncated option''
              else if n < 4 then Panic
              else bind_run (parse_options6 (drop n options)) (\<lambda>rest.
                     Ret (\<lparr>o6Code = code, o6Data = slice 4 n options\<rparr> # rest)))"
  by pat_completeness auto
termination by (relation "measure length") (auto simp: Let_def)

declare parse_options6.simps [simp del]

section \<open>Client messages\<close>

record packet6 =
  p6MessageType :: byte
  p6TransID :: "byte \<times> byte \<times> byte"
  p6Options :: options6

definition Marshal6 :: "packet6 \<Rightarrow> bytes" where
  "Marshal6 p = (case p6TransID p of (a, b, c) \<Rightarrow> [p6MessageType p, a, b, c]) @ marshal_options6 (p6Options p)"

definition ParsePacket6 :: "bytes \<Rightarrow> packet6 run" where
  "ParsePacket6 data =
     (if length data < 4 then Fail ''packet too short''
      else let msgType = data ! 0
           in if msgType = MsgTypeRelayForw \<or> msgType = MsgTypeRelayRepl then
                Fail ''relay packet, use ParseRelayPacket''
              else bind_run (parse_options6 (drop 4 data)) (\<lambda>opts.
                Ret \<lparr>p6MessageType = msgType, p6TransID = (data ! 1, data ! 2, data ! 3), p6Options = opts\<rparr>))"

section \<open>Relay messages\<close>

record relay_packet =
  rpMessageType :: byte
  rpHopCount :: byte
  rpLinkAddr :: ip
  rpPeerAddr :: ip
  rpOptions :: options6

definition MarshalRelay :: "relay_packet \<Rightarrow> bytes" where
  "MarshalRelay rp =
     (let buf = replicate 34 0;
          buf = buf[0 := rpMessageType rp];
          buf = buf[1 := rpHopCount rp];
          buf = copy_at 2 18 (To16 (rpLinkAddr rp)) buf;
          buf = copy_at 18 34 (To16 (rpPeerAddr rp)) buf
      in buf @ marshal_options6 (rpOptions rp))"

definition ParseRelayPacket :: "bytes \<Rightarrow> relay_packet run" where
  "ParseRelayPacket data =
     (if length data < 34 then Fail ''relay packet too short''
      else bind_run (parse_options6 (drop 34 data)) (\<lambda>opts.
        Ret \<lparr>rpMessageType = data ! 0, rpHopCount = data ! 1, rpLinkAddr = slice 2 18 data,
             rpPeerAddr = slice 18 34 data, rpOptions = opts\<rparr>))"

text \<open>\<open>GetRelayMsg\<close>: the client message (Inl) or the next relay message (Inr).\<close>

definition GetRelayMsg :: "options6 \<Rightarrow> (packet6 + relay_packet) run" where
  "GetRelayMsg o' =
     (case Get6 o' OptRelayMsg of
        None \<Rightarrow> Fail ''no relay message option''
      | Some opt \<Rightarrow>
          if length (o6Data opt) < 1 then Fail ''relay message empty''
          else let msgType = o6Data opt ! 0
               in if msgType = MsgTypeRelayForw \<or> msgType = MsgTypeRelayRepl then
                    bind_run (ParseRelayPacket (o6Data opt)) (\<lambda>rp. Ret (Inr rp))
                  else bind_run (ParsePacket6 (o6Data opt)) (\<lambda>p. Ret (Inl p)))"

definition InterfaceID :: "options6 \<Rightarrow> bytes option" where
  "InterfaceID o' = map_option o6Data (Get6 o' OptInterfaceID)"

definition CopyRelayOptions :: "options6 \<Rightarrow> options6" where
  "CopyRelayOptions o' = filter (\<lambda>opt. o6Code opt \<noteq> OptRelayMsg) o'"

section \<open>Builders\<close>

definition NewPacket6 :: "byte \<Rightarrow> byte \<times> byte \<times> byte \<Rightarrow> packet6" where
  "NewPacket6 msgType transID = \<lparr>p6MessageType = msgType, p6TransID = transID, p6Options = []\<rparr>"

definition ReplyFromRequest6 :: "packet6 \<Rightarrow> byte \<Rightarrow> packet6" where
  "ReplyFromRequest6 req msgType = NewPacket6 msgType (p6TransID req)"

definition add_option6 :: "uint16 \<Rightarrow> bytes \<Rightarrow> packet6 \<Rightarrow> packet6" where
  "add_option6 code data p = p\<lparr>p6Options := Add6 (p6Options p) code data\<rparr>"

definition DUIDLL :: "bytes \<Rightarrow> bytes" where
  "DUIDLL hwAddr = PutUint16 3 @ PutUint16 1 @ hwAddr"

definition ParseDUID :: "bytes \<Rightarrow> string" where
  "ParseDUID data = hex_bytes data"

text \<open>\<open>BuildIANA\<close> and \<open>BuildIAPD\<close> have the same body.\<close>

definition BuildIANA :: "uint32 \<Rightarrow> uint32 \<Rightarrow> uint32 \<Rightarrow> options6 \<Rightarrow> bytes" where
  "BuildIANA iaid t1 t2 addrs = PutUint32 iaid @ PutUint32 t1 @ PutUint32 t2 @ marshal_options6 addrs"

definition BuildIAPD :: "uint32 \<Rightarrow> uint32 \<Rightarrow> uint32 \<Rightarrow> options6 \<Rightarrow> bytes" where
  "BuildIAPD iaid t1 t2 prefixes = PutUint32 iaid @ PutUint32 t1 @ PutUint32 t2 @ marshal_options6 prefixes"

definition BuildIAAddress :: "ip \<Rightarrow> uint32 \<Rightarrow> uint32 \<Rightarrow> bytes" where
  "BuildIAAddress p preferredLifetime validLifetime =
     (let body = copy_at 0 16 (To16 p) (replicate 24 0);
          body = copy_at 16 20 (PutUint32 preferredLifetime) body
      in copy_at 20 24 (PutUint32 validLifetime) body)"

definition ParseIAAddress :: "bytes \<Rightarrow> (ip \<times> uint32 \<times> uint32) run" where
  "ParseIAAddress data =
     (if length data < 24 then Fail ''ia addr too short''
      else Ret (slice 0 16 data, Uint32 (slice 16 20 data), Uint32 (slice 20 24 data)))"

definition BuildIAPrefix :: "byte \<Rightarrow> ip \<Rightarrow> uint32 \<Rightarrow> uint32 \<Rightarrow> bytes" where
  "BuildIAPrefix prefixLen prefix preferredLifetime validLifetime =
     (let body = copy_at 0 4 (PutUint32 preferredLifetime) (replicate 25 0);
          body = copy_at 4 8 (PutUint32 validLifetime) body;
          body = body[8 := prefixLen]
      in copy_at 9 25 (To16 prefix) body)"

definition ParseIAPrefix :: "bytes \<Rightarrow> (byte \<times> ip \<times> uint32 \<times> uint32) run" where
  "ParseIAPrefix data =
     (if length data < 25 then Fail ''ia prefix too short''
      else Ret (data ! 8, slice 9 25 data, Uint32 (slice 0 4 data), Uint32 (slice 4 8 data)))"

definition BuildServerID :: "bytes \<Rightarrow> bytes" where
  "BuildServerID duid = duid"

definition BuildStatusCode :: "uint16 \<Rightarrow> string \<Rightarrow> bytes" where
  "BuildStatusCode code message = PutUint16 code @ bytes_of_string message"

definition BuildDNSList :: "ip list \<Rightarrow> bytes" where
  "BuildDNSList ips = concat (map To16 ips)"

text \<open>
  \<open>splitDomain\<close>: \<open>seg\<close> is \<open>d[start:i]\<close>, the segment read so far.
\<close>

fun split_loop :: "string \<Rightarrow> string \<Rightarrow> string list" where
  "split_loop seg [] = (if seg \<noteq> [] then [seg] else [])"
| "split_loop seg (c # cs) =
     (if c = CHR ''.'' then (if seg \<noteq> [] then seg # split_loop [] cs else split_loop [] cs)
      else split_loop (seg @ [c]) cs)"

definition splitDomain :: "string \<Rightarrow> string list" where
  "splitDomain d = split_loop [] d"

definition label_bytes :: "string \<Rightarrow> bytes" where
  "label_bytes label = of_nat (length label) # bytes_of_string label"

definition BuildDomainList :: "string list \<Rightarrow> bytes" where
  "BuildDomainList domains = concat (map (\<lambda>d. concat (map label_bytes (splitDomain d)) @ [0]) domains)"

section \<open>Parsing options\<close>

text \<open>The options whose length the 16-bit arithmetic of the parser carries.\<close>

definition short_options :: "options6 \<Rightarrow> bool" where
  "short_options opts \<longleftrightarrow> (\<forall>opt \<in> set opts. length (o6Data opt) \<le> 65531)"

lemma short_options_simps [simp]:
  "short_options []" "short_options (opt # opts) \<longleftrightarrow> length (o6Data opt) \<le> 65531 \<and> short_options opts"
  "short_options (xs @ ys) \<longleftrightarrow> short_options xs \<and> short_options ys"
  by (auto simp: short_options_def)

lemma marshal_options6_simps [simp]:
  "marshal_options6 [] = []"
  "marshal_options6 (opt # opts) = option_bytes6 opt @ marshal_options6 opts"
  "marshal_options6 (xs @ ys) = marshal_options6 xs @ marshal_options6 ys"
  by (simp_all add: marshal_options6_def)

lemma length_option_bytes6 [simp]: "length (option_bytes6 opt) = 4 + length (o6Data opt)"
  by (simp add: option_bytes6_def)

lemma unat_add4: "unat (4 + w :: uint16) = (if unat w \<le> 65531 then 4 + unat w else unat w - 65532)"
  using unsigned_less [of w, where 'a = nat] by (simp add: unat_word_ariths mod_if [of "4 + unat w"])

lemma option_header6:
  assumes "length (o6Data opt) \<le> 65531"
  shows "Uint16 (slice 0 2 (option_bytes6 opt @ rest)) = o6Code opt"
    and "unat (Uint16 (slice 2 4 (option_bytes6 opt @ rest))) = length (o6Data opt)"
    and "slice 4 (4 + length (o6Data opt)) (option_bytes6 opt @ rest) = o6Data opt"
    and "drop (4 + length (o6Data opt)) (option_bytes6 opt @ rest) = rest"
proof -
  show "Uint16 (slice 0 2 (option_bytes6 opt @ rest)) = o6Code opt"
    by (simp add: option_bytes6_def slice_append_exact)
  have "unat (of_nat (length (o6Data opt)) :: uint16) = length (o6Data opt)"
    using assms by (simp add: unat_of_nat)
  then show "unat (Uint16 (slice 2 4 (option_bytes6 opt @ rest))) = length (o6Data opt)"
    by (simp add: option_bytes6_def slice_append2 slice_append_exact)
  show "slice 4 (4 + length (o6Data opt)) (option_bytes6 opt @ rest) = o6Data opt"
    by (simp add: option_bytes6_def slice_append2 slice_append_exact)
  show "drop (4 + length (o6Data opt)) (option_bytes6 opt @ rest) = rest" by simp
qed

lemma parse_options6_Cons:
  assumes "length (o6Data opt) \<le> 65531"
  shows "parse_options6 (option_bytes6 opt @ rest) = bind_run (parse_options6 rest) (\<lambda>r. Ret (opt # r))"
proof -
  note h = option_header6 [OF assms, of rest]
  have n: "unat (4 + Uint16 (slice 2 4 (option_bytes6 opt @ rest))) = 4 + length (o6Data opt)"
    using assms by (simp add: unat_add4 h(2))
  have eta: "\<lparr>o6Code = o6Code opt, o6Data = o6Data opt\<rparr> = opt" by simp
  have "parse_options6 (option_bytes6 opt @ rest)
      = bind_run (parse_options6 rest) (\<lambda>r. Ret (\<lparr>o6Code = o6Code opt, o6Data = o6Data opt\<rparr> # r))"
    by (subst parse_options6.simps) (simp add: n h(1) h(3,4) [simplified] Let_def)
  then show ?thesis unfolding eta .
qed

lemma parse_options6_marshal:
  "short_options opts \<Longrightarrow>
   parse_options6 (marshal_options6 opts @ tail) = bind_run (parse_options6 tail) (\<lambda>r. Ret (opts @ r))"
proof (induction opts)
  case Nil
  then show ?case by (cases "parse_options6 tail") simp_all
qed (simp add: parse_options6_Cons bind_run_assoc)

lemma parse_options6_Nil [simp]: "length bs < 4 \<Longrightarrow> parse_options6 bs = Ret []"
  by (simp add: parse_options6.simps)

text \<open>The head of a buffer that holds a whole option is the encoding of that option.\<close>

lemma option_at_head:
  assumes "4 \<le> length bs" and "4 + unat (Uint16 (slice 2 4 bs)) \<le> length bs"
  defines "opt \<equiv> \<lparr>o6Code = Uint16 (slice 0 2 bs), o6Data = slice 4 (4 + unat (Uint16 (slice 2 4 bs))) bs\<rparr>"
  shows "bs = option_bytes6 opt @ drop (4 + unat (Uint16 (slice 2 4 bs))) bs"
proof -
  let ?n = "unat (Uint16 (slice 2 4 bs))"
  have s: "length (slice 0 2 bs) = 2" "length (slice 2 4 bs) = 2" using assms by simp_all
  have "length (slice 4 (4 + ?n) bs) = ?n" using assms(2) by simp
  then have "option_bytes6 opt = slice 0 2 bs @ slice 2 4 bs @ slice 4 (4 + ?n) bs"
    using s by (simp add: option_bytes6_def opt_def PutUint16_Uint16_list)
  also have "\<dots> = take (4 + ?n) bs"
    using take_add [of 2 2 bs] by (simp add: slice_def take_add [of 4])
  finally show ?thesis by simp
qed

text \<open>Where the loop stops: nothing left, a length that wraps, or an option cut off.\<close>

definition stuck6 :: "bytes \<Rightarrow> bool" where
  "stuck6 tail \<longleftrightarrow> length tail < 4 \<or> 65532 \<le> unat (Uint16 (slice 2 4 tail))
     \<or> length tail < 4 + unat (Uint16 (slice 2 4 tail))"

lemma parse_options6_stuck:
  "stuck6 tail \<Longrightarrow> parse_options6 tail =
     (if length tail < 4 then Ret [] else if 65532 \<le> unat (Uint16 (slice 2 4 tail)) then Panic
      else Fail ''truncated option'')"
  using unsigned_less [of "Uint16 (slice 2 4 tail)", where 'a = nat]
  by (subst parse_options6.simps) (auto simp: stuck6_def unat_add4 Let_def)

lemma options6_split: "\<exists>opts tail. bs = marshal_options6 opts @ tail \<and> short_options opts \<and> stuck6 tail"
proof (induction bs rule: length_induct)
  case (1 bs)
  show ?case
  proof (cases "stuck6 bs")
    case True
    then show ?thesis by (intro exI [of _ "[]"] exI [of _ bs]) simp
  next
    case False
    then have b: "4 \<le> length bs" "4 + unat (Uint16 (slice 2 4 bs)) \<le> length bs"
        "unat (Uint16 (slice 2 4 bs)) \<le> 65531"
      by (auto simp: stuck6_def)
    from option_at_head [OF b(1,2)] obtain opt where
      bs: "bs = option_bytes6 opt @ drop (4 + unat (Uint16 (slice 2 4 bs))) bs"
      and len: "length (o6Data opt) \<le> 65531" using b by fastforce
    from b have "length (drop (4 + unat (Uint16 (slice 2 4 bs))) bs) < length bs" by simp
    with 1 obtain opts tail where "drop (4 + unat (Uint16 (slice 2 4 bs))) bs = marshal_options6 opts @ tail"
      and "short_options opts" and "stuck6 tail" by blast
    with bs len show ?thesis by (intro exI [of _ "opt # opts"] exI [of _ tail]) simp
  qed
qed

text \<open>What a buffer holds, read as options: every outcome of the loop.\<close>

lemma parse_options6_cases:
  obtains (all) opts tail where "bs = marshal_options6 opts @ tail" "short_options opts" "length tail < 4"
      "parse_options6 bs = Ret opts"
  | (wraps) opts tail where "bs = marshal_options6 opts @ tail" "short_options opts" "4 \<le> length tail"
      "65532 \<le> unat (Uint16 (slice 2 4 tail))" "parse_options6 bs = Panic"
  | (cut_off) opts tail where "bs = marshal_options6 opts @ tail" "short_options opts" "4 \<le> length tail"
      "unat (Uint16 (slice 2 4 tail)) \<le> 65531" "length tail < 4 + unat (Uint16 (slice 2 4 tail))"
      "parse_options6 bs = Fail ''truncated option''"
proof -
  obtain opts tail where *: "bs = marshal_options6 opts @ tail" "short_options opts" "stuck6 tail"
    using options6_split by blast
  then have p: "parse_options6 bs = bind_run (parse_options6 tail) (\<lambda>r. Ret (opts @ r))"
    by (simp add: parse_options6_marshal)
  show thesis
  proof (cases "length tail < 4")
    case True
    with * p show thesis by (intro all) simp_all
  next
    case False
    then show thesis
      using * p parse_options6_stuck [OF *(3)] wraps [OF *(1,2)] cut_off [OF *(1,2)]
      by (cases "65532 \<le> unat (Uint16 (slice 2 4 tail))") (simp_all add: stuck6_def)
  qed
qed

lemma parse_options6_Ret_iff:
  "parse_options6 bs = Ret opts \<longleftrightarrow>
     short_options opts \<and> (\<exists>tail. length tail < 4 \<and> bs = marshal_options6 opts @ tail)"
proof
  assume "parse_options6 bs = Ret opts"
  then show "short_options opts \<and> (\<exists>tail. length tail < 4 \<and> bs = marshal_options6 opts @ tail)"
    by (cases rule: parse_options6_cases [of bs]) auto
qed (auto simp: parse_options6_marshal)

lemma parse_options6_Panic_iff:
  "parse_options6 bs = Panic \<longleftrightarrow>
     (\<exists>opts tail. short_options opts \<and> bs = marshal_options6 opts @ tail \<and> 4 \<le> length tail
        \<and> 65532 \<le> unat (Uint16 (slice 2 4 tail)))"
proof
  assume "parse_options6 bs = Panic"
  then show "\<exists>opts tail. short_options opts \<and> bs = marshal_options6 opts @ tail \<and> 4 \<le> length tail
        \<and> 65532 \<le> unat (Uint16 (slice 2 4 tail))"
    by (cases rule: parse_options6_cases [of bs]) auto
next
  assume "\<exists>opts tail. short_options opts \<and> bs = marshal_options6 opts @ tail \<and> 4 \<le> length tail
        \<and> 65532 \<le> unat (Uint16 (slice 2 4 tail))"
  then obtain opts tail where *: "short_options opts" "bs = marshal_options6 opts @ tail"
    and t: "4 \<le> length tail" "65532 \<le> unat (Uint16 (slice 2 4 tail))" by blast
  then have "parse_options6 tail = Panic" using parse_options6_stuck [of tail] by (simp add: stuck6_def)
  with * show "parse_options6 bs = Panic" by (simp add: parse_options6_marshal)
qed

lemma parse_options6_not_Hang: "parse_options6 bs \<noteq> Hang"
  by (cases rule: parse_options6_cases [of bs]) simp_all

section \<open>Messages\<close>

text \<open>A buffer of at least four bytes, as the head of a client message and the rest.\<close>

lemma message_head:
  assumes "4 \<le> length data"
  shows "data = [data ! 0, data ! 1, data ! 2, data ! 3] @ drop 4 data"
proof -
  have "length (take 4 data) = 4" using assms by simp
  then obtain a b c d where "take 4 data = [a, b, c, d]" using list_of_length4 by blast
  then have "data = [a, b, c, d] @ drop 4 data" by (metis append_take_drop_id)
  then show ?thesis by (metis append_Cons nth_Cons_0 nth_Cons_numeral nth_Cons_Suc One_nat_def numeral_2_eq_2 numeral_3_eq_3)
qed

lemma Marshal6_eq:
  "Marshal6 \<lparr>p6MessageType = t, p6TransID = (a, b, c), p6Options = opts\<rparr> = [t, a, b, c] @ marshal_options6 opts"
  by (simp add: Marshal6_def)

definition client_type :: "byte \<Rightarrow> bool" where
  "client_type t \<longleftrightarrow> t \<noteq> MsgTypeRelayForw \<and> t \<noteq> MsgTypeRelayRepl"

lemma ParsePacket6_eq:
  "client_type t \<Longrightarrow> ParsePacket6 ([t, a, b, c] @ body) =
     bind_run (parse_options6 body) (\<lambda>opts.
       Ret \<lparr>p6MessageType = t, p6TransID = (a, b, c), p6Options = opts\<rparr>)"
  by (simp add: ParsePacket6_def client_type_def)

lemma ParsePacket6_cases:
  obtains (short) "length data < 4" "ParsePacket6 data = Fail ''packet too short''"
  | (relay) "4 \<le> length data" "\<not> client_type (data ! 0)"
      "ParsePacket6 data = Fail ''relay packet, use ParseRelayPacket''"
  | (client) t a b c body where "data = [t, a, b, c] @ body" "client_type t"
proof (cases "length data < 4")
  case True
  then show thesis by (intro short) (simp_all add: ParsePacket6_def)
next
  case False
  then have len: "4 \<le> length data" by simp
  show thesis
  proof (cases "client_type (data ! 0)")
    case True
    with message_head [OF len] show thesis by (rule client)
  next
    case False
    with len show thesis by (intro relay) (auto simp: ParsePacket6_def client_type_def)
  qed
qed

lemma ParsePacket6_Ret_iff:
  "ParsePacket6 data = Ret p \<longleftrightarrow>
     client_type (p6MessageType p) \<and> short_options (p6Options p) \<and> (\<exists>tail. length tail < 4 \<and> data = Marshal6 p @ tail)"
proof (cases rule: ParsePacket6_cases [of data])
  case short
  then show ?thesis by (auto simp: Marshal6_def split: prod.splits)
next
  case relay
  then show ?thesis by (auto simp: Marshal6_def split: prod.splits)
next
  case (client t a b c body)
  then show ?thesis
    by (cases p; cases "p6TransID p")
       (auto simp: ParsePacket6_eq [simplified] bind_run_Ret_iff parse_options6_Ret_iff Marshal6_def)
qed

lemma ParsePacket6_Panic_iff:
  "ParsePacket6 data = Panic \<longleftrightarrow>
     (\<exists>p tail. client_type (p6MessageType p) \<and> short_options (p6Options p) \<and> data = Marshal6 p @ tail
        \<and> 4 \<le> length tail \<and> 65532 \<le> unat (Uint16 (slice 2 4 tail)))" (is "_ \<longleftrightarrow> ?crash")
proof (cases rule: ParsePacket6_cases [of data])
  case (client t a b c body)
  then have eq: "ParsePacket6 data = Panic \<longleftrightarrow> parse_options6 body = Panic"
    by (cases "parse_options6 body") (simp_all add: ParsePacket6_eq [simplified])
  show ?thesis
  proof
    assume "ParsePacket6 data = Panic"
    then obtain opts tail where "short_options opts" "body = marshal_options6 opts @ tail" "4 \<le> length tail"
        "65532 \<le> unat (Uint16 (slice 2 4 tail))" by (auto simp: eq parse_options6_Panic_iff)
    with client show ?crash
      by (intro exI [of _ "\<lparr>p6MessageType = t, p6TransID = (a, b, c), p6Options = opts\<rparr>"] exI [of _ tail])
         (simp add: Marshal6_eq)
  next
    assume ?crash
    then obtain p tail where "short_options (p6Options p)" "data = Marshal6 p @ tail" "4 \<le> length tail"
        "65532 \<le> unat (Uint16 (slice 2 4 tail))" by blast
    moreover from this client have "body = marshal_options6 (p6Options p) @ tail"
      by (cases "p6TransID p") (simp add: Marshal6_def)
    ultimately show "ParsePacket6 data = Panic" unfolding eq parse_options6_Panic_iff by blast
  qed
qed (auto simp: Marshal6_def split: prod.splits)

lemma ParsePacket6_not_Hang: "ParsePacket6 data \<noteq> Hang"
  using parse_options6_not_Hang
  by (cases rule: ParsePacket6_cases [of data])
     (auto simp: ParsePacket6_eq [simplified] elim: bind_run.elims)

lemma length_To16: "length (To16 p) = 16 \<or> To16 p = []"
  by (simp add: To16_def)

lemma To16_16 [simp]: "length p = 16 \<Longrightarrow> To16 p = p"
  by (simp add: To16_def)

lemma MarshalRelay_eq:
  assumes "length (rpLinkAddr rp) = 16" and "length (rpPeerAddr rp) = 16"
  shows "MarshalRelay rp =
    [rpMessageType rp, rpHopCount rp] @ rpLinkAddr rp @ rpPeerAddr rp @ marshal_options6 (rpOptions rp)"
proof -
  have "(replicate 34 0)[0 := rpMessageType rp, 1 := rpHopCount rp]
      = [rpMessageType rp, rpHopCount rp] @ replicate 32 0"
    by (simp add: numeral_eq_Suc)
  moreover have "copy_at 2 18 (rpLinkAddr rp) ([rpMessageType rp, rpHopCount rp] @ replicate 32 0)
      = ([rpMessageType rp, rpHopCount rp] @ rpLinkAddr rp) @ replicate 16 0"
    using assms by (subst copy_at_zeros) simp_all
  moreover have "copy_at 18 34 (rpPeerAddr rp) (([rpMessageType rp, rpHopCount rp] @ rpLinkAddr rp) @ replicate 16 0)
      = ([rpMessageType rp, rpHopCount rp] @ rpLinkAddr rp) @ rpPeerAddr rp"
    using assms by (subst copy_at_zeros) simp_all
  ultimately show ?thesis using assms by (simp add: MarshalRelay_def)
qed

lemma ParseRelayPacket_Marshal:
  assumes "length (rpLinkAddr rp) = 16" and "length (rpPeerAddr rp) = 16" and "short_options (rpOptions rp)"
  shows "ParseRelayPacket (MarshalRelay rp) = Ret rp"
proof -
  have "parse_options6 (marshal_options6 (rpOptions rp)) = Ret (rpOptions rp)"
    using parse_options6_marshal [OF assms(3), of "[]"] by simp
  moreover have "slice 2 18 (MarshalRelay rp) = rpLinkAddr rp" "slice 18 34 (MarshalRelay rp) = rpPeerAddr rp"
      "drop 34 (MarshalRelay rp) = marshal_options6 (rpOptions rp)" "34 \<le> length (MarshalRelay rp)"
    using assms(1,2) by (simp_all add: MarshalRelay_eq slice_def)
  moreover have "MarshalRelay rp ! 0 = rpMessageType rp" "MarshalRelay rp ! 1 = rpHopCount rp"
    using assms(1,2) by (simp_all add: MarshalRelay_eq)
  ultimately show ?thesis by (simp add: ParseRelayPacket_def)
qed

text \<open>The addresses of a parsed relay message have 16 bytes.\<close>

lemma ParseRelayPacket_RetD:
  assumes "ParseRelayPacket data = Ret rp"
  shows "length (rpLinkAddr rp) = 16" "length (rpPeerAddr rp) = 16" "short_options (rpOptions rp)"
    and "rpMessageType rp = data ! 0" "34 + length (marshal_options6 (rpOptions rp)) \<le> length data"
proof -
  have len: "34 \<le> length data" and o: "parse_options6 (drop 34 data) = Ret (rpOptions rp)"
    and f: "rpLinkAddr rp = slice 2 18 data" "rpPeerAddr rp = slice 18 34 data" "rpMessageType rp = data ! 0"
    using assms by (auto simp: ParseRelayPacket_def bind_run_Ret_iff split: if_splits)
  from o obtain tail where "drop 34 data = marshal_options6 (rpOptions rp) @ tail" and s: "short_options (rpOptions rp)"
    by (auto simp: parse_options6_Ret_iff)
  then have "length data - 34 = length (marshal_options6 (rpOptions rp)) + length tail"
    by (metis length_append length_drop)
  then show "34 + length (marshal_options6 (rpOptions rp)) \<le> length data" using len by simp
  show "length (rpLinkAddr rp) = 16" "length (rpPeerAddr rp) = 16" "rpMessageType rp = data ! 0"
    using len f by simp_all
  show "short_options (rpOptions rp)" by (rule s)
qed

section \<open>Addresses and prefixes in IA options\<close>

lemma BuildIAAddress_eq:
  "length p = 16 \<Longrightarrow> BuildIAAddress p pref valid = p @ PutUint32 pref @ PutUint32 valid"
proof -
  assume p: "length p = 16"
  have "copy_at 0 16 p (replicate 24 0) = p @ replicate 8 0"
    using p copy_at_zeros [of "[]" 0 p 16 24] by simp
  moreover have "copy_at 16 20 (PutUint32 pref) (p @ replicate 8 0) = (p @ PutUint32 pref) @ replicate 4 0"
    using p by (simp add: copy_at_zeros)
  moreover have "copy_at 20 24 (PutUint32 valid) ((p @ PutUint32 pref) @ replicate 4 0)
      = (p @ PutUint32 pref) @ PutUint32 valid"
    using p by (subst copy_at_zeros) simp_all
  ultimately show ?thesis using p by (simp add: BuildIAAddress_def)
qed

lemma ParseIAAddress_Build:
  "length p = 16 \<Longrightarrow> ParseIAAddress (BuildIAAddress p pref valid) = Ret (p, pref, valid)"
  by (simp add: ParseIAAddress_def BuildIAAddress_eq slice_append_exact slice_append2 slice_whole)

lemma BuildIAPrefix_eq:
  "length p = 16 \<Longrightarrow> BuildIAPrefix n p pref valid = PutUint32 pref @ PutUint32 valid @ [n] @ p"
proof -
  assume p: "length p = 16"
  have "copy_at 0 4 (PutUint32 pref) (replicate 25 0) = PutUint32 pref @ replicate 21 0"
    using copy_at_zeros [of "[]" 0 "PutUint32 pref" 4 25] by simp
  moreover have "copy_at 4 8 (PutUint32 valid) (PutUint32 pref @ replicate 21 0)
      = (PutUint32 pref @ PutUint32 valid) @ replicate 17 0"
    by (simp add: copy_at_zeros)
  moreover have "((PutUint32 pref @ PutUint32 valid) @ replicate 17 0)[8 := n]
      = (PutUint32 pref @ PutUint32 valid @ [n]) @ replicate 16 0"
    by (simp add: list_update_append numeral_eq_Suc)
  moreover have "copy_at 9 25 p ((PutUint32 pref @ PutUint32 valid @ [n]) @ replicate 16 0)
      = (PutUint32 pref @ PutUint32 valid @ [n]) @ p"
    using p by (subst copy_at_zeros) simp_all
  ultimately show ?thesis using p by (simp add: BuildIAPrefix_def Let_def del: append.simps)
qed

lemma ParseIAPrefix_Build:
  "length p = 16 \<Longrightarrow> ParseIAPrefix (BuildIAPrefix n p pref valid) = Ret (n, p, pref, valid)"
  by (simp add: ParseIAPrefix_def BuildIAPrefix_eq slice_append_exact slice_append2 slice_def nth_append)

section \<open>Domain lists\<close>

text \<open>
  A reader of RFC 1035 names without compression: labels of 1 to 63 bytes, each after its
  length, up to a zero byte. \<open>cur\<close> holds the labels of the name being read.
\<close>

function read_names :: "string list \<Rightarrow> bytes \<Rightarrow> string list list option" where
  "read_names cur [] = (if cur = [] then Some [] else None)"
| "read_names cur (n # bs) =
     (if n = 0 then map_option ((#) cur) (read_names [] bs)
      else if 63 < unat n \<or> length bs < unat n then None
      else read_names (cur @ [string_of_bytes (take (unat n) bs)]) (drop (unat n) bs))"
  by pat_completeness auto
termination by (relation "measure (\<lambda>(cur, bs). length bs)") auto

fun join_dots :: "string list \<Rightarrow> string" where
  "join_dots [] = []"
| "join_dots [l] = l"
| "join_dots (l # ls) = l @ CHR ''.'' # join_dots ls"

definition dns_label :: "string \<Rightarrow> bool" where
  "dns_label l \<longleftrightarrow> l \<noteq> [] \<and> CHR ''.'' \<notin> set l \<and> length l \<le> 63"

lemma split_loop_segment:
  "CHR ''.'' \<notin> set l \<Longrightarrow> split_loop seg (l @ s) = split_loop (seg @ l) s"
  by (induction l arbitrary: seg) auto

lemma splitDomain_join_dots: "\<forall>l \<in> set ls. dns_label l \<Longrightarrow> splitDomain (join_dots ls) = ls"
proof (induction ls rule: join_dots.induct)
  case (2 l)
  then show ?case using split_loop_segment [of l "[]" "[]"] by (simp add: splitDomain_def dns_label_def)
next
  case (3 l l' ls)
  then have "splitDomain (join_dots (l # l' # ls)) = l # splitDomain (join_dots (l' # ls))"
    by (simp add: splitDomain_def dns_label_def split_loop_segment)
  with 3 show ?case by simp
qed (simp add: splitDomain_def)

lemma read_names_label:
  assumes "dns_label l"
  shows "read_names cur (label_bytes l @ bs) = read_names (cur @ [l]) bs"
proof -
  have n: "unat (of_nat (length l) :: byte) = length l" and "(of_nat (length l) :: byte) \<noteq> 0"
    using assms by (auto simp: dns_label_def unat_of_nat unat_eq_zero [symmetric])
  with assms show ?thesis by (simp add: label_bytes_def dns_label_def)
qed

lemma read_names_labels:
  "\<forall>l \<in> set ls. dns_label l \<Longrightarrow> read_names cur (concat (map label_bytes ls) @ bs) = read_names (cur @ ls) bs"
  by (induction ls arbitrary: cur) (simp_all add: read_names_label)

section \<open>Properties\<close>

text \<open>
  C9. The client message parser is exact: the bytes of a datagram parse to a message if and only
  if they are the encoding of that message, which is no relay message and has no option longer
  than 65531 bytes, followed by at most three bytes, which are ignored.
\<close>

theorem parse6_iff_marshal:
  "ParsePacket6 data = Ret p \<longleftrightarrow>
     p6MessageType p \<noteq> MsgTypeRelayForw \<and> p6MessageType p \<noteq> MsgTypeRelayRepl
     \<and> short_options (p6Options p) \<and> (\<exists>tail. length tail < 4 \<and> data = Marshal6 p @ tail)"
  by (simp add: ParsePacket6_Ret_iff client_type_def)

text \<open>
  C37. Which datagrams stop the server: the parser always returns, and it panics (in a goroutine
  without recover, so that the process ends) exactly on the encoding of a client message followed
  by an option header whose length field is 65532 or more, where the 16-bit \<open>4+length\<close> wraps.
\<close>

theorem parse6_panic_iff:
  "ParsePacket6 data \<noteq> Hang \<and>
   (ParsePacket6 data = Panic \<longleftrightarrow>
     (\<exists>p tail. p6MessageType p \<noteq> MsgTypeRelayForw \<and> p6MessageType p \<noteq> MsgTypeRelayRepl
        \<and> short_options (p6Options p) \<and> data = Marshal6 p @ tail
        \<and> 4 \<le> length tail \<and> 65532 \<le> unat (Uint16 (slice 2 4 tail))))"
  using ParsePacket6_not_Hang by (simp add: ParsePacket6_Panic_iff client_type_def)

text \<open>
  Domain lists: for names given as dotted labels of 1 to 63 bytes, a reader of RFC 1035
  names gets from the bytes of \<open>BuildDomainList\<close> every name with its labels, in order.
\<close>

theorem domain_list_roundtrip:
  assumes "\<forall>ls \<in> set names. \<forall>l \<in> set ls. dns_label l"
  shows "read_names [] (BuildDomainList (map join_dots names)) = Some names"
  using assms
proof (induction names)
  case (Cons ls names)
  then have "read_names [] (concat (map label_bytes ls) @ 0 # BuildDomainList (map join_dots names))
      = read_names ls (0 # BuildDomainList (map join_dots names))"
    by (simp add: read_names_labels)
  with Cons show ?case by (simp add: BuildDomainList_def splitDomain_join_dots)
qed (simp add: BuildDomainList_def)

theorem domain_list_roundtrip_witness:
  "read_names [] (BuildDomainList [''corp.example'', ''lan'']) = Some [[''corp'', ''example''], [''lan'']]"
  using domain_list_roundtrip [of "[[''corp'', ''example''], [''lan'']]"] by (simp add: dns_label_def)

end
