(* ===== verification/Dhcp6_Values.thy ===== *)
theory Dhcp6_Values
  imports Dhcp6_Packet Dhcp4_Options
begin

text \<open>
  The values of configured DHCPv6 options, the last part of \<open>internal/dhcpv6/server.go\<close>: from the key
  and the JSON value of a configured option to its code and bytes. Keys and numbers are read
  with \<open>fmt.Sscanf\<close>, modelled first: leading space is skipped (a newline is an error), then as many
  digits as there are, and whatever follows is ignored. How a \<open>float64\<close> that does not fit becomes
  a \<open>uint32\<close> is the implementation's: the argument \<open>f32\<close>.
\<close>

section \<open>fmt.Sscanf\<close>

text \<open>\<open>SkipSpace\<close> with newlines not counted as space: None is the error \<open>unexpected newline\<close>.\<close>

definition skip_space :: "string \<Rightarrow> string option" where
  "skip_space s = (let t = trim_left space_seqs s
     in if char_of (10 :: nat) \<in> set (take (length s - length t) s) then None else Some t)"

text \<open>\<open>Sscanf(s, "%d", &n)\<close> for an \<open>int\<close>: the value of the longest run of digits, with its sign.\<close>

definition scan_digits :: "string \<Rightarrow> nat option" where
  "scan_digits s = (let ds = takeWhile is_digit s in if ds = [] then None else Some (dec_value ds))"

definition Sscanf_int :: "string \<Rightarrow> int option" where
  "Sscanf_int s = (case skip_space s of None \<Rightarrow> None
     | Some t \<Rightarrow>
         let neg = (t \<noteq> [] \<and> hd t = CHR ''-'');
             t' = (if t \<noteq> [] \<and> (hd t = CHR ''-'' \<or> hd t = CHR ''+'') then tl t else t)
         in (case scan_digits t' of None \<Rightarrow> None
             | Some n \<Rightarrow> let i = (if neg then - int n else int n)
                 in if - (2 ^ 63) \<le> i \<and> i < 2 ^ 63 then Some i else None))"

text \<open>The same for a \<open>uint32\<close>: no sign, and a value that does not fit is an error.\<close>

definition Sscanf_uint32 :: "string \<Rightarrow> uint32 option" where
  "Sscanf_uint32 s = (case skip_space s of None \<Rightarrow> None
     | Some t \<Rightarrow> (case scan_digits t of None \<Rightarrow> None
        | Some n \<Rightarrow> if n < 2 ^ 32 then Some (of_nat n) else None))"

text \<open>\<open>Sscanf(s, "%2x", &b)\<close> on a string of two bytes; the error is ignored and leaves \<open>b\<close> at 0.\<close>

definition Sscanf_hex2 :: "string \<Rightarrow> byte" where
  "Sscanf_hex2 s = (case skip_space s of None \<Rightarrow> 0
     | Some t \<Rightarrow> foldl (\<lambda>n c. n * 16 + of_nat (the (hex_val c))) 0 (takeWhile (\<lambda>c. hex_val c \<noteq> None) t))"

section \<open>Option keys\<close>

definition v6OptionCodeFromKey :: "string \<Rightarrow> uint16" where
  "v6OptionCodeFromKey k =
     (case (case Sscanf_int k of Some code \<Rightarrow> if 0 < code \<and> code < 65536 then Some code else None | None \<Rightarrow> None) of
        Some code \<Rightarrow> word_of_int code
      | None \<Rightarrow>
          if k = ''dns'' \<or> k = ''dns-servers'' then OptDNSServers
          else if k = ''domain'' \<or> k = ''domain-list'' then OptDomainList
          else if k = ''sntp'' then OptSNTPServers
          else 0)"

section \<open>Option values\<close>

text \<open>
  \<open>json.Unmarshal\<close> into a \<open>[]string\<close>, with its error dropped: an element of another type leaves an
  empty string, a value that is no array leaves the list nil.
\<close>

definition string_list :: "gvalue \<Rightarrow> string list" where
  "string_list v = (case v of
     GList vs \<Rightarrow> map (\<lambda>x. case x of GStr s \<Rightarrow> s | _ \<Rightarrow> '''') vs
   | GStrs ss \<Rightarrow> ss
   | _ \<Rightarrow> [])"

definition parseIPList6 :: "gvalue \<Rightarrow> ip list run" where
  "parseIPList6 v = map_run (\<lambda>s. let p = ParseIP s in if p = [] then Fail (''invalid IP: '' @ s) else Ret p) (string_list v)"

definition parseStringList6 :: "gvalue \<Rightarrow> string list run" where
  "parseStringList6 v = Ret (string_list v)"

definition toUint32 :: "(rat \<Rightarrow> uint32) \<Rightarrow> gvalue \<Rightarrow> uint32 run" where
  "toUint32 f32 v = (case v of
     GFloat r \<Rightarrow> Ret (if 0 \<le> trunc r \<and> trunc r < 2 ^ 32 then word_of_int (trunc r) else f32 r)
   | GStr s \<Rightarrow> (case Sscanf_uint32 s of Some n \<Rightarrow> Ret n | None \<Rightarrow> Fail ''expected integer'')
   | _ \<Rightarrow> Fail ''cannot convert to uint32'')"

definition toString6 :: "go_float \<Rightarrow> gvalue \<Rightarrow> string run" where
  "toString6 g v = Ret (case v of GStr s \<Rightarrow> s | _ \<Rightarrow> fmt_v g v)"

fun hex_pairs6 :: "string \<Rightarrow> bytes" where
  "hex_pairs6 (a # b # s) = Sscanf_hex2 [a, b] # hex_pairs6 s"
| "hex_pairs6 _ = []"

definition parseHex6 :: "go_float \<Rightarrow> gvalue \<Rightarrow> bytes run" where
  "parseHex6 g v = bind_run (toString6 g v) (\<lambda>s.
     if odd (length s) then Fail ''invalid hex'' else Ret (hex_pairs6 s))"

text \<open>
  The anonymous struct of \<open>buildV6Option\<close>: the fields \<open>type\<close> and \<open>value\<close> of an object, through JSON; what
  does not fit its field is dropped with the error.
\<close>

definition v6_option_value :: "gvalue \<Rightarrow> option_value" where
  "v6_option_value v = (case v of
     GMap kvs \<Rightarrow>
       \<lparr>ovType = foldl (\<lambda>acc x. case x of GStr s \<Rightarrow> s | _ \<Rightarrow> acc) '''' (fields_of ''type'' kvs),
        ovValue = (case fields_of ''value'' kvs of [] \<Rightarrow> GNil | vs \<Rightarrow> last vs)\<rparr>
   | _ \<Rightarrow> \<lparr>ovType = '''', ovValue = GNil\<rparr>)"

definition buildV6Option :: "go_float \<Rightarrow> (rat \<Rightarrow> uint32) \<Rightarrow> uint16 \<Rightarrow> gvalue \<Rightarrow> bytes run" where
  "buildV6Option g f32 code v =
     (let ov = v6_option_value v; t = ovType ov in
      if t = ''ips'' then bind_run (parseIPList6 (ovValue ov)) (\<lambda>ips. Ret (BuildDNSList ips))
      else if t = ''domains'' then bind_run (parseStringList6 (ovValue ov)) (\<lambda>list. Ret (BuildDomainList list))
      else if t = ''uint32'' then bind_run (toUint32 f32 (ovValue ov)) (\<lambda>n. Ret (PutUint32 n))
      else if t = ''string'' then bind_run (toString6 g (ovValue ov)) (\<lambda>s. Ret (bytes_of_string s))
      else if t = ''hex'' then parseHex6 g (ovValue ov)
      else Fail (''unsupported v6 option type '' @ t))"

section \<open>Lemmas\<close>

lemma map_run_no_panic:
  "(\<And>x. f x \<noteq> Panic \<and> f x \<noteq> Hang) \<Longrightarrow> map_run f xs \<noteq> Panic \<and> map_run f xs \<noteq> Hang"
proof (induction xs)
  case (Cons x xs)
  then show ?case by (cases "f x"; cases "map_run f xs"; auto)
qed simp

lemma buildV6Option_returns: "(\<exists>raw. buildV6Option g f32 code v = Ret raw) \<or> (\<exists>e. buildV6Option g f32 code v = Fail e)"
proof -
  have ips: "(\<exists>ips. parseIPList6 x = Ret ips) \<or> (\<exists>e. parseIPList6 x = Fail e)" for x
    using map_run_no_panic [of "\<lambda>s. let p = ParseIP s in if p = [] then Fail (''invalid IP: '' @ s) else Ret p" "string_list x"]
    by (cases "parseIPList6 x") (auto simp: parseIPList6_def Let_def)
  have u: "(\<exists>n. toUint32 f32 x = Ret n) \<or> (\<exists>e. toUint32 f32 x = Fail e)" for x
    by (auto simp: toUint32_def split: gvalue.splits option.splits)
  show ?thesis
    using ips [of "ovValue (v6_option_value v)"] u [of "ovValue (v6_option_value v)"]
    by (auto simp: buildV6Option_def Let_def parseStringList6_def toString6_def parseHex6_def)
qed

lemma space_seqs_heads: "p \<in> set space_seqs \<Longrightarrow> hd p < 33 \<or> 194 \<le> hd p"
  by (auto simp: space_seqs_def)

lemma starts_with_head: "starts_with (c # s) p \<Longrightarrow> p \<noteq> [] \<Longrightarrow> hd p = of_char c"
  by (cases p) (auto simp: starts_with_def)

lemma space_seqs_no_digit:
  assumes "c = CHR ''-'' \<or> c = CHR ''+'' \<or> is_digit c"
  shows "trim_left space_seqs (c # s) = c # s"
proof -
  have c: "33 \<le> (of_char c :: nat)" "(of_char c :: nat) < 194" using assms by (auto simp: is_digit_def)
  have "\<not> (p \<noteq> [] \<and> starts_with (c # s) p)" if "p \<in> set space_seqs" for p
    using space_seqs_heads [OF that] starts_with_head [of c s p] c by fastforce
  then have "List.find (\<lambda>p. p \<noteq> [] \<and> starts_with (c # s) p) space_seqs = None"
    by (simp add: find_None_iff)
  then show ?thesis by (subst trim_left.simps) simp
qed

lemma is_digit_dec_string: "c \<in> set (dec_string n) \<Longrightarrow> is_digit c"
  using dec_string_digits [of c n] by (simp add: is_digit_def)

lemma scan_digits_dec: "s = [] \<or> \<not> is_digit (hd s) \<Longrightarrow> scan_digits (dec_string n @ s) = Some n"
proof -
  assume "s = [] \<or> \<not> is_digit (hd s)"
  then have "takeWhile is_digit (dec_string n @ s) = dec_string n"
    using is_digit_dec_string by (cases s) (auto simp: takeWhile_append2)
  then show ?thesis by (simp add: scan_digits_def dec_value_string)
qed

text \<open>A key that starts with a decimal number is that code, whatever follows; 0 and codes above 65535 are none.\<close>

lemma v6OptionCodeFromKey_dec:
  assumes "s = [] \<or> \<not> is_digit (hd s)" and "0 < n" and "n < 65536"
  shows "v6OptionCodeFromKey (dec_string n @ s) = of_nat n"
proof -
  obtain c t where c: "dec_string n = c # t" by (cases "dec_string n") auto
  then have d: "is_digit c" using is_digit_dec_string [of c n] by simp
  then have sign: "c \<noteq> CHR ''-''" "c \<noteq> CHR ''+''" by (auto simp: is_digit_def)
  have "skip_space (dec_string n @ s) = Some (dec_string n @ s)"
    using d by (simp add: skip_space_def c space_seqs_no_digit)
  then have "Sscanf_int (dec_string n @ s) = Some (int n)"
    using sign assms scan_digits_dec [of s n] by (simp add: Sscanf_int_def c)
  with assms show ?thesis by (simp add: v6OptionCodeFromKey_def)
qed

end
