(* ===== verification/Store_Alloc6.thy ===== *)
theory Store_Alloc6
  imports Store_Alloc
begin

text \<open>
  \<open>AllocateV6Lease\<close> and \<open>AllocateV6Prefix\<close> of \<open>internal/store/store.go\<close> with their transaction helpers. The
  body of \<open>AllocateV6Lease\<close> has the blocks of \<open>AllocateV4Lease\<close>; a client is a DUID and an IAID, but whether
  an address is another client's is decided by the DUID alone.
\<close>

section \<open>DHCPv6 transaction helpers\<close>

definition getV6ReservationByIPTx :: "faults \<Rightarrow> string \<Rightarrow> ip \<Rightarrow> db \<Rightarrow> v6_reservation option run" where
  "getV6ReservationByIPTx flt scopeID p db = exec flt ''getV6ReservationByIPTx''
     (bind_run (host_inet p) (\<lambda>a. Ret (map_option scanV6Reservation
        (query_row (\<lambda>r. vrScopeID r = scopeID \<and> Some (vrIPAddr r) = a) (dbV6Reservations db)))))"

definition getV6ReservationByDUIDTx :: "faults \<Rightarrow> string \<Rightarrow> string \<Rightarrow> db \<Rightarrow> v6_reservation option run" where
  "getV6ReservationByDUIDTx flt scopeID duid db = exec flt ''getV6ReservationByDUIDTx''
     (Ret (map_option scanV6Reservation
        (query_row (\<lambda>r. vrScopeID r = scopeID \<and> vrDUID r = duid) (dbV6Reservations db))))"

definition getV6LeaseByDUIDTx :: "faults \<Rightarrow> string \<Rightarrow> string \<Rightarrow> string \<Rightarrow> db \<Rightarrow> v6_lease option run" where
  "getV6LeaseByDUIDTx flt scopeID duid iaid db = exec flt ''getV6LeaseByDUIDTx''
     (Ret (map_option scanV6Lease
        (query_row (\<lambda>l. vlScopeID l = scopeID \<and> vlDUID l = duid \<and> vlIAID l = iaid) (dbV6Leases db))))"

definition getV6LeaseByIPTx :: "faults \<Rightarrow> string \<Rightarrow> ip \<Rightarrow> db \<Rightarrow> v6_lease option run" where
  "getV6LeaseByIPTx flt scopeID p db = exec flt ''getV6LeaseByIPTx''
     (bind_run (host_inet p) (\<lambda>a. Ret (map_option scanV6Lease
        (query_row (\<lambda>l. vlScopeID l = scopeID \<and> Some (vlIPAddr l) = a) (dbV6Leases db)))))"

definition saveV6LeaseTx :: "faults \<Rightarrow> v6_lease \<Rightarrow> db \<Rightarrow> (unit \<times> db) run" where
  "saveV6LeaseTx flt l db = exec flt ''saveV6LeaseTx''
     (bind_run (host_inet (vlIPAddr l)) (\<lambda>a. case a of
        None \<Rightarrow> Fail ''null value violates not-null constraint''
      | Some q \<Rightarrow> bind_run (sql_upsert v6_lease_clash v6_lease_conflict v6_lease_merge
                     (l\<lparr>vlIPAddr := q, vlReserved := False\<rparr>) (dbV6Leases db))
                   (\<lambda>rows. Ret ((), db\<lparr>dbV6Leases := rows\<rparr>))))"

definition deleteV6LeaseTx :: "faults \<Rightarrow> string \<Rightarrow> db \<Rightarrow> (unit \<times> db) run" where
  "deleteV6LeaseTx flt ident db = exec flt ''deleteV6LeaseTx''
     (Ret ((), db\<lparr>dbV6Leases := sql_delete (\<lambda>l. vlID l = ident) (dbV6Leases db)\<rparr>))"

definition deleteV6LeasesByDUIDTx :: "faults \<Rightarrow> string \<Rightarrow> string \<Rightarrow> string \<Rightarrow> db \<Rightarrow> (unit \<times> db) run" where
  "deleteV6LeasesByDUIDTx flt scopeID duid iaid db = exec flt ''deleteV6LeasesByDUIDTx''
     (Ret ((), db\<lparr>dbV6Leases := sql_delete (\<lambda>l. vlScopeID l = scopeID \<and> vlDUID l = duid \<and> vlIAID l = iaid) (dbV6Leases db)\<rparr>))"

definition ensureV6IPAvailableTx :: "faults \<Rightarrow> time \<Rightarrow> string \<Rightarrow> ip \<Rightarrow> string \<Rightarrow> db \<Rightarrow> (unit \<times> db) run" where
  "ensureV6IPAvailableTx flt now scopeID p duid db =
     bind_run (getV6LeaseByIPTx flt scopeID p db) (\<lambda>existing. case existing of
        None \<Rightarrow> Ret ((), db)
      | Some e \<Rightarrow>
          if vlDUID e = duid then Ret ((), db)
          else if v6_lease_blocks now e then Fail (''reservation ip '' @ ip_String p @ '' in use'')
          else deleteV6LeaseTx flt (vlID e) db)"

definition used_v6 :: "time \<Rightarrow> scope \<Rightarrow> ip \<Rightarrow> db \<Rightarrow> string list" where
  "used_v6 now sc extra db =
     map (\<lambda>l. ipKey (vlIPAddr l)) (filter (\<lambda>l. vlScopeID l = scID sc
        \<and> sql_in_use now (vlState l) (vlOfferedAt l) (vlStartsAt l) (vlEndsAt l) (vlUpdatedAt l)
        \<and> (vlState l = LeaseActive \<or> vlState l = LeaseOffered \<or> vlState l = LeaseDeclined)) (dbV6Leases db))
     @ map (\<lambda>r. ipKey (vrIPAddr r)) (filter (\<lambda>r. vrScopeID r = scID sc) (dbV6Reservations db))
     @ infra_keys sc extra"

definition skip_v6 :: "scope \<Rightarrow> string list \<Rightarrow> bigInt128 \<Rightarrow> bool" where
  "skip_v6 sc used x = (let candidate = uint128ToIP x
     in ipKey candidate \<in> set used \<or> ip_Equal candidate (scStartIP sc) \<or> ip_Equal candidate (scEndIP sc))"

definition allocateIPv6Tx :: "faults \<Rightarrow> time \<Rightarrow> scope \<Rightarrow> ip \<Rightarrow> db \<Rightarrow> ip run" where
  "allocateIPv6Tx flt now sc extra db =
     exec flt ''allocateIPv6Tx.leases'' (exec flt ''allocateIPv6Tx.reservations''
       (let used = used_v6 now sc extra db
        in bind_run (ipToUint128 (To16 (scStartIP sc))) (\<lambda>start. bind_run (ipToUint128 (To16 (scEndIP sc))) (\<lambda>end.
             case scan ipAddOne (\<lambda>x. Cmp x end \<le> 0) (skip_v6 sc used) start of
               None \<Rightarrow> Hang
             | Some None \<Rightarrow> Fail ''no available v6 ip in scope''
             | Some (Some x) \<Rightarrow> Ret (uint128ToIP x)))))"

section \<open>AllocateV6Lease\<close>

record alloc6 =
  a6Scope :: scope
  a6DUID :: string
  a6IAID :: string
  a6Hostname :: string
  a6Now :: time
  a6EndsAt :: time
  a6UUID :: string

definition new_v6_lease :: "alloc6 \<Rightarrow> ip \<Rightarrow> v6_lease" where
  "new_v6_lease a p = \<lparr>vlID = a6UUID a, vlScopeID = scID (a6Scope a), vlDUID = a6DUID a, vlIAID = a6IAID a, vlIPAddr = p,
     vlHostname = a6Hostname a, vlState = LeaseOffered, vlReserved = False,
     vlOfferedAt = Some (a6Now a), vlStartsAt = a6Now a, vlEndsAt = a6EndsAt a, vlCreatedAt = a6Now a,
     vlUpdatedAt = a6Now a\<rparr>"

definition renewed_v6_lease :: "alloc6 \<Rightarrow> v6_lease \<Rightarrow> v6_lease" where
  "renewed_v6_lease a e =
     (let e = e\<lparr>vlHostname := a6Hostname a\<rparr>;
          e = (if vlState e \<noteq> LeaseActive then e\<lparr>vlState := LeaseOffered, vlOfferedAt := Some (a6Now a)\<rparr> else e)
      in e\<lparr>vlStartsAt := a6Now a, vlEndsAt := a6EndsAt a, vlUpdatedAt := a6Now a\<rparr>)"

definition save_v6_and_return :: "faults \<Rightarrow> v6_lease \<Rightarrow> db \<Rightarrow> (v6_lease \<times> db) run" where
  "save_v6_and_return flt l db = bind_run (saveV6LeaseTx flt l db) (\<lambda>(_, db'). Ret (l, db'))"

definition reserved_for_other6 :: "string \<Rightarrow> v6_reservation option \<Rightarrow> bool" where
  "reserved_for_other6 duid resByIP = (case resByIP of None \<Rightarrow> False | Some r \<Rightarrow> vrDUID r \<noteq> duid)"

text \<open>Block 2, the row this DUID and IAID have.\<close>

definition may_keep6 :: "faults \<Rightarrow> alloc6 \<Rightarrow> v6_reservation option \<Rightarrow> v6_lease \<Rightarrow> db \<Rightarrow> bool run" where
  "may_keep6 flt a res e db =
     (if vlState e = LeaseActive \<or> vlState e = LeaseOffered then
        bind_run (ipInRange (vlIPAddr e) (scStartIP (a6Scope a)) (scEndIP (a6Scope a))) (\<lambda>inRange.
          if inRange then
            bind_run (getV6ReservationByIPTx flt (scID (a6Scope a)) (vlIPAddr e) db) (\<lambda>resByIP.
              Ret (\<not> reserved_for_other6 (a6DUID a) resByIP \<and>
                   (case res of None \<Rightarrow> True | Some r \<Rightarrow> ipKey (vlIPAddr e) = ipKey (vrIPAddr r))))
          else Ret False)
      else Ret False)"

definition alloc6_existing ::
  "faults \<Rightarrow> alloc6 \<Rightarrow> v6_reservation option \<Rightarrow> db \<Rightarrow> ((v6_lease + ip) \<times> db) run" where
  "alloc6_existing flt a res db =
     bind_run (getV6LeaseByDUIDTx flt (scID (a6Scope a)) (a6DUID a) (a6IAID a) db) (\<lambda>existing. case existing of
        None \<Rightarrow> Ret (Inr [], db)
      | Some e \<Rightarrow>
          bind_run (may_keep6 flt a res e db) (\<lambda>keep.
            if keep then
              bind_run (save_v6_and_return flt (renewed_v6_lease a e) db) (\<lambda>(l, db'). Ret (Inl l, db'))
            else
              let declinedIP = (if vlState e = LeaseDeclined \<and> v6_lease_blocks (a6Now a) e then vlIPAddr e else [])
              in bind_run (deleteV6LeasesByDUIDTx flt (scID (a6Scope a)) (a6DUID a) (a6IAID a) db)
                   (\<lambda>(_, db'). Ret (Inr declinedIP, db'))))"

definition alloc6_reserved :: "faults \<Rightarrow> alloc6 \<Rightarrow> v6_reservation \<Rightarrow> db \<Rightarrow> (v6_lease \<times> db) run" where
  "alloc6_reserved flt a r db =
     bind_run (ensureV6IPAvailableTx flt (a6Now a) (scID (a6Scope a)) (vrIPAddr r) (a6DUID a) db)
       (\<lambda>(_, db'). save_v6_and_return flt (new_v6_lease a (vrIPAddr r)) db')"

definition alloc6_preferred ::
  "faults \<Rightarrow> alloc6 \<Rightarrow> ip \<Rightarrow> ip \<Rightarrow> db \<Rightarrow> (v6_lease option \<times> db) run" where
  "alloc6_preferred flt a preferred declinedIP db =
     (let sc = a6Scope a in
      if preferred \<noteq> [] \<and> (case scSubnet sc of None \<Rightarrow> False | Some n \<Rightarrow> Contains n preferred) then
        bind_run (getV6ReservationByIPTx flt (scID sc) preferred db) (\<lambda>resByIP.
        bind_run (getV6LeaseByIPTx flt (scID sc) preferred db) (\<lambda>occupied.
          let usable = (\<not> reserved_for_other6 (a6DUID a) resByIP \<and> (case occupied of None \<Rightarrow> True
                         | Some o' \<Rightarrow> vlDUID o' = a6DUID a \<or> \<not> v6_lease_blocks (a6Now a) o'));
              quarantined = (declinedIP \<noteq> [] \<and> ip_Equal preferred declinedIP)
          in if usable \<and> \<not> quarantined \<and> \<not> isExcludedIP sc preferred then
               bind_run (case occupied of
                   Some o' \<Rightarrow> if vlDUID o' \<noteq> a6DUID a then deleteV6LeaseTx flt (vlID o') db else Ret ((), db)
                 | None \<Rightarrow> Ret ((), db)) (\<lambda>(_, db').
               bind_run (save_v6_and_return flt (new_v6_lease a preferred) db') (\<lambda>(l, db''). Ret (Some l, db'')))
             else Ret (None, db)))
      else Ret (None, db))"

definition alloc6_pool :: "faults \<Rightarrow> alloc6 \<Rightarrow> ip \<Rightarrow> db \<Rightarrow> (v6_lease \<times> db) run" where
  "alloc6_pool flt a declinedIP db =
     bind_run (allocateIPv6Tx flt (a6Now a) (a6Scope a) declinedIP db)
       (\<lambda>p. save_v6_and_return flt (new_v6_lease a p) db)"

definition alloc6_tx :: "faults \<Rightarrow> alloc6 \<Rightarrow> ip \<Rightarrow> db \<Rightarrow> (v6_lease \<times> db) run" where
  "alloc6_tx flt a preferred db =
     exec flt ''pg_advisory_xact_lock'' (exec flt ''SELECT NOW()''
       (bind_run (getV6ReservationByDUIDTx flt (scID (a6Scope a)) (a6DUID a) db) (\<lambda>res.
        bind_run (alloc6_existing flt a res db) (\<lambda>(ex, db').
          case ex of
            Inl l \<Rightarrow> Ret (l, db')
          | Inr declinedIP \<Rightarrow>
             (case res of
                Some r \<Rightarrow> alloc6_reserved flt a r db'
              | None \<Rightarrow> bind_run (alloc6_preferred flt a preferred declinedIP db') (\<lambda>(got, db'').
                  case got of Some l \<Rightarrow> Ret (l, db'')
                  | None \<Rightarrow> alloc6_pool flt a declinedIP db''))))))"

definition AllocateV6Lease ::
  "faults \<Rightarrow> time \<Rightarrow> string \<Rightarrow> scope \<Rightarrow> string \<Rightarrow> string \<Rightarrow> string \<Rightarrow> ip \<Rightarrow> int \<Rightarrow> int \<Rightarrow> db \<Rightarrow> v6_lease run \<times> db" where
  "AllocateV6Lease flt now uuid sc duid iaid hostname preferred leaseTime maxLeaseTime db =
     (let lt = clampLeaseTime leaseTime maxLeaseTime;
          a = \<lparr>a6Scope = sc, a6DUID = duid, a6IAID = iaid, a6Hostname = hostname, a6Now = now,
               a6EndsAt = now + lt * Second, a6UUID = uuid\<rparr>
      in WithTx flt (alloc6_tx flt a preferred) db)"

section \<open>AllocateV6Prefix\<close>

definition getV6PrefixByDUIDTx :: "faults \<Rightarrow> string \<Rightarrow> string \<Rightarrow> string \<Rightarrow> db \<Rightarrow> v6_prefix option run" where
  "getV6PrefixByDUIDTx flt scopeID duid iaid db = exec flt ''getV6PrefixByDUIDTx''
     (Ret (map_option scanV6Prefix
        (query_row (\<lambda>p. vpScopeID p = scopeID \<and> vpDUID p = duid \<and> vpIAID p = iaid) (dbV6Prefixes db))))"

definition saveV6PrefixTx :: "faults \<Rightarrow> v6_prefix \<Rightarrow> db \<Rightarrow> (unit \<times> db) run" where
  "saveV6PrefixTx flt p db = exec flt ''saveV6PrefixTx'' (upsert_v6_prefix p db)"

text \<open>A prefix has no offered_at; the query measures the offer window from starts_at.\<close>

definition prefix_live :: "time \<Rightarrow> v6_prefix \<Rightarrow> bool" where
  "prefix_live now p = sql_live now (vpState p) None (vpStartsAt p) (vpEndsAt p)"

definition used_prefixes :: "time \<Rightarrow> scope \<Rightarrow> db \<Rightarrow> string list" where
  "used_prefixes now sc db =
     concat (map (\<lambda>p. case vpPrefix p of None \<Rightarrow> [] | Some n \<Rightarrow> [ipnet_String n])
       (filter (\<lambda>p. vpScopeID p = scID sc \<and> prefix_live now p) (dbV6Prefixes db)))"

definition delegated :: "bigInt128 \<Rightarrow> uint64 \<Rightarrow> ipnet" where
  "delegated base i = \<lparr>netIP = uint128ToIP (prefixCandidate base 64 i), netMask = CIDRMask 64 128\<rparr>"

definition allocatePrefixTx :: "faults \<Rightarrow> time \<Rightarrow> scope \<Rightarrow> db \<Rightarrow> (ipnet \<times> db) run" where
  "allocatePrefixTx flt now sc db =
     (case scPrefix sc of
        None \<Rightarrow> Fail ''scope has no prefix configured''
      | Some pool \<Rightarrow>
          let parentLen = Mask_Size (netMask pool) in
          if 64 \<le> parentLen then
            Fail (''delegated prefix /64 must be larger than the pool '' @ ipnet_String pool @ '' (scope '' @ scName sc
                  @ ''); configure a larger PD pool such as /48'')
          else if 48 < 64 - parentLen then
            Fail (''prefix pool too large: /'' @ dec_string parentLen @ '' into /64 produces 2^'' @ dec_string (64 - parentLen) @ '' subnets'')
          else
            let count = push_bit (64 - parentLen) 1 :: uint64 in
            exec flt ''allocatePrefixTx.prefixes''
              (let used = used_prefixes now sc db in
               bind_run (ipToUint128 (To16 (netIP pool))) (\<lambda>base.
                 case scan (\<lambda>i. i + 1) (\<lambda>i. i < count) (\<lambda>i. ipnet_String (delegated base i) \<in> set used) 0 of
                   None \<Rightarrow> Hang
                 | Some None \<Rightarrow> Fail ''no available prefix''
                 | Some (Some i) \<Rightarrow> exec flt ''allocatePrefixTx.delete''
                     (Ret (delegated base i, db\<lparr>dbV6Prefixes := sql_delete
                        (\<lambda>p. vpScopeID p = scID sc \<and> vpPrefix p = Some (cidr_col (delegated base i))) (dbV6Prefixes db)\<rparr>)))))"

definition renewed_prefix :: "time \<Rightarrow> time \<Rightarrow> int \<Rightarrow> v6_prefix \<Rightarrow> v6_prefix" where
  "renewed_prefix now endsAt lt e =
     (let e = (if vpState e \<noteq> LeaseActive then e\<lparr>vpState := LeaseOffered\<rparr> else e)
      in e\<lparr>vpPreferredLifetime := lt, vpValidLifetime := lt, vpStartsAt := now, vpEndsAt := endsAt, vpUpdatedAt := now\<rparr>)"

definition new_prefix :: "time \<Rightarrow> time \<Rightarrow> int \<Rightarrow> string \<Rightarrow> scope \<Rightarrow> string \<Rightarrow> string \<Rightarrow> ipnet \<Rightarrow> v6_prefix" where
  "new_prefix now endsAt lt uuid sc duid iaid n =
     \<lparr>vpID = uuid, vpScopeID = scID sc, vpDUID = duid, vpIAID = iaid, vpPrefix = Some n,
      vpPreferredLifetime = lt, vpValidLifetime = lt, vpState = LeaseOffered, vpStartsAt = now, vpEndsAt = endsAt,
      vpCreatedAt = now, vpUpdatedAt = now\<rparr>"

text \<open>\<open>scope.Prefix.Contains(existing.Prefix.IP)\<close>; the column is NOT NULL, so that the prefix is there.\<close>

definition prefix_reusable :: "scope \<Rightarrow> v6_prefix \<Rightarrow> bool" where
  "prefix_reusable sc e \<longleftrightarrow> (vpState e = LeaseActive \<or> vpState e = LeaseOffered)
     \<and> (case scPrefix sc of None \<Rightarrow> False
        | Some pool \<Rightarrow> (case vpPrefix e of None \<Rightarrow> False | Some n \<Rightarrow> Contains pool (netIP n)))"

definition prefix_tx ::
  "faults \<Rightarrow> time \<Rightarrow> int \<Rightarrow> string \<Rightarrow> scope \<Rightarrow> string \<Rightarrow> string \<Rightarrow> db \<Rightarrow> (v6_prefix \<times> db) run" where
  "prefix_tx flt now lt uuid sc duid iaid db =
     exec flt ''pg_advisory_xact_lock'' (exec flt ''SELECT NOW()''
       (let endsAt = now + lt * Second in
        bind_run (getV6PrefixByDUIDTx flt (scID sc) duid iaid db) (\<lambda>existing.
          case (case existing of None \<Rightarrow> None | Some e \<Rightarrow> if prefix_reusable sc e then Some e else None) of
            Some e \<Rightarrow> (let p = renewed_prefix now endsAt lt e
                       in bind_run (saveV6PrefixTx flt p db) (\<lambda>(_, db'). Ret (p, db')))
          | None \<Rightarrow>
              bind_run (allocatePrefixTx flt now sc db) (\<lambda>(n, db').
                let p = new_prefix now endsAt lt uuid sc duid iaid n
                in bind_run (saveV6PrefixTx flt p db') (\<lambda>(_, db''). Ret (p, db''))))))"

definition AllocateV6Prefix ::
  "faults \<Rightarrow> time \<Rightarrow> string \<Rightarrow> scope \<Rightarrow> string \<Rightarrow> string \<Rightarrow> int \<Rightarrow> int \<Rightarrow> db \<Rightarrow> v6_prefix run \<times> db" where
  "AllocateV6Prefix flt now uuid sc duid iaid leaseTime maxLeaseTime db =
     WithTx flt (prefix_tx flt now (clampLeaseTime leaseTime maxLeaseTime) uuid sc duid iaid) db"

end
