(* ===== verification/Dhcp6_Server.thy ===== *)
theory Dhcp6_Server
  imports Dhcp6_Values Store_Alloc6 Dhcp4_Server
begin

text \<open>
  The DHCPv6 server, \<open>internal/dhcpv6/server.go\<close>: unwrapping and re-wrapping of relay messages, scope
  matching, the handlers of every client message, the server DUID and the refresh tick.
  \<^item> \<open>server6\<close> is the state of a node beside the database: cached scopes, DUID and interface.
  \<^item> \<open>env6\<close> holds what a run depends on: statement faults and clocks, new ids, the order in which
    Go ranges over a map, the capacity Go gives an appended slice, what other nodes do meanwhile.
  \<^item> A handler gives the datagrams it sends, the database it leaves and how it ended.
  The configuration is the one the DHCPv4 server reads (\<open>config4\<close>). Logging and metrics are left out.
\<close>

section \<open>State and environment\<close>

record udp_addr =
  uaIP :: ip
  uaPort :: nat
  uaZone :: string

record relayHop =
  rhHopCount :: byte
  rhLinkAddr :: ip
  rhPeerAddr :: ip
  rhOptions :: options6

record relayContext =
  rcHopCount :: byte
  rcLinkAddr :: ip
  rcPeerAddr :: ip
  rcInterfaceID :: "bytes option"
  rcRelayAddr :: udp_addr
  rcRelayOptions :: options6
  rcHops :: "relayHop list"

record server6 =
  sv6Scopes :: "scope list"
  sv6DUID :: bytes
  sv6CfgIfIndex :: int

record env6 =
  e6Faults :: faults
  e6Now :: "stmt \<Rightarrow> time"
  e6GoNow :: time
  e6LeaseUUID :: string
  e6PrefixUUID :: string
  e6LogUUID :: "string \<Rightarrow> string"
  e6Float :: go_float
  e6FloatUint32 :: "rat \<Rightarrow> uint32"
  e6Range :: "option_map \<Rightarrow> string list"
  e6Cap :: "nat \<Rightarrow> nat"
  e6Meanwhile :: "db \<Rightarrow> db"
  e6Timeout :: bool
  e6HardwareAddrs :: "bytes list option"

text \<open>A datagram handed to the socket, with the interface of its control message (0: none).\<close>

record sent6 =
  s6Dest :: udp_addr
  s6IfIndex :: int
  s6Data :: bytes

record out6 =
  h6Sent :: "sent6 list"
  h6Db :: db
  h6End :: ending

abbreviation done6 :: "sent6 list \<Rightarrow> db \<Rightarrow> out6" where
  "done6 ss db \<equiv> \<lparr>h6Sent = ss, h6Db = db, h6End = Finished\<rparr>"

definition on_result6 :: "'a run \<Rightarrow> db \<Rightarrow> ('a \<Rightarrow> out6) \<Rightarrow> (string \<Rightarrow> out6) \<Rightarrow> out6" where
  "on_result6 r db ok bad = (case r of Ret x \<Rightarrow> ok x | Fail e \<Rightarrow> bad e
     | Panic \<Rightarrow> \<lparr>h6Sent = [], h6Db = db, h6End = Crashed\<rparr> | Hang \<Rightarrow> \<lparr>h6Sent = [], h6Db = db, h6End = Stuck\<rparr>)"

definition DefaultV6LeaseTime :: int where "DefaultV6LeaseTime = 3600"
definition DefaultV6MaxLeaseTime :: int where "DefaultV6MaxLeaseTime = 86400"

text \<open>Go's integer division rounds towards zero.\<close>

definition go_div :: "int \<Rightarrow> int \<Rightarrow> int" where
  "go_div a b = (if a < 0 then - ((- a) div b) else a div b)"

definition iaid_string :: "uint32 \<Rightarrow> string" where
  "iaid_string iaid = dec_string (unat iaid)"

section \<open>Allocation log\<close>

text \<open>Each log row of a packet has its own id; a packet writes at most one row per action and IA kind.\<close>

definition logIPAllocation6 ::
  "env6 \<Rightarrow> config4 \<Rightarrow> scope \<Rightarrow> string \<Rightarrow> string \<Rightarrow> ip \<Rightarrow> ipnet option \<Rightarrow> string \<Rightarrow> relayContext option \<Rightarrow> string \<Rightarrow> db \<Rightarrow> db" where
  "logIPAllocation6 env cfg sc duid iaid p prefix action relay hostname db =
     snd (CreateIPAllocationLog (e6Faults env)
       \<lparr>alID = e6LogUUID env (if prefix = None then ''na'' else ''pd''), alNodeID = cfgNodeID cfg, alScopeID = scID sc,
        alScopeName = scName sc, alMACAddr = '''', alDUID = duid, alIAID = iaid, alIPAddr = p, alPrefix = prefix,
        alAction = action,
        alClientInfo = Some (JObj [(''hostname'', JStr hostname), (''iaid'', JStr iaid)]),
        alRelayIP = (case relay of None \<Rightarrow> [] | Some rc \<Rightarrow> rcLinkAddr rc), alCreatedAt = e6GoNow env\<rparr> db)"

section \<open>Reading a message\<close>

definition serverIDMatches :: "server6 \<Rightarrow> packet6 \<Rightarrow> bool" where
  "serverIDMatches sv req = (case Get6 (p6Options req) OptServerID of None \<Rightarrow> True | Some opt \<Rightarrow> o6Data opt = sv6DUID sv)"

definition hasPD :: "packet6 \<Rightarrow> bool" where
  "hasPD req \<longleftrightarrow> Get6 (p6Options req) OptIAPD \<noteq> None"

definition iana_option :: "packet6 \<Rightarrow> option6 option" where
  "iana_option req = (case Get6 (p6Options req) OptIANA of Some opt \<Rightarrow> Some opt | None \<Rightarrow> Get6 (p6Options req) OptIATA)"

definition hasIANAOpt :: "packet6 \<Rightarrow> bool" where
  "hasIANAOpt req \<longleftrightarrow> Get6 (p6Options req) OptIANA \<noteq> None \<or> Get6 (p6Options req) OptIATA \<noteq> None"

text \<open>
  The loop of \<open>extractRequestedIP\<close>; \<open>cap\<close> is the capacity of \<open>data\<close>. The length is a \<open>uint16\<close>, so that \<open>4+length\<close>
  may wrap: to 0, and the loop never ends, or to less than the option header. The slice \<open>data[4:20]\<close>
  is bounded by the capacity, and zero beyond the length.
\<close>

function requested_loop :: "nat \<Rightarrow> bytes \<Rightarrow> ip run" where
  "requested_loop cap data =
     (if length data < 4 then Ret []
      else let code = Uint16 (slice 0 2 data);
               length6 = Uint16 (slice 2 4 data);
               n = unat (4 + length6)
           in if length data < n then Ret []
              else if code = OptIAAddr \<and> 16 \<le> length6 then
                (if cap < 20 then Panic else Ret (slice 4 20 (data @ replicate 16 0)))
              else if n = 0 then Hang
              else requested_loop (cap - n) (drop n data))"
  by pat_completeness auto
termination by (relation "measure (\<lambda>(cap, data). length data)") (auto simp: Let_def)

declare requested_loop.simps [simp del]

definition extractRequestedIP :: "env6 \<Rightarrow> packet6 \<Rightarrow> uint32 \<Rightarrow> ip run" where
  "extractRequestedIP env req iaid = (case iana_option req of
     None \<Rightarrow> Ret []
   | Some iana \<Rightarrow>
       if length (o6Data iana) < 12 then Ret []
       else if Uint32 (slice 0 4 (o6Data iana)) \<noteq> iaid then Ret []
       else requested_loop (e6Cap env (length (o6Data iana)) - 12) (drop 12 (o6Data iana)))"

text \<open>\<open>extractIAAddrs\<close> computes with \<open>int\<close>.\<close>

function ia_addrs_loop :: "bytes \<Rightarrow> ip list" where
  "ia_addrs_loop data =
     (if length data < 4 then []
      else let code = Uint16 (slice 0 2 data);
               n = unat (Uint16 (slice 2 4 data))
           in if length data < 4 + n then []
              else (if code = OptIAAddr \<and> 16 \<le> n then [slice 4 20 data] else []) @ ia_addrs_loop (drop (4 + n) data))"
  by pat_completeness auto
termination by (relation "measure length") (auto simp: Let_def)

declare ia_addrs_loop.simps [simp del]

definition extractIAAddrs :: "packet6 \<Rightarrow> ip list" where
  "extractIAAddrs req = concat (map (\<lambda>opt.
     if (o6Code opt = OptIANA \<or> o6Code opt = OptIATA) \<and> 12 \<le> length (o6Data opt)
     then ia_addrs_loop (drop 12 (o6Data opt)) else []) (p6Options req))"

section \<open>Scope matching\<close>

text \<open>The address a scope is chosen by: the link address, else the peer address; none for a direct client.\<close>

definition source_ip :: "relayContext option \<Rightarrow> ip option" where
  "source_ip relay = (case relay of None \<Rightarrow> None
     | Some rc \<Rightarrow>
         if rcLinkAddr rc \<noteq> [] \<and> \<not> IsUnspecified (rcLinkAddr rc) then Some (rcLinkAddr rc)
         else if rcPeerAddr rc \<noteq> [] \<and> \<not> IsUnspecified (rcPeerAddr rc) then Some (rcPeerAddr rc)
         else None)"

definition scope_net :: "bool \<Rightarrow> scope \<Rightarrow> ipnet option" where
  "scope_net needPrefix sc = (if needPrefix then (if scPDEnabled sc then scPrefix sc else None) else scSubnet sc)"

definition first_match :: "bool \<Rightarrow> ip option \<Rightarrow> scope list \<Rightarrow> scope option" where
  "first_match needPrefix src scs = (case src of None \<Rightarrow> None
     | Some p \<Rightarrow> List.find (\<lambda>sc. scEnabled sc \<and> (case scope_net needPrefix sc of None \<Rightarrow> False | Some n \<Rightarrow> Contains n p)) scs)"

definition matchScopeWithNeed :: "server6 \<Rightarrow> bool \<Rightarrow> relayContext option \<Rightarrow> scope run" where
  "matchScopeWithNeed sv needPrefix relay =
     (if sv6Scopes sv = [] then Fail ''no v6 scopes''
      else (case first_match needPrefix (source_ip relay) (sv6Scopes sv) of
        Some sc \<Rightarrow> Ret sc
      | None \<Rightarrow> (case List.find (\<lambda>sc. scEnabled sc \<and> scope_net needPrefix sc \<noteq> None) (sv6Scopes sv) of
          Some sc \<Rightarrow> Ret sc
        | None \<Rightarrow> Fail ''no matching v6 scope'')))"

definition matchScope6 :: "server6 \<Rightarrow> relayContext option \<Rightarrow> scope run" where
  "matchScope6 sv relay = matchScopeWithNeed sv False relay"

definition matchScopePD :: "server6 \<Rightarrow> relayContext option \<Rightarrow> scope run" where
  "matchScopePD sv relay = matchScopeWithNeed sv True relay"

text \<open>\<open>parseCommon\<close>: the scope is never nil when there is no error.\<close>

definition parseCommon :: "server6 \<Rightarrow> packet6 \<Rightarrow> relayContext option \<Rightarrow> (scope \<times> bytes \<times> uint32) run" where
  "parseCommon sv req relay =
     (case Get6 (p6Options req) OptClientID of
        None \<Rightarrow> Fail ''missing client id''
      | Some c \<Rightarrow>
          bind_run (case iana_option req of
              Some ia \<Rightarrow> if 4 \<le> length (o6Data ia) then Ret (Uint32 (slice 0 4 (o6Data ia)))
                         else if p6MessageType req \<noteq> MsgTypeInformationRequest then Fail ''missing ia'' else Ret 0
            | None \<Rightarrow> if p6MessageType req \<noteq> MsgTypeInformationRequest then Fail ''missing ia'' else Ret 0)
          (\<lambda>iaid. bind_run (matchScope6 sv relay) (\<lambda>sc. Ret (sc, o6Data c, iaid))))"

text \<open>\<open>parseCommonPD\<close>: an error in the scope keeps the client id and the IAID; the last component is the error.\<close>

definition parseCommonPD :: "server6 \<Rightarrow> packet6 \<Rightarrow> relayContext option \<Rightarrow> scope option \<times> bytes \<times> uint32 \<times> string option" where
  "parseCommonPD sv req relay =
     (case Get6 (p6Options req) OptClientID of
        None \<Rightarrow> (None, [], 0, Some ''missing client id'')
      | Some c \<Rightarrow>
          (case Get6 (p6Options req) OptIAPD of
             None \<Rightarrow> (None, [], 0, Some ''missing iapd'')
           | Some ia \<Rightarrow>
               if length (o6Data ia) < 4 then (None, [], 0, Some ''missing iapd'')
               else let iaid = Uint32 (slice 0 4 (o6Data ia))
                    in (case matchScopePD sv relay of
                          Ret sc \<Rightarrow> (Some sc, o6Data c, iaid, None)
                        | Fail e \<Rightarrow> (None, o6Data c, iaid, Some e)
                        | _ \<Rightarrow> (None, o6Data c, iaid, Some ''''))))"

definition pd_ready :: "scope \<Rightarrow> bool" where
  "pd_ready sc \<longleftrightarrow> scEnabled sc \<and> scPDEnabled sc \<and> scPrefix sc \<noteq> None"

section \<open>Building and sending a reply\<close>

definition normalizedV6LeaseTimes :: "scope \<Rightarrow> int" where
  "normalizedV6LeaseTimes sc = (if scLeaseTime sc = 0 then DefaultV6LeaseTime else scLeaseTime sc)"

definition scopeMaxLeaseTime :: "scope \<Rightarrow> int" where
  "scopeMaxLeaseTime sc = (if scMaxLeaseTime sc = 0 then DefaultV6MaxLeaseTime else scMaxLeaseTime sc)"

definition applyIA :: "packet6 \<Rightarrow> uint32 \<Rightarrow> ip \<Rightarrow> scope \<Rightarrow> packet6" where
  "applyIA reply iaid p sc =
     (let leaseTime = normalizedV6LeaseTimes sc;
          t1 = word_of_int (go_div leaseTime 2);
          t2 = word_of_int (go_div (leaseTime * 7) 8);
          addrOpt = \<lparr>o6Code = OptIAAddr, o6Data = BuildIAAddress p (word_of_int leaseTime) (word_of_int leaseTime)\<rparr>
      in add_option6 OptIANA (BuildIANA iaid t1 t2 [addrOpt]) reply)"

text \<open>The prefix is never nil where \<open>applyPD\<close> is called: the column is NOT NULL and the allocator sets it.\<close>

definition applyPD :: "packet6 \<Rightarrow> uint32 \<Rightarrow> ipnet \<Rightarrow> int \<Rightarrow> packet6" where
  "applyPD reply iaid prefix lt =
     (let leaseTime = (if lt = 0 then DefaultV6LeaseTime else lt);
          t1 = word_of_int (go_div leaseTime 2);
          t2 = word_of_int (go_div (leaseTime * 7) 8);
          prefixOpt = \<lparr>o6Code = OptIAPrefix, o6Data = BuildIAPrefix (of_nat (Mask_Size (netMask prefix))) (netIP prefix)
             (word_of_int leaseTime) (word_of_int leaseTime)\<rparr>
      in add_option6 OptIAPD (BuildIAPD iaid t1 t2 [prefixOpt]) reply)"

definition no_address :: "uint32 \<Rightarrow> packet6 \<Rightarrow> packet6" where
  "no_address iaid reply = add_option6 OptIANA (BuildIANA iaid 0 0
     [\<lparr>o6Code = OptStatusCode, o6Data = BuildStatusCode 2 ''no addresses available''\<rparr>]) reply"

definition no_prefix :: "uint32 \<Rightarrow> packet6 \<Rightarrow> packet6" where
  "no_prefix iaid reply = add_option6 OptIAPD (BuildIAPD iaid 0 0
     [\<lparr>o6Code = OptStatusCode, o6Data = BuildStatusCode 6 ''no prefixes available''\<rparr>]) reply"

definition reply_to :: "server6 \<Rightarrow> packet6 \<Rightarrow> byte \<Rightarrow> bytes \<Rightarrow> packet6" where
  "reply_to sv req msgType clientID =
     add_option6 OptClientID clientID (add_option6 OptServerID (sv6DUID sv) (ReplyFromRequest6 req msgType))"

definition groupOptionsForReservation6 :: "env6 \<Rightarrow> db \<Rightarrow> v6_reservation option \<Rightarrow> raw_json" where
  "groupOptionsForReservation6 env db r = (case r of None \<Rightarrow> None
     | Some r \<Rightarrow> if vrGroupID r = '''' then None
        else (case GetReservationGroupByID (e6Faults env) (vrGroupID r) db of Ret g \<Rightarrow> gOptions g | _ \<Rightarrow> None))"

text \<open>One layer of configured options, over the keys in range order; an option is added, not replaced.\<close>

fun option_layer6 :: "env6 \<Rightarrow> option_map \<Rightarrow> string list \<Rightarrow> packet6 \<Rightarrow> packet6" where
  "option_layer6 env m [] reply = reply"
| "option_layer6 env m (k # ks) reply =
     (case m k of None \<Rightarrow> option_layer6 env m ks reply
      | Some v \<Rightarrow>
         let code = v6OptionCodeFromKey k in
         if code = 0 then option_layer6 env m ks reply
         else (case buildV6Option (e6Float env) (e6FloatUint32 env) code v of
                 Ret raw \<Rightarrow> option_layer6 env m ks (add_option6 code raw reply)
               | _ \<Rightarrow> option_layer6 env m ks reply))"

definition applyOptions6 :: "env6 \<Rightarrow> packet6 \<Rightarrow> scope \<Rightarrow> v6_reservation option \<Rightarrow> raw_json \<Rightarrow> packet6" where
  "applyOptions6 env reply sc res groupOpts =
     (let reply = (if scDNS sc \<noteq> [] then add_option6 OptDNSServers (BuildDNSList (scDNS sc)) reply else reply);
          reply = (if scDomainName sc \<noteq> '''' then add_option6 OptDomainList (BuildDomainList [scDomainName sc]) reply else reply);
          groupMap = ParseOptionMap groupOpts;
          reply = option_layer6 env groupMap (e6Range env groupMap) reply;
          scopeMap = ParseOptionMap (scOptions sc);
          reply = option_layer6 env scopeMap (e6Range env scopeMap) reply
      in (case res of None \<Rightarrow> reply
          | Some r \<Rightarrow> let resMap = ParseOptionMap (vrOptions r) in option_layer6 env resMap (e6Range env resMap) reply))"

text \<open>One layer of the relay-reply, and the whole chain, innermost layer first.\<close>

definition wrap_hop :: "relayHop \<Rightarrow> bytes \<Rightarrow> bytes" where
  "wrap_hop h data = MarshalRelay \<lparr>rpMessageType = MsgTypeRelayRepl, rpHopCount = rhHopCount h, rpLinkAddr = rhLinkAddr h,
     rpPeerAddr = rhPeerAddr h, rpOptions = Add6 (rhOptions h) OptRelayMsg data\<rparr>"

definition relay_hops :: "relayContext \<Rightarrow> relayHop list" where
  "relay_hops rc = (if rcHops rc = [] then [\<lparr>rhHopCount = rcHopCount rc, rhLinkAddr = rcLinkAddr rc,
     rhPeerAddr = rcPeerAddr rc, rhOptions = rcRelayOptions rc\<rparr>] else rcHops rc)"

definition sendReply6 :: "server6 \<Rightarrow> packet6 \<Rightarrow> udp_addr \<Rightarrow> relayContext option \<Rightarrow> sent6" where
  "sendReply6 sv reply addr relay =
     (let data = Marshal6 reply in
      case relay of
        None \<Rightarrow> \<lparr>s6Dest = addr\<lparr>uaPort := 546\<rparr>, s6IfIndex = sv6CfgIfIndex sv, s6Data = data\<rparr>
      | Some rc \<Rightarrow> \<lparr>s6Dest = (rcRelayAddr rc)\<lparr>uaPort := 547\<rparr>, s6IfIndex = sv6CfgIfIndex sv,
                   s6Data = foldr wrap_hop (relay_hops rc) data\<rparr>)"

definition sendReplyWithStatus :: "server6 \<Rightarrow> packet6 \<Rightarrow> udp_addr \<Rightarrow> relayContext option \<Rightarrow> uint16 \<Rightarrow> string \<Rightarrow> sent6" where
  "sendReplyWithStatus sv req addr relay code msg =
     (let reply = add_option6 OptServerID (sv6DUID sv) (ReplyFromRequest6 req MsgTypeReply)
      in sendReply6 sv (add_option6 OptStatusCode (BuildStatusCode code msg) reply) addr relay)"

section \<open>Calls to the store\<close>

definition alloc_na :: "env6 \<Rightarrow> scope \<Rightarrow> string \<Rightarrow> uint32 \<Rightarrow> ip \<Rightarrow> db \<Rightarrow> v6_lease run \<times> db" where
  "alloc_na env sc duid iaid requestedIP db =
     AllocateV6Lease (e6Faults env) (e6Now env ''AllocateV6Lease'') (e6LeaseUUID env) sc duid (iaid_string iaid) ''''
       requestedIP (normalizedV6LeaseTimes sc) (scopeMaxLeaseTime sc) db"

definition alloc_pd :: "env6 \<Rightarrow> scope \<Rightarrow> string \<Rightarrow> uint32 \<Rightarrow> db \<Rightarrow> v6_prefix run \<times> db" where
  "alloc_pd env sc duid iaid db =
     AllocateV6Prefix (e6Faults env) (e6Now env ''AllocateV6Prefix'') (e6PrefixUUID env) sc duid (iaid_string iaid)
       (normalizedV6LeaseTimes sc) (scopeMaxLeaseTime sc) db"

definition activate_na :: "env6 \<Rightarrow> v6_lease \<Rightarrow> db \<Rightarrow> unit run \<times> db" where
  "activate_na env l db = UpdateV6LeaseState (e6Faults env) (e6Now env ''UpdateV6LeaseState'') (vlID l) LeaseActive db"

definition activate_pd :: "env6 \<Rightarrow> v6_prefix \<Rightarrow> db \<Rightarrow> unit run \<times> db" where
  "activate_pd env p db = UpdateV6PrefixState (e6Faults env) (e6Now env ''UpdateV6PrefixState'') (vpID p) LeaseActive db"

definition prefix_net :: "v6_prefix \<Rightarrow> ipnet" where
  "prefix_net p = (case vpPrefix p of Some n \<Rightarrow> n | None \<Rightarrow> \<lparr>netIP = [], netMask = []\<rparr>)"

text \<open>A peer has already made an offer to this client.\<close>

definition peer_offered_na :: "env6 \<Rightarrow> scope \<Rightarrow> string \<Rightarrow> uint32 \<Rightarrow> db \<Rightarrow> bool" where
  "peer_offered_na env sc duid iaid db = (case GetV6LeaseByDUID (e6Faults env) (scID sc) duid (iaid_string iaid) db of
     Ret l \<Rightarrow> vlState l = LeaseActive \<or> vlState l = LeaseOffered | _ \<Rightarrow> False)"

definition peer_offered_pd :: "env6 \<Rightarrow> scope \<Rightarrow> string \<Rightarrow> uint32 \<Rightarrow> db \<Rightarrow> bool" where
  "peer_offered_pd env sc duid iaid db = (case GetV6PrefixByDUID (e6Faults env) (scID sc) duid (iaid_string iaid) db of
     Ret p \<Rightarrow> vpState p = LeaseActive \<or> vpState p = LeaseOffered | _ \<Rightarrow> False)"

text \<open>The cluster delay in front of an offer: skip when a peer was first, or the packet's context ended.\<close>

definition after_delay :: "env6 \<Rightarrow> config4 \<Rightarrow> (db \<Rightarrow> bool) \<Rightarrow> (db \<Rightarrow> out6) \<Rightarrow> db \<Rightarrow> out6" where
  "after_delay env cfg offered k db =
     (if cfgClusterEnabled cfg \<and> 0 < cfgDiscoverReplyDelay cfg then
        (if offered db then done6 [] db
         else if e6Timeout env then done6 [] db
         else let db' = e6Meanwhile env db in if offered db' then done6 [] db' else k db')
      else k db)"

text \<open>A call whose error leaves a nil pointer and goes on: for an optional scope, and for an optional row.\<close>

definition call_for :: "'s option \<Rightarrow> ('s \<Rightarrow> 'a run \<times> db) \<Rightarrow> db \<Rightarrow> ('a option \<Rightarrow> db \<Rightarrow> out6) \<Rightarrow> out6" where
  "call_for x f db k = (case x of None \<Rightarrow> k None db
     | Some s \<Rightarrow> (case f s of (r, db1) \<Rightarrow> on_result6 r db1 (\<lambda>y. k (Some y) db1) (\<lambda>_. k None db1)))"

definition kept_if :: "'a option \<Rightarrow> ('a \<Rightarrow> unit run \<times> db) \<Rightarrow> db \<Rightarrow> ('a option \<Rightarrow> db \<Rightarrow> out6) \<Rightarrow> out6" where
  "kept_if x f db k = call_for x f db (\<lambda>u db1. k (if u = None then None else x) db1)"

section \<open>Handlers\<close>

text \<open>\<open>handleSolicit\<close> for an IA_NA, after the cluster delay.\<close>

definition solicit_offer ::
  "env6 \<Rightarrow> config4 \<Rightarrow> server6 \<Rightarrow> packet6 \<Rightarrow> udp_addr \<Rightarrow> relayContext option \<Rightarrow> scope \<Rightarrow> bytes \<Rightarrow> uint32 \<Rightarrow> db \<Rightarrow> out6" where
  "solicit_offer env cfg sv req addr relay sc clientID iaid db =
     (let duid = ParseDUID clientID;
          reservation = ok_value (GetV6ReservationByDUID (e6Faults env) (scID sc) duid db);
          groupOpts = groupOptionsForReservation6 env db reservation;
          (r, db1) = alloc_na env sc duid iaid [] db
      in on_result6 r db1 (\<lambda>l.
           let answer = (\<lambda>reply action db2.
                 done6 [sendReply6 sv (applyOptions6 env (applyIA reply iaid (vlIPAddr l) sc) sc reservation groupOpts) addr relay]
                   (logIPAllocation6 env cfg sc duid (iaid_string iaid) (vlIPAddr l) None action relay '''' db2))
           in if Get6 (p6Options req) OptRapidCommit \<noteq> None then
                (case activate_na env l db1 of (u, db2) \<Rightarrow>
                   on_result6 u db2 (\<lambda>_. answer (add_option6 OptRapidCommit [] (reply_to sv req MsgTypeReply clientID)) ''ack'' db2)
                     (\<lambda>_. done6 [] db2))
              else answer (reply_to sv req MsgTypeAdvertise clientID) ''offer'' db1)
         (\<lambda>_. done6 [sendReply6 sv (no_address iaid (reply_to sv req MsgTypeAdvertise clientID)) addr relay] db1))"

definition handleSolicitPD ::
  "env6 \<Rightarrow> config4 \<Rightarrow> server6 \<Rightarrow> packet6 \<Rightarrow> udp_addr \<Rightarrow> relayContext option \<Rightarrow> db \<Rightarrow> out6" where
  "handleSolicitPD env cfg sv req addr relay db =
     (let (scope, clientID, iaid, err) = parseCommonPD sv req relay;
          duid = ParseDUID clientID;
          refuse = sendReply6 sv (no_prefix iaid (reply_to sv req MsgTypeAdvertise clientID)) addr relay
      in if err \<noteq> None \<and> clientID = [] then done6 [] db
         else (case scope of
           None \<Rightarrow> done6 [refuse] db
         | Some sc \<Rightarrow>
             if \<not> pd_ready sc then done6 [refuse] db
             else after_delay env cfg (peer_offered_pd env sc duid iaid) (\<lambda>db.
               let (r, db1) = alloc_pd env sc duid iaid db
               in on_result6 r db1 (\<lambda>p.
                    done6 [sendReply6 sv (applyOptions6 env (applyPD (reply_to sv req MsgTypeAdvertise clientID) iaid
                             (prefix_net p) (normalizedV6LeaseTimes sc)) sc None None) addr relay]
                      (logIPAllocation6 env cfg sc duid (iaid_string iaid) [] (vpPrefix p) ''offer'' relay '''' db1))
                  (\<lambda>_. done6 [refuse] db1)) db))"

text \<open>The scopes of a message with both IAs, each nil when it cannot be used.\<close>

definition usable_scope :: "scope \<Rightarrow> scope option" where
  "usable_scope sc = (if scEnabled sc then Some sc else None)"

definition usable_pd :: "server6 \<Rightarrow> packet6 \<Rightarrow> relayContext option \<Rightarrow> scope option" where
  "usable_pd sv req relay = (case parseCommonPD sv req relay of (scope, _, _, err) \<Rightarrow>
     if err \<noteq> None then None else (case scope of None \<Rightarrow> None | Some sc \<Rightarrow> if pd_ready sc then Some sc else None))"

definition pd_iaid :: "server6 \<Rightarrow> packet6 \<Rightarrow> relayContext option \<Rightarrow> uint32" where
  "pd_iaid sv req relay = (case parseCommonPD sv req relay of (_, _, iaid, _) \<Rightarrow> iaid)"

text \<open>The end of both combined handlers: options of the address scope, else of the prefix scope; the log rows.\<close>

definition log_combined ::
  "env6 \<Rightarrow> config4 \<Rightarrow> relayContext option \<Rightarrow> string \<Rightarrow> string \<Rightarrow> scope option \<Rightarrow> uint32 \<Rightarrow> v6_lease option
     \<Rightarrow> scope option \<Rightarrow> uint32 \<Rightarrow> v6_prefix option \<Rightarrow> db \<Rightarrow> db" where
  "log_combined env cfg relay action duid scope iaid lease pdScope pdIAID prefix db =
     (let db1 = (case (scope, lease) of (Some sc, Some l) \<Rightarrow>
                   logIPAllocation6 env cfg sc duid (iaid_string iaid) (vlIPAddr l) None action relay '''' db | _ \<Rightarrow> db)
      in (case (pdScope, prefix) of (Some sc, Some p) \<Rightarrow>
            logIPAllocation6 env cfg sc duid (iaid_string pdIAID) [] (vpPrefix p) action relay '''' db1 | _ \<Rightarrow> db1))"

definition combined_options :: "env6 \<Rightarrow> scope option \<Rightarrow> scope option \<Rightarrow> packet6 \<Rightarrow> packet6" where
  "combined_options env scope pdScope reply =
     (case scope of Some sc \<Rightarrow> applyOptions6 env reply sc None None
      | None \<Rightarrow> (case pdScope of Some sc \<Rightarrow> applyOptions6 env reply sc None None | None \<Rightarrow> reply))"

text \<open>Every IA of a combined Solicit appears in the answer, with its binding or with a status.\<close>

definition answer_na :: "scope option \<Rightarrow> uint32 \<Rightarrow> v6_lease option \<Rightarrow> packet6 \<Rightarrow> packet6" where
  "answer_na scope iaid lease reply = (case scope of None \<Rightarrow> reply
     | Some sc \<Rightarrow> (case lease of Some l \<Rightarrow> applyIA reply iaid (vlIPAddr l) sc | None \<Rightarrow> no_address iaid reply))"

definition answer_pd :: "scope option \<Rightarrow> uint32 \<Rightarrow> v6_prefix option \<Rightarrow> packet6 \<Rightarrow> packet6" where
  "answer_pd pdScope iaid prefix reply = (case pdScope of None \<Rightarrow> reply
     | Some sc \<Rightarrow> (case prefix of Some p \<Rightarrow> applyPD reply iaid (prefix_net p) (normalizedV6LeaseTimes sc)
                  | None \<Rightarrow> no_prefix iaid reply))"

definition handleSolicitCombined ::
  "env6 \<Rightarrow> config4 \<Rightarrow> server6 \<Rightarrow> packet6 \<Rightarrow> udp_addr \<Rightarrow> relayContext option \<Rightarrow> db \<Rightarrow> out6" where
  "handleSolicitCombined env cfg sv req addr relay db =
     on_result6 (parseCommon sv req relay) db (\<lambda>(sc, clientID, iaid).
       let scope = usable_scope sc; pdScope = usable_pd sv req relay; pdIAID = pd_iaid sv req relay;
           duid = ParseDUID clientID
       in if scope = None \<and> pdScope = None then done6 [] db
          else call_for scope (\<lambda>sc. alloc_na env sc duid iaid [] db) db (\<lambda>lease db1.
               call_for pdScope (\<lambda>sc. alloc_pd env sc duid pdIAID db1) db1 (\<lambda>prefix db2.
                 let rapid = (Get6 (p6Options req) OptRapidCommit \<noteq> None);
                     finish = (\<lambda>reply lease prefix db.
                       done6 [sendReply6 sv (combined_options env scope pdScope
                                (answer_pd pdScope pdIAID prefix (answer_na scope iaid lease reply))) addr relay]
                         (log_combined env cfg relay (if rapid then ''ack'' else ''offer'') duid scope iaid lease pdScope pdIAID prefix db))
                 in if rapid then
                      kept_if lease (\<lambda>l. activate_na env l db2) db2 (\<lambda>lease db3.
                      kept_if prefix (\<lambda>p. activate_pd env p db3) db3 (\<lambda>prefix db4.
                        finish (add_option6 OptRapidCommit [] (reply_to sv req MsgTypeReply clientID)) lease prefix db4))
                    else finish (reply_to sv req MsgTypeAdvertise clientID) lease prefix db2)))
     (\<lambda>_. done6 [] db)"

definition handleSolicit ::
  "env6 \<Rightarrow> config4 \<Rightarrow> server6 \<Rightarrow> packet6 \<Rightarrow> udp_addr \<Rightarrow> relayContext option \<Rightarrow> db \<Rightarrow> out6" where
  "handleSolicit env cfg sv req addr relay db =
     (if hasIANAOpt req \<and> hasPD req then handleSolicitCombined env cfg sv req addr relay db
      else if hasPD req then handleSolicitPD env cfg sv req addr relay db
      else on_result6 (parseCommon sv req relay) db (\<lambda>(sc, clientID, iaid).
        if \<not> scEnabled sc then done6 [] db
        else after_delay env cfg (peer_offered_na env sc (ParseDUID clientID) iaid)
               (solicit_offer env cfg sv req addr relay sc clientID iaid) db)
      (\<lambda>_. done6 [] db))"

definition handleRequestPD ::
  "env6 \<Rightarrow> config4 \<Rightarrow> server6 \<Rightarrow> packet6 \<Rightarrow> udp_addr \<Rightarrow> relayContext option \<Rightarrow> db \<Rightarrow> out6" where
  "handleRequestPD env cfg sv req addr relay db =
     (let (scope, clientID, iaid, err) = parseCommonPD sv req relay;
          duid = ParseDUID clientID;
          refuse = sendReplyWithStatus sv req addr relay 6 ''no prefixes''
      in if err \<noteq> None then done6 [] db
         else (case scope of
           None \<Rightarrow> done6 [refuse] db
         | Some sc \<Rightarrow>
             if \<not> pd_ready sc then done6 [refuse] db
             else (case alloc_pd env sc duid iaid db of (r, db1) \<Rightarrow>
               on_result6 r db1 (\<lambda>p.
                 (case activate_pd env p db1 of (u, db2) \<Rightarrow>
                   on_result6 u db2 (\<lambda>_.
                     done6 [sendReply6 sv (applyOptions6 env (applyPD (reply_to sv req MsgTypeReply clientID) iaid
                              (prefix_net p) (normalizedV6LeaseTimes sc)) sc None None) addr relay]
                       (logIPAllocation6 env cfg sc duid (iaid_string iaid) [] (vpPrefix p) ''ack'' relay '''' db2))
                   (\<lambda>_. done6 [refuse] db2)))
               (\<lambda>_. done6 [refuse] db1))))"

definition handleRequestCombined ::
  "env6 \<Rightarrow> config4 \<Rightarrow> server6 \<Rightarrow> packet6 \<Rightarrow> udp_addr \<Rightarrow> relayContext option \<Rightarrow> db \<Rightarrow> out6" where
  "handleRequestCombined env cfg sv req addr relay db =
     on_result6 (parseCommon sv req relay) db (\<lambda>(sc, clientID, iaid).
       let scope = usable_scope sc; pdScope = usable_pd sv req relay; pdIAID = pd_iaid sv req relay;
           duid = ParseDUID clientID
       in if scope = None \<and> pdScope = None then done6 [sendReplyWithStatus sv req addr relay 2 ''no scope''] db
          else on_result6 (if scope = None then Ret [] else extractRequestedIP env req iaid) db (\<lambda>requestedIP.
               call_for scope (\<lambda>sc. alloc_na env sc duid iaid requestedIP db) db (\<lambda>l db1.
               kept_if l (\<lambda>l. activate_na env l db1) db1 (\<lambda>lease db2.
               call_for pdScope (\<lambda>sc. alloc_pd env sc duid pdIAID db2) db2 (\<lambda>p db3.
               kept_if p (\<lambda>p. activate_pd env p db3) db3 (\<lambda>prefix db4.
                 if lease = None \<and> prefix = None then
                   done6 [sendReplyWithStatus sv req addr relay 2 ''address unavailable''] db4
                 else
                   let reply = reply_to sv req MsgTypeReply clientID;
                       reply = (if lease = None then reply else answer_na scope iaid lease reply);
                       reply = (if prefix = None then reply else answer_pd pdScope pdIAID prefix reply)
                   in done6 [sendReply6 sv (combined_options env scope pdScope reply) addr relay]
                        (log_combined env cfg relay ''ack'' duid scope iaid lease pdScope pdIAID prefix db4))))))
          (\<lambda>_. done6 [] db))
     (\<lambda>_. done6 [] db)"

text \<open>\<open>handleRequest\<close> for an IA_NA, once the scope and the requested address are known.\<close>

definition request_lease ::
  "env6 \<Rightarrow> config4 \<Rightarrow> server6 \<Rightarrow> packet6 \<Rightarrow> udp_addr \<Rightarrow> relayContext option \<Rightarrow> scope \<Rightarrow> bytes \<Rightarrow> uint32 \<Rightarrow> ip \<Rightarrow> db \<Rightarrow> out6" where
  "request_lease env cfg sv req addr relay sc clientID iaid requestedIP db =
     (let duid = ParseDUID clientID;
          reservation = ok_value (GetV6ReservationByDUID (e6Faults env) (scID sc) duid db);
          groupOpts = groupOptionsForReservation6 env db reservation;
          unavailable = sendReplyWithStatus sv req addr relay 2 ''address unavailable''
      in if (case reservation of None \<Rightarrow> False | Some r \<Rightarrow> requestedIP \<noteq> [] \<and> \<not> ip_Equal requestedIP (vrIPAddr r)) then
           done6 [sendReplyWithStatus sv req addr relay 3 ''binding mismatch''] db
         else (case alloc_na env sc duid iaid requestedIP db of (r, db1) \<Rightarrow>
           on_result6 r db1 (\<lambda>l.
             (case activate_na env l db1 of (u, db2) \<Rightarrow>
               on_result6 u db2 (\<lambda>_.
                 done6 [sendReply6 sv (applyOptions6 env (applyIA (reply_to sv req MsgTypeReply clientID) iaid (vlIPAddr l) sc)
                          sc reservation groupOpts) addr relay]
                   (logIPAllocation6 env cfg sc duid (iaid_string iaid) (vlIPAddr l) None ''ack'' relay '''' db2))
               (\<lambda>_. done6 [unavailable] db2)))
           (\<lambda>_. done6 [unavailable] db1)))"

definition handleRequest6 ::
  "env6 \<Rightarrow> config4 \<Rightarrow> server6 \<Rightarrow> packet6 \<Rightarrow> udp_addr \<Rightarrow> relayContext option \<Rightarrow> db \<Rightarrow> out6" where
  "handleRequest6 env cfg sv req addr relay db =
     (if p6MessageType req \<noteq> MsgTypeRebind \<and> \<not> serverIDMatches sv req then done6 [] db
      else if hasIANAOpt req \<and> hasPD req then handleRequestCombined env cfg sv req addr relay db
      else if hasPD req then handleRequestPD env cfg sv req addr relay db
      else on_result6 (parseCommon sv req relay) db (\<lambda>(sc, clientID, iaid).
        if \<not> scEnabled sc then done6 [sendReplyWithStatus sv req addr relay 2 ''no scope''] db
        else on_result6 (extractRequestedIP env req iaid) db (\<lambda>requestedIP.
               request_lease env cfg sv req addr relay sc clientID iaid requestedIP db)
             (\<lambda>_. done6 [] db))
      (\<lambda>_. done6 [] db))"

text \<open>\<open>releaseV6Lease\<close> and \<open>releaseV6Prefix\<close>: the client id (nil when the message did not parse) and the database.\<close>

definition releaseV6Lease ::
  "env6 \<Rightarrow> config4 \<Rightarrow> server6 \<Rightarrow> packet6 \<Rightarrow> relayContext option \<Rightarrow> db \<Rightarrow> bytes \<times> db" where
  "releaseV6Lease env cfg sv req relay db =
     (case parseCommon sv req relay of
        Ret (sc, clientID, iaid) \<Rightarrow>
          let duid = ParseDUID clientID
          in (case ok_value (GetV6LeaseByDUID (e6Faults env) (scID sc) duid (iaid_string iaid) db) of
                None \<Rightarrow> (clientID, db)
              | Some l \<Rightarrow>
                  let db1 = snd (UpdateV6LeaseState (e6Faults env) (e6Now env ''UpdateV6LeaseState'') (vlID l) LeaseReleased db)
                  in (clientID, logIPAllocation6 env cfg sc duid (iaid_string iaid) (vlIPAddr l) None ''release'' relay '''' db1))
      | _ \<Rightarrow> ([], db))"

definition releaseV6Prefix ::
  "env6 \<Rightarrow> config4 \<Rightarrow> server6 \<Rightarrow> packet6 \<Rightarrow> relayContext option \<Rightarrow> db \<Rightarrow> bytes \<times> db" where
  "releaseV6Prefix env cfg sv req relay db =
     (case parseCommonPD sv req relay of
        (Some sc, clientID, iaid, None) \<Rightarrow>
          let duid = ParseDUID clientID
          in (case ok_value (GetV6PrefixByDUID (e6Faults env) (scID sc) duid (iaid_string iaid) db) of
                None \<Rightarrow> (clientID, db)
              | Some p \<Rightarrow>
                  let db1 = snd (UpdateV6PrefixState (e6Faults env) (e6Now env ''UpdateV6PrefixState'') (vpID p) LeaseReleased db)
                  in (clientID, logIPAllocation6 env cfg sc duid (iaid_string iaid) [] (vpPrefix p) ''release'' relay '''' db1))
      | _ \<Rightarrow> ([], db))"

definition handleRelease6 ::
  "env6 \<Rightarrow> config4 \<Rightarrow> server6 \<Rightarrow> packet6 \<Rightarrow> udp_addr \<Rightarrow> relayContext option \<Rightarrow> db \<Rightarrow> out6" where
  "handleRelease6 env cfg sv req addr relay db =
     (if \<not> serverIDMatches sv req then done6 [] db
      else
        let (id1, db1) = (if hasIANAOpt req then releaseV6Lease env cfg sv req relay db else ([], db));
            (id2, db2) = (if hasPD req then (case releaseV6Prefix env cfg sv req relay db1 of (i, d) \<Rightarrow>
                             (if id1 = [] then i else id1, d)) else (id1, db1));
            answer = (\<lambda>clientID. done6 [sendReply6 sv (add_option6 OptStatusCode (BuildStatusCode 0 ''release received'')
                         (reply_to sv req MsgTypeReply clientID)) addr relay] db2)
        in if id2 = [] then
             (case Get6 (p6Options req) OptClientID of None \<Rightarrow> done6 [] db2 | Some opt \<Rightarrow> answer (o6Data opt))
           else answer id2)"

definition confirm_status :: "scope \<Rightarrow> packet6 \<Rightarrow> uint16 \<times> string" where
  "confirm_status sc req = (case scSubnet sc of
     None \<Rightarrow> (4, ''no matching link'')
   | Some n \<Rightarrow> if list_all (Contains n) (extractIAAddrs req) then (0, ''addresses are on-link'')
               else (4, ''address not on-link''))"

definition handleConfirm ::
  "server6 \<Rightarrow> packet6 \<Rightarrow> udp_addr \<Rightarrow> relayContext option \<Rightarrow> db \<Rightarrow> out6" where
  "handleConfirm sv req addr relay db =
     on_result6 (parseCommon sv req relay) db (\<lambda>(sc, clientID, _).
       let (status, msg) = confirm_status sc req
       in done6 [sendReply6 sv (add_option6 OptStatusCode (BuildStatusCode status msg)
            (reply_to sv req MsgTypeReply clientID)) addr relay] db)
     (\<lambda>_. done6 [] db)"

definition handleDecline6 ::
  "env6 \<Rightarrow> config4 \<Rightarrow> server6 \<Rightarrow> packet6 \<Rightarrow> udp_addr \<Rightarrow> relayContext option \<Rightarrow> db \<Rightarrow> out6" where
  "handleDecline6 env cfg sv req addr relay db =
     (if \<not> serverIDMatches sv req then done6 [] db
      else on_result6 (parseCommon sv req relay) db (\<lambda>(sc, clientID, iaid).
        let duid = ParseDUID clientID;
            db2 = (case ok_value (GetV6LeaseByDUID (e6Faults env) (scID sc) duid (iaid_string iaid) db) of
                None \<Rightarrow> db
              | Some l \<Rightarrow>
                  let db1 = snd (UpdateV6LeaseState (e6Faults env) (e6Now env ''UpdateV6LeaseState'') (vlID l) LeaseDeclined db)
                  in logIPAllocation6 env cfg sc duid (iaid_string iaid) (vlIPAddr l) None ''decline'' relay '''' db1)
        in done6 [sendReply6 sv (add_option6 OptStatusCode (BuildStatusCode 0 ''decline received'')
             (reply_to sv req MsgTypeReply clientID)) addr relay] db2)
      (\<lambda>_. done6 [] db))"

definition handleInformationRequest ::
  "env6 \<Rightarrow> server6 \<Rightarrow> packet6 \<Rightarrow> udp_addr \<Rightarrow> relayContext option \<Rightarrow> db \<Rightarrow> out6" where
  "handleInformationRequest env sv req addr relay db =
     (if \<not> serverIDMatches sv req then done6 [] db
      else on_result6 (parseCommon sv req relay) db (\<lambda>(sc, clientID, _).
        let reservation = ok_value (GetV6ReservationByDUID (e6Faults env) (scID sc) (ParseDUID clientID) db);
            groupOpts = groupOptionsForReservation6 env db reservation
        in done6 [sendReply6 sv (applyOptions6 env (reply_to sv req MsgTypeReply clientID) sc reservation groupOpts) addr relay] db)
      (\<lambda>_. done6 [] db))"

section \<open>Dispatch\<close>

text \<open>The switch of \<open>handlePacket\<close> and of \<open>handleRelayForward\<close>.\<close>

definition dispatch6 ::
  "env6 \<Rightarrow> config4 \<Rightarrow> server6 \<Rightarrow> packet6 \<Rightarrow> udp_addr \<Rightarrow> relayContext option \<Rightarrow> db \<Rightarrow> out6" where
  "dispatch6 env cfg sv req addr relay db =
     (let t = p6MessageType req in
      if t = MsgTypeSolicit then handleSolicit env cfg sv req addr relay db
      else if t = MsgTypeRequest \<or> t = MsgTypeRenew \<or> t = MsgTypeRebind then handleRequest6 env cfg sv req addr relay db
      else if t = MsgTypeConfirm then handleConfirm sv req addr relay db
      else if t = MsgTypeRelease then handleRelease6 env cfg sv req addr relay db
      else if t = MsgTypeDecline then handleDecline6 env cfg sv req addr relay db
      else if t = MsgTypeInformationRequest then handleInformationRequest env sv req addr relay db
      else done6 [] db)"

text \<open>Entering a relay layer; the interface id is that of the innermost layer that has one.\<close>

definition hop_of :: "relay_packet \<Rightarrow> relayHop" where
  "hop_of rp = \<lparr>rhHopCount = rpHopCount rp, rhLinkAddr = rpLinkAddr rp, rhPeerAddr = rpPeerAddr rp,
     rhOptions = CopyRelayOptions (rpOptions rp)\<rparr>"

definition outer_relay :: "udp_addr \<Rightarrow> relay_packet \<Rightarrow> relayContext" where
  "outer_relay addr rp = \<lparr>rcHopCount = rpHopCount rp, rcLinkAddr = rpLinkAddr rp, rcPeerAddr = rpPeerAddr rp,
     rcInterfaceID = InterfaceID (rpOptions rp), rcRelayAddr = addr, rcRelayOptions = CopyRelayOptions (rpOptions rp),
     rcHops = [hop_of rp]\<rparr>"

definition enter_relay :: "relayContext \<Rightarrow> relay_packet \<Rightarrow> relayContext" where
  "enter_relay rc rp = rc\<lparr>rcHopCount := rpHopCount rp, rcLinkAddr := rpLinkAddr rp, rcPeerAddr := rpPeerAddr rp,
     rcRelayOptions := CopyRelayOptions (rpOptions rp), rcHops := rcHops rc @ [hop_of rp],
     rcInterfaceID := (case InterfaceID (rpOptions rp) of Some i \<Rightarrow> Some i | None \<Rightarrow> rcInterfaceID rc)\<rparr>"

lemma option_bytes6_member: "opt \<in> set opts \<Longrightarrow> length (o6Data opt) < length (marshal_options6 opts)"
  by (induction opts) auto

lemma GetRelayMsg_Inr:
  assumes "GetRelayMsg opts = Ret (Inr rp)"
  obtains opt where "opt \<in> set opts" "o6Code opt = OptRelayMsg" "ParseRelayPacket (o6Data opt) = Ret rp"
proof -
  obtain opt where g: "Get6 opts OptRelayMsg = Some opt"
    using assms by (cases "Get6 opts OptRelayMsg") (auto simp: GetRelayMsg_def)
  then have "ParseRelayPacket (o6Data opt) = Ret rp"
    using assms by (auto simp: GetRelayMsg_def Let_def bind_run_Ret_iff split: if_splits)
  moreover have "opt \<in> set opts" "o6Code opt = OptRelayMsg"
    using find_SomeD [OF g [unfolded Get6_def]] by simp_all
  ultimately show thesis by (rule that [rotated 2])
qed

lemma GetRelayMsg_shrinks:
  assumes "GetRelayMsg opts = Ret (Inr rp)"
  shows "length (marshal_options6 (rpOptions rp)) < length (marshal_options6 opts)"
proof -
  obtain opt where "opt \<in> set opts" "ParseRelayPacket (o6Data opt) = Ret rp"
    using assms by (rule GetRelayMsg_Inr)
  then show ?thesis
    using option_bytes6_member [of opt opts] ParseRelayPacket_RetD(5) [of "o6Data opt" rp] by linarith
qed

text \<open>
  The unwrapping loop: the client message and the context of its chain. Each layer is a part of
  the one around it, so that the loop ends.
\<close>

function unwrap_relay :: "relayContext \<Rightarrow> relay_packet \<Rightarrow> (packet6 \<times> relayContext) run" where
  "unwrap_relay rc rp =
     (case GetRelayMsg (rpOptions rp) of
        Ret (Inl p) \<Rightarrow> Ret (p, rc)
      | Ret (Inr rp') \<Rightarrow> unwrap_relay (enter_relay rc rp') rp'
      | Fail e \<Rightarrow> Fail e
      | Panic \<Rightarrow> Panic
      | Hang \<Rightarrow> Hang)"
  by pat_completeness auto
termination
  by (relation "measure (\<lambda>(rc, rp). length (marshal_options6 (rpOptions rp)))") (auto dest: GetRelayMsg_shrinks)

declare unwrap_relay.simps [simp del]

definition handleRelayForward :: "env6 \<Rightarrow> config4 \<Rightarrow> server6 \<Rightarrow> bytes \<Rightarrow> udp_addr \<Rightarrow> db \<Rightarrow> out6" where
  "handleRelayForward env cfg sv data addr db =
     on_result6 (bind_run (ParseRelayPacket data) (\<lambda>rp. unwrap_relay (outer_relay addr rp) rp)) db
       (\<lambda>(req, rc). dispatch6 env cfg sv req addr (Some rc) db)
       (\<lambda>_. done6 [] db)"

definition handlePacket6 :: "env6 \<Rightarrow> config4 \<Rightarrow> server6 \<Rightarrow> bytes \<Rightarrow> udp_addr \<Rightarrow> db \<Rightarrow> out6" where
  "handlePacket6 env cfg sv data addr db =
     (if length data < 1 then done6 [] db
      else if data ! 0 = MsgTypeRelayForw then handleRelayForward env cfg sv data addr db
      else on_result6 (ParsePacket6 data) db (\<lambda>req. dispatch6 env cfg sv req addr None db) (\<lambda>_. done6 [] db))"

section \<open>Scopes, expiry and the server DUID\<close>

definition reloadScopes6 :: "env6 \<Rightarrow> (string \<Rightarrow> nat) \<Rightarrow> server6 \<Rightarrow> db \<Rightarrow> server6" where
  "reloadScopes6 env collate sv db = (case ListScopes (e6Faults env) collate db of
     Ret scopes \<Rightarrow> sv\<lparr>sv6Scopes := filter scV6 scopes\<rparr> | _ \<Rightarrow> sv)"

definition refresh_tick6 :: "env6 \<Rightarrow> (string \<Rightarrow> nat) \<Rightarrow> server6 \<Rightarrow> db \<Rightarrow> server6 \<times> db" where
  "refresh_tick6 env collate sv db =
     (let db1 = snd (ReleaseExpiredV6Leases (e6Faults env) (e6Now env ''ReleaseExpiredV6Leases'') db);
          db2 = snd (ReleaseExpiredV6Prefixes (e6Faults env) (e6Now env ''ReleaseExpiredV6Prefixes'') db1)
      in (reloadScopes6 env collate sv db2, db2))"

definition generateDUID :: "env6 \<Rightarrow> bytes" where
  "generateDUID env = (case e6HardwareAddrs env of
     None \<Rightarrow> DUIDLL [0x00, 0x11, 0x22, 0x33, 0x44, 0x55]
   | Some hws \<Rightarrow> (case List.find (\<lambda>hw. length hw = 6) hws of
       Some hw \<Rightarrow> DUIDLL hw | None \<Rightarrow> DUIDLL [0x00, 0x11, 0x22, 0x33, 0x44, 0x55]))"

text \<open>\<open>hex.DecodeString\<close>.\<close>

fun hex_decode :: "string \<Rightarrow> bytes option" where
  "hex_decode [] = Some []"
| "hex_decode [_] = None"
| "hex_decode (a # b # s) = (case (hex_val a, hex_val b, hex_decode s) of
     (Some x, Some y, Some r) \<Rightarrow> Some (of_nat (x * 16 + y) # r) | _ \<Rightarrow> None)"

definition loadOrCreateDUID :: "env6 \<Rightarrow> db \<Rightarrow> bytes \<times> db" where
  "loadOrCreateDUID env db =
     (case (case GetServerState (e6Faults env) ''server_duid'' db of
              Ret v \<Rightarrow> (case hex_decode v of Some raw \<Rightarrow> if v \<noteq> '''' \<and> 4 \<le> length raw then Some raw else None | None \<Rightarrow> None)
            | _ \<Rightarrow> None) of
        Some raw \<Rightarrow> (raw, db)
      | None \<Rightarrow> let duid = generateDUID env
               in (duid, snd (SetServerState (e6Faults env) ''server_duid'' (hex_bytes duid) db)))"

end
