(* ===== verification/Alloc6_Safety.thy ===== *)
theory Alloc6_Safety
  imports Store_Alloc6 Alloc4_Safety
begin

text \<open>
  \<open>AllocateV6Lease\<close> leaves the live leases of other DUIDs alone, records what it grants, and honours
  reservations. The blocks of the transaction compose through \<open>step6\<close>, the changes a client may
  make to the table.
\<close>

section \<open>Changes a DHCPv6 client may make\<close>

definition own6 :: "string \<Rightarrow> string \<Rightarrow> v6_lease \<Rightarrow> bool" where
  "own6 sid duid x \<longleftrightarrow> vlScopeID x = sid \<and> vlDUID x = duid"

definition step6 :: "time \<Rightarrow> string \<Rightarrow> string \<Rightarrow> db \<Rightarrow> db \<Rightarrow> bool" where
  "step6 now sid duid db db' \<longleftrightarrow> wf_db db' \<and> db' = db\<lparr>dbV6Leases := dbV6Leases db'\<rparr>
     \<and> (\<forall>x \<in> set (dbV6Leases db). \<not> own6 sid duid x \<and> v6_lease_blocks now x \<longrightarrow> x \<in> set (dbV6Leases db'))
     \<and> (\<forall>x \<in> set (dbV6Leases db'). own6 sid duid x \<or> x \<in> set (dbV6Leases db))"

lemma step6_refl [simp]: "wf_db db \<Longrightarrow> step6 now sid duid db db"
  by (simp add: step6_def)

lemma step6_wf: "step6 now sid duid db db' \<Longrightarrow> wf_db db'"
  by (simp add: step6_def)

lemma step6_reservations: "step6 now sid duid db db' \<Longrightarrow> dbV6Reservations db' = dbV6Reservations db"
  unfolding step6_def by (metis db.select_convs(5) db.surjective db.update_convs(4))

lemma step6_trans:
  assumes "step6 now sid duid db db1" and "step6 now sid duid db1 db2"
  shows "step6 now sid duid db db2"
proof -
  have "db2 = db1\<lparr>dbV6Leases := dbV6Leases db2\<rparr>" "db1 = db\<lparr>dbV6Leases := dbV6Leases db1\<rparr>"
    using assms unfolding step6_def by blast+
  then have "db2 = db\<lparr>dbV6Leases := dbV6Leases db2\<rparr>" by (metis db.surjective db.update_convs(4))
  with assms show ?thesis unfolding step6_def by blast
qed

lemma step6_rows:
  assumes "wf_db db" and "uniq v6_lease_clash rows"
    and "\<forall>x \<in> set rows. canon (vlIPAddr x) \<and> \<not> vlReserved x"
    and "\<forall>x \<in> set (dbV6Leases db). \<not> own6 sid duid x \<and> v6_lease_blocks now x \<longrightarrow> x \<in> set rows"
    and "\<forall>x \<in> set rows. own6 sid duid x \<or> x \<in> set (dbV6Leases db)"
  shows "step6 now sid duid db (db\<lparr>dbV6Leases := rows\<rparr>)"
  using assms by (simp add: step6_def wf_db_def)

lemma step6_delete:
  assumes "wf_db db" and "\<And>x. x \<in> set (dbV6Leases db) \<Longrightarrow> P x \<Longrightarrow> own6 sid duid x \<or> \<not> v6_lease_blocks now x"
  shows "step6 now sid duid db (db\<lparr>dbV6Leases := sql_delete P (dbV6Leases db)\<rparr>)"
  using assms by (intro step6_rows) (auto simp: wf_db_def uniq_delete)

text \<open>The steps before a grant only delete rows.\<close>

definition clears6 :: "time \<Rightarrow> string \<Rightarrow> string \<Rightarrow> db \<Rightarrow> db \<Rightarrow> bool" where
  "clears6 now sid duid db db' \<longleftrightarrow> step6 now sid duid db db' \<and> set (dbV6Leases db') \<subseteq> set (dbV6Leases db)"

lemma clears6_refl [simp]: "wf_db db \<Longrightarrow> clears6 now sid duid db db"
  by (simp add: clears6_def)

lemma clears6_step: "clears6 now sid duid db db' \<Longrightarrow> step6 now sid duid db db'"
  by (simp add: clears6_def)

lemma clears6_delete:
  assumes "wf_db db" and "\<And>x. x \<in> set (dbV6Leases db) \<Longrightarrow> P x \<Longrightarrow> own6 sid duid x \<or> \<not> v6_lease_blocks now x"
  shows "clears6 now sid duid db (db\<lparr>dbV6Leases := sql_delete P (dbV6Leases db)\<rparr>)"
  using step6_delete [OF assms] by (auto simp: clears6_def)

section \<open>Helpers of the transaction\<close>

definition recorded6 :: "v6_lease \<Rightarrow> v6_lease \<Rightarrow> bool" where
  "recorded6 l row \<longleftrightarrow> vlScopeID row = vlScopeID l \<and> vlDUID row = vlDUID l \<and> vlIAID row = vlIAID l
     \<and> vlIPAddr row = normalizeIP (vlIPAddr l) \<and> vlHostname row = vlHostname l \<and> vlState row = vlState l
     \<and> vlOfferedAt row = vlOfferedAt l \<and> vlStartsAt row = vlStartsAt l \<and> vlEndsAt row = vlEndsAt l"

text \<open>
  The row has the id of the returned lease, unless it took over the row that was at the address:
  ON CONFLICT keeps the id of the old row.
\<close>

definition id_kept6 :: "v6_lease \<Rightarrow> v6_lease \<Rightarrow> db \<Rightarrow> bool" where
  "id_kept6 l row db \<longleftrightarrow> vlID row = vlID l
     \<or> (\<exists>x \<in> set (dbV6Leases db). vlScopeID x = vlScopeID l \<and> vlIPAddr x = normalizeIP (vlIPAddr l) \<and> vlID x = vlID row)"

text \<open>No live lease of another DUID is at the address.\<close>

definition free6 :: "time \<Rightarrow> string \<Rightarrow> string \<Rightarrow> ip \<Rightarrow> db \<Rightarrow> bool" where
  "free6 now sid duid p db \<longleftrightarrow> (\<forall>x \<in> set (dbV6Leases db). vlScopeID x = sid \<and> vlIPAddr x = normalizeIP p
     \<longrightarrow> vlDUID x = duid \<or> \<not> v6_lease_blocks now x)"

lemma save_v6_Ret:
  assumes "save_v6_and_return flt l db = Ret (l', db')" and w: "wf_db db"
    and own: "own6 sid duid l" and free: "free6 now sid duid (vlIPAddr l) db"
  shows "l' = l \<and> step6 now sid duid db db' \<and> (\<exists>row \<in> set (dbV6Leases db'). recorded6 l row \<and> id_kept6 l row db)"
proof -
  from assms(1) have "saveV6LeaseTx flt l db = Ret ((), db')" and l': "l' = l"
    by (auto simp: save_v6_and_return_def bind_run_Ret_iff)
  then obtain q rows where q: "host_inet (vlIPAddr l) = Ret (Some q)"
    and u: "sql_upsert v6_lease_clash v6_lease_conflict v6_lease_merge (l\<lparr>vlIPAddr := q, vlReserved := False\<rparr>) (dbV6Leases db) = Ret rows"
    and db': "db' = db\<lparr>dbV6Leases := rows\<rparr>"
    by (auto simp: saveV6LeaseTx_def bind_run_Ret_iff split: option.splits)
  let ?l = "l\<lparr>vlIPAddr := q, vlReserved := False\<rparr>"
  from w have uq: "uniq v6_lease_clash (dbV6Leases db)" by (simp add: wf_db_def)
  note qn = host_inet_Some [OF q] and un = v6_leases.uniq_upsert [OF uq u]
  obtain row D where row: "recorded6 l row" "canon (vlIPAddr row)" "\<not> vlReserved row" "own6 sid duid row" "id_kept6 l row db"
    and rows: "set rows = insert row (set (dbV6Leases db) - D)"
    and D: "\<forall>x \<in> D. vlScopeID x = sid \<and> vlIPAddr x = normalizeIP (vlIPAddr l)"
    using uq u
  proof (cases rule: v6_leases.upsert_rows)
    case inserted
    then show ?thesis using that [of ?l "{}"] qn own by (auto simp: recorded6_def own6_def id_kept6_def)
  next
    case (merged x)
    then have "\<not> vlReserved x" using w by (auto simp: wf_db_def)
    with merged qn own show ?thesis
      by (intro that [of "v6_lease_merge ?l x" "{x}"])
        (auto simp: recorded6_def v6_lease_merge_def v6_lease_conflict_def own6_def id_kept6_def)
  qed
  have c: "\<forall>x \<in> set (dbV6Leases db). canon (vlIPAddr x) \<and> \<not> vlReserved x" using w by (simp add: wf_db_def)
  have gone: "own6 sid duid x \<or> \<not> v6_lease_blocks now x" if "x \<in> D" "x \<in> set (dbV6Leases db)" for x
    using that D free unfolding free6_def own6_def by blast
  have "step6 now sid duid db db'"
    unfolding db'
  proof (rule step6_rows [OF w un])
    show "\<forall>x \<in> set rows. canon (vlIPAddr x) \<and> \<not> vlReserved x" unfolding rows using c row by simp
    show "\<forall>x \<in> set (dbV6Leases db). \<not> own6 sid duid x \<and> v6_lease_blocks now x \<longrightarrow> x \<in> set rows"
      unfolding rows using gone by auto
    show "\<forall>x \<in> set rows. own6 sid duid x \<or> x \<in> set (dbV6Leases db)" unfolding rows using row by simp
  qed
  with row rows l' db' show ?thesis by auto
qed

lemma getV6LeaseByIPTx_Ret:
  assumes "getV6LeaseByIPTx flt sid p db = Ret eo" and "wf_db db" and "p \<noteq> []"
  shows "case eo of
      None \<Rightarrow> \<forall>x \<in> set (dbV6Leases db). \<not> (vlScopeID x = sid \<and> vlIPAddr x = normalizeIP p)
    | Some e \<Rightarrow> e \<in> set (dbV6Leases db) \<and> vlScopeID e = sid \<and> vlIPAddr e = normalizeIP p"
proof -
  from assms(1,3) obtain q where q: "host_inet p = Ret (Some q)" and
    eo: "eo = map_option scanV6Lease (query_row (\<lambda>l. vlScopeID l = sid \<and> vlIPAddr l = q) (dbV6Leases db))"
    by (auto simp: getV6LeaseByIPTx_def bind_host_inet)
  from host_inet_Some [OF q] have "q = normalizeIP p" by simp
  from query_scan_cases [OF eo [unfolded this]] show ?thesis
    using assms(2) by (simp add: wf_db_def scanV6Lease_row)
qed

lemma v6_lease_unique:
  "wf_db db \<Longrightarrow> x \<in> set (dbV6Leases db) \<Longrightarrow> y \<in> set (dbV6Leases db)
    \<Longrightarrow> vlID x = vlID y \<or> vlScopeID x = vlScopeID y \<and> (vlIPAddr x = vlIPAddr y \<or> vlDUID x = vlDUID y \<and> vlIAID x = vlIAID y)
    \<Longrightarrow> x = y"
  by (rule v6_leases.uniq_clashD [of "dbV6Leases db"]) (auto simp: wf_db_def v6_lease_clash_def)

text \<open>Deleting the row \<open>e\<close> at an address, when it is not live, makes the address free.\<close>

lemma delete_at_address:
  assumes w: "wf_db db" and e: "e \<in> set (dbV6Leases db)" "vlScopeID e = sid" "vlIPAddr e = normalizeIP p"
    and b: "\<not> v6_lease_blocks now e" and d: "deleteV6LeaseTx flt (vlID e) db = Ret (u, db')"
  shows "clears6 now sid duid db db' \<and> free6 now sid duid p db'"
proof -
  have db': "db' = db\<lparr>dbV6Leases := sql_delete (\<lambda>l. vlID l = vlID e) (dbV6Leases db)\<rparr>"
    using d by (simp add: deleteV6LeaseTx_def)
  have "x = e" if "x \<in> set (dbV6Leases db)" "vlID x = vlID e \<or> vlScopeID x = sid \<and> vlIPAddr x = normalizeIP p" for x
    using v6_lease_unique [OF w that(1) e(1)] that e by auto
  then show ?thesis
    unfolding db' using b by (intro conjI clears6_delete [OF w]) (auto simp: free6_def)
qed

lemma ensureV6IPAvailableTx_Ret:
  assumes "ensureV6IPAvailableTx flt now sid p duid db = Ret (u, db')" and w: "wf_db db" and "p \<noteq> []"
  shows "clears6 now sid duid db db' \<and> free6 now sid duid p db'"
proof -
  from assms(1) obtain eo where eo: "getV6LeaseByIPTx flt sid p db = Ret eo"
    by (auto simp: ensureV6IPAvailableTx_def bind_run_Ret_iff)
  note at = getV6LeaseByIPTx_Ret [OF eo w assms(3)]
  show ?thesis
  proof (cases eo)
    case None
    with assms(1) eo at w show ?thesis by (auto simp: ensureV6IPAvailableTx_def free6_def)
  next
    case (Some e)
    with at have e: "e \<in> set (dbV6Leases db)" "vlScopeID e = sid" "vlIPAddr e = normalizeIP p" by auto
    show ?thesis
    proof (cases "vlDUID e = duid")
      case True
      then have "free6 now sid duid p db" using v6_lease_unique [OF w _ e(1)] e by (auto simp: free6_def)
      with True assms(1) eo Some w show ?thesis by (simp add: ensureV6IPAvailableTx_def)
    next
      case False
      with assms(1) eo Some have "\<not> v6_lease_blocks now e" "deleteV6LeaseTx flt (vlID e) db = Ret (u, db')"
        by (auto simp: ensureV6IPAvailableTx_def split: if_splits)
      with delete_at_address [OF w e] show ?thesis by blast
    qed
  qed
qed

section \<open>The blocks of the transaction\<close>

definition not_reserved6 :: "db \<Rightarrow> alloc6 \<Rightarrow> ip \<Rightarrow> bool" where
  "not_reserved6 db a q \<longleftrightarrow> (\<forall>r \<in> set (dbV6Reservations db).
     vrScopeID r = scID (a6Scope a) \<and> vrIPAddr r = q \<longrightarrow> vrDUID r = a6DUID a)"

abbreviation step_of :: "alloc6 \<Rightarrow> db \<Rightarrow> db \<Rightarrow> bool" where
  "step_of a \<equiv> step6 (a6Now a) (scID (a6Scope a)) (a6DUID a)"

definition held6 :: "time \<Rightarrow> v6_lease \<Rightarrow> bool" where
  "held6 now l \<longleftrightarrow> vlState l = LeaseActive \<or> vlState l = LeaseOffered \<and> vlOfferedAt l = Some now"

definition granted6 :: "alloc6 \<Rightarrow> v6_lease \<Rightarrow> db \<Rightarrow> db \<Rightarrow> bool" where
  "granted6 a l db db' \<longleftrightarrow> step_of a db db' \<and> vlScopeID l = scID (a6Scope a) \<and> vlDUID l = a6DUID a \<and> vlIAID l = a6IAID a
     \<and> vlStartsAt l = a6Now a \<and> vlEndsAt l = a6EndsAt a \<and> held6 (a6Now a) l
     \<and> (\<exists>row \<in> set (dbV6Leases db'). recorded6 l row \<and> id_kept6 l row db)
     \<and> (vlID l = a6UUID a \<or> (\<exists>e \<in> set (dbV6Leases db). vlID e = vlID l \<and> own6 (scID (a6Scope a)) (a6DUID a) e))
     \<and> not_reserved6 db a (normalizeIP (vlIPAddr l))"

abbreviation clears_of :: "alloc6 \<Rightarrow> db \<Rightarrow> db \<Rightarrow> bool" where
  "clears_of a \<equiv> clears6 (a6Now a) (scID (a6Scope a)) (a6DUID a)"

lemma granted6_after:
  assumes "clears_of a db db1" and "granted6 a l db1 db'"
  shows "granted6 a l db db'"
proof -
  have s: "step_of a db db1" and sub: "set (dbV6Leases db1) \<subseteq> set (dbV6Leases db)" using assms(1) by (simp_all add: clears6_def)
  have "id_kept6 l row db" if "id_kept6 l row db1" for row using that sub unfolding id_kept6_def by blast
  moreover have "step_of a db db'" using s assms(2) step6_trans unfolding granted6_def by blast
  ultimately show ?thesis
    using assms(2) sub step6_reservations [OF s] unfolding granted6_def not_reserved6_def by auto
qed

lemma v6_reservation_unique:
  "wf_db db \<Longrightarrow> x \<in> set (dbV6Reservations db) \<Longrightarrow> y \<in> set (dbV6Reservations db) \<Longrightarrow> vrScopeID x = vrScopeID y
    \<Longrightarrow> vrIPAddr x = vrIPAddr y \<or> vrDUID x = vrDUID y \<Longrightarrow> x = y"
  by (rule v6_reservations.uniq_clashD [of "dbV6Reservations db"]) (auto simp: wf_db_def v6_reservation_clash_def)

lemma not_reserved6I:
  assumes "getV6ReservationByIPTx flt (scID (a6Scope a)) p db = Ret ro" and w: "wf_db db" and "p \<noteq> []"
    and "\<not> reserved_for_other6 (a6DUID a) ro"
  shows "not_reserved6 db a (normalizeIP p)"
proof -
  from assms(1,3) obtain q where q: "host_inet p = Ret (Some q)" and
    ro: "ro = map_option scanV6Reservation (query_row (\<lambda>r. vrScopeID r = scID (a6Scope a) \<and> vrIPAddr r = q) (dbV6Reservations db))"
    by (auto simp: getV6ReservationByIPTx_def bind_host_inet)
  from host_inet_Some [OF q] have qn: "q = normalizeIP p" by simp
  have "case ro of None \<Rightarrow> \<forall>x \<in> set (dbV6Reservations db). \<not> (vrScopeID x = scID (a6Scope a) \<and> vrIPAddr x = q)
    | Some e \<Rightarrow> e \<in> set (dbV6Reservations db) \<and> vrScopeID e = scID (a6Scope a) \<and> vrIPAddr e = q"
    by (rule query_scan_cases [OF ro]) (use w in \<open>simp add: wf_db_def scanV6Reservation_row\<close>)
  then show ?thesis
    using assms(4) v6_reservation_unique [OF w, of "the ro"] unfolding not_reserved6_def reserved_for_other6_def qn
    by (cases ro) fastforce+
qed

lemma renewed_v6_lease_simps [simp]:
  "vlScopeID (renewed_v6_lease a e) = vlScopeID e" "vlDUID (renewed_v6_lease a e) = vlDUID e"
  "vlIAID (renewed_v6_lease a e) = vlIAID e" "vlIPAddr (renewed_v6_lease a e) = vlIPAddr e"
  "vlEndsAt (renewed_v6_lease a e) = a6EndsAt a" "vlStartsAt (renewed_v6_lease a e) = a6Now a"
  "vlID (renewed_v6_lease a e) = vlID e" "held6 (a6Now a) (renewed_v6_lease a e)"
  by (simp_all add: renewed_v6_lease_def held6_def Let_def)

lemma new_v6_lease_simps [simp]:
  "vlScopeID (new_v6_lease a p) = scID (a6Scope a)" "vlDUID (new_v6_lease a p) = a6DUID a"
  "vlIAID (new_v6_lease a p) = a6IAID a" "vlIPAddr (new_v6_lease a p) = p"
  "vlEndsAt (new_v6_lease a p) = a6EndsAt a" "vlStartsAt (new_v6_lease a p) = a6Now a"
  "vlID (new_v6_lease a p) = a6UUID a" "held6 (a6Now a) (new_v6_lease a p)"
  by (simp_all add: new_v6_lease_def held6_def)

text \<open>Saving a new lease at a free, unreserved address is a grant.\<close>

lemma save_new:
  assumes "save_v6_and_return flt (new_v6_lease a p) db = Ret (l, db')" and "wf_db db"
    and "free6 (a6Now a) (scID (a6Scope a)) (a6DUID a) p db" and "not_reserved6 db a (normalizeIP p)"
  shows "l = new_v6_lease a p \<and> granted6 a l db db'"
  using save_v6_Ret [OF assms(1,2), of "scID (a6Scope a)" "a6DUID a" "a6Now a"] assms(3,4)
  by (auto simp: own6_def granted6_def)

lemma alloc6_existing_Ret:
  assumes "alloc6_existing flt a res db = Ret (r, db')" and w: "wf_db db"
  shows "case r of
      Inl l \<Rightarrow> granted6 a l db db' \<and> (\<exists>e. l = renewed_v6_lease a e
        \<and> (case res of None \<Rightarrow> True | Some r \<Rightarrow> ipKey (vlIPAddr e) = ipKey (vrIPAddr r)))
    | Inr _ \<Rightarrow> clears_of a db db'"
proof -
  let ?sid = "scID (a6Scope a)" and ?duid = "a6DUID a" and ?iaid = "a6IAID a"
  from assms(1) obtain eo where eo: "getV6LeaseByDUIDTx flt ?sid ?duid ?iaid db = Ret eo"
    by (auto simp: alloc6_existing_def bind_run_Ret_iff)
  then have q: "eo = map_option scanV6Lease (query_row (\<lambda>l. vlScopeID l = ?sid \<and> vlDUID l = ?duid \<and> vlIAID l = ?iaid) (dbV6Leases db))"
    by (simp add: getV6LeaseByDUIDTx_def)
  have at: "case eo of None \<Rightarrow> True | Some e \<Rightarrow> e \<in> set (dbV6Leases db) \<and> vlScopeID e = ?sid \<and> vlDUID e = ?duid \<and> vlIAID e = ?iaid"
    by (cases eo) (use query_scan_cases [OF q] w in \<open>auto simp: wf_db_def scanV6Lease_row\<close>)
  show ?thesis
  proof (cases eo)
    case None
    with assms(1) eo w show ?thesis by (auto simp: alloc6_existing_def)
  next
    case (Some e)
    with at have e: "e \<in> set (dbV6Leases db)" "vlScopeID e = ?sid" "vlDUID e = ?duid" "vlIAID e = ?iaid" by auto
    then have c: "vlIPAddr e \<noteq> []" "normalizeIP (vlIPAddr e) = vlIPAddr e"
      using w by (auto simp: wf_db_def canon_def canon_normalizeIP)
    from assms(1) eo Some obtain keep where k: "may_keep6 flt a res e db = Ret keep"
      by (auto simp: alloc6_existing_def bind_run_Ret_iff)
    show ?thesis
    proof (cases keep)
      case True
      from k True obtain ro where ro: "getV6ReservationByIPTx flt ?sid (vlIPAddr e) db = Ret ro" "\<not> reserved_for_other6 ?duid ro"
        and res: "case res of None \<Rightarrow> True | Some r \<Rightarrow> ipKey (vlIPAddr e) = ipKey (vrIPAddr r)"
        by (auto simp: may_keep6_def bind_run_Ret_iff split: if_splits)
      from assms(1) eo Some k True obtain l where s: "save_v6_and_return flt (renewed_v6_lease a e) db = Ret (l, db')" and r: "r = Inl l"
        by (auto simp: alloc6_existing_def bind_run_Ret_iff)
      have "free6 (a6Now a) ?sid ?duid (vlIPAddr e) db"
        using v6_lease_unique [OF w _ e(1)] e c by (auto simp: free6_def)
      with save_v6_Ret [OF s w, of ?sid ?duid "a6Now a"] e
      have "l = renewed_v6_lease a e \<and> step_of a db db' \<and> (\<exists>row \<in> set (dbV6Leases db'). recorded6 l row \<and> id_kept6 l row db)"
        by (simp add: own6_def)
      with not_reserved6I [OF ro(1) w c(1) ro(2)] e res r show ?thesis by (auto simp: granted6_def own6_def)
    next
      case False
      with assms(1) eo Some k obtain d where "r = Inr d" "db' = db\<lparr>dbV6Leases := sql_delete
          (\<lambda>l. vlScopeID l = ?sid \<and> vlDUID l = ?duid \<and> vlIAID l = ?iaid) (dbV6Leases db)\<rparr>"
        by (auto simp: alloc6_existing_def deleteV6LeasesByDUIDTx_def bind_run_Ret_iff Let_def)
      then show ?thesis by (auto simp: own6_def intro: clears6_delete [OF w])
    qed
  qed
qed

lemma alloc6_preferred_Ret:
  assumes "alloc6_preferred flt a preferred declinedIP db = Ret (got, db')" and w: "wf_db db"
  shows "case got of None \<Rightarrow> db' = db | Some l \<Rightarrow> l = new_v6_lease a preferred \<and> granted6 a l db db'"
proof (cases got)
  case None
  then show ?thesis using assms(1)
    by (auto simp: alloc6_preferred_def Let_def bind_run_Ret_iff split: if_splits option.splits)
next
  case (Some l)
  let ?sid = "scID (a6Scope a)" and ?duid = "a6DUID a"
  have c: "preferred \<noteq> []" "case scSubnet (a6Scope a) of None \<Rightarrow> False | Some n \<Rightarrow> Contains n preferred"
    using assms(1) Some by (auto simp: alloc6_preferred_def Let_def split: if_splits)
  with assms(1) Some obtain ro eo u db2 where
    ro: "getV6ReservationByIPTx flt ?sid preferred db = Ret ro" "\<not> reserved_for_other6 ?duid ro"
    and eo: "getV6LeaseByIPTx flt ?sid preferred db = Ret eo"
      "case eo of None \<Rightarrow> True | Some o' \<Rightarrow> vlDUID o' = ?duid \<or> \<not> v6_lease_blocks (a6Now a) o'"
    and d: "(case eo of Some o' \<Rightarrow> if vlDUID o' \<noteq> ?duid then deleteV6LeaseTx flt (vlID o') db else Ret ((), db)
         | None \<Rightarrow> Ret ((), db)) = Ret (u, db2)"
    and s: "save_v6_and_return flt (new_v6_lease a preferred) db2 = Ret (l, db')"
    by (auto simp: alloc6_preferred_def Let_def bind_run_Ret_iff split: if_splits)
  note at = getV6LeaseByIPTx_Ret [OF eo(1) w c(1)]
  have room: "clears_of a db db2 \<and> free6 (a6Now a) ?sid ?duid preferred db2"
  proof (cases eo)
    case None
    with d at w show ?thesis by (auto simp: free6_def)
  next
    case (Some e)
    with at have e: "e \<in> set (dbV6Leases db)" "vlScopeID e = ?sid" "vlIPAddr e = normalizeIP preferred" by auto
    show ?thesis
    proof (cases "vlDUID e = ?duid")
      case True
      then show ?thesis using d Some w v6_lease_unique [OF w _ e(1)] e by (auto simp: free6_def)
    next
      case False
      then show ?thesis using delete_at_address [OF w e] d eo(2) Some by auto
    qed
  qed
  then have "dbV6Reservations db2 = dbV6Reservations db" using clears6_step step6_reservations by blast
  with not_reserved6I [OF ro(1) w c(1) ro(2)] have "not_reserved6 db2 a (normalizeIP preferred)" by (simp add: not_reserved6_def)
  with save_new [OF s] room step6_wf clears6_step granted6_after Some show ?thesis by fastforce
qed

lemma allocateIPv6Tx_Ret:
  assumes "allocateIPv6Tx flt now sc extra db = Ret p"
  obtains x where "p = uint128ToIP x" "\<not> skip_v6 sc (used_v6 now sc extra db) x"
proof -
  let ?used = "used_v6 now sc extra db"
  from assms obtain s e where r: "(case scan ipAddOne (\<lambda>x. Cmp x e \<le> 0) (skip_v6 sc ?used) s of
      None \<Rightarrow> Hang | Some None \<Rightarrow> Fail ''no available v6 ip in scope'' | Some (Some x) \<Rightarrow> Ret (uint128ToIP x)) = Ret p"
    unfolding allocateIPv6Tx_def Let_def exec_Ret bind_run_Ret_iff by blast
  then obtain x where x: "scan ipAddOne (\<lambda>x. Cmp x e \<le> 0) (skip_v6 sc ?used) s = Some (Some x)" "p = uint128ToIP x"
    by (cases "scan ipAddOne (\<lambda>x. Cmp x e \<le> 0) (skip_v6 sc ?used) s") (auto split: option.splits)
  from scan_result [OF x(1) refl] x(2) show ?thesis by (intro that) blast+
qed

text \<open>An address the pool gives has no live lease and no reservation.\<close>

lemma not_skipped6:
  assumes "\<not> skip_v6 sc (used_v6 now sc extra db) x"
  shows "l \<in> set (dbV6Leases db) \<Longrightarrow> vlScopeID l = scID sc \<Longrightarrow> vlIPAddr l = normalizeIP (uint128ToIP x) \<Longrightarrow> \<not> v6_lease_blocks now l"
    and "r \<in> set (dbV6Reservations db) \<Longrightarrow> vrScopeID r = scID sc \<Longrightarrow> vrIPAddr r \<noteq> normalizeIP (uint128ToIP x)"
    and "\<not> isExcludedIP sc (uint128ToIP x)"
proof -
  have u: "ipKey (normalizeIP (uint128ToIP x)) \<notin> set (used_v6 now sc extra db)"
    using assms by (simp add: skip_v6_def Let_def)
  show "\<not> v6_lease_blocks now l" if l: "l \<in> set (dbV6Leases db)" "vlScopeID l = scID sc" "vlIPAddr l = normalizeIP (uint128ToIP x)"
  proof
    assume b: "v6_lease_blocks now l"
    from leaseBlocksReuse_states [OF b] b l have "ipKey (vlIPAddr l) \<in> set (used_v6 now sc extra db)"
      unfolding used_v6_def in_use_iff set_append set_map set_filter by (intro UnI1 image_eqI [of _ _ l]) auto
    with u l(3) show False by simp
  qed
  show "vrIPAddr r \<noteq> normalizeIP (uint128ToIP x)" if r: "r \<in> set (dbV6Reservations db)" "vrScopeID r = scID sc"
  proof
    assume "vrIPAddr r = normalizeIP (uint128ToIP x)"
    moreover from r have "ipKey (vrIPAddr r) \<in> set (used_v6 now sc extra db)" unfolding used_v6_def by auto
    ultimately show False using u by simp
  qed
  from u show "\<not> isExcludedIP sc (uint128ToIP x)"
    by (auto simp: isExcludedIP_def used_v6_def infra_keys_def list_ex_iff Let_def rev_image_eqI)
qed

lemma alloc6_pool_Ret:
  assumes "alloc6_pool flt a declinedIP db = Ret (l, db')" and w: "wf_db db"
  shows "granted6 a l db db'"
proof -
  from assms(1) obtain p where p: "allocateIPv6Tx flt (a6Now a) (a6Scope a) declinedIP db = Ret p"
    and s: "save_v6_and_return flt (new_v6_lease a p) db = Ret (l, db')"
    by (auto simp: alloc6_pool_def bind_run_Ret_iff)
  from p obtain x where x: "p = uint128ToIP x" "\<not> skip_v6 (a6Scope a) (used_v6 (a6Now a) (a6Scope a) declinedIP db) x"
    by (rule allocateIPv6Tx_Ret)
  note f = not_skipped6 [OF x(2)]
  have "free6 (a6Now a) (scID (a6Scope a)) (a6DUID a) p db" unfolding free6_def x(1) using f(1) by blast
  moreover have "not_reserved6 db a (normalizeIP p)" unfolding not_reserved6_def x(1) using f(2) by blast
  ultimately show ?thesis using save_new [OF s w] by blast
qed

lemma getV6ReservationByDUIDTx_Ret:
  assumes "getV6ReservationByDUIDTx flt sid duid db = Ret ro" and w: "wf_db db"
  shows "case ro of
      None \<Rightarrow> \<forall>x \<in> set (dbV6Reservations db). \<not> (vrScopeID x = sid \<and> vrDUID x = duid)
    | Some r \<Rightarrow> r \<in> set (dbV6Reservations db) \<and> vrScopeID r = sid \<and> vrDUID r = duid"
proof -
  have ro: "ro = map_option scanV6Reservation (query_row (\<lambda>r. vrScopeID r = sid \<and> vrDUID r = duid) (dbV6Reservations db))"
    using assms(1) by (simp add: getV6ReservationByDUIDTx_def)
  show ?thesis by (rule query_scan_cases [OF ro]) (use w in \<open>simp add: wf_db_def scanV6Reservation_row\<close>)
qed

text \<open>The reservation of the client decides the address.\<close>

definition honours6 :: "alloc6 \<Rightarrow> db \<Rightarrow> v6_lease \<Rightarrow> bool" where
  "honours6 a db l \<longleftrightarrow> (\<forall>r \<in> set (dbV6Reservations db).
     vrScopeID r = scID (a6Scope a) \<and> vrDUID r = a6DUID a \<longrightarrow> ipKey (vlIPAddr l) = ipKey (vrIPAddr r))"

lemma alloc6_reserved_Ret:
  assumes "alloc6_reserved flt a r db = Ret (l, db')" and w: "wf_db db"
    and r: "r \<in> set (dbV6Reservations db)" "vrScopeID r = scID (a6Scope a)" "vrDUID r = a6DUID a"
  shows "l = new_v6_lease a (vrIPAddr r) \<and> granted6 a l db db'"
proof -
  have c: "vrIPAddr r \<noteq> []" "normalizeIP (vrIPAddr r) = vrIPAddr r"
    using w r by (auto simp: wf_db_def canon_def canon_normalizeIP)
  from assms(1) obtain u db1 where e: "ensureV6IPAvailableTx flt (a6Now a) (scID (a6Scope a)) (vrIPAddr r) (a6DUID a) db = Ret (u, db1)"
    and s: "save_v6_and_return flt (new_v6_lease a (vrIPAddr r)) db1 = Ret (l, db')"
    by (auto simp: alloc6_reserved_def bind_run_Ret_iff)
  note room = ensureV6IPAvailableTx_Ret [OF e w c(1)]
  then have w1: "wf_db db1" and res: "dbV6Reservations db1 = dbV6Reservations db" using clears6_step step6_wf step6_reservations by blast+
  have "vrDUID x = a6DUID a" if "x \<in> set (dbV6Reservations db)" "vrScopeID x = scID (a6Scope a)" "vrIPAddr x = vrIPAddr r" for x
    using v6_reservation_unique [OF w that(1) r(1)] that r by simp
  then have "not_reserved6 db1 a (normalizeIP (vrIPAddr r))" unfolding not_reserved6_def res c(2) by blast
  with save_new [OF s w1] room granted6_after show ?thesis by blast
qed

lemma alloc6_tx_Ret:
  assumes "alloc6_tx flt a preferred db = Ret (l, db')" and w: "wf_db db"
  shows "granted6 a l db db' \<and> honours6 a db l"
proof -
  from assms(1) obtain ro ex db1 where
    ro: "getV6ReservationByDUIDTx flt (scID (a6Scope a)) (a6DUID a) db = Ret ro"
    and ex: "alloc6_existing flt a ro db = Ret (ex, db1)"
    by (auto simp: alloc6_tx_def bind_run_Ret_iff)
  note rm = getV6ReservationByDUIDTx_Ret [OF ro w] and e = alloc6_existing_Ret [OF ex w]
  have only: "r = r'" if "ro = Some r'" "r \<in> set (dbV6Reservations db)" "vrScopeID r = scID (a6Scope a)" "vrDUID r = a6DUID a" for r r'
    using rm that v6_reservation_unique [OF w that(2), of r'] by simp
  have none: "honours6 a db l'" if "ro = None" for l' using rm that by (auto simp: honours6_def)
  show ?thesis
  proof (cases ex)
    case (Inl l')
    then have "l' = l" "db1 = db'" using assms(1) ro ex by (auto simp: alloc6_tx_def)
    with e Inl obtain e' where g: "granted6 a l db db'" and l: "l = renewed_v6_lease a e'"
      and k: "case ro of None \<Rightarrow> True | Some r \<Rightarrow> ipKey (vlIPAddr e') = ipKey (vrIPAddr r)" by auto
    have "honours6 a db l"
      using only k none by (cases ro) (auto simp: honours6_def l intro!: arg_cong [of _ _ "\<lambda>r. ipKey (vrIPAddr r)"] sym [OF only])
    with g show ?thesis by blast
  next
    case (Inr d)
    with e have s1: "clears_of a db db1" by simp
    then have w1: "wf_db db1" and res: "dbV6Reservations db1 = dbV6Reservations db" using clears6_step step6_wf step6_reservations by blast+
    show ?thesis
    proof (cases ro)
      case (Some r)
      with assms(1) ro ex Inr have "alloc6_reserved flt a r db1 = Ret (l, db')" by (auto simp: alloc6_tx_def)
      from alloc6_reserved_Ret [OF this w1] rm Some res have "l = new_v6_lease a (vrIPAddr r) \<and> granted6 a l db1 db'" by auto
      with granted6_after [OF s1] only Some show ?thesis by (auto simp: honours6_def)
    next
      case None
      from None assms(1) ro ex Inr obtain got db2 where pr: "alloc6_preferred flt a preferred d db1 = Ret (got, db2)"
        and rest: "(case got of Some l \<Rightarrow> Ret (l, db2) | None \<Rightarrow> alloc6_pool flt a d db2) = Ret (l, db')"
        by (auto simp: alloc6_tx_def bind_run_Ret_iff)
      have "granted6 a l db1 db'"
        using alloc6_preferred_Ret [OF pr w1] rest alloc6_pool_Ret [OF _ w1] by (cases got) auto
      with granted6_after [OF s1] none [OF None] show ?thesis by blast
    qed
  qed
qed

lemma AllocateV6Lease_Ret:
  assumes "AllocateV6Lease flt now uuid sc duid iaid hostname preferred leaseTime maxLeaseTime db = (Ret l, db')" and "wf_db db"
  obtains a where "a6Scope a = sc" "a6DUID a = duid" "a6IAID a = iaid" "a6Now a = now" "a6UUID a = uuid"
    "a6EndsAt a = now + clampLeaseTime leaseTime maxLeaseTime * Second" "granted6 a l db db'" "honours6 a db l"
proof -
  let ?a = "\<lparr>a6Scope = sc, a6DUID = duid, a6IAID = iaid, a6Hostname = hostname, a6Now = now,
    a6EndsAt = now + clampLeaseTime leaseTime maxLeaseTime * Second, a6UUID = uuid\<rparr>"
  have "alloc6_tx flt ?a preferred db = Ret (l, db')"
    using assms(1) by (simp add: AllocateV6Lease_def WithTx_Ret Let_def)
  from alloc6_tx_Ret [OF this assms(2)] show ?thesis by (auto intro: that [of ?a])
qed

section \<open>A small IPv6 network\<close>

definition demo6_ip :: "byte \<Rightarrow> ip" where
  "demo6_ip n = [32, 1, 13, 184, 0, 0, 0, 0, 0, 0, 0, 0, 0, 0, 0, n]"

definition demo6_scope :: scope where
  "demo6_scope = demo_scope\<lparr>scID := ''s6'', scV6 := True, scStartIP := demo6_ip 16, scEndIP := demo6_ip 20,
     scSubnet := Some \<lparr>netIP = demo6_ip 0, netMask = CIDRMask 64 128\<rparr>, scGateway := [], scDNS := [], scExcludedIPs := [],
     scPrefix := Some \<lparr>netIP = [32, 1, 13, 184, 1, 0, 0, 0, 0, 0, 0, 0, 0, 0, 0, 0], netMask = CIDRMask 48 128\<rparr>, scPDEnabled := True\<rparr>"

definition demo6_lease :: v6_lease where
  "demo6_lease = \<lparr>vlID = ''l1'', vlScopeID = ''s6'', vlDUID = ''aa'', vlIAID = ''1'', vlIPAddr = demo6_ip 17,
     vlHostname = ''h'', vlState = LeaseActive, vlReserved = False, vlOfferedAt = Some 0,
     vlStartsAt = 0, vlEndsAt = 3600 * Second, vlCreatedAt = 0, vlUpdatedAt = 0\<rparr>"

definition demo6_reservation :: v6_reservation where
  "demo6_reservation = \<lparr>vrID = ''r1'', vrScopeID = ''s6'', vrGroupID = '''', vrDUID = ''cc'', vrIPAddr = demo6_ip 18,
     vrHostname = '''', vrDescription = '''', vrOptions = None, vrCreatedAt = 0, vrUpdatedAt = 0\<rparr>"

definition demo6_db :: db where
  "demo6_db = demo_db\<lparr>dbV6Leases := [demo6_lease], dbV6Reservations := [demo6_reservation]\<rparr>"

lemma demo6_db_wf: "wf_db demo6_db"
proof -
  have "canon (demo6_ip 17)" "canon (demo6_ip 18)" by code_simp+
  with demo_db_wf show ?thesis
    by (simp add: wf_db_def demo6_db_def demo6_lease_def demo6_reservation_def uniq_def)
qed

definition demo6_args :: alloc6 where
  "demo6_args = \<lparr>a6Scope = demo6_scope, a6DUID = ''bb'', a6IAID = ''1'', a6Hostname = ''host'', a6Now = Second,
     a6EndsAt = 3601 * Second, a6UUID = ''u1''\<rparr>"

lemma demo6_alloc:
  "AllocateV6Lease no_faults Second ''u1'' demo6_scope ''bb'' ''1'' ''host'' (demo6_ip 19) 0 7200 demo6_db
   = (Ret (new_v6_lease demo6_args (demo6_ip 19)), demo6_db\<lparr>dbV6Leases := [demo6_lease, new_v6_lease demo6_args (demo6_ip 19)]\<rparr>)"
  by code_simp

section \<open>Properties\<close>

text \<open>
  C5. No DHCPv6 lease is stolen: when \<open>AllocateV6Lease\<close> grants an address, every lease of another DUID
  in the scope that still occupies its address is in the table unchanged, and the granted
  address is not one of theirs.
\<close>

theorem alloc6_no_steal:
  assumes "wf_db db"
    and "AllocateV6Lease flt now uuid sc duid iaid hostname preferred leaseTime maxLeaseTime db = (Ret l, db')"
    and "x \<in> set (dbV6Leases db)" and "vlScopeID x = scID sc" and "vlDUID x \<noteq> duid" and "v6_lease_blocks now x"
  shows "x \<in> set (dbV6Leases db') \<and> vlIPAddr x \<noteq> normalizeIP (vlIPAddr l)"
proof -
  from assms(2,1) obtain a where a: "a6Scope a = sc" "a6DUID a = duid" "a6Now a = now" and g: "granted6 a l db db'"
    by (rule AllocateV6Lease_Ret)
  then have s: "step6 now (scID sc) duid db db'" by (simp add: granted6_def)
  with assms(3-6) have x: "x \<in> set (dbV6Leases db')" by (simp add: step6_def own6_def)
  from g a obtain row where row: "row \<in> set (dbV6Leases db')" "recorded6 l row" and l: "vlScopeID l = scID sc" "vlDUID l = duid"
    by (auto simp: granted6_def)
  have "x = row" if "vlIPAddr x = normalizeIP (vlIPAddr l)"
    using v6_lease_unique [OF step6_wf [OF s] x row(1)] row(2) l assms(4) that by (simp add: recorded6_def)
  with row(2) l assms(5) x show ?thesis by (auto simp: recorded6_def)
qed

theorem alloc6_no_steal_witness:
  "demo6_lease \<in> set (dbV6Leases (demo6_db\<lparr>dbV6Leases := [demo6_lease, new_v6_lease demo6_args (demo6_ip 19)]\<rparr>))
   \<and> vlIPAddr demo6_lease \<noteq> normalizeIP (vlIPAddr (new_v6_lease demo6_args (demo6_ip 19)))"
  by (rule alloc6_no_steal [OF demo6_db_wf demo6_alloc])
    (simp_all add: demo6_db_def demo6_lease_def demo6_scope_def leaseBlocksReuse_def)



end
