(* ===== verification/Dhcp6_Reply.thy ===== *)
theory Dhcp6_Reply
  imports Dhcp6_Server Dhcp4_Reply Alloc6_Safety
begin

text \<open>
  What the DHCPv6 server sends: every packet gets at most one answer, which carries the
  transaction and the server's DUID; a relayed one is wrapped in exactly the layers its request
  came through. What it reads: the requested address and the addresses of a Confirm, and which
  IA options make the reading loop spin or panic.
\<close>

section \<open>Every answer is genuine\<close>

named_theorems genuine_intro \<open>builders that keep \<open>genuine6\<close>\<close>
named_theorems answers6_intro \<open>introduction rules for \<open>answers6\<close>\<close>

definition genuine6 :: "server6 \<Rightarrow> packet6 \<Rightarrow> packet6 \<Rightarrow> bool" where
  "genuine6 sv req reply \<longleftrightarrow> p6TransID reply = p6TransID req
     \<and> (p6MessageType reply = MsgTypeAdvertise \<or> p6MessageType reply = MsgTypeReply)
     \<and> (\<exists>opts. p6Options reply = \<lparr>o6Code = OptServerID, o6Data = sv6DUID sv\<rparr> # opts)"

definition answers6 :: "server6 \<Rightarrow> packet6 \<Rightarrow> udp_addr \<Rightarrow> relayContext option \<Rightarrow> out6 \<Rightarrow> bool" where
  "answers6 sv req addr relay o' \<longleftrightarrow>
     h6Sent o' = [] \<or> (\<exists>reply. h6Sent o' = [sendReply6 sv reply addr relay] \<and> genuine6 sv req reply)"

lemma genuine6_reply_to [genuine_intro]:
  "t = MsgTypeAdvertise \<or> t = MsgTypeReply \<Longrightarrow> genuine6 sv req (reply_to sv req t clientID)"
  by (auto simp: genuine6_def reply_to_def add_option6_def Add6_def ReplyFromRequest6_def NewPacket6_def)

lemma genuine6_add [genuine_intro]: "genuine6 sv req reply \<Longrightarrow> genuine6 sv req (add_option6 code data reply)"
  by (auto simp: genuine6_def add_option6_def Add6_def)

lemma genuine6_if [genuine_intro]:
  "genuine6 sv req a \<Longrightarrow> genuine6 sv req b \<Longrightarrow> genuine6 sv req (if c then a else b)"
  by simp

lemma genuine6_applyIA [genuine_intro]: "genuine6 sv req reply \<Longrightarrow> genuine6 sv req (applyIA reply iaid p sc)"
  by (simp add: applyIA_def genuine6_add Let_def)

lemma genuine6_applyPD [genuine_intro]: "genuine6 sv req reply \<Longrightarrow> genuine6 sv req (applyPD reply iaid p lt)"
  by (simp add: applyPD_def genuine6_add Let_def)

lemma genuine6_refusals [genuine_intro]:
  "genuine6 sv req reply \<Longrightarrow> genuine6 sv req (no_address iaid reply)"
  "genuine6 sv req reply \<Longrightarrow> genuine6 sv req (no_prefix iaid reply)"
  by (simp_all add: no_address_def no_prefix_def genuine6_add)

lemma genuine6_option_layer [genuine_intro]:
  "genuine6 sv req reply \<Longrightarrow> genuine6 sv req (option_layer6 env m ks reply)"
  by (induction ks arbitrary: reply) (auto simp: genuine6_add Let_def split: option.splits run.splits)

lemma genuine6_applyOptions [genuine_intro]:
  "genuine6 sv req reply \<Longrightarrow> genuine6 sv req (applyOptions6 env reply sc res groupOpts)"
  by (auto simp: applyOptions6_def Let_def genuine6_add genuine6_option_layer split: option.splits)

lemma genuine6_answers [genuine_intro]:
  "genuine6 sv req reply \<Longrightarrow> genuine6 sv req (answer_na scope iaid lease reply)"
  "genuine6 sv req reply \<Longrightarrow> genuine6 sv req (answer_pd scope iaid prefix reply)"
  "genuine6 sv req reply \<Longrightarrow> genuine6 sv req (combined_options env scope pdScope reply)"
  by (auto simp: answer_na_def answer_pd_def combined_options_def intro!: genuine_intro split: option.splits)

lemma answers6_none [answers6_intro]: "answers6 sv req addr relay \<lparr>h6Sent = [], h6Db = db, h6End = e\<rparr>"
  by (simp add: answers6_def)

lemma answers6_send [answers6_intro]:
  "genuine6 sv req reply \<Longrightarrow> answers6 sv req addr relay (done6 [sendReply6 sv reply addr relay] db)"
  by (auto simp: answers6_def)

lemma answers6_status [answers6_intro]:
  "answers6 sv req addr relay (done6 [sendReplyWithStatus sv req addr relay code msg] db)"
proof -
  have "genuine6 sv req (add_option6 OptStatusCode (BuildStatusCode code msg)
      (add_option6 OptServerID (sv6DUID sv) (ReplyFromRequest6 req MsgTypeReply)))"
    by (auto simp: genuine6_def add_option6_def Add6_def ReplyFromRequest6_def NewPacket6_def)
  then show ?thesis unfolding sendReplyWithStatus_def Let_def by (rule answers6_send)
qed

lemma answers6_on_result [answers6_intro]:
  "(\<And>x. r = Ret x \<Longrightarrow> answers6 sv req addr relay (ok x)) \<Longrightarrow> (\<And>e. answers6 sv req addr relay (bad e))
    \<Longrightarrow> answers6 sv req addr relay (on_result6 r db ok bad)"
  by (auto simp: on_result6_def answers6_none split: run.splits)

lemma answers6_after_delay [answers6_intro]:
  "(\<And>db. answers6 sv req addr relay (k db)) \<Longrightarrow> answers6 sv req addr relay (after_delay env cfg offered k db)"
  by (simp add: after_delay_def answers6_none Let_def)

lemma answers6_call_for [answers6_intro]:
  "(\<And>y db. answers6 sv req addr relay (k y db)) \<Longrightarrow> answers6 sv req addr relay (call_for x f db k)"
  by (auto simp: call_for_def intro: answers6_on_result split: option.splits prod.splits)

lemma answers6_kept_if [answers6_intro]:
  "(\<And>y db. answers6 sv req addr relay (k y db)) \<Longrightarrow> answers6 sv req addr relay (kept_if x f db k)"
  unfolding kept_if_def by (rule answers6_call_for)

lemma answers6_split [answers6_intro]:
  "(\<And>a b. answers6 sv req addr relay (f a b)) \<Longrightarrow> answers6 sv req addr relay (case p of (a, b) \<Rightarrow> f a b)"
  "(\<And>x. answers6 sv req addr relay (g x)) \<Longrightarrow> answers6 sv req addr relay n \<Longrightarrow>
     answers6 sv req addr relay (case oo of None \<Rightarrow> n | Some x \<Rightarrow> g x)"
  "answers6 sv req addr relay s \<Longrightarrow> answers6 sv req addr relay t \<Longrightarrow> answers6 sv req addr relay (if c then s else t)"
  by (simp_all split: prod.splits option.splits)

lemma solicit_offer_answers [answers6_intro]:
  "answers6 sv req addr relay (solicit_offer env cfg sv req addr relay sc clientID iaid db)"
  unfolding solicit_offer_def Let_def by (intro answers6_intro genuine_intro) auto

lemma handleSolicitPD_answers [answers6_intro]:
  "answers6 sv req addr relay (handleSolicitPD env cfg sv req addr relay db)"
  unfolding handleSolicitPD_def Let_def by (intro answers6_intro genuine_intro) auto

lemma handleSolicitCombined_answers [answers6_intro]:
  "answers6 sv req addr relay (handleSolicitCombined env cfg sv req addr relay db)"
  unfolding handleSolicitCombined_def Let_def by (intro answers6_intro genuine_intro) auto

lemma handleRequestPD_answers [answers6_intro]:
  "answers6 sv req addr relay (handleRequestPD env cfg sv req addr relay db)"
  unfolding handleRequestPD_def Let_def by (intro answers6_intro genuine_intro) auto

lemma handleRequestCombined_answers [answers6_intro]:
  "answers6 sv req addr relay (handleRequestCombined env cfg sv req addr relay db)"
  unfolding handleRequestCombined_def Let_def
  by (intro answers6_intro genuine_intro) auto

lemma request_lease_answers [answers6_intro]:
  "answers6 sv req addr relay (request_lease env cfg sv req addr relay sc clientID iaid requestedIP db)"
  unfolding request_lease_def Let_def by (intro answers6_intro genuine_intro) auto

lemma other_handlers_answer [answers6_intro]:
  "answers6 sv req addr relay (handleSolicit env cfg sv req addr relay db)"
  "answers6 sv req addr relay (handleRequest6 env cfg sv req addr relay db)"
  "answers6 sv req addr relay (handleRelease6 env cfg sv req addr relay db)"
  "answers6 sv req addr relay (handleConfirm sv req addr relay db)"
  "answers6 sv req addr relay (handleDecline6 env cfg sv req addr relay db)"
  "answers6 sv req addr relay (handleInformationRequest env sv req addr relay db)"
  unfolding handleSolicit_def handleRequest6_def handleRelease6_def handleConfirm_def handleDecline6_def
    handleInformationRequest_def Let_def
  by (intro answers6_intro genuine_intro; simp)+

lemma dispatch6_answers: "answers6 sv req addr relay (dispatch6 env cfg sv req addr relay db)"
  unfolding dispatch6_def Let_def by (intro answers6_intro)

section \<open>Relay chains\<close>

text \<open>The reading half of \<open>handleRelayForward\<close>: the client message of a relayed datagram, and its chain.\<close>

definition unwrap_datagram :: "udp_addr \<Rightarrow> bytes \<Rightarrow> (packet6 \<times> relayContext) run" where
  "unwrap_datagram addr data = bind_run (ParseRelayPacket data) (\<lambda>rp. unwrap_relay (outer_relay addr rp) rp)"

definition good_hop :: "relayHop \<Rightarrow> bool" where
  "good_hop h \<longleftrightarrow> length (rhLinkAddr h) = 16 \<and> length (rhPeerAddr h) = 16 \<and> short_options (rhOptions h)
     \<and> (\<forall>opt \<in> set (rhOptions h). o6Code opt \<noteq> OptRelayMsg)"

lemma good_hop_of: "ParseRelayPacket data = Ret rp \<Longrightarrow> good_hop (hop_of rp)"
  using ParseRelayPacket_RetD [of data rp]
  by (auto simp: good_hop_def hop_of_def CopyRelayOptions_def short_options_def)

text \<open>The hops the unwrapping collects are good, and the address of the outermost relay stays.\<close>

lemma unwrap_relay_hops:
  assumes "unwrap_relay rc rp = Ret (p, rc')"
  shows "\<exists>hs. rcHops rc' = rcHops rc @ hs \<and> (\<forall>h \<in> set hs. good_hop h) \<and> rcRelayAddr rc' = rcRelayAddr rc"
  using assms
proof (induction rc rp rule: unwrap_relay.induct)
  case (1 rc rp)
  show ?case
  proof (cases "\<exists>rp'. GetRelayMsg (rpOptions rp) = Ret (Inr rp')")
    case True
    then obtain rp' where g: "GetRelayMsg (rpOptions rp) = Ret (Inr rp')" by blast
    with 1(2) have "unwrap_relay (enter_relay rc rp') rp' = Ret (p, rc')" by (subst (asm) unwrap_relay.simps) simp
    from 1(1) [OF g refl this] obtain hs where
      hs: "rcHops rc' = rcHops (enter_relay rc rp') @ hs" "\<forall>h \<in> set hs. good_hop h" "rcRelayAddr rc' = rcRelayAddr (enter_relay rc rp')"
      by blast
    obtain opt where "opt \<in> set (rpOptions rp)" "ParseRelayPacket (o6Data opt) = Ret rp'" using g by (rule GetRelayMsg_Inr)
    then have "good_hop (hop_of rp')" using good_hop_of by blast
    with hs show ?thesis by (intro exI [of _ "hop_of rp' # hs"]) (simp add: enter_relay_def)
  next
    case False
    with 1(2) have "rc' = rc" by (subst (asm) unwrap_relay.simps) (auto split: run.splits sum.splits)
    then show ?thesis by simp
  qed
qed

lemma unwrap_datagram_hops:
  assumes "unwrap_datagram addr data = Ret (p, rc)"
  shows "\<exists>h hs. rcHops rc = h # hs \<and> (\<forall>h \<in> set (h # hs). good_hop h) \<and> rcRelayAddr rc = addr"
proof -
  from assms obtain rp where rp: "ParseRelayPacket data = Ret rp" and u: "unwrap_relay (outer_relay addr rp) rp = Ret (p, rc)"
    by (auto simp: unwrap_datagram_def bind_run_Ret_iff)
  from unwrap_relay_hops [OF u] good_hop_of [OF rp] show ?thesis by (auto simp: outer_relay_def)
qed

text \<open>Reading one layer of a relay-reply.\<close>

definition wrapped :: "relayHop \<Rightarrow> bytes \<Rightarrow> relay_packet" where
  "wrapped h inner = \<lparr>rpMessageType = MsgTypeRelayRepl, rpHopCount = rhHopCount h, rpLinkAddr = rhLinkAddr h,
     rpPeerAddr = rhPeerAddr h, rpOptions = Add6 (rhOptions h) OptRelayMsg inner\<rparr>"

lemma wrap_hop_wrapped: "wrap_hop h inner = MarshalRelay (wrapped h inner)"
  by (simp add: wrap_hop_def wrapped_def)

lemma wrap_hop_bytes:
  "good_hop h \<Longrightarrow> wrap_hop h inner ! 0 = MsgTypeRelayRepl \<and> 38 + length inner \<le> length (wrap_hop h inner)"
  by (simp add: wrap_hop_wrapped MarshalRelay_eq wrapped_def good_hop_def Add6_def)

lemma wrap_hop_parse:
  "good_hop h \<Longrightarrow> length inner \<le> 65531 \<Longrightarrow> ParseRelayPacket (wrap_hop h inner) = Ret (wrapped h inner)"
  unfolding wrap_hop_wrapped by (rule ParseRelayPacket_Marshal) (auto simp: wrapped_def good_hop_def Add6_def)

lemma hop_of_wrapped: "good_hop h \<Longrightarrow> hop_of (wrapped h inner) = h"
  by (cases h) (auto simp: hop_of_def wrapped_def CopyRelayOptions_def Add6_def good_hop_def)

lemma Get6_wrapped: "good_hop h \<Longrightarrow> Get6 (rpOptions (wrapped h inner)) OptRelayMsg = Some \<lparr>o6Code = OptRelayMsg, o6Data = inner\<rparr>"
proof -
  have "List.find (\<lambda>opt. o6Code opt = c) (os @ [\<lparr>o6Code = c, o6Data = inner\<rparr>]) = Some \<lparr>o6Code = c, o6Data = inner\<rparr>"
    if "\<forall>opt \<in> set os. o6Code opt \<noteq> c" for os c using that by (induction os) auto
  then show "good_hop h \<Longrightarrow> ?thesis" by (simp add: Get6_def wrapped_def Add6_def good_hop_def)
qed

lemma short_options_marshal: "length (marshal_options6 opts) \<le> 65535 \<Longrightarrow> short_options opts"
  by (induction opts) auto

lemma ParsePacket6_Marshal:
  assumes "length (Marshal6 p) \<le> 65531" and "client_type (p6MessageType p)"
  shows "ParsePacket6 (Marshal6 p) = Ret p"
proof -
  have "length (marshal_options6 (p6Options p)) \<le> 65535" using assms(1) by (simp add: Marshal6_def split: prod.splits)
  then have "short_options (p6Options p)" by (rule short_options_marshal)
  with assms(2) show ?thesis by (auto simp: ParsePacket6_Ret_iff intro: exI [of _ "[]"])
qed

lemma unwrap_wrapped:
  assumes "\<forall>h \<in> set (h # hs). good_hop h" and "length (foldr wrap_hop (h # hs) (Marshal6 reply)) \<le> 65531"
    and "client_type (p6MessageType reply)"
  shows "\<exists>rp. ParseRelayPacket (foldr wrap_hop (h # hs) (Marshal6 reply)) = Ret rp \<and> hop_of rp = h
     \<and> (\<forall>rc. \<exists>rc'. unwrap_relay rc rp = Ret (reply, rc') \<and> rcHops rc' = rcHops rc @ hs)"
  using assms
proof (induction hs arbitrary: h)
  case Nil
  let ?m = "Marshal6 reply"
  have g: "good_hop h" and len: "length ?m \<le> 65531" using Nil wrap_hop_bytes [of h ?m] by auto
  have m: "length ?m \<ge> 1" "?m ! 0 = p6MessageType reply" by (auto simp: Marshal6_def split: prod.splits)
  have "GetRelayMsg (rpOptions (wrapped h ?m)) = Ret (Inl reply)"
    using m Nil(3) ParsePacket6_Marshal [OF len Nil(3)] by (auto simp: GetRelayMsg_def Get6_wrapped [OF g] client_type_def)
  then have "unwrap_relay rc (wrapped h ?m) = Ret (reply, rc)" for rc by (subst unwrap_relay.simps) simp
  with wrap_hop_parse [OF g len] hop_of_wrapped [OF g] show ?case by simp
next
  case (Cons h' hs)
  let ?m = "foldr wrap_hop (h' # hs) (Marshal6 reply)"
  have g: "good_hop h" "good_hop h'" and len: "length ?m \<le> 65531" using Cons(2,3) wrap_hop_bytes [of h ?m] by auto
  from Cons.IH [of h'] Cons(2,4) len obtain rp where p: "ParseRelayPacket ?m = Ret rp" "hop_of rp = h'"
    and u: "\<forall>rc. \<exists>rc'. unwrap_relay rc rp = Ret (reply, rc') \<and> rcHops rc' = rcHops rc @ hs" by auto
  have m: "?m ! 0 = MsgTypeRelayRepl" "1 \<le> length ?m" 
    using wrap_hop_bytes [OF g(2), of "foldr wrap_hop hs (Marshal6 reply)"] by simp_all
  have "GetRelayMsg (rpOptions (wrapped h ?m)) = Ret (Inr rp)"
    using m p(1) by (auto simp: GetRelayMsg_def Get6_wrapped [OF g(1)] Let_def)
  then have "unwrap_relay rc (wrapped h ?m) = unwrap_relay (enter_relay rc rp) rp" for rc by (subst unwrap_relay.simps) simp
  then have "\<exists>rc'. unwrap_relay rc (wrapped h ?m) = Ret (reply, rc') \<and> rcHops rc' = rcHops rc @ h' # hs" for rc
    using u [rule_format, of "enter_relay rc rp"] p(2) by (auto simp: enter_relay_def)
  with wrap_hop_parse [OF g(1) len] hop_of_wrapped [OF g(1)] show ?case by simp
qed

lemma unwrap_reply:
  assumes "rcHops rc = h # hs" "\<forall>h \<in> set (h # hs). good_hop h" and "client_type (p6MessageType reply)"
    and "length (s6Data (sendReply6 sv reply addr (Some rc))) \<le> 65531"
  shows "\<exists>rc'. unwrap_datagram addr' (s6Data (sendReply6 sv reply addr (Some rc))) = Ret (reply, rc') \<and> rcHops rc' = rcHops rc"
proof -
  have d: "s6Data (sendReply6 sv reply addr (Some rc)) = foldr wrap_hop (h # hs) (Marshal6 reply)"
    using assms(1) by (simp add: sendReply6_def relay_hops_def Let_def)
  from unwrap_wrapped [OF assms(2) assms(4) [unfolded d] assms(3)] obtain rp where
    p: "ParseRelayPacket (foldr wrap_hop (h # hs) (Marshal6 reply)) = Ret rp" "hop_of rp = h"
    and u: "\<forall>rc. \<exists>rc'. unwrap_relay rc rp = Ret (reply, rc') \<and> rcHops rc' = rcHops rc @ hs" by blast
  from u [rule_format, of "outer_relay addr' rp"] p assms(1) show ?thesis
    unfolding d unwrap_datagram_def by (auto simp: outer_relay_def)
qed

lemma handlePacket6_relay:
  "handlePacket6 env cfg sv data addr db =
     (if data \<noteq> [] \<and> data ! 0 = MsgTypeRelayForw then
        on_result6 (unwrap_datagram addr data) db (\<lambda>(req, rc). dispatch6 env cfg sv req addr (Some rc) db) (\<lambda>_. done6 [] db)
      else if data = [] then done6 [] db
      else on_result6 (ParsePacket6 data) db (\<lambda>req. dispatch6 env cfg sv req addr None db) (\<lambda>_. done6 [] db))"
  by (auto simp: handlePacket6_def handleRelayForward_def unwrap_datagram_def Suc_le_eq)

lemma on_result6_sent:
  assumes "s \<in> set (h6Sent (on_result6 r db ok bad))" and "\<And>e. h6Sent (bad e) = []"
  obtains x where "r = Ret x" "on_result6 r db ok bad = ok x" "s \<in> set (h6Sent (ok x))"
  using assms by (cases r) (auto simp: on_result6_def)

section \<open>Reading the requested address\<close>

definition is_address :: "option6 \<Rightarrow> bool" where
  "is_address opt \<longleftrightarrow> o6Code opt = OptIAAddr \<and> 16 \<le> length (o6Data opt)"

lemma requested_loop_Cons:
  assumes "length (o6Data opt) \<le> 65531" and "length (option_bytes6 opt @ rest) \<le> cap"
  shows "requested_loop cap (option_bytes6 opt @ rest) =
    (if is_address opt then Ret (take 16 (o6Data opt)) else requested_loop (cap - (4 + length (o6Data opt))) rest)"
proof -
  note h = option_header6 [OF assms(1), of rest]
  have n: "unat (4 + Uint16 (slice 2 4 (option_bytes6 opt @ rest))) = 4 + length (o6Data opt)"
    using assms(1) by (simp add: unat_add4 h(2))
  have l: "16 \<le> Uint16 (slice 2 4 (option_bytes6 opt @ rest)) \<longleftrightarrow> 16 \<le> length (o6Data opt)"
    unfolding word_le_nat_alt h(2) by simp
  have a: "slice 4 20 ((option_bytes6 opt @ rest) @ replicate 16 0) = take 16 (o6Data opt)" if "16 \<le> length (o6Data opt)"
    using that by (simp add: slice_def option_bytes6_def)
  show ?thesis
    using assms(2) a [simplified]
    by (subst requested_loop.simps) (simp add: n l h(1) h(4) [simplified] is_address_def Let_def)
qed

lemma requested_loop_options:
  assumes "short_options opts" and "length (marshal_options6 opts @ tail) \<le> cap"
  shows "requested_loop cap (marshal_options6 opts @ tail) =
    (case List.find is_address opts of Some opt \<Rightarrow> Ret (take 16 (o6Data opt))
     | None \<Rightarrow> requested_loop (cap - length (marshal_options6 opts)) tail)"
  using assms
proof (induction opts arbitrary: cap)
  case (Cons opt opts)
  then have "requested_loop cap (marshal_options6 (opt # opts) @ tail) =
    (if is_address opt then Ret (take 16 (o6Data opt))
     else requested_loop (cap - (4 + length (o6Data opt))) (marshal_options6 opts @ tail))"
    using requested_loop_Cons [of opt "marshal_options6 opts @ tail" cap] by simp
  with Cons show ?case by (auto split: option.splits)
qed simp

lemma extractRequestedIP_eq:
  assumes "iana_option req = Some iana" and "o6Data iana = hdr @ marshal_options6 opts @ tail" and "length hdr = 12"
    and "Uint32 (slice 0 4 hdr) = iaid" and "short_options opts" and "length (o6Data iana) \<le> e6Cap env (length (o6Data iana))"
  shows "extractRequestedIP env req iaid =
    (case List.find is_address opts of Some opt \<Rightarrow> Ret (take 16 (o6Data opt))
     | None \<Rightarrow> requested_loop (e6Cap env (length (o6Data iana)) - 12 - length (marshal_options6 opts)) tail)"
proof -
  have "slice 0 4 (o6Data iana) = slice 0 4 hdr" using assms(2,3) by (simp add: slice_append1)
  then have "extractRequestedIP env req iaid
      = requested_loop (e6Cap env (length (o6Data iana)) - 12) (marshal_options6 opts @ tail)"
    using assms(1-4) by (simp add: extractRequestedIP_def)
  with requested_loop_options [OF assms(5)] assms(2,3,6) show ?thesis by (auto split: option.splits)
qed

section \<open>Properties\<close>

text \<open>
  C10. Answers go back the way the request came: a datagram gets at most one answer. The answer to a
  relayed message goes to the sending relay at port 547, and unwrapping it gives the very chain
  of relay layers (hop counts, link and peer addresses, options) the request arrived in; the
  answer to a direct message goes to its sender at port 546. Inside is a message with the
  request's transaction id whose first option is this server's DUID.
\<close>

theorem replies6_return:
  assumes "s \<in> set (h6Sent (handlePacket6 env cfg sv data addr db))" and "length (s6Data s) \<le> 65507"
  shows "h6Sent (handlePacket6 env cfg sv data addr db) = [s] \<and>
    (\<exists>req reply opts. p6TransID reply = p6TransID req \<and> p6Options reply = \<lparr>o6Code = OptServerID, o6Data = sv6DUID sv\<rparr> # opts \<and>
       (if data ! 0 = MsgTypeRelayForw then s6Dest s = addr\<lparr>uaPort := 547\<rparr> \<and>
          (\<exists>rc rc'. unwrap_datagram addr data = Ret (req, rc) \<and> unwrap_datagram addr (s6Data s) = Ret (reply, rc') \<and> rcHops rc' = rcHops rc)
        else s6Dest s = addr\<lparr>uaPort := 546\<rparr> \<and> ParsePacket6 data = Ret req \<and> ParsePacket6 (s6Data s) = Ret reply))"
proof (cases "data \<noteq> [] \<and> data ! 0 = MsgTypeRelayForw")
  case True
  let ?out = "on_result6 (unwrap_datagram addr data) db (\<lambda>(req, rc). dispatch6 env cfg sv req addr (Some rc) db) (\<lambda>_. done6 [] db)"
  have h: "handlePacket6 env cfg sv data addr db = ?out" using True by (simp add: handlePacket6_relay)
  from assms(1) obtain req rc where u: "unwrap_datagram addr data = Ret (req, rc)"
    and o': "?out = dispatch6 env cfg sv req addr (Some rc) db" "s \<in> set (h6Sent (dispatch6 env cfg sv req addr (Some rc) db))"
    unfolding h by (rule on_result6_sent) auto
  with dispatch6_answers [of sv req addr "Some rc" env cfg db] obtain reply where
    s: "h6Sent ?out = [s]" "s = sendReply6 sv reply addr (Some rc)" and g: "genuine6 sv req reply"
    by (auto simp: answers6_def)
  obtain h hs where hops: "rcHops rc = h # hs" "\<forall>h \<in> set (h # hs). good_hop h" "rcRelayAddr rc = addr"
    using unwrap_datagram_hops [OF u] by blast
  have "client_type (p6MessageType reply)" using g by (auto simp: genuine6_def client_type_def)
  from unwrap_reply [OF hops(1,2) this, of sv addr addr] assms(2) s(2)
  obtain rc' where "unwrap_datagram addr (s6Data s) = Ret (reply, rc')" "rcHops rc' = rcHops rc" by auto
  moreover have "s6Dest s = addr\<lparr>uaPort := 547\<rparr>" using s(2) hops(3) by (simp add: sendReply6_def Let_def)
  ultimately show ?thesis using True u s(1) g unfolding h genuine6_def by auto
next
  case False
  with assms(1) have ne: "data \<noteq> []" by (auto simp: handlePacket6_relay)
  let ?out = "on_result6 (ParsePacket6 data) db (\<lambda>req. dispatch6 env cfg sv req addr None db) (\<lambda>_. done6 [] db)"
  have h: "handlePacket6 env cfg sv data addr db = ?out" using False ne by (simp add: handlePacket6_relay)
  from assms(1) obtain req where u: "ParsePacket6 data = Ret req"
    and o': "?out = dispatch6 env cfg sv req addr None db" "s \<in> set (h6Sent (dispatch6 env cfg sv req addr None db))"
    unfolding h by (rule on_result6_sent) auto
  with dispatch6_answers [of sv req addr None env cfg db] obtain reply where
    s: "h6Sent ?out = [s]" "s = sendReply6 sv reply addr None" and g: "genuine6 sv req reply"
    by (auto simp: answers6_def)
  have "client_type (p6MessageType reply)" using g by (auto simp: genuine6_def client_type_def)
  with ParsePacket6_Marshal [of reply] assms(2) s(2) have "ParsePacket6 (s6Data s) = Ret reply"
    by (simp add: sendReply6_def Let_def)
  moreover have "s6Dest s = addr\<lparr>uaPort := 546\<rparr>" using s(2) by (simp add: sendReply6_def Let_def)
  ultimately show ?thesis using False ne u s(1) g unfolding h genuine6_def by auto
qed

definition demo6_env :: env6 where
  "demo6_env = \<lparr>e6Faults = no_faults, e6Now = (\<lambda>_. Second), e6GoNow = Second, e6LeaseUUID = ''u1'', e6PrefixUUID = ''u2'',
     e6LogUUID = id, e6Float = demo_float, e6FloatUint32 = (\<lambda>_. 0), e6Range = (\<lambda>_. []), e6Cap = id, e6Meanwhile = id,
     e6Timeout = False, e6HardwareAddrs = None\<rparr>"

definition demo6_sv :: server6 where
  "demo6_sv = \<lparr>sv6Scopes = [demo6_scope], sv6DUID = [0, 3, 0, 1, 2, 2, 2, 2, 2, 2], sv6CfgIfIndex = 0\<rparr>"

definition demo6_addr :: udp_addr where
  "demo6_addr = \<lparr>uaIP = demo6_ip 1, uaPort = 0, uaZone = ''''\<rparr>"

text \<open>A Request of the client with DUID \<open>bb\<close> and IAID 1 for 2001:db8::13, wrapped by one relay at 2001:db8::1.\<close>

definition demo6_request :: packet6 where
  "demo6_request = \<lparr>p6MessageType = MsgTypeRequest, p6TransID = (1, 2, 3), p6Options =
     [\<lparr>o6Code = OptClientID, o6Data = [187]\<rparr>,
      \<lparr>o6Code = OptIANA, o6Data = BuildIANA 1 0 0 [\<lparr>o6Code = OptIAAddr, o6Data = BuildIAAddress (demo6_ip 19) 0 0\<rparr>]\<rparr>]\<rparr>"

definition demo6_forward :: bytes where
  "demo6_forward = MarshalRelay \<lparr>rpMessageType = MsgTypeRelayForw, rpHopCount = 0, rpLinkAddr = demo6_ip 1, rpPeerAddr = demo6_ip 2,
     rpOptions = [\<lparr>o6Code = OptInterfaceID, o6Data = [7]\<rparr>, \<lparr>o6Code = OptRelayMsg, o6Data = Marshal6 demo6_request\<rparr>]\<rparr>"

definition demo6_chain :: relayContext where
  "demo6_chain = \<lparr>rcHopCount = 0, rcLinkAddr = demo6_ip 1, rcPeerAddr = demo6_ip 2, rcInterfaceID = Some [7], rcRelayAddr = demo6_addr,
     rcRelayOptions = [\<lparr>o6Code = OptInterfaceID, o6Data = [7]\<rparr>],
     rcHops = [\<lparr>rhHopCount = 0, rhLinkAddr = demo6_ip 1, rhPeerAddr = demo6_ip 2, rhOptions = [\<lparr>o6Code = OptInterfaceID, o6Data = [7]\<rparr>]\<rparr>]\<rparr>"

lemma demo6_unwrapped: "unwrap_datagram demo6_addr demo6_forward = Ret (demo6_request, demo6_chain)"
  by code_simp

lemma demo6_forward_head: "demo6_forward \<noteq> []" "demo6_forward ! 0 = MsgTypeRelayForw"
  by code_simp+

lemma demo6_granted:
  "case alloc_na demo6_env demo6_scope ''bb'' 1 (demo6_ip 19) demo6_db of (Ret l, _) \<Rightarrow> vlIPAddr l = demo6_ip 19 | _ \<Rightarrow> False"
  by code_simp

lemma demo6_request_read:
  "parseCommon demo6_sv demo6_request (Some demo6_chain) = Ret (demo6_scope, [187], 1)"
  "extractRequestedIP demo6_env demo6_request 1 = Ret (demo6_ip 19)" "ParseDUID [187] = ''bb''" "scEnabled demo6_scope"
  "GetV6ReservationByDUID (e6Faults demo6_env) (scID demo6_scope) ''bb'' demo6_db = Fail ErrNoRows"
  "p6MessageType demo6_request = MsgTypeRequest" "serverIDMatches demo6_sv demo6_request" "\<not> hasPD demo6_request"
  by code_simp+

text \<open>A granted request is answered with the address.\<close>

lemma request_lease_sent:
  assumes "alloc_na env sc (ParseDUID clientID) iaid requestedIP db = (Ret l, db1)" and "activate_na env l db1 = (Ret u, db2)"
    and "GetV6ReservationByDUID (e6Faults env) (scID sc) (ParseDUID clientID) db = Fail e"
  shows "request_lease env cfg sv req addr relay sc clientID iaid requestedIP db =
    done6 [sendReply6 sv (applyOptions6 env (applyIA (reply_to sv req MsgTypeReply clientID) iaid (vlIPAddr l) sc) sc None None) addr relay]
      (logIPAllocation6 env cfg sc (ParseDUID clientID) (iaid_string iaid) (vlIPAddr l) None ''ack'' relay '''' db2)"
  using assms by (simp add: request_lease_def Let_def ok_value_def on_result6_def groupOptionsForReservation6_def)

lemma demo6_answer:
  "length (s6Data (sendReply6 demo6_sv (applyOptions6 demo6_env (applyIA (reply_to demo6_sv demo6_request MsgTypeReply [187]) 1
     (demo6_ip 19) demo6_scope) demo6_scope None None) demo6_addr (Some demo6_chain))) < 200"
  by code_simp

lemma demo6_dispatched:
  "map (\<lambda>s. length (s6Data s) < 200) (h6Sent (dispatch6 demo6_env demo_cfg demo6_sv demo6_request demo6_addr (Some demo6_chain) demo6_db)) = [True]"
proof -
  obtain l db1 where a: "alloc_na demo6_env demo6_scope ''bb'' 1 (demo6_ip 19) demo6_db = (Ret l, db1)" and l: "vlIPAddr l = demo6_ip 19"
    using demo6_granted by (auto split: prod.splits run.splits)
  obtain db2 where u: "activate_na demo6_env l db1 = (Ret (), db2)"
    by (simp add: activate_na_def UpdateV6LeaseState_def settle_def exec_def demo6_env_def)
  have d: "dispatch6 demo6_env demo_cfg demo6_sv demo6_request demo6_addr (Some demo6_chain) demo6_db
      = request_lease demo6_env demo_cfg demo6_sv demo6_request demo6_addr (Some demo6_chain) demo6_scope [187] 1 (demo6_ip 19) demo6_db"
    using demo6_request_read by (simp add: dispatch6_def handleRequest6_def on_result6_def)
  show ?thesis
    unfolding d
    by (subst request_lease_sent [where l = l and ?db1.0 = db1 and ?db2.0 = db2 and u = "()" and e = ErrNoRows])
      (use a u l demo6_request_read demo6_answer in simp_all)
qed

lemma demo6_relayed:
  "map (\<lambda>s. length (s6Data s) < 200) (h6Sent (handlePacket6 demo6_env demo_cfg demo6_sv demo6_forward demo6_addr demo6_db)) = [True]"
  using demo6_dispatched by (simp add: handlePacket6_relay demo6_forward_head demo6_unwrapped on_result6_def)

theorem replies6_return_witness:
  "\<exists>s reply rc'. h6Sent (handlePacket6 demo6_env demo_cfg demo6_sv demo6_forward demo6_addr demo6_db) = [s]
     \<and> unwrap_datagram demo6_addr (s6Data s) = Ret (reply, rc') \<and> p6TransID reply = (1, 2, 3)
     \<and> map rhLinkAddr (rcHops rc') = [demo6_ip 1]"
proof -
  let ?sent = "h6Sent (handlePacket6 demo6_env demo_cfg demo6_sv demo6_forward demo6_addr demo6_db)"
  obtain s where s: "?sent = [s]" "length (s6Data s) < 200" using demo6_relayed by auto
  then have "s \<in> set ?sent" "length (s6Data s) \<le> 65507" by simp_all
  note r = replies6_return [OF this]
  from r demo6_forward_head(2) demo6_unwrapped obtain reply rc' where "p6TransID reply = p6TransID demo6_request"
    "unwrap_datagram demo6_addr (s6Data s) = Ret (reply, rc')" "rcHops rc' = rcHops demo6_chain" by auto
  with s(1) show ?thesis by (auto simp: demo6_request_def demo6_chain_def)
qed

text \<open>
  C38. The requested address: in an IA option made of its 12-byte head, well-formed nested options
  and a rest, the first IA Address of at least 16 bytes is the requested address, and there is
  none when no option is an address and fewer than four bytes are left. But a nested header
  with length 65532 whose code is not IA Address makes the loop spin forever, and an IA
  Address header with a length of 65532 or more at the end of a slice without spare capacity
  makes it panic.
\<close>

theorem requested_ip_outcomes:
  assumes "iana_option req = Some iana" and "o6Data iana = hdr @ marshal_options6 opts @ tail" and "length hdr = 12"
    and "Uint32 (slice 0 4 hdr) = iaid" and "short_options opts" and "length (o6Data iana) \<le> e6Cap env (length (o6Data iana))"
  shows "(\<forall>opt. List.find is_address opts = Some opt \<longrightarrow> extractRequestedIP env req iaid = Ret (take 16 (o6Data opt)))
    \<and> (List.find is_address opts = None \<longrightarrow>
        (length tail < 4 \<longrightarrow> extractRequestedIP env req iaid = Ret [])
      \<and> (4 \<le> length tail \<and> Uint16 (slice 0 2 tail) \<noteq> OptIAAddr \<and> unat (Uint16 (slice 2 4 tail)) = 65532 \<longrightarrow>
           extractRequestedIP env req iaid = Hang)
      \<and> (4 \<le> length tail \<and> Uint16 (slice 0 2 tail) = OptIAAddr \<and> 65532 \<le> unat (Uint16 (slice 2 4 tail))
          \<and> e6Cap env (length (o6Data iana)) < 12 + length (marshal_options6 opts) + 20 \<longrightarrow>
           extractRequestedIP env req iaid = Panic))"
proof -
  note e = extractRequestedIP_eq [OF assms]
  have n: "unat (4 + Uint16 (slice 2 4 tail)) < 4" if "65532 \<le> unat (Uint16 (slice 2 4 tail))"
    using that unsigned_less [of "Uint16 (slice 2 4 tail)", where 'a = nat] by (simp add: unat_add4)
  have short: "requested_loop cap tail = Ret []" if "length tail < 4" for cap
    using that by (simp add: requested_loop.simps)
  have spins: "requested_loop cap tail = Hang"
    if "4 \<le> length tail" "Uint16 (slice 0 2 tail) \<noteq> OptIAAddr" "unat (Uint16 (slice 2 4 tail)) = 65532" for cap
    using that by (subst requested_loop.simps) (simp add: Let_def unat_add4)
  have panics: "requested_loop cap tail = Panic"
    if "4 \<le> length tail" "Uint16 (slice 0 2 tail) = OptIAAddr" "65532 \<le> unat (Uint16 (slice 2 4 tail))" "cap < 20" for cap
    using that n [OF that(3)] by (subst requested_loop.simps) (auto simp: Let_def word_le_nat_alt)
  show ?thesis using e short spins panics by auto
qed

text \<open>An IA_NA with the nested header 0, 6, 255, 252.\<close>

definition spinning_request :: packet6 where
  "spinning_request = \<lparr>p6MessageType = MsgTypeRequest, p6TransID = (1, 2, 3), p6Options =
     [\<lparr>o6Code = OptClientID, o6Data = [187]\<rparr>, \<lparr>o6Code = OptIANA, o6Data = BuildIANA 1 0 0 [] @ [0, 6, 255, 252]\<rparr>]\<rparr>"

theorem requested_ip_outcomes_witness:
  "ParsePacket6 (Marshal6 spinning_request) = Ret spinning_request
   \<and> h6End (handlePacket6 demo6_env demo_cfg demo6_sv (Marshal6 spinning_request) demo6_addr demo6_db) = Stuck"
proof -
  let ?iana = "\<lparr>o6Code = OptIANA, o6Data = BuildIANA 1 0 0 [] @ [0, 6, 255, 252]\<rparr>"
  have p: "ParsePacket6 (Marshal6 spinning_request) = Ret spinning_request"
    by (rule ParsePacket6_Marshal) (simp_all add: spinning_request_def Marshal6_def BuildIANA_def client_type_def)
  have i: "iana_option spinning_request = Some ?iana" by (simp add: iana_option_def Get6_def spinning_request_def)
  have u: "unat (Uint16 (slice 2 4 [0, 6, 255, 252])) = 65532" "Uint16 (slice 0 2 [0, 6, 255, 252]) \<noteq> OptIAAddr"
    "Uint32 (slice 0 4 (BuildIANA 1 0 0 [])) = 1"
    by (simp_all add: slice_def Uint16_def Uint32_def BuildIANA_def PutUint32_def)
  have "extractRequestedIP demo6_env spinning_request 1 = Hang"
    using requested_ip_outcomes [OF i, where hdr = "BuildIANA 1 0 0 []" and opts = "[]" and tail = "[0, 6, 255, 252]" and iaid = 1 and env = demo6_env] u
    by (simp add: BuildIANA_def demo6_env_def)
  moreover have "parseCommon demo6_sv spinning_request None = Ret (demo6_scope, [187], 1)" by code_simp
  moreover have "scEnabled demo6_scope" by code_simp
  ultimately have "h6End (dispatch6 demo6_env demo_cfg demo6_sv spinning_request demo6_addr None demo6_db) = Stuck"
    by (simp add: dispatch6_def handleRequest6_def spinning_request_def serverIDMatches_def hasPD_def Get6_def on_result6_def)
  moreover have "Marshal6 spinning_request \<noteq> []" "Marshal6 spinning_request ! 0 \<noteq> MsgTypeRelayForw"
    by (simp_all add: Marshal6_def spinning_request_def)
  ultimately show ?thesis using p by (simp add: handlePacket6_relay on_result6_def)
qed

end
