(* ===== verification/Alloc6_Prefix.thy ===== *)
theory Alloc6_Prefix
  imports Alloc6_Safety
begin

text \<open>
  \<open>AllocateV6Prefix\<close>: a delegated prefix is never one that another client holds, the search returns
  the first free /64 of the pool and always ends.
\<close>

section \<open>The search\<close>

lemma ipnet_String_cidr_col [simp]: "ipnet_String (cidr_col n) = ipnet_String n"
proof -
  have "To4 (to4IfPossible p) = To4 p" "To4 p = [] \<Longrightarrow> to4IfPossible p = p" for p
    by (auto simp: to4IfPossible_def To4_def)
  then show ?thesis by (auto simp: ipnet_String_def cidr_col_def networkNumberAndMask_def)
qed

text \<open>The index of a free /64: no live prefix of the scope has its text.\<close>

definition free_prefix :: "time \<Rightarrow> scope \<Rightarrow> db \<Rightarrow> bigInt128 \<Rightarrow> nat \<Rightarrow> bool" where
  "free_prefix now sc db base i \<longleftrightarrow> \<not> list_ex (\<lambda>p. vpScopeID p = scID sc \<and> prefix_live now p
     \<and> (case vpPrefix p of None \<Rightarrow> False | Some n \<Rightarrow> ipnet_String n = ipnet_String (delegated base (of_nat i)))) (dbV6Prefixes db)"

lemma used_prefixes_iff:
  "ipnet_String (delegated base i) \<in> set (used_prefixes now sc db) \<longleftrightarrow> \<not> free_prefix now sc db base (unat i)"
proof -
  have n: "of_nat (unat i) = i" by simp
  have in_set: "x \<in> set (concat (map f xs)) \<longleftrightarrow> (\<exists>p \<in> set xs. x \<in> set (f p))" for x :: string and f and xs :: "v6_prefix list"
    by auto
  have one: "x \<in> set (case o' of None \<Rightarrow> [] | Some n \<Rightarrow> [ipnet_String n]) \<longleftrightarrow> (case o' of None \<Rightarrow> False | Some n \<Rightarrow> ipnet_String n = x)"
    for x o' by (cases o') auto
  show ?thesis unfolding used_prefixes_def free_prefix_def list_ex_iff in_set one n by auto
qed

lemma pool_count:
  assumes "\<not> 64 \<le> plen" and "\<not> 48 < 64 - plen"
  shows "unat (push_bit (64 - plen) 1 :: uint64) = 2 ^ (64 - plen)" and "(2::nat) ^ (64 - plen) < 2 ^ 64"
proof -
  have k: "64 - plen \<le> 48" "64 - plen < 64" using assms by auto
  show lt: "(2::nat) ^ (64 - plen) < 2 ^ 64" using k by (intro power_strict_increasing) auto
  have "unat (push_bit (64 - plen) 1 :: uint64) = take_bit 64 (2 ^ (64 - plen))"
    by (simp only: unsigned_push_bit_eq) simp
  with lt show "unat (push_bit (64 - plen) 1 :: uint64) = 2 ^ (64 - plen)" by (simp add: take_bit_eq_mod)
qed

text \<open>The result of \<open>allocatePrefixTx\<close> when the pool is good and the statements succeed.\<close>

lemma allocatePrefixTx_scan:
  assumes "scPrefix sc = Some pool" and "ipToUint128 (To16 (netIP pool)) = Ret base"
    and len: "Mask_Size (netMask pool) = plen" "16 \<le> plen" "plen < 64"
  shows "\<exists>r. scan (\<lambda>i :: uint64. i + 1) (\<lambda>i. i < push_bit (64 - plen) 1) (\<lambda>i. ipnet_String (delegated base i) \<in> set (used_prefixes now sc db)) 0 = Some r
    \<and> (case r of
         Some i \<Rightarrow> unat i < 2 ^ (64 - plen) \<and> free_prefix now sc db base (unat i) \<and> (\<forall>j < unat i. \<not> free_prefix now sc db base j)
       | None \<Rightarrow> (\<forall>j < 2 ^ (64 - plen). \<not> free_prefix now sc db base j))"
proof -
  have k: "\<not> 64 \<le> plen" "\<not> 48 < 64 - plen" using len by auto
  note c = pool_count [OF k]
  let ?skip = "\<lambda>i. ipnet_String (delegated base i) \<in> set (used_prefixes now sc db)"
  have skip: "?skip i \<longleftrightarrow> \<not> free_prefix now sc db base (unat i)" for i by (rule used_prefixes_iff)
  have nat: "unat (of_nat j :: uint64) = j" if "j < 2 ^ (64 - plen)" for j
    using that c(2) by (simp add: unat_of_nat)
  have w: "i < push_bit (64 - plen) 1 \<longleftrightarrow> unat i < 2 ^ (64 - plen)" for i :: uint64
    unfolding word_less_nat_alt c(1) ..
  let ?scan = "scan (\<lambda>i :: uint64. i + 1) (\<lambda>i. i < push_bit (64 - plen) 1) ?skip 0"
  have taken: "\<not> free_prefix now sc db base j" if "j < 2 ^ (64 - plen)" "?skip (of_nat j)" for j
    using that(2) skip [of "of_nat j"] nat [OF that(1)] by metis
  show ?thesis
  proof (cases ?scan)
    case None
    then show ?thesis using pd_pool.scan_ends [OF c(2) w] by blast
  next
    case (Some r)
    show ?thesis
    proof (cases r)
      case None
      have "?skip (of_nat j)" if "j < 2 ^ (64 - plen)" for j
        by (rule pd_pool.scan_None [OF c(2) w Some [unfolded None]]) (simp, unfold nat [OF that], rule that)
      with taken None Some show ?thesis by fastforce
    next
      case (Some y)
      note y = pd_pool.scan_Some [OF c(2) w \<open>?scan = Some r\<close> [unfolded Some]]
      have "?skip (of_nat j)" if "j < unat y" for j
      proof (rule y(4))
        have "unat (of_nat j :: uint64) = j" by (rule nat) (use that y(2) in linarith)
        then show "unat (of_nat j :: uint64) < unat y" using that by simp
      qed simp
      moreover have "j < 2 ^ (64 - plen)" if "j < unat y" for j using that y(2) by linarith
      ultimately have "\<not> free_prefix now sc db base j" if "j < unat y" for j using taken that by blast
      moreover have "free_prefix now sc db base (unat y)" using y(3) skip by blast
      ultimately show ?thesis using y(2) \<open>?scan = Some r\<close> Some by auto
    qed
  qed
qed

text \<open>
  C12. Prefix search: with a pool between /16 and /63 the search always ends, with the first /64 of the
  pool, counted from its base, that no live delegation of the scope has, or with an error
  exactly when all \<open>2 ^ (64 - n)\<close> of them are taken.
\<close>

theorem prefix_first_free:
  assumes "scPrefix sc = Some pool" and "ipToUint128 (To16 (netIP pool)) = Ret base"
    and "16 \<le> Mask_Size (netMask pool)" and "Mask_Size (netMask pool) < 64"
    and "flt ''allocatePrefixTx.prefixes'' = None" and "flt ''allocatePrefixTx.delete'' = None"
  shows "case allocatePrefixTx flt now sc db of
      Ret (n, db') \<Rightarrow> (\<exists>i < 2 ^ (64 - Mask_Size (netMask pool)). n = delegated base (of_nat i)
         \<and> val128 (prefixCandidate base 64 (of_nat i)) = (val128 base + i * 2 ^ 64) mod 2 ^ 128
         \<and> free_prefix now sc db base i \<and> (\<forall>j < i. \<not> free_prefix now sc db base j))
    | Fail _ \<Rightarrow> (\<forall>j < 2 ^ (64 - Mask_Size (netMask pool)). \<not> free_prefix now sc db base j)
    | _ \<Rightarrow> False"
proof -
  let ?plen = "Mask_Size (netMask pool)"
  let ?skip = "\<lambda>i. ipnet_String (delegated base i) \<in> set (used_prefixes now sc db)"
  have k: "\<not> 64 \<le> ?plen" "\<not> 48 < 64 - ?plen" using assms(3,4) by auto
  obtain r where r: "scan (\<lambda>i :: uint64. i + 1) (\<lambda>i. i < push_bit (64 - ?plen) 1) ?skip 0 = Some r"
    and p: "case r of
         Some i \<Rightarrow> unat i < 2 ^ (64 - ?plen) \<and> free_prefix now sc db base (unat i) \<and> (\<forall>j < unat i. \<not> free_prefix now sc db base j)
       | None \<Rightarrow> (\<forall>j < 2 ^ (64 - ?plen). \<not> free_prefix now sc db base j)"
    using allocatePrefixTx_scan [OF assms(1,2) refl assms(3,4)] by blast
  have a: "allocatePrefixTx flt now sc db = (case r of None \<Rightarrow> Fail ''no available prefix''
      | Some i \<Rightarrow> Ret (delegated base i, db\<lparr>dbV6Prefixes := sql_delete
          (\<lambda>p. vpScopeID p = scID sc \<and> vpPrefix p = Some (cidr_col (delegated base i))) (dbV6Prefixes db)\<rparr>))"
    unfolding allocatePrefixTx_def assms(1) option.case Let_def if_not_P [OF k(1)] if_not_P [OF k(2)]
    using assms(2,5,6) r by (cases r) simp_all
  show ?thesis
  proof (cases r)
    case (Some i)
    have "val128 (prefixCandidate base 64 i) = (val128 base + unat i * 2 ^ 64) mod 2 ^ 128"
      using val128_prefixCandidate [of 64 base i] by simp
    with p Some show ?thesis unfolding a by (auto intro!: exI [of _ "unat i"])
  qed (use p in \<open>simp add: a\<close>)
qed

lemma demo6_pool:
  "scPrefix demo6_scope = Some \<lparr>netIP = [32, 1, 13, 184, 1, 0, 0, 0, 0, 0, 0, 0, 0, 0, 0, 0], netMask = CIDRMask 48 128\<rparr>"
  by (simp add: demo6_scope_def)

theorem prefix_first_free_witness:
  "\<exists>base. free_prefix Second demo6_scope demo6_db base 0
     \<and> (\<exists>db'. allocatePrefixTx no_faults Second demo6_scope demo6_db = Ret (delegated base 0, db'))"
proof -
  let ?pool = "\<lparr>netIP = [32, 1, 13, 184, 1, 0, 0, 0, 0, 0, 0, 0, 0, 0, 0, 0], netMask = CIDRMask 48 128\<rparr>"
  obtain base where b: "ipToUint128 (To16 (netIP ?pool)) = Ret base" by (simp add: ipToUint128_def To16_def Let_def)
  have m: "Mask_Size (netMask ?pool) = 48" by code_simp
  have free: "free_prefix Second demo6_scope demo6_db base i" for i
    by (simp add: free_prefix_def demo6_db_def demo_db_def)
  from prefix_first_free [OF demo6_pool b, of no_faults Second demo6_db] m free
  have "case allocatePrefixTx no_faults Second demo6_scope demo6_db of
      Ret (n, db') \<Rightarrow> n = delegated base 0 | Fail _ \<Rightarrow> False | _ \<Rightarrow> False"
    by (auto split: run.splits dest!: spec [of _ "0::nat"])
  then show ?thesis using free by (auto split: run.splits)
qed

section \<open>The transaction\<close>

definition own_prefix :: "scope \<Rightarrow> string \<Rightarrow> string \<Rightarrow> v6_prefix \<Rightarrow> bool" where
  "own_prefix sc duid iaid x \<longleftrightarrow> vpScopeID x = scID sc \<and> vpDUID x = duid \<and> vpIAID x = iaid"

lemma saveV6PrefixTx_Ret:
  assumes "saveV6PrefixTx flt p db = Ret (u, db')" and w: "wf_db db" and own: "own_prefix sc duid iaid p"
  shows "\<exists>row n. row \<in> set (dbV6Prefixes db') \<and> own_prefix sc duid iaid row \<and> vpPrefix p = Some n \<and> vpPrefix row = Some (cidr_col n)
      \<and> vpState row = vpState p \<and> vpStartsAt row = vpStartsAt p \<and> vpEndsAt row = vpEndsAt p
      \<and> (\<forall>x \<in> set (dbV6Prefixes db). \<not> own_prefix sc duid iaid x \<longrightarrow> x \<in> set (dbV6Prefixes db'))
      \<and> (\<forall>x \<in> set (dbV6Prefixes db'). own_prefix sc duid iaid x \<or> x \<in> set (dbV6Prefixes db))
      \<and> wf_db db' \<and> db' = db\<lparr>dbV6Prefixes := dbV6Prefixes db'\<rparr>"
proof -
  from assms(1) obtain n rows where n: "vpPrefix p = Some n" and db': "db' = db\<lparr>dbV6Prefixes := rows\<rparr>"
    and u: "sql_upsert v6_prefix_clash v6_prefix_conflict v6_prefix_merge (p\<lparr>vpPrefix := Some (cidr_col n)\<rparr>) (dbV6Prefixes db) = Ret rows"
    by (auto simp: saveV6PrefixTx_def upsert_v6_prefix_def bind_run_Ret_iff split: option.splits)
  let ?p = "p\<lparr>vpPrefix := Some (cidr_col n)\<rparr>"
  from w have uq: "uniq v6_prefix_clash (dbV6Prefixes db)" by (simp add: wf_db_def)
  have "uniq v6_prefix_clash rows" by (rule v6_prefixes.uniq_upsert [OF uq u])
  with w have w': "wf_db db'" by (simp add: wf_db_def db')
  from uq u show ?thesis
  proof (cases rule: v6_prefixes.upsert_rows)
    case inserted
    then show ?thesis using n own w' by (intro exI [of _ ?p] exI [of _ n]) (auto simp: own_prefix_def db')
  next
    case (merged x)
    then show ?thesis using n own w'
      by (intro exI [of _ "v6_prefix_merge ?p x"] exI [of _ n])
        (auto simp: own_prefix_def db' v6_prefix_merge_def v6_prefix_conflict_def)
  qed
qed

lemma allocatePrefixTx_keeps:
  assumes "allocatePrefixTx flt now sc db = Ret (n, db')" and w: "wf_db db"
  shows "wf_db db' \<and> (\<forall>x \<in> set (dbV6Prefixes db). prefix_live now x \<longrightarrow> x \<in> set (dbV6Prefixes db'))
    \<and> set (dbV6Prefixes db') \<subseteq> set (dbV6Prefixes db) \<and> db' = db\<lparr>dbV6Prefixes := dbV6Prefixes db'\<rparr>"
proof -
  from assms(1) obtain pool where pool: "scPrefix sc = Some pool" by (cases "scPrefix sc") (auto simp: allocatePrefixTx_def)
  let ?plen = "Mask_Size (netMask pool)" and ?used = "set (used_prefixes now sc db)"
  have k: "\<not> 64 \<le> ?plen" "\<not> 48 < 64 - ?plen"
    using assms(1) by (auto simp: allocatePrefixTx_def pool Let_def split: if_splits)
  obtain base where r: "(case scan (\<lambda>i :: uint64. i + 1) (\<lambda>i. i < push_bit (64 - ?plen) 1) (\<lambda>i. ipnet_String (delegated base i) \<in> ?used) 0 of
         None \<Rightarrow> Hang | Some None \<Rightarrow> Fail ''no available prefix''
       | Some (Some i) \<Rightarrow> exec flt ''allocatePrefixTx.delete'' (Ret (delegated base i, db\<lparr>dbV6Prefixes := sql_delete
            (\<lambda>p. vpScopeID p = scID sc \<and> vpPrefix p = Some (cidr_col (delegated base i))) (dbV6Prefixes db)\<rparr>))) = Ret (n, db')"
    using assms(1) unfolding allocatePrefixTx_def pool option.case Let_def if_not_P [OF k(1)] if_not_P [OF k(2)] exec_Ret bind_run_Ret_iff
    by blast
  let ?scan = "scan (\<lambda>i :: uint64. i + 1) (\<lambda>i. i < push_bit (64 - ?plen) 1) (\<lambda>i. ipnet_String (delegated base i) \<in> ?used) 0"
  from r obtain i where i: "?scan = Some (Some i)" by (cases ?scan) (auto split: option.splits)
  with r have db': "db' = db\<lparr>dbV6Prefixes := sql_delete
      (\<lambda>p. vpScopeID p = scID sc \<and> vpPrefix p = Some (cidr_col (delegated base i))) (dbV6Prefixes db)\<rparr>" by auto
  have u: "ipnet_String (delegated base i) \<notin> ?used" using scan_result [OF i refl] by blast
  have "\<not> (vpScopeID x = scID sc \<and> vpPrefix x = Some (cidr_col (delegated base i)))"
    if "x \<in> set (dbV6Prefixes db)" "prefix_live now x" for x
    using u that by (auto simp: used_prefixes_iff free_prefix_def list_ex_iff)
  with w show ?thesis by (auto simp: db' wf_db_def uniq_delete)
qed

text \<open>What a delegation does to the database.\<close>

definition grant_pd :: "time \<Rightarrow> scope \<Rightarrow> string \<Rightarrow> string \<Rightarrow> string \<Rightarrow> time \<Rightarrow> v6_prefix \<Rightarrow> db \<Rightarrow> db \<Rightarrow> bool" where
  "grant_pd now sc duid iaid uuid ends p db db' \<longleftrightarrow> wf_db db' \<and> db' = db\<lparr>dbV6Prefixes := dbV6Prefixes db'\<rparr>
     \<and> (\<exists>row \<in> set (dbV6Prefixes db'). \<exists>n. own_prefix sc duid iaid row \<and> vpPrefix p = Some n \<and> vpPrefix row = Some (cidr_col n)
          \<and> vpState row = vpState p \<and> vpStartsAt row = now \<and> vpEndsAt row = ends)
     \<and> (vpState p = LeaseActive \<or> vpState p = LeaseOffered)
     \<and> (\<forall>x \<in> set (dbV6Prefixes db). \<not> own_prefix sc duid iaid x \<and> prefix_live now x \<longrightarrow> x \<in> set (dbV6Prefixes db'))
     \<and> (\<forall>x \<in> set (dbV6Prefixes db'). own_prefix sc duid iaid x \<or> x \<in> set (dbV6Prefixes db))
     \<and> (vpID p = uuid \<or> (\<exists>e \<in> set (dbV6Prefixes db). vpID e = vpID p \<and> own_prefix sc duid iaid e))"

text \<open>Saving the delegation after rows that are not live were cleared away.\<close>

lemma grant_pdI:
  assumes s: "saveV6PrefixTx flt p db1 = Ret (u, db')" and w1: "wf_db db1" and o': "own_prefix sc duid iaid p"
    and k1: "\<forall>x \<in> set (dbV6Prefixes db). prefix_live now x \<longrightarrow> x \<in> set (dbV6Prefixes db1)"
    and sub: "set (dbV6Prefixes db1) \<subseteq> set (dbV6Prefixes db)" and fr: "db1 = db\<lparr>dbV6Prefixes := dbV6Prefixes db1\<rparr>"
    and i: "vpID p = uuid \<or> (\<exists>e \<in> set (dbV6Prefixes db). vpID e = vpID p \<and> own_prefix sc duid iaid e)"
    and t: "vpStartsAt p = now" "vpState p = LeaseActive \<or> vpState p = LeaseOffered"
  shows "grant_pd now sc duid iaid uuid (vpEndsAt p) p db db'"
proof -
  note sv = saveV6PrefixTx_Ret [OF s w1 o']
  then have "db' = db1\<lparr>dbV6Prefixes := dbV6Prefixes db'\<rparr>" by blast
  with fr have "db' = db\<lparr>dbV6Prefixes := dbV6Prefixes db'\<rparr>" by (metis db.surjective db.update_convs(6))
  with sv k1 sub i t show ?thesis unfolding grant_pd_def by blast
qed

lemma AllocateV6Prefix_Ret:
  assumes "AllocateV6Prefix flt now uuid sc duid iaid leaseTime maxLeaseTime db = (Ret p, db')" and w: "wf_db db"
  shows "grant_pd now sc duid iaid uuid (now + clampLeaseTime leaseTime maxLeaseTime * Second) p db db'"
proof -
  let ?lt = "clampLeaseTime leaseTime maxLeaseTime" and ?ends = "now + clampLeaseTime leaseTime maxLeaseTime * Second"
  have tx: "prefix_tx flt now ?lt uuid sc duid iaid db = Ret (p, db')"
    using assms(1) by (simp add: AllocateV6Prefix_def WithTx_Ret)
  then obtain eo where eo: "getV6PrefixByDUIDTx flt (scID sc) duid iaid db = Ret eo"
    by (auto simp: prefix_tx_def bind_run_Ret_iff Let_def)
  show ?thesis
  proof (cases "case eo of None \<Rightarrow> None | Some e \<Rightarrow> if prefix_reusable sc e then Some e else None")
    case None
    with tx eo obtain n db1 u where a: "allocatePrefixTx flt now sc db = Ret (n, db1)"
      and p: "p = new_prefix now ?ends ?lt uuid sc duid iaid n" and s: "saveV6PrefixTx flt p db1 = Ret (u, db')"
      by (auto simp: prefix_tx_def bind_run_Ret_iff Let_def)
    have "own_prefix sc duid iaid p" "vpID p = uuid" "vpEndsAt p = ?ends" "vpStartsAt p = now" "vpState p = LeaseOffered"
      by (simp_all add: p own_prefix_def new_prefix_def)
    with grant_pdI [OF s, where sc = sc and now = now and uuid = uuid and db = db] allocatePrefixTx_keeps [OF a w]
    show ?thesis by metis
  next
    case (Some e)
    then have "eo = Some e" by (auto split: option.splits if_splits)
    with eo obtain e' where e': "e' \<in> set (dbV6Prefixes db)" "own_prefix sc duid iaid e'" and e: "e = scanV6Prefix e'"
      using query_row_SomeD by (fastforce simp: getV6PrefixByDUIDTx_def own_prefix_def)
    from tx eo Some obtain u where p: "p = renewed_prefix now ?ends ?lt e" and s: "saveV6PrefixTx flt p db = Ret (u, db')"
      by (auto simp: prefix_tx_def bind_run_Ret_iff Let_def)
    have "own_prefix sc duid iaid p" "vpID p = vpID e'" "vpEndsAt p = ?ends" "vpStartsAt p = now"
      "vpState p = LeaseActive \<or> vpState p = LeaseOffered"
      using e'(2) by (simp_all add: p e own_prefix_def renewed_prefix_def scanV6Prefix_def Let_def)
    with grant_pdI [OF s w, where sc = sc and now = now and uuid = uuid and db = db] e' show ?thesis by fastforce
  qed
qed

text \<open>
  C24. No delegated prefix is given away twice: when \<open>AllocateV6Prefix\<close> returns a prefix, the table has a
  row of this client with it, ending the granted time from now, and every live delegation of
  another client in the scope is still there, with another prefix.
\<close>

theorem prefix_no_steal:
  assumes "wf_db db" and "AllocateV6Prefix flt now uuid sc duid iaid leaseTime maxLeaseTime db = (Ret p, db')"
  shows "\<exists>row n. row \<in> set (dbV6Prefixes db') \<and> vpScopeID row = scID sc \<and> vpDUID row = duid \<and> vpIAID row = iaid
      \<and> vpPrefix p = Some n \<and> vpPrefix row = Some (cidr_col n)
      \<and> vpEndsAt row = now + clampLeaseTime leaseTime maxLeaseTime * Second
      \<and> (\<forall>x \<in> set (dbV6Prefixes db). vpScopeID x = scID sc \<and> (vpDUID x \<noteq> duid \<or> vpIAID x \<noteq> iaid) \<and> prefix_live now x
           \<longrightarrow> x \<in> set (dbV6Prefixes db') \<and> vpPrefix x \<noteq> vpPrefix row)"
proof -
  note g = AllocateV6Prefix_Ret [OF assms(2,1)]
  then obtain row n where row: "row \<in> set (dbV6Prefixes db')" "own_prefix sc duid iaid row" "vpPrefix p = Some n"
    "vpPrefix row = Some (cidr_col n)" "vpEndsAt row = now + clampLeaseTime leaseTime maxLeaseTime * Second"
    unfolding grant_pd_def by blast
  have "x \<in> set (dbV6Prefixes db') \<and> vpPrefix x \<noteq> vpPrefix row"
    if x: "x \<in> set (dbV6Prefixes db)" "vpScopeID x = scID sc" "vpDUID x \<noteq> duid \<or> vpIAID x \<noteq> iaid" "prefix_live now x" for x
  proof -
    have no: "\<not> own_prefix sc duid iaid x" using x(3) by (auto simp: own_prefix_def)
    with g x have i: "x \<in> set (dbV6Prefixes db')" unfolding grant_pd_def by blast
    have "x = row" if "vpPrefix x = vpPrefix row"
      using v6_prefixes.uniq_clashD [of "dbV6Prefixes db'" x row] g i row(1,2) x(2) that
      by (auto simp: grant_pd_def wf_db_def v6_prefix_clash_def own_prefix_def)
    with no row(2) i show ?thesis by blast
  qed
  with row show ?thesis unfolding own_prefix_def by fastforce
qed

definition demo6_prefix :: v6_prefix where
  "demo6_prefix = \<lparr>vpID = ''p1'', vpScopeID = ''s6'', vpDUID = ''aa'', vpIAID = ''1'',
     vpPrefix = Some \<lparr>netIP = [32, 1, 13, 184, 1, 0, 0, 0, 0, 0, 0, 0, 0, 0, 0, 0], netMask = CIDRMask 64 128\<rparr>,
     vpPreferredLifetime = 3600, vpValidLifetime = 3600, vpState = LeaseActive, vpStartsAt = 0, vpEndsAt = 3600 * Second,
     vpCreatedAt = 0, vpUpdatedAt = 0\<rparr>"

definition prefix_db :: db where
  "prefix_db = demo6_db\<lparr>dbV6Prefixes := [demo6_prefix]\<rparr>"

lemma prefix_db_wf: "wf_db prefix_db"
  using demo6_db_wf by (simp add: wf_db_def prefix_db_def uniq_def)

lemma demo6_delegation:
  "case fst (AllocateV6Prefix no_faults Second ''u1'' demo6_scope ''bb'' ''1'' 0 7200 prefix_db) of
     Ret p \<Rightarrow> vpPrefix p = Some \<lparr>netIP = [32, 1, 13, 184, 1, 0, 0, 1, 0, 0, 0, 0, 0, 0, 0, 0], netMask = CIDRMask 64 128\<rparr>
   | _ \<Rightarrow> False"
  by code_simp

theorem prefix_no_steal_witness:
  "demo6_prefix \<in> set (dbV6Prefixes (snd (AllocateV6Prefix no_faults Second ''u1'' demo6_scope ''bb'' ''1'' 0 7200 prefix_db)))"
proof -
  let ?call = "AllocateV6Prefix no_faults Second ''u1'' demo6_scope ''bb'' ''1'' 0 7200 prefix_db"
  from demo6_delegation obtain p where "fst ?call = Ret p" by (auto split: run.splits)
  then have c: "?call = (Ret p, snd ?call)" by (metis prod.collapse)
  have "demo6_prefix \<in> set (dbV6Prefixes prefix_db)" "vpScopeID demo6_prefix = scID demo6_scope" "vpDUID demo6_prefix \<noteq> ''bb''"
    "prefix_live Second demo6_prefix"
    by (simp_all add: prefix_db_def demo6_prefix_def demo6_scope_def prefix_live_def sql_live_def)
  with prefix_no_steal [OF prefix_db_wf c] show ?thesis by blast
qed

end
