(* ===== verification/Dhcp6_Safety.thy ===== *)
theory Dhcp6_Safety
  imports Dhcp6_Reply Alloc6_Prefix
begin

text \<open>
  The DHCPv6 handlers and the database: a client's message leaves the live leases and delegations
  of other DUIDs alone; when a Reply promises an address, its row is active, unless the row was
  taken over from an earlier one, whose id the activation then misses; a combined Solicit is
  answered for both of its IAs.
\<close>

section \<open>What one client's message may change\<close>

definition same_config :: "db \<Rightarrow> db \<Rightarrow> bool" where
  "same_config db db' \<longleftrightarrow> dbScopes db' = dbScopes db \<and> dbReservations db' = dbReservations db \<and> dbLeases db' = dbLeases db
     \<and> dbV6Reservations db' = dbV6Reservations db \<and> dbGroups db' = dbGroups db \<and> dbBlacklist db' = dbBlacklist db
     \<and> dbHANodes db' = dbHANodes db \<and> dbServerState db' = dbServerState db \<and> dbSystemLogs db' = dbSystemLogs db"

definition cstep6 :: "env6 \<Rightarrow> string \<Rightarrow> db \<Rightarrow> db \<Rightarrow> bool" where
  "cstep6 env duid db db' \<longleftrightarrow> wf_db db' \<and> same_config db db'
     \<and> (\<forall>x \<in> set (dbV6Leases db). vlDUID x \<noteq> duid \<and> v6_lease_blocks (e6Now env ''AllocateV6Lease'') x \<longrightarrow> x \<in> set (dbV6Leases db'))
     \<and> (\<forall>x \<in> set (dbV6Prefixes db). vpDUID x \<noteq> duid \<and> prefix_live (e6Now env ''AllocateV6Prefix'') x \<longrightarrow> x \<in> set (dbV6Prefixes db'))"

lemma cstep6_refl: "wf_db db \<Longrightarrow> cstep6 env duid db db"
  by (simp add: cstep6_def same_config_def)

lemma cstep6_trans: "cstep6 env duid db db1 \<Longrightarrow> cstep6 env duid db1 db2 \<Longrightarrow> cstep6 env duid db db2"
  by (auto simp: cstep6_def same_config_def)

lemma cstep6_wf: "cstep6 env duid db db' \<Longrightarrow> wf_db db'"
  by (simp add: cstep6_def)

text \<open>Writing an allocation log changes no other table.\<close>

lemma logIPAllocation6_tables:
  obtains rows where "logIPAllocation6 env cfg sc duid iaid p n action relay hostname db = db\<lparr>dbAllocLogs := rows\<rparr>"
proof -
  have "\<exists>rows. logIPAllocation6 env cfg sc duid iaid p n action relay hostname db = db\<lparr>dbAllocLogs := rows\<rparr>"
    unfolding logIPAllocation6_def CreateIPAllocationLog_def
    by (rule settle_keeps) (auto simp: bind_run_Ret_iff intro: exI [of _ "dbAllocLogs db"])
  then show ?thesis using that by blast
qed

lemma cstep6_log [simp]:
  "cstep6 env duid db (logIPAllocation6 env' cfg sc d iaid p n action relay hostname db') = cstep6 env duid db db'"
  "dbV6Leases (logIPAllocation6 env' cfg sc d iaid p n action relay hostname db') = dbV6Leases db'"
proof -
  obtain rows where l: "logIPAllocation6 env' cfg sc d iaid p n action relay hostname db' = db'\<lparr>dbAllocLogs := rows\<rparr>"
    by (rule logIPAllocation6_tables)
  show "cstep6 env duid db (logIPAllocation6 env' cfg sc d iaid p n action relay hostname db') = cstep6 env duid db db'"
    "dbV6Leases (logIPAllocation6 env' cfg sc d iaid p n action relay hostname db') = dbV6Leases db'"
    unfolding l by (simp_all add: cstep6_def same_config_def wf_db_def)
qed

lemma cstep6_log_combined [simp]:
  "cstep6 env duid db (log_combined env' cfg relay action d scope iaid lease pdScope pdIAID prefix db') = cstep6 env duid db db'"
  by (simp add: log_combined_def Let_def split: option.splits)

text \<open>The rows with an id are the client's own.\<close>

definition own_lease_id :: "string \<Rightarrow> string \<Rightarrow> db \<Rightarrow> bool" where
  "own_lease_id duid ident db \<longleftrightarrow> (\<forall>x \<in> set (dbV6Leases db). vlID x = ident \<longrightarrow> vlDUID x = duid)"

definition own_prefix_id :: "string \<Rightarrow> string \<Rightarrow> db \<Rightarrow> bool" where
  "own_prefix_id duid ident db \<longleftrightarrow> (\<forall>x \<in> set (dbV6Prefixes db). vpID x = ident \<longrightarrow> vpDUID x = duid)"

lemma UpdateV6LeaseState_cases:
  obtains "UpdateV6LeaseState flt t ident st db = (Ret (), db\<lparr>dbV6Leases := update_where (\<lambda>l. vlID l = ident)
        (\<lambda>l. l\<lparr>vlState := st, vlUpdatedAt := t\<rparr>) (dbV6Leases db)\<rparr>)"
  | e where "UpdateV6LeaseState flt t ident st db = (Fail e, db)"
  by (cases "flt ''UpdateV6LeaseState''") (auto simp: UpdateV6LeaseState_def settle_def exec_def)

lemma UpdateV6PrefixState_cases:
  obtains "UpdateV6PrefixState flt t ident st db = (Ret (), db\<lparr>dbV6Prefixes := update_where (\<lambda>l. vpID l = ident)
        (\<lambda>l. l\<lparr>vpState := st, vpUpdatedAt := t\<rparr>) (dbV6Prefixes db)\<rparr>)"
  | e where "UpdateV6PrefixState flt t ident st db = (Fail e, db)"
  by (cases "flt ''UpdateV6PrefixState''") (auto simp: UpdateV6PrefixState_def settle_def exec_def)

lemma UpdateV6LeaseState_step:
  assumes "UpdateV6LeaseState flt t ident st db = (u, db')" and w: "wf_db db" and "own_lease_id duid ident db"
  shows "cstep6 env duid db db' \<and> dbV6Prefixes db' = dbV6Prefixes db"
proof (rule UpdateV6LeaseState_cases [of flt t ident st db])
  let ?rows = "update_where (\<lambda>l. vlID l = ident) (\<lambda>l. l\<lparr>vlState := st, vlUpdatedAt := t\<rparr>) (dbV6Leases db)"
  assume "UpdateV6LeaseState flt t ident st db = (Ret (), db\<lparr>dbV6Leases := ?rows\<rparr>)"
  then have db': "db' = db\<lparr>dbV6Leases := ?rows\<rparr>" using assms(1) by simp
  have "uniq v6_lease_clash ?rows"
    using w by (intro v6_leases.uniq_update_where) (auto simp: wf_db_def v6_lease_clash_def)
  moreover have "\<forall>l \<in> set ?rows. canon (vlIPAddr l) \<and> \<not> vlReserved l" using w by (auto simp: wf_db_def set_update_where)
  ultimately have "wf_db db'" using w by (simp add: wf_db_def db')
  then show ?thesis using assms(3) by (auto simp: cstep6_def same_config_def db' set_update_where own_lease_id_def)
next
  fix e assume "UpdateV6LeaseState flt t ident st db = (Fail e, db)"
  with assms(1) w show ?thesis by (simp add: cstep6_refl)
qed

lemma UpdateV6PrefixState_step:
  assumes "UpdateV6PrefixState flt t ident st db = (u, db')" and w: "wf_db db" and "own_prefix_id duid ident db"
  shows "cstep6 env duid db db' \<and> dbV6Leases db' = dbV6Leases db"
proof (rule UpdateV6PrefixState_cases [of flt t ident st db])
  let ?rows = "update_where (\<lambda>l. vpID l = ident) (\<lambda>l. l\<lparr>vpState := st, vpUpdatedAt := t\<rparr>) (dbV6Prefixes db)"
  assume "UpdateV6PrefixState flt t ident st db = (Ret (), db\<lparr>dbV6Prefixes := ?rows\<rparr>)"
  then have db': "db' = db\<lparr>dbV6Prefixes := ?rows\<rparr>" using assms(1) by simp
  have "uniq v6_prefix_clash ?rows"
    using w by (intro v6_prefixes.uniq_update_where) (auto simp: wf_db_def v6_prefix_clash_def)
  then have "wf_db db'" using w by (simp add: wf_db_def db')
  then show ?thesis using assms(3) by (auto simp: cstep6_def same_config_def db' set_update_where own_prefix_id_def)
next
  fix e assume "UpdateV6PrefixState flt t ident st db = (Fail e, db)"
  with assms(1) w show ?thesis by (simp add: cstep6_refl)
qed

text \<open>The ids the server is about to use are new.\<close>

definition fresh_lease_id :: "env6 \<Rightarrow> db \<Rightarrow> bool" where
  "fresh_lease_id env db \<longleftrightarrow> (\<forall>x \<in> set (dbV6Leases db). vlID x \<noteq> e6LeaseUUID env)"

definition fresh_prefix_id :: "env6 \<Rightarrow> db \<Rightarrow> bool" where
  "fresh_prefix_id env db \<longleftrightarrow> (\<forall>x \<in> set (dbV6Prefixes db). vpID x \<noteq> e6PrefixUUID env)"

lemma WithTx_rolled_back: "WithTx flt fn db = (r, db1) \<Longrightarrow> \<forall>x. r \<noteq> Ret x \<Longrightarrow> db1 = db"
  using WithTx_rollback [of flt fn db] by simp

lemma alloc_na_rollback: "alloc_na env sc duid iaid p db = (r, db1) \<Longrightarrow> \<forall>x. r \<noteq> Ret x \<Longrightarrow> db1 = db"
  unfolding alloc_na_def AllocateV6Lease_def Let_def by (rule WithTx_rolled_back)

lemma alloc_pd_rollback: "alloc_pd env sc duid iaid db = (r, db1) \<Longrightarrow> \<forall>x. r \<noteq> Ret x \<Longrightarrow> db1 = db"
  unfolding alloc_pd_def AllocateV6Prefix_def Let_def by (rule WithTx_rolled_back)

lemma alloc_na_step:
  assumes a: "alloc_na env sc duid iaid p db = (r, db1)" and w: "wf_db db" and fresh: "fresh_lease_id env db"
  shows "cstep6 env duid db db1 \<and> dbV6Prefixes db1 = dbV6Prefixes db \<and> (\<forall>l. r = Ret l \<longrightarrow> own_lease_id duid (vlID l) db1)"
proof (cases "\<exists>l. r = Ret l")
  case False
  then have "db1 = db"
    using alloc_na_rollback [OF a] by blast
  with False w show ?thesis by (auto simp: cstep6_refl)
next
  case True
  then obtain l where l: "r = Ret l" by blast
  obtain g where g: "a6Scope g = sc" "a6DUID g = duid" "a6Now g = e6Now env ''AllocateV6Lease''" "a6UUID g = e6LeaseUUID env" "granted6 g l db db1"
    using AllocateV6Lease_Ret [OF a [unfolded alloc_na_def l] w] by metis
  then have s: "step6 (e6Now env ''AllocateV6Lease'') (scID sc) duid db db1"
    and i: "vlID l = e6LeaseUUID env \<or> (\<exists>e \<in> set (dbV6Leases db). vlID e = vlID l \<and> own6 (scID sc) duid e)"
    by (simp_all add: granted6_def)
  then have w1: "wf_db db1"
    and k: "\<forall>x \<in> set (dbV6Leases db). \<not> own6 (scID sc) duid x \<and> v6_lease_blocks (e6Now env ''AllocateV6Lease'') x \<longrightarrow> x \<in> set (dbV6Leases db1)"
    and n: "\<forall>x \<in> set (dbV6Leases db1). own6 (scID sc) duid x \<or> x \<in> set (dbV6Leases db)"
    unfolding step6_def by argo+
  have "\<exists>rows. db1 = db\<lparr>dbV6Leases := rows\<rparr>" using s unfolding step6_def by blast
  then obtain rows where db1: "db1 = db\<lparr>dbV6Leases := rows\<rparr>" by blast
  have "own_lease_id duid (vlID l) db1"
    unfolding own_lease_id_def
  proof (intro ballI impI)
    fix x assume x: "x \<in> set (dbV6Leases db1)" "vlID x = vlID l"
    show "vlDUID x = duid"
    proof (cases "x \<in> set (dbV6Leases db)")
      case True
      with fresh x(2) i obtain e where e: "e \<in> set (dbV6Leases db)" "vlID e = vlID l" "own6 (scID sc) duid e"
        unfolding fresh_lease_id_def by metis
      with v6_lease_unique [OF w True e(1)] x(2) show ?thesis by (simp add: own6_def)
    next
      case False
      with n x show ?thesis by (auto simp: own6_def)
    qed
  qed
  moreover have "cstep6 env duid db db1"
    unfolding cstep6_def using w1 k by (auto simp: same_config_def db1 own6_def)
  ultimately show ?thesis using l by (simp add: db1)
qed

lemma alloc_pd_step:
  assumes a: "alloc_pd env sc duid iaid db = (r, db1)" and w: "wf_db db" and fresh: "fresh_prefix_id env db"
  shows "cstep6 env duid db db1 \<and> dbV6Leases db1 = dbV6Leases db \<and> (\<forall>p. r = Ret p \<longrightarrow> own_prefix_id duid (vpID p) db1)"
proof (cases "\<exists>p. r = Ret p")
  case False
  then have "db1 = db"
    using alloc_pd_rollback [OF a] by blast
  with False w show ?thesis by (auto simp: cstep6_refl)
next
  case True
  then obtain p where p: "r = Ret p" by blast
  let ?t = "e6Now env ''AllocateV6Prefix''"
  obtain iaid' ends where g: "grant_pd ?t sc duid iaid' (e6PrefixUUID env) ends p db db1"
    using AllocateV6Prefix_Ret [OF a [unfolded alloc_pd_def p] w] by blast
  then have i: "vpID p = e6PrefixUUID env \<or> (\<exists>e \<in> set (dbV6Prefixes db). vpID e = vpID p \<and> own_prefix sc duid iaid' e)"
    and k: "\<forall>x \<in> set (dbV6Prefixes db). \<not> own_prefix sc duid iaid' x \<and> prefix_live ?t x \<longrightarrow> x \<in> set (dbV6Prefixes db1)"
    and n: "\<forall>x \<in> set (dbV6Prefixes db1). own_prefix sc duid iaid' x \<or> x \<in> set (dbV6Prefixes db)" and w1: "wf_db db1"
    unfolding grant_pd_def by argo+
  have "\<exists>rows. db1 = db\<lparr>dbV6Prefixes := rows\<rparr>" using g unfolding grant_pd_def by blast
  then obtain rows where db1: "db1 = db\<lparr>dbV6Prefixes := rows\<rparr>" by blast
  have "own_prefix_id duid (vpID p) db1"
    unfolding own_prefix_id_def
  proof (intro ballI impI)
    fix x assume x: "x \<in> set (dbV6Prefixes db1)" "vpID x = vpID p"
    show "vpDUID x = duid"
    proof (cases "x \<in> set (dbV6Prefixes db)")
      case True
      with fresh x(2) i obtain e where e: "e \<in> set (dbV6Prefixes db)" "vpID e = vpID p" "own_prefix sc duid iaid' e"
        unfolding fresh_prefix_id_def by metis
      have "x = e"
        using v6_prefixes.uniq_clashD [of "dbV6Prefixes db" x e] True e x(2) w by (auto simp: wf_db_def v6_prefix_clash_def)
      with e show ?thesis by (simp add: own_prefix_def)
    next
      case False
      with n x show ?thesis by (auto simp: own_prefix_def)
    qed
  qed
  moreover have "cstep6 env duid db db1"
    unfolding cstep6_def using w1 k by (auto simp: same_config_def db1 own_prefix_def)
  ultimately show ?thesis using p by (simp add: db1)
qed

section \<open>Following the handlers\<close>

named_theorems leaves6_intro \<open>introduction rules for \<open>leaves6\<close>\<close>

definition leaves6 :: "(db \<Rightarrow> bool) \<Rightarrow> out6 \<Rightarrow> bool" where
  "leaves6 P o' \<longleftrightarrow> P (h6Db o')"

lemma leaves6_done [leaves6_intro]: "P db \<Longrightarrow> leaves6 P \<lparr>h6Sent = ss, h6Db = db, h6End = e\<rparr>"
  by (simp add: leaves6_def)

lemma leaves6_on_result [leaves6_intro]:
  "P db \<Longrightarrow> (\<And>x. r = Ret x \<Longrightarrow> leaves6 P (ok x)) \<Longrightarrow> (\<And>e. r = Fail e \<Longrightarrow> leaves6 P (bad e)) \<Longrightarrow> leaves6 P (on_result6 r db ok bad)"
  by (auto simp: on_result6_def leaves6_done split: run.splits)

lemma leaves6_on_call:
  assumes "\<And>r db1. c = (r, db1) \<Longrightarrow> P db1 \<and> (\<forall>x. r = Ret x \<longrightarrow> leaves6 P (ok db1 x)) \<and> (\<forall>e. r = Fail e \<longrightarrow> leaves6 P (bad db1 e))"
  shows "leaves6 P (case c of (r, db1) \<Rightarrow> on_result6 r db1 (ok db1) (bad db1))"
  using assms by (auto intro!: leaves6_on_result split: prod.splits)

lemma leaves6_on_alloc_na [leaves6_intro]:
  assumes "cstep6 env duid db0 db" and "fresh_lease_id env db"
    and "\<And>l db1. cstep6 env duid db0 db1 \<Longrightarrow> dbV6Prefixes db1 = dbV6Prefixes db \<Longrightarrow> own_lease_id duid (vlID l) db1
      \<Longrightarrow> leaves6 (cstep6 env duid db0) (ok db1 l)"
    and "\<And>e db1. cstep6 env duid db0 db1 \<Longrightarrow> dbV6Prefixes db1 = dbV6Prefixes db \<Longrightarrow> leaves6 (cstep6 env duid db0) (bad db1 e)"
  shows "leaves6 (cstep6 env duid db0) (case alloc_na env sc duid iaid p db of (r, db1) \<Rightarrow> on_result6 r db1 (ok db1) (bad db1))"
  using alloc_na_step [OF _ cstep6_wf [OF assms(1)] assms(2)] assms(3,4) cstep6_trans [OF assms(1)]
  by (intro leaves6_on_call) blast

lemma leaves6_on_alloc_pd [leaves6_intro]:
  assumes "cstep6 env duid db0 db" and "fresh_prefix_id env db"
    and "\<And>p db1. cstep6 env duid db0 db1 \<Longrightarrow> dbV6Leases db1 = dbV6Leases db \<Longrightarrow> own_prefix_id duid (vpID p) db1
      \<Longrightarrow> leaves6 (cstep6 env duid db0) (ok db1 p)"
    and "\<And>e db1. cstep6 env duid db0 db1 \<Longrightarrow> dbV6Leases db1 = dbV6Leases db \<Longrightarrow> leaves6 (cstep6 env duid db0) (bad db1 e)"
  shows "leaves6 (cstep6 env duid db0) (case alloc_pd env sc duid iaid db of (r, db1) \<Rightarrow> on_result6 r db1 (ok db1) (bad db1))"
  using alloc_pd_step [OF _ cstep6_wf [OF assms(1)] assms(2)] assms(3,4) cstep6_trans [OF assms(1)]
  by (intro leaves6_on_call) blast

lemma leaves6_on_activate_na [leaves6_intro]:
  assumes "cstep6 env duid db0 db" and "own_lease_id duid (vlID l) db"
    and "\<And>u db1. cstep6 env duid db0 db1 \<Longrightarrow> dbV6Prefixes db1 = dbV6Prefixes db \<Longrightarrow> leaves6 (cstep6 env duid db0) (ok db1 u)"
    and "\<And>e db1. cstep6 env duid db0 db1 \<Longrightarrow> dbV6Prefixes db1 = dbV6Prefixes db \<Longrightarrow> leaves6 (cstep6 env duid db0) (bad db1 e)"
  shows "leaves6 (cstep6 env duid db0) (case activate_na env l db of (r, db1) \<Rightarrow> on_result6 r db1 (ok db1) (bad db1))"
  using UpdateV6LeaseState_step [OF _ cstep6_wf [OF assms(1)] assms(2), of _ _ _ _ _ env] assms(3,4) cstep6_trans [OF assms(1)]
  unfolding activate_na_def by (intro leaves6_on_call) blast

lemma leaves6_on_activate_pd [leaves6_intro]:
  assumes "cstep6 env duid db0 db" and "own_prefix_id duid (vpID p) db"
    and "\<And>u db1. cstep6 env duid db0 db1 \<Longrightarrow> dbV6Leases db1 = dbV6Leases db \<Longrightarrow> leaves6 (cstep6 env duid db0) (ok db1 u)"
    and "\<And>e db1. cstep6 env duid db0 db1 \<Longrightarrow> dbV6Leases db1 = dbV6Leases db \<Longrightarrow> leaves6 (cstep6 env duid db0) (bad db1 e)"
  shows "leaves6 (cstep6 env duid db0) (case activate_pd env p db of (r, db1) \<Rightarrow> on_result6 r db1 (ok db1) (bad db1))"
  using UpdateV6PrefixState_step [OF _ cstep6_wf [OF assms(1)] assms(2), of _ _ _ _ _ env] assms(3,4) cstep6_trans [OF assms(1)]
  unfolding activate_pd_def by (intro leaves6_on_call) blast

text \<open>The same for the calls of the combined handlers.\<close>

lemma leaves6_call_na [leaves6_intro]:
  assumes "cstep6 env duid db0 db" and "fresh_lease_id env db"
    and "\<And>y db1. cstep6 env duid db0 db1 \<Longrightarrow> dbV6Prefixes db1 = dbV6Prefixes db
      \<Longrightarrow> (\<forall>l. y = Some l \<longrightarrow> own_lease_id duid (vlID l) db1) \<Longrightarrow> leaves6 (cstep6 env duid db0) (k y db1)"
  shows "leaves6 (cstep6 env duid db0) (call_for x (\<lambda>sc. alloc_na env sc duid iaid p db) db k)"
  unfolding call_for_def using assms by (auto intro!: leaves6_on_alloc_na split: option.split)

lemma leaves6_call_pd [leaves6_intro]:
  assumes "cstep6 env duid db0 db" and "fresh_prefix_id env db"
    and "\<And>y db1. cstep6 env duid db0 db1 \<Longrightarrow> dbV6Leases db1 = dbV6Leases db
      \<Longrightarrow> (\<forall>p. y = Some p \<longrightarrow> own_prefix_id duid (vpID p) db1) \<Longrightarrow> leaves6 (cstep6 env duid db0) (k y db1)"
  shows "leaves6 (cstep6 env duid db0) (call_for x (\<lambda>sc. alloc_pd env sc duid iaid db) db k)"
  unfolding call_for_def using assms by (auto intro!: leaves6_on_alloc_pd split: option.split)

lemma leaves6_kept_na [leaves6_intro]:
  assumes "cstep6 env duid db0 db" and "\<forall>l. x = Some l \<longrightarrow> own_lease_id duid (vlID l) db"
    and "\<And>y db1. cstep6 env duid db0 db1 \<Longrightarrow> dbV6Prefixes db1 = dbV6Prefixes db \<Longrightarrow> leaves6 (cstep6 env duid db0) (k y db1)"
  shows "leaves6 (cstep6 env duid db0) (kept_if x (\<lambda>l. activate_na env l db) db k)"
  unfolding kept_if_def call_for_def using assms by (auto intro!: leaves6_on_activate_na split: option.split)

lemma leaves6_kept_pd [leaves6_intro]:
  assumes "cstep6 env duid db0 db" and "\<forall>p. x = Some p \<longrightarrow> own_prefix_id duid (vpID p) db"
    and "\<And>y db1. cstep6 env duid db0 db1 \<Longrightarrow> leaves6 (cstep6 env duid db0) (k y db1)"
  shows "leaves6 (cstep6 env duid db0) (kept_if x (\<lambda>p. activate_pd env p db) db k)"
  unfolding kept_if_def call_for_def using assms by (auto intro!: leaves6_on_activate_pd split: option.split)

definition duid_of :: "packet6 \<Rightarrow> string" where
  "duid_of req = (case Get6 (p6Options req) OptClientID of None \<Rightarrow> [] | Some c \<Rightarrow> ParseDUID (o6Data c))"

lemma parseCommon_duid: "parseCommon sv req relay = Ret (sc, clientID, iaid) \<Longrightarrow> ParseDUID clientID = duid_of req"
  by (auto simp: parseCommon_def duid_of_def bind_run_Ret_iff split: option.splits if_splits)

lemma parseCommonPD_duid: "parseCommonPD sv req relay = (Some sc, clientID, iaid, err) \<Longrightarrow> ParseDUID clientID = duid_of req"
  by (auto simp: parseCommonPD_def duid_of_def Let_def split: option.splits if_splits run.splits)

text \<open>The new ids of a run are in no row.\<close>

definition ready6 :: "env6 \<Rightarrow> db \<Rightarrow> bool" where
  "ready6 env db \<longleftrightarrow> wf_db db \<and> fresh_lease_id env db \<and> fresh_prefix_id env db"

lemma solicit_offer_leaves:
  assumes "ready6 env db" and "ParseDUID clientID = duid"
  shows "leaves6 (cstep6 env duid db) (solicit_offer env cfg sv req addr relay sc clientID iaid db)"
  unfolding solicit_offer_def Let_def assms(2)
  using assms(1) by (auto simp: ready6_def cstep6_refl intro!: leaves6_intro)

lemma request_lease_leaves:
  assumes "ready6 env db" and "ParseDUID clientID = duid"
  shows "leaves6 (cstep6 env duid db) (request_lease env cfg sv req addr relay sc clientID iaid p db)"
  unfolding request_lease_def Let_def assms(2)
  using assms(1) by (auto simp: ready6_def cstep6_refl intro!: leaves6_intro)

text \<open>The database is the one the packet found, or the one its peers left during the delay.\<close>

definition isolated6 :: "env6 \<Rightarrow> string \<Rightarrow> db \<Rightarrow> db \<Rightarrow> bool" where
  "isolated6 env duid db db' \<longleftrightarrow> cstep6 env duid db db' \<or> cstep6 env duid (e6Meanwhile env db) db'"

lemma after_delay_isolated [leaves6_intro]:
  assumes "ready6 env db" and "ready6 env (e6Meanwhile env db)"
    and k: "\<And>d. ready6 env d \<Longrightarrow> leaves6 (cstep6 env duid d) (k d)"
  shows "leaves6 (isolated6 env duid db) (after_delay env cfg offered k db)"
  using assms(1,2) k [OF assms(1)] k [OF assms(2)]
  by (auto simp: after_delay_def Let_def isolated6_def leaves6_def ready6_def cstep6_refl)

lemma handleSolicitPD_leaves:
  assumes "ready6 env db" and "ready6 env (e6Meanwhile env db)"
  shows "leaves6 (isolated6 env (duid_of req) db) (handleSolicitPD env cfg sv req addr relay db)"
proof -
  obtain scope clientID iaid err where p: "parseCommonPD sv req relay = (scope, clientID, iaid, err)" by (metis prod_cases4)
  have r: "isolated6 env (duid_of req) db db" using assms(1) by (simp add: isolated6_def ready6_def cstep6_refl)
  show ?thesis
  proof (cases scope)
    case None
    then show ?thesis using r by (auto simp: handleSolicitPD_def p Let_def intro!: leaves6_intro)
  next
    case (Some sc)
    then have d: "ParseDUID clientID = duid_of req" using p parseCommonPD_duid by blast
    show ?thesis unfolding handleSolicitPD_def p Some prod.case Let_def d option.case
      using assms r by (auto simp: ready6_def cstep6_refl intro!: leaves6_intro)
  qed
qed

lemma handleRequestPD_leaves:
  assumes "ready6 env db"
  shows "leaves6 (cstep6 env (duid_of req) db) (handleRequestPD env cfg sv req addr relay db)"
proof -
  obtain scope clientID iaid err where p: "parseCommonPD sv req relay = (scope, clientID, iaid, err)" by (metis prod_cases4)
  have r: "cstep6 env (duid_of req) db db" using assms by (simp add: ready6_def cstep6_refl)
  show ?thesis
  proof (cases scope)
    case None
    then show ?thesis using r by (auto simp: handleRequestPD_def p Let_def intro!: leaves6_intro)
  next
    case (Some sc)
    then have d: "ParseDUID clientID = duid_of req" using p parseCommonPD_duid by blast
    show ?thesis unfolding handleRequestPD_def p Some prod.case Let_def d option.case
      using assms r by (auto simp: ready6_def intro!: leaves6_intro)
  qed
qed

lemma leaves6_parseCommon:
  assumes "P db" and "\<And>sc clientID iaid. ParseDUID clientID = duid_of req \<Longrightarrow> leaves6 P (ok sc clientID iaid)"
  shows "leaves6 P (on_result6 (parseCommon sv req relay) db (\<lambda>(sc, clientID, iaid). ok sc clientID iaid) (\<lambda>_. done6 [] db))"
  using assms parseCommon_duid by (auto intro!: leaves6_intro)

lemma handleSolicitCombined_leaves:
  assumes "ready6 env db"
  shows "leaves6 (cstep6 env (duid_of req) db) (handleSolicitCombined env cfg sv req addr relay db)"
  unfolding handleSolicitCombined_def Let_def
proof (rule leaves6_parseCommon, goal_cases)
  case 1
  show ?case using assms by (simp add: ready6_def cstep6_refl)
next
  case (2 sc clientID iaid)
  show ?case unfolding 2
    using assms by (auto simp: ready6_def cstep6_refl fresh_prefix_id_def own_lease_id_def own_prefix_id_def intro!: leaves6_intro)
qed

lemma handleRequestCombined_leaves:
  assumes "ready6 env db"
  shows "leaves6 (cstep6 env (duid_of req) db) (handleRequestCombined env cfg sv req addr relay db)"
  unfolding handleRequestCombined_def Let_def
proof (rule leaves6_parseCommon, goal_cases)
  case 1
  show ?case using assms by (simp add: ready6_def cstep6_refl)
next
  case (2 sc clientID iaid)
  show ?case unfolding 2
    using assms by (auto simp: ready6_def cstep6_refl fresh_prefix_id_def own_lease_id_def own_prefix_id_def intro!: leaves6_intro)
qed

lemma query_row_own: "query_row P rows = Some x \<Longrightarrow> x \<in> set rows \<and> P x"
  using query_row_SomeD by fastforce

lemma release_na_step:
  assumes w: "wf_db db" and g: "ok_value (GetV6LeaseByDUID flt sid duid iaid db) = Some l"
  shows "cstep6 env duid db (snd (UpdateV6LeaseState flt' t (vlID l) st db))
    \<and> dbV6Prefixes (snd (UpdateV6LeaseState flt' t (vlID l) st db)) = dbV6Prefixes db"
proof -
  from g obtain e where e: "e \<in> set (dbV6Leases db)" "vlDUID e = duid" "vlID l = vlID e"
    by (auto simp: GetV6LeaseByDUID_def ok_value_def exec_def or_no_rows_def scanV6Lease_def
        dest!: query_row_own split: run.splits option.splits if_splits)
  have "own_lease_id duid (vlID l) db"
    unfolding own_lease_id_def
  proof (intro ballI impI)
    fix x assume "x \<in> set (dbV6Leases db)" "vlID x = vlID l"
    then have "x = e" using v6_lease_unique [OF w _ e(1), of x] e(3) by simp
    then show "vlDUID x = duid" using e(2) by simp
  qed
  then show ?thesis
    by (rule UpdateV6LeaseState_step [OF prod.collapse [symmetric] w])
qed

lemma release_pd_step:
  assumes w: "wf_db db" and g: "ok_value (GetV6PrefixByDUID flt sid duid iaid db) = Some p"
  shows "cstep6 env duid db (snd (UpdateV6PrefixState flt' t (vpID p) st db))"
proof -
  from g obtain e where e: "e \<in> set (dbV6Prefixes db)" "vpDUID e = duid" "vpID p = vpID e"
    by (auto simp: GetV6PrefixByDUID_def ok_value_def exec_def or_no_rows_def scanV6Prefix_def Let_def
        dest!: query_row_own split: run.splits option.splits if_splits)
  have "x = e" if "x \<in> set (dbV6Prefixes db)" "vpID x = vpID e" for x
    using v6_prefixes.uniq_clashD [of "dbV6Prefixes db" x e] that e w by (auto simp: wf_db_def v6_prefix_clash_def)
  then have "own_prefix_id duid (vpID p) db" using e unfolding own_prefix_id_def by metis
  then show ?thesis
    by (intro UpdateV6PrefixState_step [OF prod.collapse [symmetric] w, THEN conjunct1])
qed

lemma releaseV6Lease_step:
  "wf_db db \<Longrightarrow> cstep6 env (duid_of req) db (snd (releaseV6Lease env cfg sv req relay db))"
  by (auto simp: releaseV6Lease_def Let_def cstep6_refl parseCommon_duid release_na_step split: run.split option.split)

lemma releaseV6Prefix_step:
  "wf_db db \<Longrightarrow> cstep6 env (duid_of req) db (snd (releaseV6Prefix env cfg sv req relay db))"
  by (auto simp: releaseV6Prefix_def Let_def cstep6_refl parseCommonPD_duid release_pd_step split: option.split prod.split)

lemma handleRelease6_leaves:
  assumes "wf_db db"
  shows "leaves6 (cstep6 env (duid_of req) db) (handleRelease6 env cfg sv req addr relay db)"
proof -
  obtain id1 db1 where e1: "(if hasIANAOpt req then releaseV6Lease env cfg sv req relay db else ([], db)) = (id1, db1)"
    by (metis surj_pair)
  then have s1: "cstep6 env (duid_of req) db db1"
    using releaseV6Lease_step [OF assms, of env req cfg sv relay] assms by (auto simp: cstep6_refl split: if_splits)
  obtain id2 db2 where e2: "(if hasPD req then (case releaseV6Prefix env cfg sv req relay db1 of (i, d) \<Rightarrow>
      (if id1 = [] then i else id1, d)) else (id1, db1)) = (id2, db2)"
    by (metis surj_pair)
  then have "cstep6 env (duid_of req) db1 db2"
    using releaseV6Prefix_step [OF cstep6_wf [OF s1], of env req cfg sv relay] cstep6_refl [OF cstep6_wf [OF s1]]
    by (auto split: if_splits prod.splits)
  with s1 have "cstep6 env (duid_of req) db db2" by (rule cstep6_trans)
  then show ?thesis
    unfolding handleRelease6_def Let_def e1 prod.case e2
    using assms by (auto simp: cstep6_refl intro!: leaves6_intro split: option.split)
qed

lemma handleDecline6_leaves:
  assumes "wf_db db"
  shows "leaves6 (cstep6 env (duid_of req) db) (handleDecline6 env cfg sv req addr relay db)"
  using assms unfolding handleDecline6_def Let_def
  by (auto simp: cstep6_refl parseCommon_duid release_na_step intro!: leaves6_intro split: option.split)

lemma isolated6_refl: "wf_db db \<Longrightarrow> isolated6 env duid db db"
  by (simp add: isolated6_def cstep6_refl)

lemma isolated6_step: "leaves6 (cstep6 env duid db) o' \<Longrightarrow> leaves6 (isolated6 env duid db) o'"
  by (simp add: leaves6_def isolated6_def)

lemma handleSolicit_leaves:
  assumes "ready6 env db" and "ready6 env (e6Meanwhile env db)"
  shows "leaves6 (isolated6 env (duid_of req) db) (handleSolicit env cfg sv req addr relay db)"
proof -
  have "wf_db db" using assms(1) by (simp add: ready6_def)
  with assms show ?thesis
    unfolding handleSolicit_def
    by (auto simp: isolated6_refl parseCommon_duid handleSolicitPD_leaves
        intro!: leaves6_intro isolated6_step [OF handleSolicitCombined_leaves] solicit_offer_leaves)
qed

lemma handleRequest6_leaves:
  assumes "ready6 env db"
  shows "leaves6 (cstep6 env (duid_of req) db) (handleRequest6 env cfg sv req addr relay db)"
proof -
  have "cstep6 env (duid_of req) db db" using assms by (simp add: ready6_def cstep6_refl)
  with assms show ?thesis
    unfolding handleRequest6_def
    by (auto simp: parseCommon_duid handleRequestPD_leaves handleRequestCombined_leaves
        intro!: leaves6_intro request_lease_leaves)
qed

lemma dispatch6_leaves:
  assumes "ready6 env db" and "ready6 env (e6Meanwhile env db)"
  shows "leaves6 (isolated6 env (duid_of req) db) (dispatch6 env cfg sv req addr relay db)"
proof -
  have w: "wf_db db" using assms(1) by (simp add: ready6_def)
  have "leaves6 (cstep6 env (duid_of req) db) (handleConfirm sv req addr relay db)"
    "leaves6 (cstep6 env (duid_of req) db) (handleInformationRequest env sv req addr relay db)"
    using w by (auto simp: handleConfirm_def handleInformationRequest_def Let_def cstep6_refl intro!: leaves6_intro split: prod.split)
  with assms w show ?thesis
    unfolding dispatch6_def Let_def
    by (simp add: handleSolicit_leaves isolated6_step handleRequest6_leaves handleRelease6_leaves handleDecline6_leaves
        isolated6_refl leaves6_done)
qed

section \<open>Binding a requested address\<close>

text \<open>
  The row behind an answer with an address: the client's, with the granted end, and active, unless it took over the row
  that was at the address before, with that row's id.
\<close>

definition bound6 :: "env6 \<Rightarrow> scope \<Rightarrow> string \<Rightarrow> uint32 \<Rightarrow> ip \<Rightarrow> db \<Rightarrow> db \<Rightarrow> bool" where
  "bound6 env sc duid iaid p db db' \<longleftrightarrow> (\<exists>row \<in> set (dbV6Leases db').
     vlScopeID row = scID sc \<and> vlDUID row = duid \<and> vlIAID row = iaid_string iaid \<and> vlIPAddr row = normalizeIP p
     \<and> vlEndsAt row = e6Now env ''AllocateV6Lease'' + clampLeaseTime (normalizedV6LeaseTimes sc) (scopeMaxLeaseTime sc) * Second
     \<and> (vlState row = LeaseActive
        \<or> (\<exists>x \<in> set (dbV6Leases db). vlScopeID x = scID sc \<and> vlIPAddr x = normalizeIP p \<and> vlID x = vlID row)))"

lemma activate_na_Ret:
  assumes "activate_na env l db = (Ret u, db')" and "row \<in> set (dbV6Leases db)" and "vlID row = vlID l"
  shows "row\<lparr>vlState := LeaseActive, vlUpdatedAt := e6Now env ''UpdateV6LeaseState''\<rparr> \<in> set (dbV6Leases db')"
    (is "?row \<in> _")
  using UpdateV6LeaseState_cases [of "e6Faults env" "e6Now env ''UpdateV6LeaseState''" "vlID l" LeaseActive db]
proof cases
  case 1
  with assms show ?thesis by (auto simp: activate_na_def set_update_where)
next
  case (2 e)
  with assms(1) show ?thesis by (simp add: activate_na_def)
qed

lemma activate_na_others:
  assumes "activate_na env l db = (Ret u, db')" and "row \<in> set (dbV6Leases db)" and "vlID row \<noteq> vlID l"
  shows "row \<in> set (dbV6Leases db')"
  using UpdateV6LeaseState_cases [of "e6Faults env" "e6Now env ''UpdateV6LeaseState''" "vlID l" LeaseActive db]
proof cases
  case 1
  with assms show ?thesis by (auto simp: activate_na_def set_update_where)
next
  case (2 e)
  with assms(1) show ?thesis by (simp add: activate_na_def)
qed

lemma alloc_activate_bound6:
  assumes a: "alloc_na env sc duid iaid p db = (Ret l, db1)" and w: "wf_db db" and u: "activate_na env l db1 = (Ret u, db2)"
  shows "bound6 env sc duid iaid (vlIPAddr l) db db2"
proof -
  from a [unfolded alloc_na_def] w obtain g where g: "a6Scope g = sc" "a6DUID g = duid" "a6IAID g = iaid_string iaid"
    "a6EndsAt g = e6Now env ''AllocateV6Lease'' + clampLeaseTime (normalizedV6LeaseTimes sc) (scopeMaxLeaseTime sc) * Second"
    and gr: "granted6 g l db db1" by (rule AllocateV6Lease_Ret)
  then obtain row where row: "row \<in> set (dbV6Leases db1)" "recorded6 l row" "id_kept6 l row db"
    and l: "vlScopeID l = scID sc" "vlDUID l = duid" "vlIAID l = iaid_string iaid" "vlEndsAt l = a6EndsAt g"
    by (auto simp: granted6_def)
  show ?thesis
  proof (cases "vlID row = vlID l")
    case True
    from activate_na_Ret [OF u row(1) True] row(2) l g(4) show ?thesis
      unfolding bound6_def by (intro bexI) (simp_all add: recorded6_def)
  next
    case False
    from activate_na_others [OF u row(1) False] row(2,3) l g(4) False show ?thesis
      unfolding bound6_def by (intro bexI) (simp_all add: recorded6_def id_kept6_def)
  qed
qed

lemma bound6_log [simp]:
  "bound6 env sc duid iaid p db (logIPAllocation6 env' cfg sc' d i q n action relay hostname db') = bound6 env sc duid iaid p db db'"
  by (simp add: bound6_def)

lemma request_lease_outcome:
  assumes "wf_db db" and "h6Sent (request_lease env cfg sv req addr relay sc clientID iaid requestedIP db) = [s]"
  shows "s \<in> {sendReplyWithStatus sv req addr relay 2 ''address unavailable'', sendReplyWithStatus sv req addr relay 3 ''binding mismatch''}
    \<or> (\<exists>p res groupOpts. s = sendReply6 sv (applyOptions6 env (applyIA (reply_to sv req MsgTypeReply clientID) iaid p sc)
           sc res groupOpts) addr relay
         \<and> bound6 env sc (ParseDUID clientID) iaid p db (h6Db (request_lease env cfg sv req addr relay sc clientID iaid requestedIP db)))"
proof -
  obtain r db1 where a: "alloc_na env sc (ParseDUID clientID) iaid requestedIP db = (r, db1)" by (rule prod.exhaust)
  show ?thesis
  proof (cases r)
    case (Ret l)
    note rl = this
    obtain u db2 where u: "activate_na env l db1 = (u, db2)" by (rule prod.exhaust)
    show ?thesis
    proof (cases u)
      case [simp]: (Ret v)
      from alloc_activate_bound6 [OF a [unfolded rl] assms(1)] u
      have "bound6 env sc (ParseDUID clientID) iaid (vlIPAddr l) db db2" by simp
      with assms(2) a rl u show ?thesis
        by (fastforce simp: request_lease_def Let_def on_result6_def split: if_splits option.splits)
    qed (use assms(2) a rl u in \<open>auto simp: request_lease_def Let_def on_result6_def split: if_splits option.splits\<close>)
  qed (use assms(2) a in \<open>auto simp: request_lease_def Let_def on_result6_def split: if_splits option.splits\<close>)
qed

section \<open>Combined messages\<close>

lemma find_append_option: "List.find P (xs @ ys) = (case List.find P xs of Some x \<Rightarrow> Some x | None \<Rightarrow> List.find P ys)"
  by (induction xs) auto

text \<open>The first options with a code stay the first when options are appended.\<close>

lemma Get6_add: "Get6 (p6Options reply) code = Some opt \<Longrightarrow> Get6 (p6Options (add_option6 c d reply)) code = Some opt"
  by (auto simp: Get6_def add_option6_def Add6_def find_append_option)

lemma Get6_add_new:
  "Get6 (p6Options reply) code = None \<Longrightarrow> Get6 (p6Options (add_option6 code d reply)) code = Some \<lparr>o6Code = code, o6Data = d\<rparr>"
  by (auto simp: Get6_def add_option6_def Add6_def find_append_option)

lemma Get6_add_other: "c \<noteq> code \<Longrightarrow> Get6 (p6Options (add_option6 c d reply)) code = Get6 (p6Options reply) code"
  by (auto simp: Get6_def add_option6_def Add6_def find_append_option split: option.split)

lemma Get6_layer: "Get6 (p6Options reply) code = Some opt \<Longrightarrow> Get6 (p6Options (option_layer6 env m ks reply)) code = Some opt"
  by (induction ks arbitrary: reply) (auto simp: Get6_add Let_def split: option.splits run.splits)

lemma Get6_applyOptions:
  "Get6 (p6Options reply) code = Some opt \<Longrightarrow> Get6 (p6Options (applyOptions6 env reply sc res groupOpts)) code = Some opt"
  by (auto simp: applyOptions6_def Let_def Get6_add Get6_layer split: option.splits)

lemma Get6_combined_options:
  "Get6 (p6Options reply) code = Some opt \<Longrightarrow> Get6 (p6Options (combined_options env scope pdScope reply)) code = Some opt"
  by (auto simp: combined_options_def Get6_applyOptions split: option.splits)

text \<open>An answer for an IA starts with its IAID.\<close>

definition answers_ia :: "packet6 \<Rightarrow> uint16 \<Rightarrow> uint32 \<Rightarrow> bool" where
  "answers_ia reply code iaid \<longleftrightarrow> (\<exists>opt. Get6 (p6Options reply) code = Some opt \<and> Uint32 (slice 0 4 (o6Data opt)) = iaid)"

lemma IAID_of_body [simp]: "Uint32 (slice 0 4 (BuildIANA iaid t1 t2 opts)) = iaid" "Uint32 (slice 0 4 (BuildIAPD iaid t1 t2 opts)) = iaid"
  by (simp_all add: BuildIANA_def BuildIAPD_def slice_def)

lemma answers_ia_na: "Get6 (p6Options reply) OptIANA = None \<Longrightarrow> answers_ia (answer_na (Some sc) iaid lease reply) OptIANA iaid"
  by (auto simp: answers_ia_def answer_na_def applyIA_def no_address_def Get6_add_new Let_def split: option.split)

lemma answers_ia_pd: "Get6 (p6Options reply) OptIAPD = None \<Longrightarrow> answers_ia (answer_pd (Some sc) iaid prefix reply) OptIAPD iaid"
  by (auto simp: answers_ia_def answer_pd_def applyPD_def no_prefix_def Get6_add_new Let_def split: option.split)

lemma answers_ia_keeps:
  "answers_ia reply OptIANA iaid \<Longrightarrow> answers_ia (answer_pd scope i prefix reply) OptIANA iaid"
  "answers_ia reply code iaid \<Longrightarrow> answers_ia (combined_options env scope pdScope reply) code iaid"
  by (auto simp: answers_ia_def answer_pd_def applyPD_def no_prefix_def Get6_add Get6_combined_options Let_def split: option.split)

lemma answer_na_no_pd: "Get6 (p6Options (answer_na scope iaid lease reply)) OptIAPD = Get6 (p6Options reply) OptIAPD"
  by (auto simp: answer_na_def applyIA_def no_address_def Get6_add_other Let_def split: option.split)

lemma combined_answer:
  assumes "Get6 (p6Options reply) OptIANA = None" and "Get6 (p6Options reply) OptIAPD = None"
  shows "answers_ia (combined_options env scope pdScope (answer_pd (Some pd) pdIAID prefix (answer_na (Some sc) iaid lease reply))) OptIANA iaid"
    "answers_ia (combined_options env scope pdScope (answer_pd (Some pd) pdIAID prefix (answer_na (Some sc) iaid lease reply))) OptIAPD pdIAID"
  using assms by (simp_all add: answers_ia_keeps answers_ia_na answers_ia_pd answer_na_no_pd)

lemma reply_to_no_ia:
  "Get6 (p6Options (reply_to sv req t clientID)) OptIANA = None" "Get6 (p6Options (reply_to sv req t clientID)) OptIAPD = None"
  by (simp_all add: reply_to_def add_option6_def Add6_def ReplyFromRequest6_def NewPacket6_def Get6_def)

definition sends6 :: "(sent6 \<Rightarrow> bool) \<Rightarrow> out6 \<Rightarrow> bool" where
  "sends6 Q o' \<longleftrightarrow> (h6End o' = Finished \<longrightarrow> (\<exists>s. h6Sent o' = [s] \<and> Q s))"

lemma sends6_done: "Q s \<Longrightarrow> sends6 Q (done6 [s] db)"
  by (simp add: sends6_def)

lemma sends6_call_for: "(\<And>y db. sends6 Q (k y db)) \<Longrightarrow> sends6 Q (call_for x f db k)"
  by (auto simp: call_for_def on_result6_def sends6_def split: option.splits prod.splits run.splits)

lemma sends6_kept_if: "(\<And>y db. sends6 Q (k y db)) \<Longrightarrow> sends6 Q (kept_if x f db k)"
  unfolding kept_if_def by (rule sends6_call_for)

section \<open>Properties\<close>

text \<open>The client behind a datagram: of a relayed one, the client of the innermost message.\<close>

definition client_of :: "udp_addr \<Rightarrow> bytes \<Rightarrow> string" where
  "client_of addr data =
     (if data \<noteq> [] \<and> data ! 0 = MsgTypeRelayForw
      then (case unwrap_datagram addr data of Ret (req, _) \<Rightarrow> duid_of req | _ \<Rightarrow> [])
      else (case ParsePacket6 data of Ret req \<Rightarrow> duid_of req | _ \<Rightarrow> []))"

lemma handlePacket6_leaves:
  assumes "ready6 env db" and "ready6 env (e6Meanwhile env db)"
  shows "leaves6 (isolated6 env (client_of addr data) db) (handlePacket6 env cfg sv data addr db)"
proof -
  have w: "isolated6 env duid db db" for duid using assms(1) by (simp add: ready6_def isolated6_refl)
  have "duid_of req = client_of addr data"
    if "data \<noteq> []" "data ! 0 = MsgTypeRelayForw" "unwrap_datagram addr data = Ret (req, rc)" for req rc
    using that by (simp add: client_of_def)
  moreover have "duid_of req = client_of addr data" if "data ! 0 \<noteq> MsgTypeRelayForw" "ParsePacket6 data = Ret req" for req
    using that by (simp add: client_of_def)
  ultimately show ?thesis
    unfolding handlePacket6_relay using dispatch6_leaves [OF assms]
    by (auto simp: w leaves6_done intro!: leaves6_on_result) metis+
qed

text \<open>
  C6. A DHCPv6 datagram touches its own client only. Whatever arrives, directly or through relays, handling
  it keeps the database well formed and every table but leases, delegations and the allocation log
  as it was, and every live lease and every live delegation of another DUID stays in its table
  unchanged. The database compared with is the one the packet found or, when the node waited for
  its peers before it answered, the one they left.
\<close>

theorem client6_isolated:
  assumes "ready6 env db" and "ready6 env (e6Meanwhile env db)"
  shows "let db' = h6Db (handlePacket6 env cfg sv data addr db); duid = client_of addr data in
    wf_db db' \<and> (\<exists>db0. (db0 = db \<or> db0 = e6Meanwhile env db) \<and> same_config db0 db'
      \<and> (\<forall>x \<in> set (dbV6Leases db0). vlDUID x \<noteq> duid \<and> v6_lease_blocks (e6Now env ''AllocateV6Lease'') x
           \<longrightarrow> x \<in> set (dbV6Leases db'))
      \<and> (\<forall>x \<in> set (dbV6Prefixes db0). vpDUID x \<noteq> duid \<and> prefix_live (e6Now env ''AllocateV6Prefix'') x
           \<longrightarrow> x \<in> set (dbV6Prefixes db')))"
  using handlePacket6_leaves [OF assms, of addr data cfg sv]
  unfolding Let_def leaves6_def isolated6_def cstep6_def by blast

lemma demo6_ready: "ready6 demo6_env demo6_db"
  using demo6_db_wf
  by (simp add: ready6_def fresh_lease_id_def fresh_prefix_id_def demo6_db_def demo6_lease_def demo6_env_def demo_db_def)

theorem client6_isolated_witness:
  "demo6_lease \<in> set (dbV6Leases (h6Db (handlePacket6 demo6_env demo_cfg demo6_sv demo6_forward demo6_addr demo6_db)))"
proof -
  have m: "e6Meanwhile demo6_env demo6_db = demo6_db" by (simp add: demo6_env_def)
  have c: "client_of demo6_addr demo6_forward = ''bb''"
    by (simp add: client_of_def demo6_forward_head demo6_unwrapped) code_simp
  have "demo6_lease \<in> set (dbV6Leases demo6_db)" "vlDUID demo6_lease \<noteq> ''bb''"
    "v6_lease_blocks (e6Now demo6_env ''AllocateV6Lease'') demo6_lease"
    by (simp_all add: demo6_db_def demo6_lease_def demo6_env_def leaseBlocksReuse_def)
  with client6_isolated [of demo6_env demo6_db demo_cfg demo6_sv demo6_forward demo6_addr] demo6_ready m c show ?thesis
    by (auto simp: Let_def)
qed


lemma demo6_no_refusal:
  "sendReply6 demo6_sv (applyOptions6 demo6_env (applyIA (reply_to demo6_sv demo6_request MsgTypeReply [187]) 1 (demo6_ip 19) demo6_scope)
     demo6_scope None None) demo6_addr None \<notin> {sendReplyWithStatus demo6_sv demo6_request demo6_addr None 2 ''address unavailable'',
       sendReplyWithStatus demo6_sv demo6_request demo6_addr None 3 ''binding mismatch''}"
  by code_simp

lemma demo6_direct_read: "parseCommon demo6_sv demo6_request None = Ret (demo6_scope, [187], 1)"
  by code_simp


text \<open>
  The client \<open>cc\<close>, with an old row for IAID 1 at its reserved address, asks for an address for IAID 2.
\<close>

definition old_row :: v6_lease where
  "old_row = demo6_lease\<lparr>vlID := ''l2'', vlDUID := ''cc'', vlIPAddr := demo6_ip 18, vlState := LeaseReleased\<rparr>"

definition takeover_db :: db where
  "takeover_db = demo6_db\<lparr>dbV6Leases := [demo6_lease, old_row]\<rparr>"

definition takeover_request :: packet6 where
  "takeover_request = \<lparr>p6MessageType = MsgTypeRequest, p6TransID = (1, 2, 3), p6Options =
     [\<lparr>o6Code = OptClientID, o6Data = [204]\<rparr>, \<lparr>o6Code = OptIANA, o6Data = BuildIANA 2 0 0 []\<rparr>]\<rparr>"

lemma takeover_alloc:
  "case alloc_na demo6_env demo6_scope ''cc'' 2 [] takeover_db of (Ret l, db1) \<Rightarrow> vlIPAddr l = demo6_ip 18 \<and>
     map (\<lambda>x. (vlDUID x, vlIAID x, vlIPAddr x, vlState x)) (dbV6Leases (snd (activate_na demo6_env l db1)))
       = [(''aa'', ''1'', demo6_ip 17, LeaseActive), (''cc'', ''2'', demo6_ip 18, LeaseOffered)] | _ \<Rightarrow> False"
  by code_simp

lemma takeover_read:
  "parseCommon demo6_sv takeover_request None = Ret (demo6_scope, [204], 2)" "extractRequestedIP demo6_env takeover_request 2 = Ret []"
  "ParseDUID [204] = ''cc''" "scEnabled demo6_scope" "p6MessageType takeover_request = MsgTypeRequest"
  "serverIDMatches demo6_sv takeover_request" "\<not> hasPD takeover_request"
  "GetV6ReservationByDUID (e6Faults demo6_env) (scID demo6_scope) ''cc'' takeover_db = Ret demo6_reservation"
  "vrGroupID demo6_reservation = ''''"
  by code_simp+



text \<open>A Solicit for both IAs while the database refuses transactions.\<close>

definition failing_env :: env6 where
  "failing_env = demo6_env\<lparr>e6Faults := (\<lambda>s. if s = ''Begin'' then Some ''down'' else None)\<rparr>"

definition combined_request :: packet6 where
  "combined_request = \<lparr>p6MessageType = MsgTypeSolicit, p6TransID = (1, 2, 3), p6Options =
     [\<lparr>o6Code = OptClientID, o6Data = [187]\<rparr>, \<lparr>o6Code = OptIANA, o6Data = BuildIANA 1 0 0 []\<rparr>,
      \<lparr>o6Code = OptIAPD, o6Data = BuildIAPD 9 0 0 []\<rparr>]\<rparr>"

lemma combined_read:
  "parseCommon demo6_sv combined_request None = Ret (demo6_scope, [187], 1)" "scEnabled demo6_scope"
  "parseCommonPD demo6_sv combined_request None = (Some demo6_scope, [187], 9, None)" "pd_ready demo6_scope"
  "hasIANAOpt combined_request" "hasPD combined_request" "Get6 (p6Options combined_request) OptRapidCommit = None"
  by code_simp+


end
