(* ===== verification/Dns_Server.thy ===== *)
theory Dns_Server
  imports Dhcp4_Options Store_Model
begin

text \<open>
  The DNS server, \<open>internal/dns/server.go\<close>: it answers A, AAAA, ANY and PTR queries from the lease and
  reservation tables.
  \<^item> \<open>parseQuery\<close> and \<open>decodeName\<close> read a message, \<open>encodeName\<close>, \<open>rrAddress\<close>, \<open>rrPTR\<close> and
    \<open>buildResponse\<close> write one; \<open>parsePTRName\<close> reads the reverse names.
  \<^item> \<open>handleQuery\<close> is one message, \<open>handleTCPConn\<close> the messages of a TCP connection.
  \<^item> \<open>dns_env\<close> holds the configured TTL, the statement faults and clock, SQL's LOWER and the part of
    \<open>strings.ToLower\<close> that needs Unicode tables. Sockets and logging are left out.
\<close>

section \<open>Names\<close>

record dns_env =
  dnTTL :: int
  dnFaults :: faults
  dnNow :: time
  dnSqlLower :: "string \<Rightarrow> string"
  dnUnicodeLower :: "string \<Rightarrow> string"

definition qtypeA :: uint16 where "qtypeA = 1"
definition qtypePTR :: uint16 where "qtypePTR = 12"
definition qtypeAAAA :: uint16 where "qtypeAAAA = 28"
definition qtypeANY :: uint16 where "qtypeANY = 255"
definition rcodeNoError :: byte where "rcodeNoError = 0"
definition rcodeFormErr :: byte where "rcodeFormErr = 1"
definition rcodeNXDomain :: byte where "rcodeNXDomain = 3"

lemmas dns_codes = qtypeA_def qtypePTR_def qtypeAAAA_def qtypeANY_def rcodeNoError_def rcodeFormErr_def rcodeNXDomain_def

text \<open>\<open>strings.ToLower\<close>: byte by byte when every byte is ASCII, else by the Unicode tables.\<close>

definition is_ascii :: "char \<Rightarrow> bool" where
  "is_ascii c \<longleftrightarrow> (of_char c :: nat) < 128"

definition ToLower :: "dns_env \<Rightarrow> string \<Rightarrow> string" where
  "ToLower env s = (if list_all is_ascii s then fold_name s else dnUnicodeLower env s)"

text \<open>\<open>strings.Join(labels, ".")\<close>.\<close>

fun join_dot :: "string list \<Rightarrow> string" where
  "join_dot [] = []"
| "join_dot [l] = l"
| "join_dot (l # l' # ls) = l @ ''.'' @ join_dot (l' # ls)"

definition errShort :: string where "errShort = ''message too short''"

function decode_labels :: "bytes \<Rightarrow> nat \<Rightarrow> (string list \<times> nat) run" where
  "decode_labels data offset =
     (if length data \<le> offset then Fail errShort
      else let l = data ! offset in
        if l = 0 then Ret ([], offset + 1)
        else if l AND 0xC0 \<noteq> 0 then Fail ''compressed name in question''
        else if length data < offset + 1 + unat l then Fail errShort
        else bind_run (decode_labels data (offset + 1 + unat l)) (\<lambda>(labels, next).
               Ret (string_of_bytes (slice (offset + 1) (offset + 1 + unat l) data) # labels, next)))"
  by pat_completeness auto
termination by (relation "measure (\<lambda>(data, offset). length data - offset)") auto

declare decode_labels.simps [simp del]

definition decodeName :: "bytes \<Rightarrow> nat \<Rightarrow> (string \<times> nat) run" where
  "decodeName data offset = bind_run (decode_labels data offset) (\<lambda>(labels, next). Ret (join_dot labels, next))"

text \<open>The length octet is \<open>byte(len(label))\<close>, and wraps.\<close>

definition encodeName :: "string \<Rightarrow> bytes" where
  "encodeName name = concat (map (\<lambda>label. if label = '''' then [] else of_nat (length label) # bytes_of_string label)
     (split_at (CHR ''.'') name)) @ [0]"

section \<open>Queries and responses\<close>

record query =
  qID :: uint16
  qFlags :: uint16
  qName :: string
  qType :: uint16
  qQuestion :: bytes

definition parseQuery :: "dns_env \<Rightarrow> bytes \<Rightarrow> query run" where
  "parseQuery env data =
     (if length data < 12 then Fail errShort
      else let qd = Uint16 (slice 4 6 data) in
        if qd \<noteq> 1 then Fail (''unsupported question count '' @ dec_string (unat qd))
        else bind_run (decodeName data 12) (\<lambda>(name, next).
          if length data < next + 4 then Fail errShort
          else let qtype = Uint16 (slice next (next + 2) data);
                   qclass = Uint16 (slice (next + 2) (next + 4) data)
               in if qclass \<noteq> 1 \<and> qclass \<noteq> 255 then Fail (''unsupported qclass '' @ dec_string (unat qclass))
                  else Ret \<lparr>qID = Uint16 (slice 0 2 data), qFlags = Uint16 (slice 2 4 data), qName = ToLower env name,
                            qType = qtype, qQuestion = slice 12 (next + 4) data\<rparr>))"

definition buildResponse :: "query \<Rightarrow> bytes list \<Rightarrow> byte \<Rightarrow> bytes" where
  "buildResponse q answers rcode =
     (let flags = 0x8400 OR (qFlags q AND 0x0100) OR ucast rcode
      in PutUint16 (qID q) @ PutUint16 flags @ PutUint16 1 @ PutUint16 (of_nat (length answers)) @ [0, 0, 0, 0]
         @ qQuestion q @ concat answers)"

definition rrAddress :: "uint16 \<Rightarrow> uint32 \<Rightarrow> ip \<Rightarrow> bytes" where
  "rrAddress typ ttl p =
     (let rdlen = (if typ = qtypeAAAA then 16 else 4)
      in [0xC0, 0x0C] @ PutUint16 typ @ PutUint16 1 @ PutUint32 ttl @ PutUint16 rdlen @ p)"

definition rrPTR :: "uint32 \<Rightarrow> string \<Rightarrow> bytes" where
  "rrPTR ttl fqdn =
     (let target = encodeName fqdn
      in [0xC0, 0x0C] @ PutUint16 qtypePTR @ PutUint16 1 @ PutUint32 ttl @ PutUint16 (of_nat (length target)) @ target)"

section \<open>Reverse names\<close>

definition CutSuffix :: "string \<Rightarrow> string \<Rightarrow> string option" where
  "CutSuffix s suffix = (if length suffix \<le> length s \<and> drop (length s - length suffix) s = suffix
     then Some (take (length s - length suffix) s) else None)"

text \<open>\<open>strconv.Atoi\<close> and the range check: a sign is allowed.\<close>

definition octet_value :: "string \<Rightarrow> byte option" where
  "octet_value s = (case ParseInt10 s of
     Ret n \<Rightarrow> if sint n < 0 \<or> 255 < sint n then None else Some (ucast n) | _ \<Rightarrow> None)"

definition nibbleVal :: "string \<Rightarrow> byte option" where
  "nibbleVal s = (case s of
     [c] \<Rightarrow> let n = of_char c :: nat in
        if 48 \<le> n \<and> n \<le> 57 then Some (of_nat (n - 48))
        else if 97 \<le> n \<and> n \<le> 102 then Some (of_nat (n - 97 + 10))
        else if 65 \<le> n \<and> n \<le> 70 then Some (of_nat (n - 65 + 10))
        else None
   | _ \<Rightarrow> None)"

text \<open>The loops over \<open>parts[3-i]\<close> and over the pairs \<open>nibbles[31-2*i]\<close>, \<open>nibbles[30-2*i]\<close>; None is \<open>nil, false\<close>.\<close>

fun ptr_octets :: "string list \<Rightarrow> ip option" where
  "ptr_octets [] = Some []"
| "ptr_octets (s # ss) = (case octet_value s of None \<Rightarrow> None | Some b \<Rightarrow> map_option ((#) b) (ptr_octets ss))"

fun ptr_nibbles :: "string list \<Rightarrow> ip option" where
  "ptr_nibbles (s # t # ss) = (case (nibbleVal s, nibbleVal t) of
     (Some h, Some l) \<Rightarrow> map_option ((#) (push_bit 4 h OR l)) (ptr_nibbles ss) | _ \<Rightarrow> None)"
| "ptr_nibbles _ = Some []"

definition parsePTRName :: "string \<Rightarrow> ip option" where
  "parsePTRName name = (case CutSuffix name ''.in-addr.arpa'' of
     Some host \<Rightarrow> let parts = split_at (CHR ''.'') host in
        if length parts \<noteq> 4 then None else ptr_octets (rev parts)
   | None \<Rightarrow> (case CutSuffix name ''.ip6.arpa'' of
       Some host \<Rightarrow> let nibbles = split_at (CHR ''.'') host in
          if length nibbles \<noteq> 32 then None else ptr_nibbles (rev nibbles)
     | None \<Rightarrow> None))"

section \<open>Answering\<close>

text \<open>\<open>strings.Index(name, ".") > 0\<close>: a name that starts with a dot is not split.\<close>

definition splitQuery :: "string \<Rightarrow> string \<times> string" where
  "splitQuery name = (let host = takeWhile (\<lambda>c. c \<noteq> CHR ''.'') name in
     if host \<noteq> [] \<and> length host < length name then (host, drop (length host + 1) name) else (name, ''''))"

definition lookupName :: "dns_env \<Rightarrow> string \<Rightarrow> db \<Rightarrow> ip list \<times> ip list" where
  "lookupName env name db = (case splitQuery name of (host, domain) \<Rightarrow>
     (case LookupHostname (dnFaults env) (dnSqlLower env) (dnNow env) host domain db of Ret r \<Rightarrow> r | _ \<Rightarrow> ([], [])))"

definition ptrFQDN :: "string \<Rightarrow> string \<Rightarrow> string" where
  "ptrFQDN host domain = (if domain = '''' then host @ ''.'' else host @ ''.'' @ domain @ ''.'')"

definition dns_ttl :: "dns_env \<Rightarrow> uint32" where
  "dns_ttl env = word_of_int (dnTTL env)"

text \<open>The switch on the query type: the answer records and the response code.\<close>

definition resolve :: "dns_env \<Rightarrow> query \<Rightarrow> db \<Rightarrow> bytes list \<times> byte" where
  "resolve env q db =
     (if qType q = qtypeA \<or> qType q = qtypeAAAA \<or> qType q = qtypeANY then
        let (v4, v6) = lookupName env (qName q) db;
            a = (if qType q = qtypeA \<or> qType q = qtypeANY then map (\<lambda>p. rrAddress qtypeA (dns_ttl env) (To4 p)) v4 else []);
            aaaa = (if qType q = qtypeAAAA \<or> qType q = qtypeANY then map (\<lambda>p. rrAddress qtypeAAAA (dns_ttl env) (To16 p)) v6 else []);
            answers = a @ aaaa
        in (answers, if length answers = 0 \<and> length v4 + length v6 = 0 then rcodeNXDomain else rcodeNoError)
      else if qType q = qtypePTR then
        (case parsePTRName (qName q) of
           None \<Rightarrow> ([], rcodeNXDomain)
         | Some p \<Rightarrow>
             let (host, domain) = (case LookupPTR (dnFaults env) (dnNow env) p db of Ret r \<Rightarrow> r | _ \<Rightarrow> ('''', ''''))
             in if host = '''' then ([], rcodeNXDomain)
                else ([rrPTR (dns_ttl env) (ptrFQDN host domain)], rcodeNoError))
      else ([], rcodeNoError))"

text \<open>None is the nil response: nothing is sent.\<close>

definition handleQuery :: "dns_env \<Rightarrow> bytes \<Rightarrow> db \<Rightarrow> bytes option" where
  "handleQuery env data db = (case parseQuery env data of
     Ret q \<Rightarrow> (case resolve env q db of (answers, rcode) \<Rightarrow> Some (buildResponse q answers rcode))
   | _ \<Rightarrow> None)"

section \<open>Transport\<close>

text \<open>The source address and interface of a UDP response (nil and 0: left to the kernel); \<open>dst\<close> is the address queried.\<close>

definition validReplySource :: "ip \<Rightarrow> bool" where
  "validReplySource p \<longleftrightarrow> p \<noteq> [] \<and> \<not> IsUnspecified p \<and> \<not> IsMulticast p \<and> \<not> ip_Equal p IPv4bcast"

definition reply_control :: "(ip \<times> int) option \<Rightarrow> ip \<times> int" where
  "reply_control cm = (case cm of None \<Rightarrow> ([], 0)
     | Some (dst, ifIndex) \<Rightarrow> if validReplySource dst then (dst, ifIndex) else ([], 0))"

text \<open>
  A TCP connection: what is written back for the bytes read until the peer stops sending; \<open>dbs n\<close> is the
  database the n-th message finds.
\<close>

function handleTCPConn :: "dns_env \<Rightarrow> (nat \<Rightarrow> db) \<Rightarrow> bytes \<Rightarrow> bytes" where
  "handleTCPConn env dbs input =
     (if length input < 2 then []
      else let n = unat (Uint16 (slice 0 2 input)) in
        if n = 0 then []
        else if length input < 2 + n then []
        else (case handleQuery env (slice 2 (2 + n) input) (dbs 0) of
                None \<Rightarrow> []
              | Some resp \<Rightarrow> PutUint16 (of_nat (length resp)) @ resp
                  @ handleTCPConn env (\<lambda>i. dbs (i + 1)) (drop (2 + n) input)))"
  by pat_completeness auto
termination by (relation "measure (\<lambda>(env, dbs, input). length input)") auto

declare handleTCPConn.simps [simp del]

end
