(* ===== verification/Dns_Answers.thy ===== *)
theory Dns_Answers
  imports Dns_Server Alloc4_Safety
begin

text \<open>
  What the DNS server promises: encoded names decode to themselves, a reverse name gives back its
  address, and the response to an address query, read by an independent reader of the wire format,
  lists exactly the addresses that the tables have for the name.
\<close>

section \<open>Names\<close>

definition good_label :: "string \<Rightarrow> bool" where
  "good_label l \<longleftrightarrow> l \<noteq> [] \<and> length l < 64 \<and> CHR ''.'' \<notin> set l"

definition wire_labels :: "string list \<Rightarrow> bytes" where
  "wire_labels ls = concat (map (\<lambda>l. of_nat (length l) # bytes_of_string l) ls)"

lemma split_at_append:
  "c \<notin> set l \<Longrightarrow> split_at c (l @ c # rest) = l # split_at c rest" "c \<notin> set l \<Longrightarrow> split_at c l = [l]"
  by (induction l) auto

lemma split_at_join: "\<forall>l \<in> set ls. CHR ''.'' \<notin> set l \<Longrightarrow> ls \<noteq> [] \<Longrightarrow> split_at (CHR ''.'') (join_dot ls) = ls"
  by (induction ls rule: join_dot.induct) (auto simp: split_at_append)

lemma encodeName_join: "\<forall>l \<in> set ls. good_label l \<Longrightarrow> encodeName (join_dot ls) = wire_labels ls @ [0]"
proof (cases "ls = []")
  case False
  moreover assume "\<forall>l \<in> set ls. good_label l"
  ultimately have "split_at (CHR ''.'') (join_dot ls) = ls" "\<forall>l \<in> set ls. l \<noteq> []"
    by (auto simp: good_label_def intro!: split_at_join)
  then show ?thesis by (auto simp: encodeName_def wire_labels_def intro!: arg_cong [of _ _ concat] map_cong)
qed (simp add: encodeName_def wire_labels_def)

lemma label_octet:
  assumes "good_label l"
  shows "(of_nat (length l) :: byte) \<noteq> 0" "unat (of_nat (length l) :: byte) = length l" "(of_nat (length l) :: byte) AND 0xC0 = 0"
proof -
  have n: "0 < length l" "length l < 64" using assms by (auto simp: good_label_def)
  then show u: "unat (of_nat (length l) :: byte) = length l" by (simp add: unat_of_nat)
  with n show "(of_nat (length l) :: byte) \<noteq> 0" by (metis unat_eq_0 less_numeral_extra(3))
  have "(of_nat (length l) :: byte) = take_bit 6 (of_nat (length l))"
    using n by (intro unsigned_word_eqI [where 'a = nat]) (simp add: u take_bit_eq_mod unat_mod_distrib)
  then have "(of_nat (length l) :: byte) AND 0xC0 = (of_nat (length l) AND mask 6) AND 0xC0" by (metis take_bit_eq_mask)
  also have "\<dots> = of_nat (length l) AND (mask 6 AND 0xC0)" by (simp only: and.assoc)
  also have "mask 6 AND (0xC0 :: byte) = 0" by code_simp
  finally show "(of_nat (length l) :: byte) AND 0xC0 = 0" by simp
qed

lemma decode_labels_wire:
  assumes "\<forall>l \<in> set ls. good_label l"
  shows "decode_labels (pre @ wire_labels ls @ 0 # post) (length pre) = Ret (ls, length pre + length (wire_labels ls) + 1)"
  using assms
proof (induction ls arbitrary: pre)
  case Nil
  then show ?case by (subst decode_labels.simps) (simp add: wire_labels_def)
next
  case (Cons l ls)
  let ?n = "of_nat (length l) :: byte" and ?rest = "wire_labels ls @ 0 # post"
  let ?data = "pre @ wire_labels (l # ls) @ 0 # post"
  have d: "?data = pre @ ?n # bytes_of_string l @ ?rest" by (simp add: wire_labels_def)
  have g: "good_label l" using Cons.prems by simp
  note o = label_octet [OF g]
  have at: "?data ! length pre = ?n" by (simp add: d)
  have "decode_labels ((pre @ ?n # bytes_of_string l) @ ?rest) (length (pre @ ?n # bytes_of_string l))
      = Ret (ls, length (pre @ ?n # bytes_of_string l) + length (wire_labels ls) + 1)"
    using Cons by (intro Cons.IH) simp
  then have r: "decode_labels ?data (length pre + 1 + length l) = Ret (ls, length pre + 1 + length l + length (wire_labels ls) + 1)"
    by (simp add: d)
  have s: "string_of_bytes (slice (length pre + 1) (length pre + 1 + length l) ?data) = l"
    by (simp add: d slice_def)
  show ?case
    by (subst decode_labels.simps) (use at o r s in \<open>simp add: Let_def d wire_labels_def\<close>)
qed

text \<open>The trailing dot of a fully qualified name adds no label.\<close>

lemma split_at_not_Nil: "split_at c s \<noteq> []"
  by (cases s) (auto split: list.split)

lemma split_at_trailing: "split_at c (s @ [c]) = split_at c s @ [[]]"
  by (induction s) (auto simp: split_at_not_Nil split: list.split)

lemma encodeName_trailing: "encodeName (name @ ''.'') = encodeName name"
  by (simp add: encodeName_def split_at_trailing)

section \<open>Reverse names\<close>

text \<open>The reverse name of an address: its octets, or its nibbles, last one first.\<close>

definition octet_labels :: "ip \<Rightarrow> string list" where
  "octet_labels p = map (\<lambda>b. dec_string (unat b)) p"

definition nibble_labels :: "ip \<Rightarrow> string list" where
  "nibble_labels p = concat (map (\<lambda>b. [[hex_digit (unat (drop_bit 4 b))], [hex_digit (unat (b AND 15))]]) p)"

definition reverse_name :: "ip \<Rightarrow> string" where
  "reverse_name p = (if length p = 4 then join_dot (rev (octet_labels p)) @ ''.in-addr.arpa''
     else join_dot (rev (nibble_labels p)) @ ''.ip6.arpa'')"

lemma CutSuffix_Some: "CutSuffix s suf = Some h \<longleftrightarrow> s = h @ suf"
proof
  assume "CutSuffix s suf = Some h"
  then have "drop (length s - length suf) s = suf" "h = take (length s - length suf) s"
    by (auto simp: CutSuffix_def split: if_splits)
  then show "s = h @ suf" by (metis append_take_drop_id)
qed (simp add: CutSuffix_def)

lemma CutSuffix_v6: "CutSuffix (h @ ''.ip6.arpa'') ''.in-addr.arpa'' = None"
proof -
  have "h @ ''.ip6.arpa'' \<noteq> h' @ ''.in-addr.arpa''" for h'
  proof
    assume "h @ ''.ip6.arpa'' = h' @ ''.in-addr.arpa''"
    then have "rev (h @ ''.ip6.arpa'') ! 5 = rev (h' @ ''.in-addr.arpa'') ! 5" by simp
    then show False by simp
  qed
  then show ?thesis using CutSuffix_Some [of "h @ ''.ip6.arpa''" "''.in-addr.arpa''"]
    by (cases "CutSuffix (h @ ''.ip6.arpa'') ''.in-addr.arpa''") blast+
qed

lemma octet_value_dec: "octet_value (dec_string (unat b)) = Some b"
proof -
  let ?s = "dec_string (unat b)"
  have b: "unat b < 256" using unsigned_less [of b, where 'a = nat] by simp
  have ne: "?s \<noteq> []" by (subst dec_string.simps) simp
  have dig: "c \<in> set ?s \<Longrightarrow> 48 \<le> (of_char c :: nat) \<and> (of_char c :: nat) \<le> 57" for c by (rule dec_string_digits)
  then have "hd ?s \<noteq> CHR ''-''" "hd ?s \<noteq> CHR ''+''" using hd_in_set [OF ne] by fastforce+
  moreover have "all_digits ?s" using ne dig by (auto simp: all_digits_def is_digit_def list_all_iff)
  ultimately have "ParseInt10 ?s = Ret (of_nat (unat b))"
    using b by (simp add: ParseInt10_def dec_value_string Let_def)
  moreover have "sint (of_nat (unat b) :: 64 word) = int (unat b)"
  proof -
    have "sint (of_nat n :: 64 word) = int n" if "n < 256" for n
      using that by (simp add: signed_of_nat signed_take_bit_int_eq_self)
    then show ?thesis using b by blast
  qed
  moreover have "ucast (of_nat (unat b) :: 64 word) = b"
    using b by (simp add: unsigned_of_nat take_bit_nat_eq_self)
  moreover have "int (unat b) \<le> 255" using b by linarith
  ultimately show ?thesis by (simp add: octet_value_def)
qed

lemma ptr_octets_labels: "ptr_octets (octet_labels p) = Some p"
  by (induction p) (auto simp: octet_labels_def octet_value_dec)

lemma nibbleVal_hex: "n < 16 \<Longrightarrow> nibbleVal [hex_digit n] = Some (of_nat n)"
  by (auto simp: nibbleVal_def hex_digit_def Let_def)

lemma ptr_nibbles_labels: "ptr_nibbles (nibble_labels p) = Some p"
proof (induction p)
  case (Cons b p)
  have "push_bit 4 (drop_bit 4 b) OR (b AND 15) = b"
  proof -
    have "b AND 15 = take_bit 4 b" by (simp add: take_bit_eq_mask mask_eq_exp_minus_1)
    then show ?thesis by (intro bit_word_eqI) (auto simp: bit_simps)
  qed
  with Cons show ?case by (simp add: nibble_labels_def nibbleVal_hex unat_low_nibble unat_high_nibble)
qed (simp add: nibble_labels_def)

lemma no_dot_labels:
  "\<forall>l \<in> set (octet_labels p). CHR ''.'' \<notin> set l" "\<forall>l \<in> set (nibble_labels p). CHR ''.'' \<notin> set l"
proof -
  show "\<forall>l \<in> set (octet_labels p). CHR ''.'' \<notin> set l" using dec_string_digits by (fastforce simp: octet_labels_def)
  have "hex_digit n \<noteq> CHR ''.''" if "n < 16" for n
  proof -
    have "(of_char (hex_digit n) :: nat) \<noteq> of_char (CHR ''.'')" using that by (auto simp: hex_digit_def)
    then show ?thesis by metis
  qed
  then show "\<forall>l \<in> set (nibble_labels p). CHR ''.'' \<notin> set l"
    using unat_low_nibble unat_high_nibble by (fastforce simp: nibble_labels_def)
qed

lemma length_labels [simp]: "length (octet_labels p) = length p" "length (nibble_labels p) = 2 * length p"
  by (induction p) (auto simp: octet_labels_def nibble_labels_def)

lemma parsePTRName_reverse:
  assumes "length p = 4 \<or> length p = 16"
  shows "parsePTRName (reverse_name p) = Some p"
proof (cases "length p = 4")
  case True
  have "split_at (CHR ''.'') (join_dot (rev (octet_labels p))) = rev (octet_labels p)"
    using True no_dot_labels(1) [of p] by (intro split_at_join) (auto simp flip: length_0_conv)
  moreover have "CutSuffix (reverse_name p) ''.in-addr.arpa'' = Some (join_dot (rev (octet_labels p)))"
    using True by (simp add: CutSuffix_Some reverse_name_def)
  ultimately show ?thesis using True by (simp add: parsePTRName_def Let_def ptr_octets_labels)
next
  case False
  then have l: "length p = 16" using assms by simp
  have "split_at (CHR ''.'') (join_dot (rev (nibble_labels p))) = rev (nibble_labels p)"
    using l no_dot_labels(2) [of p] by (intro split_at_join) (auto simp flip: length_0_conv)
  moreover have "CutSuffix (reverse_name p) ''.ip6.arpa'' = Some (join_dot (rev (nibble_labels p)))"
    using False by (simp add: CutSuffix_Some reverse_name_def)
  moreover have "CutSuffix (reverse_name p) ''.in-addr.arpa'' = None"
    using False CutSuffix_v6 by (simp add: reverse_name_def)
  ultimately show ?thesis using l by (simp add: parsePTRName_def Let_def ptr_nibbles_labels)
qed

section \<open>Reading a response\<close>

text \<open>
  A reader of the answer section: \<open>n\<close> records of class IN, each for the name of the question (a pointer to offset 12),
  with nothing left over. A record is its type, its time to live and its data.
\<close>

fun read_rrs :: "nat \<Rightarrow> bytes \<Rightarrow> (uint16 \<times> uint32 \<times> bytes) list option" where
  "read_rrs 0 data = (if data = [] then Some [] else None)"
| "read_rrs (Suc n) data =
     (if length data < 12 \<or> slice 0 2 data \<noteq> [0xC0, 12] \<or> Uint16 (slice 4 6 data) \<noteq> 1 then None
      else let rdlen = unat (Uint16 (slice 10 12 data)) in
        if length data < 12 + rdlen then None
        else map_option ((#) (Uint16 (slice 2 4 data), Uint32 (slice 6 10 data), slice 12 (12 + rdlen) data))
               (read_rrs n (drop (12 + rdlen) data)))"

text \<open>Records as the server writes them.\<close>

definition wire_rr :: "uint16 \<Rightarrow> uint32 \<Rightarrow> bytes \<Rightarrow> bytes" where
  "wire_rr typ ttl rdata = [0xC0, 12] @ PutUint16 typ @ PutUint16 1 @ PutUint32 ttl @ PutUint16 (of_nat (length rdata)) @ rdata"

lemma rrAddress_wire:
  "length p = 4 \<Longrightarrow> rrAddress qtypeA ttl p = wire_rr qtypeA ttl p"
  "length p = 16 \<Longrightarrow> rrAddress qtypeAAAA ttl p = wire_rr qtypeAAAA ttl p"
  by (simp_all add: rrAddress_def wire_rr_def dns_codes)

lemma rrPTR_wire: "rrPTR ttl fqdn = wire_rr qtypePTR ttl (encodeName fqdn)"
  by (simp add: rrPTR_def wire_rr_def Let_def)

lemma read_rrs_wire:
  assumes "\<forall>(t, ttl, d) \<in> set rrs. length d < 65536"
  shows "read_rrs (length rrs) (concat (map (\<lambda>(t, ttl, d). wire_rr t ttl d) rrs)) = Some rrs"
  using assms
proof (induction rrs)
  case (Cons rr rrs)
  obtain t ttl d where rr: "rr = (t, ttl, d)" by (cases rr)
  let ?rest = "concat (map (\<lambda>(t, ttl, d). wire_rr t ttl d) rrs)"
  have "length d < 65536" using Cons.prems rr by simp
  then have u: "unat (of_nat (length d) :: uint16) = length d" by (simp add: unat_of_nat)
  let ?b = "wire_rr t ttl d @ ?rest"
  have f: "slice 0 2 ?b = [0xC0, 12]" "slice 2 4 ?b = PutUint16 t" "slice 4 6 ?b = PutUint16 1" "slice 6 10 ?b = PutUint32 ttl"
    "slice 10 12 ?b = PutUint16 (of_nat (length d))" "slice 12 (12 + length d) ?b = d" "drop (length d) (drop 12 ?b) = ?rest"
    "length ?b = 12 + length d + length ?rest"
    by (simp_all add: wire_rr_def slice_def PutUint16_def PutUint32_def)
  then have "drop (12 + length d) ?b = ?rest" by (simp only: drop_drop add.commute)
  with Cons f u show ?case by (simp add: rr Let_def)
qed simp

definition resp_count :: "bytes \<Rightarrow> nat" where
  "resp_count resp = unat (Uint16 (slice 6 8 resp))"

lemma buildResponse_fields:
  "slice 0 2 (buildResponse q answers rcode) = PutUint16 (qID q)"
  "Uint16 (slice 2 4 (buildResponse q answers rcode)) = 0x8400 OR (qFlags q AND 0x0100) OR ucast rcode"
  "Uint16 (slice 4 6 (buildResponse q answers rcode)) = 1"
  "length answers < 65536 \<Longrightarrow> resp_count (buildResponse q answers rcode) = length answers"
  "slice 12 (12 + length (qQuestion q)) (buildResponse q answers rcode) = qQuestion q"
  "drop (12 + length (qQuestion q)) (buildResponse q answers rcode) = concat answers"
proof -
  let ?f = "0x8400 OR (qFlags q AND 0x0100) OR ucast rcode"
  have b: "buildResponse q answers rcode = PutUint16 (qID q) @ PutUint16 ?f @ PutUint16 1 @ PutUint16 (of_nat (length answers))
      @ [0, 0, 0, 0] @ qQuestion q @ concat answers"
    by (simp add: buildResponse_def Let_def)
  have s: "slice 0 2 (buildResponse q answers rcode) = PutUint16 (qID q)" "slice 2 4 (buildResponse q answers rcode) = PutUint16 ?f"
    "slice 4 6 (buildResponse q answers rcode) = PutUint16 1" "slice 6 8 (buildResponse q answers rcode) = PutUint16 (of_nat (length answers))"
    "slice 12 (12 + length (qQuestion q)) (buildResponse q answers rcode) = qQuestion q"
    and d: "drop (length (qQuestion q)) (drop 12 (buildResponse q answers rcode)) = concat answers"
    by (simp_all add: b slice_def)
  then have r: "drop (12 + length (qQuestion q)) (buildResponse q answers rcode) = concat answers" by (simp only: drop_drop add.commute)
  show "slice 0 2 (buildResponse q answers rcode) = PutUint16 (qID q)"
    "Uint16 (slice 2 4 (buildResponse q answers rcode)) = ?f" "Uint16 (slice 4 6 (buildResponse q answers rcode)) = 1"
    "slice 12 (12 + length (qQuestion q)) (buildResponse q answers rcode) = qQuestion q"
    "drop (12 + length (qQuestion q)) (buildResponse q answers rcode) = concat answers"
    by (simp_all only: s r Uint16_PutUint16)
  show "resp_count (buildResponse q answers rcode) = length answers" if "length answers < 65536"
    using that by (simp add: resp_count_def s unat_of_nat)
qed

section \<open>The names of the tables\<close>

text \<open>A lease or reservation of a host name, in a scope with the domain asked for; no domain means any scope.\<close>

definition dns_scope_matches :: "dns_env \<Rightarrow> db \<Rightarrow> string \<Rightarrow> string \<Rightarrow> bool" where
  "dns_scope_matches env db domain sid \<longleftrightarrow> (\<exists>s \<in> set (dbScopes db). scID s = sid
     \<and> (domain = [] \<or> dnSqlLower env (scDomainName s) = dnSqlLower env domain))"

definition name_matches :: "dns_env \<Rightarrow> string \<Rightarrow> string \<Rightarrow> bool" where
  "name_matches env host h \<longleftrightarrow> h \<noteq> [] \<and> dnSqlLower env h = dnSqlLower env host"

definition named4 :: "dns_env \<Rightarrow> db \<Rightarrow> string \<Rightarrow> string \<Rightarrow> ip set" where
  "named4 env db host domain =
     {lIPAddr l | l. l \<in> set (dbLeases db) \<and> name_matches env host (lHostname l) \<and> dns_scope_matches env db domain (lScopeID l)
        \<and> lState l = LeaseActive \<and> dnNow env < lEndsAt l}
   \<union> {rIPAddr r | r. r \<in> set (dbReservations db) \<and> name_matches env host (rHostname r) \<and> dns_scope_matches env db domain (rScopeID r)}"

definition named6 :: "dns_env \<Rightarrow> db \<Rightarrow> string \<Rightarrow> string \<Rightarrow> ip set" where
  "named6 env db host domain =
     {vlIPAddr l | l. l \<in> set (dbV6Leases db) \<and> name_matches env host (vlHostname l) \<and> dns_scope_matches env db domain (vlScopeID l)
        \<and> vlState l = LeaseActive \<and> dnNow env < vlEndsAt l}
   \<union> {vrIPAddr r | r. r \<in> set (dbV6Reservations db) \<and> name_matches env host (vrHostname r) \<and> dns_scope_matches env db domain (vrScopeID r)}"

text \<open>IPv4 addresses in the v4 tables, IPv6 addresses in the v6 tables, and fewer rows than a response can count.\<close>

definition dns_tables :: "db \<Rightarrow> bool" where
  "dns_tables db \<longleftrightarrow> (\<forall>l \<in> set (dbLeases db). length (lIPAddr l) = 4) \<and> (\<forall>r \<in> set (dbReservations db). length (rIPAddr r) = 4)
     \<and> (\<forall>l \<in> set (dbV6Leases db). length (vlIPAddr l) = 16 \<and> To4 (vlIPAddr l) = [])
     \<and> (\<forall>r \<in> set (dbV6Reservations db). length (vrIPAddr r) = 16 \<and> To4 (vrIPAddr r) = [])
     \<and> length (dbLeases db) + length (dbReservations db) + length (dbV6Leases db) + length (dbV6Reservations db) < 65536"

lemma in_domain_iff: "in_domain (dnSqlLower env) domain db sid = dns_scope_matches env db domain sid"
  by (simp add: in_domain_def dns_scope_matches_def list_ex_iff)

lemma to4_of_v4 [simp]: "length p = 4 \<Longrightarrow> To4 p = p" "length p = 4 \<Longrightarrow> to4IfPossible p = p" "length p = 16 \<Longrightarrow> To16 p = p"
  by (auto simp: To4_def to4IfPossible_def To16_def)

lemma map_filter_v4: "\<forall>p \<in> set xs. length p = 4 \<Longrightarrow> filter (\<lambda>p. p \<noteq> []) (map to4IfPossible xs) = (xs :: ip list)"
  by (induction xs) auto

lemma filter_v6: "\<forall>p \<in> set xs. length p = 16 \<and> To4 p = [] \<Longrightarrow> filter (\<lambda>p. p \<noteq> [] \<and> To4 p = []) xs = (xs :: ip list)"
  by (induction xs) auto

lemma lookupName_named:
  assumes t: "dns_tables db" and nf: "\<forall>s. dnFaults env s = None" and sp: "splitQuery name = (host, domain)"
  obtains v4 v6 where "lookupName env name db = (v4, v6)" "distinct v4" "distinct v6" "set v4 = named4 env db host domain"
    "set v6 = named6 env db host domain" "length v4 + length v6 < 65536" "\<forall>p \<in> set v4. length p = 4" "\<forall>p \<in> set v6. length p = 16"
proof -
  let ?low = "dnSqlLower env"
  let ?a = "map lIPAddr (filter (\<lambda>l. lHostname l \<noteq> '''' \<and> lState l = LeaseActive \<and> lEndsAt l > dnNow env
      \<and> ?low (lHostname l) = ?low host \<and> in_domain ?low domain db (lScopeID l)) (dbLeases db))
    @ map rIPAddr (filter (\<lambda>r. rHostname r \<noteq> '''' \<and> ?low (rHostname r) = ?low host \<and> in_domain ?low domain db (rScopeID r)) (dbReservations db))"
  let ?b = "map vlIPAddr (filter (\<lambda>l. vlHostname l \<noteq> '''' \<and> vlState l = LeaseActive \<and> vlEndsAt l > dnNow env
      \<and> ?low (vlHostname l) = ?low host \<and> in_domain ?low domain db (vlScopeID l)) (dbV6Leases db))
    @ map vrIPAddr (filter (\<lambda>r. vrHostname r \<noteq> '''' \<and> ?low (vrHostname r) = ?low host \<and> in_domain ?low domain db (vrScopeID r)) (dbV6Reservations db))"
  have a4: "\<forall>p \<in> set ?a. length p = 4" and b16: "\<forall>p \<in> set ?b. length p = 16 \<and> To4 p = []"
    using t unfolding dns_tables_def by auto
  have f4: "filter (\<lambda>p. p \<noteq> []) (map to4IfPossible (remdups ?a)) = remdups ?a"
    using a4 by (intro map_filter_v4) simp
  have f6: "filter (\<lambda>p. p \<noteq> [] \<and> To4 p = []) (remdups ?b) = remdups ?b"
    using b16 by (intro filter_v6) simp
  have l: "lookupName env name db = (remdups ?a, remdups ?b)"
    unfolding lookupName_def sp LookupHostname_def Let_def exec_def prod.case using nf f4 f6 by simp
  have sets: "set (remdups ?a) = named4 env db host domain" "set (remdups ?b) = named6 env db host domain"
    by (auto simp: named4_def named6_def name_matches_def in_domain_iff)
  have "length (remdups ?a) \<le> length (dbLeases db) + length (dbReservations db)"
    by (rule order_trans [OF length_remdups_leq]) (auto intro!: add_mono length_filter_le)
  moreover have "length (remdups ?b) \<le> length (dbV6Leases db) + length (dbV6Reservations db)"
    by (rule order_trans [OF length_remdups_leq]) (auto intro!: add_mono length_filter_le)
  ultimately have "length (remdups ?a) + length (remdups ?b) < 65536" using t by (auto simp: dns_tables_def)
  with l sets a4 b16 that [of "remdups ?a" "remdups ?b"] show thesis by simp
qed

lemma parseQuery_fields:
  assumes "parseQuery env data = Ret q"
  shows "PutUint16 (qID q) = slice 0 2 data" "qFlags q = Uint16 (slice 2 4 data)"
    "slice 12 (12 + length (qQuestion q)) data = qQuestion q" "12 + length (qQuestion q) \<le> length data"
proof -
  from assms obtain next' where n: "qQuestion q = slice 12 (next' + 4) data" "next' + 4 \<le> length data" "12 \<le> length data"
    and i: "qID q = Uint16 (slice 0 2 data)" "qFlags q = Uint16 (slice 2 4 data)"
    by (auto simp: parseQuery_def Let_def bind_run_Ret_iff split: if_splits)
  from n i show "PutUint16 (qID q) = slice 0 2 data" "qFlags q = Uint16 (slice 2 4 data)"
    "slice 12 (12 + length (qQuestion q)) data = qQuestion q" "12 + length (qQuestion q) \<le> length data"
    by (auto simp: PutUint16_Uint16_list slice_def)
qed

section \<open>Properties\<close>

text \<open>
  C15. A query for addresses is answered with exactly the addresses of the name. For an A, AAAA or ANY
  query the response repeats the identifier, the RD bit and the question, has the code NXDOMAIN
  exactly when no row of either family has the name, and its answer section reads back as distinct
  records of the asked types with the configured time to live: one for every active, unexpired lease
  address and every reserved address of the host name whose scope has the domain asked for (any
  scope for a bare name), and no other.
\<close>

theorem dns_lists_addresses:
  assumes "parseQuery env data = Ret q" and "qType q \<in> {qtypeA, qtypeAAAA, qtypeANY}"
    and "splitQuery (qName q) = (host, domain)" and "\<forall>s. dnFaults env s = None" and "dns_tables db"
  shows "\<exists>resp rrs. handleQuery env data db = Some resp \<and> slice 0 2 resp = slice 0 2 data
    \<and> Uint16 (slice 2 4 resp) = 0x8400 OR (Uint16 (slice 2 4 data) AND 0x0100)
        OR (if named4 env db host domain \<union> named6 env db host domain = {} then 3 else 0)
    \<and> slice 12 (12 + length (qQuestion q)) resp = slice 12 (12 + length (qQuestion q)) data
    \<and> read_rrs (resp_count resp) (drop (12 + length (qQuestion q)) resp) = Some rrs \<and> distinct rrs
    \<and> set rrs = {(qtypeA, dns_ttl env, p) | p. qType q \<noteq> qtypeAAAA \<and> p \<in> named4 env db host domain}
              \<union> {(qtypeAAAA, dns_ttl env, p) | p. qType q \<noteq> qtypeA \<and> p \<in> named6 env db host domain}"
proof -
  from assms(5,4,3) obtain v4 v6 where v: "lookupName env (qName q) db = (v4, v6)" "distinct v4" "distinct v6"
    "set v4 = named4 env db host domain" "set v6 = named6 env db host domain" "length v4 + length v6 < 65536"
    "\<forall>p \<in> set v4. length p = 4" "\<forall>p \<in> set v6. length p = 16"
    by (rule lookupName_named)
  let ?t = "dns_ttl env" and ?wire = "\<lambda>(t, ttl, d). wire_rr t ttl d"
  define rrs where "rrs = (if qType q = qtypeAAAA then [] else map (\<lambda>p. (qtypeA, ?t, p)) v4)
      @ (if qType q = qtypeA then [] else map (\<lambda>p. (qtypeAAAA, ?t, p)) v6)"
  let ?code = "if v4 = [] \<and> v6 = [] then rcodeNXDomain else rcodeNoError"
  have w: "map (\<lambda>p. rrAddress qtypeA ?t (To4 p)) v4 = map ?wire (map (\<lambda>p. (qtypeA, ?t, p)) v4)"
    "map (\<lambda>p. rrAddress qtypeAAAA ?t (To16 p)) v6 = map ?wire (map (\<lambda>p. (qtypeAAAA, ?t, p)) v6)"
    using v(7,8) by (auto simp: rrAddress_wire)
  have ne: "qtypeA \<noteq> qtypeAAAA" "qtypeA \<noteq> qtypeANY" "qtypeAAAA \<noteq> qtypeANY" by (simp_all add: dns_codes)
  have res: "resolve env q db = (map ?wire rrs, ?code)"
    using assms(2) ne unfolding resolve_def v(1) prod.case Let_def w rrs_def by auto
  let ?resp = "buildResponse q (map ?wire rrs) ?code"
  have h: "handleQuery env data db = Some ?resp" by (simp add: handleQuery_def assms(1) res)
  have len: "length (map ?wire rrs) < 65536" using v(6) by (simp add: rrs_def)
  note b = buildResponse_fields [where q = q and answers = "map ?wire rrs" and rcode = ?code] and f = parseQuery_fields [OF assms(1)]
  have "read_rrs (resp_count ?resp) (drop (12 + length (qQuestion q)) ?resp) = read_rrs (length rrs) (concat (map ?wire rrs))"
    using b(4) [OF len] b(6) by simp
  also have "\<dots> = Some rrs" using v(7,8) by (intro read_rrs_wire) (auto simp: rrs_def)
  finally have r: "read_rrs (resp_count ?resp) (drop (12 + length (qQuestion q)) ?resp) = Some rrs" .
  have "distinct rrs" using v(2,3) ne by (auto simp: rrs_def distinct_map inj_on_def)
  moreover have "set rrs = {(qtypeA, ?t, p) | p. qType q \<noteq> qtypeAAAA \<and> p \<in> named4 env db host domain}
      \<union> {(qtypeAAAA, ?t, p) | p. qType q \<noteq> qtypeA \<and> p \<in> named6 env db host domain}"
    using v(4,5) by (auto simp: rrs_def)
  moreover have "Uint16 (slice 2 4 ?resp) = 0x8400 OR (Uint16 (slice 2 4 data) AND 0x0100)
      OR (if named4 env db host domain \<union> named6 env db host domain = {} then 3 else 0)"
    using b(2) v(4,5) by (auto simp: f(2) dns_codes simp flip: set_empty)
  ultimately show ?thesis using h r b(1,5) f(1,3) by auto
qed

text \<open>A query for the A records of \<open>H.lan\<close>.\<close>

definition demo_dns :: dns_env where
  "demo_dns = \<lparr>dnTTL = 300, dnFaults = no_faults, dnNow = Second, dnSqlLower = fold_name, dnUnicodeLower = id\<rparr>"

definition demo_query :: bytes where
  "demo_query = [18, 52, 1, 0, 0, 1, 0, 0, 0, 0, 0, 0] @ encodeName ''H.lan'' @ [0, 1, 0, 1]"

lemma demo_query_read:
  "parseQuery demo_dns demo_query = Ret \<lparr>qID = 0x1234, qFlags = 0x0100, qName = ''h.lan'', qType = qtypeA,
     qQuestion = [1, 72, 3, 108, 97, 110, 0, 0, 1, 0, 1]\<rparr>"
  by code_simp

theorem dns_lists_addresses_witness:
  "\<exists>resp. handleQuery demo_dns demo_query demo_db = Some resp
    \<and> read_rrs (resp_count resp) (drop 23 resp) = Some [(1, 300, [192, 168, 1, 13])]"
proof -
  have sp: "splitQuery ''h.lan'' = (''h'', ''lan'')" by code_simp
  have t: "dns_tables demo_db" by (simp add: dns_tables_def demo_db_def demo_lease_def demo_reservation_def)
  have "named4 demo_dns demo_db ''h'' ''lan'' = {[192, 168, 1, 13]}"
    by (auto simp: named4_def name_matches_def dns_scope_matches_def demo_db_def demo_lease_def demo_reservation_def demo_scope_def
        demo_dns_def fold_name_def Let_def)
  moreover have "named6 demo_dns demo_db ''h'' ''lan'' = {}" by (simp add: named6_def demo_db_def)
  moreover have "\<forall>s. dnFaults demo_dns s = None" "dns_ttl demo_dns = 300" by (simp_all add: demo_dns_def dns_ttl_def)
  ultimately obtain resp rrs where "handleQuery demo_dns demo_query demo_db = Some resp"
    "read_rrs (resp_count resp) (drop 23 resp) = Some rrs" "distinct rrs" "set rrs = {(qtypeA, 300, [192, 168, 1, 13])}"
    using dns_lists_addresses [OF demo_query_read, of "''h''" "''lan''" demo_db] sp t by (auto simp: dns_codes)
  moreover have "rrs = [x]" if "distinct rrs" "set rrs = {x}" for x
    using that by (cases rrs; cases "tl rrs") auto
  ultimately show ?thesis by (auto simp: qtypeA_def)
qed

text \<open>
  Names survive the wire: for labels of 1 to 63 bytes without dots, the encoding of the dotted name, with or
  without its trailing dot, decodes to the name wherever it stands in a message, and the decoder
  stops right behind it.
\<close>

theorem name_roundtrip:
  assumes "\<forall>l \<in> set ls. good_label l"
  shows "decodeName (pre @ encodeName (join_dot ls) @ post) (length pre) = Ret (join_dot ls, length pre + length (encodeName (join_dot ls)))
    \<and> encodeName (join_dot ls @ ''.'') = encodeName (join_dot ls)"
  using decode_labels_wire [OF assms, of pre post] encodeName_join [OF assms]
  by (simp add: decodeName_def encodeName_trailing)

theorem name_roundtrip_witness:
  "decodeName ([1, 2] @ encodeName ''pc-01.lan'' @ [9]) 2 = Ret (''pc-01.lan'', 13)"
proof -
  have "\<forall>l \<in> set [''pc-01'', ''lan'']. good_label l" by (simp add: good_label_def)
  from name_roundtrip [OF this, of "[1, 2]" "[9]"] show ?thesis
    by (simp add: encodeName_def bytes_of_string_def numeral_eq_Suc)
qed

text \<open>
  Reverse names are read back: the in-addr.arpa name of every IPv4 address and the ip6.arpa name of every IPv6
  address give that address.
\<close>

theorem reverse_name_roundtrip:
  assumes "length p = 4 \<or> length p = 16"
  shows "parsePTRName (reverse_name p) = Some p"
  using assms by (rule parsePTRName_reverse)

theorem reverse_name_roundtrip_witness:
  "parsePTRName ''10.0.168.192.in-addr.arpa'' = Some [192, 168, 0, 10]"
proof -
  have "reverse_name [192, 168, 0, 10] = ''10.0.168.192.in-addr.arpa''" by code_simp
  with reverse_name_roundtrip [of "[192, 168, 0, 10]"] show ?thesis by simp
qed

end
