(* ===== verification/Lease_Spec.thy ===== *)
theory Lease_Spec
  imports Dhcp4_Safety Alloc6_Prefix
begin

text \<open>
  The service the three allocators of the store promise, as an abstract specification: a partial map from
  addresses (or prefixes) to the clients that hold them, and granting as one step on that map.
  \<open>binding_table\<close> is the interface of a table that implements such a map; it is interpreted for the DHCPv4
  leases, the DHCPv6 leases and the delegated prefixes of a scope.
\<close>

section \<open>The specification\<close>

text \<open>Client \<open>c\<close> is granted \<open>k\<close>: it holds \<open>k\<close> afterwards, and no other client gains or loses anything.\<close>

definition spec_grant :: "'c \<Rightarrow> 'k \<Rightarrow> ('k \<rightharpoonup> 'c) \<Rightarrow> ('k \<rightharpoonup> 'c) \<Rightarrow> bool" where
  "spec_grant c k m m' \<longleftrightarrow> m' k = Some c \<and> (\<forall>q d. d \<noteq> c \<longrightarrow> (m' q = Some d \<longleftrightarrow> m q = Some d))"

text \<open>Only what is free or one's own can be granted.\<close>

lemma spec_grant_pre: "spec_grant c k m m' \<Longrightarrow> m k = None \<or> m k = Some c"
  unfolding spec_grant_def by (metis option.exhaust option.inject)

section \<open>Tables that implement it\<close>

definition bindings :: "('r \<Rightarrow> 'k) \<Rightarrow> ('r \<Rightarrow> 'c) \<Rightarrow> ('r \<Rightarrow> bool) \<Rightarrow> 'r list \<Rightarrow> 'k \<rightharpoonup> 'c" where
  "bindings key owner live rows k = map_option owner (List.find (\<lambda>x. key x = k \<and> live x) rows)"

locale binding_table =
  fixes rows :: "db \<Rightarrow> 'r list" and key :: "'r \<Rightarrow> 'k" and owner :: "'r \<Rightarrow> 'c"
  assumes key_unique: "wf_db db \<Longrightarrow> x \<in> set (rows db) \<Longrightarrow> y \<in> set (rows db) \<Longrightarrow> key x = key y \<Longrightarrow> x = y"
begin

lemma holds_iff:
  assumes "wf_db db"
  shows "bindings key owner live (rows db) k = Some c \<longleftrightarrow> (\<exists>x \<in> set (rows db). key x = k \<and> live x \<and> owner x = c)"
proof
  assume "bindings key owner live (rows db) k = Some c"
  then show "\<exists>x \<in> set (rows db). key x = k \<and> live x \<and> owner x = c"
    by (auto simp: bindings_def dest!: find_SomeD)
next
  assume "\<exists>x \<in> set (rows db). key x = k \<and> live x \<and> owner x = c"
  then obtain x where x: "x \<in> set (rows db)" "key x = k" "live x" "owner x = c" by blast
  then obtain y where y: "List.find (\<lambda>x. key x = k \<and> live x) (rows db) = Some y"
    by (cases "List.find (\<lambda>x. key x = k \<and> live x) (rows db)") (auto simp: find_None_iff)
  then have "y = x" using find_SomeD [OF y] key_unique [OF assms, of y x] x by simp
  with y x show "bindings key owner live (rows db) k = Some c" by (simp add: bindings_def)
qed

lemma grants:
  assumes w: "wf_db db" "wf_db db'"
    and kept: "\<And>x. x \<in> set (rows db) \<Longrightarrow> owner x \<noteq> c \<Longrightarrow> live x \<Longrightarrow> x \<in> set (rows db')"
    and new: "\<And>x. x \<in> set (rows db') \<Longrightarrow> owner x \<noteq> c \<Longrightarrow> x \<in> set (rows db)"
    and row: "row \<in> set (rows db')" "key row = k" "owner row = c" "live row"
  shows "spec_grant c k (bindings key owner live (rows db)) (bindings key owner live (rows db'))"
  unfolding spec_grant_def using row by (auto simp: holds_iff [OF w(1)] holds_iff [OF w(2)] intro: kept new)

end

section \<open>The tables of the store\<close>

definition rows4 :: "scope \<Rightarrow> db \<Rightarrow> lease list" where
  "rows4 sc db = filter (\<lambda>l. lScopeID l = scID sc) (dbLeases db)"

definition rows6 :: "scope \<Rightarrow> db \<Rightarrow> v6_lease list" where
  "rows6 sc db = filter (\<lambda>l. vlScopeID l = scID sc) (dbV6Leases db)"

definition rows_pd :: "scope \<Rightarrow> db \<Rightarrow> v6_prefix list" where
  "rows_pd sc db = filter (\<lambda>p. vpScopeID p = scID sc) (dbV6Prefixes db)"

interpretation v4_bindings: binding_table "rows4 sc" lIPAddr lMACAddr for sc
proof
  fix db x y assume "wf_db db" "x \<in> set (rows4 sc db)" "y \<in> set (rows4 sc db)" "lIPAddr x = lIPAddr y"
  then show "x = y"
    by (intro leases.uniq_clashD [of "dbLeases db"]) (auto simp: rows4_def wf_db_def lease_clash_def)
qed

interpretation v6_bindings: binding_table "rows6 sc" vlIPAddr vlDUID for sc
proof
  fix db x y assume "wf_db db" "x \<in> set (rows6 sc db)" "y \<in> set (rows6 sc db)" "vlIPAddr x = vlIPAddr y"
  then show "x = y" by (intro v6_lease_unique [of db]) (auto simp: rows6_def)
qed

interpretation pd_bindings: binding_table "rows_pd sc" vpPrefix "\<lambda>p. (vpDUID p, vpIAID p)" for sc
proof
  fix db x y assume "wf_db db" "x \<in> set (rows_pd sc db)" "y \<in> set (rows_pd sc db)" "vpPrefix x = vpPrefix y"
  then show "x = y"
    by (intro v6_prefixes.uniq_clashD [of "dbV6Prefixes db"]) (auto simp: rows_pd_def wf_db_def v6_prefix_clash_def)
qed

text \<open>The abstract state of a scope: who holds what at a moment.\<close>

definition bindings4 :: "time \<Rightarrow> scope \<Rightarrow> db \<Rightarrow> ip \<rightharpoonup> string" where
  "bindings4 now sc db = bindings lIPAddr lMACAddr (lease_blocks now) (rows4 sc db)"

definition bindings6 :: "time \<Rightarrow> scope \<Rightarrow> db \<Rightarrow> ip \<rightharpoonup> string" where
  "bindings6 now sc db = bindings vlIPAddr vlDUID (v6_lease_blocks now) (rows6 sc db)"

definition bindings_pd :: "time \<Rightarrow> scope \<Rightarrow> db \<Rightarrow> ipnet option \<rightharpoonup> string \<times> string" where
  "bindings_pd now sc db = bindings vpPrefix (\<lambda>p. (vpDUID p, vpIAID p)) (prefix_live now) (rows_pd sc db)"

section \<open>Each allocator is a grant\<close>

lemma live_row:
  assumes "state = LeaseActive \<or> state = LeaseOffered \<and> offered = Some now" and "now < ends"
  shows "leaseBlocksReuse state offered starts ends updated now"
  using assms by (auto simp: leaseBlocksReuse_def offerTimeoutSeconds_def)

lemma WithTx_failed:
  "WithTx flt fn db = (Fail e, db') \<Longrightarrow> db' = db" "WithTx flt fn db = (Panic, db') \<Longrightarrow> db' = db" "WithTx flt fn db = (Hang, db') \<Longrightarrow> db' = db"
  using WithTx_rollback [of flt fn db] by simp_all

lemma AllocateV4Lease_grants:
  assumes a: "AllocateV4Lease flt now uuid sc mac clientID preferred hostname leaseTime maxLeaseTime db = (Ret l, db')"
    and w: "wf_db db" and pos: "0 < clampLeaseTime leaseTime maxLeaseTime"
  shows "spec_grant mac (normalizeIP (lIPAddr l)) (bindings4 now sc db) (bindings4 now sc db')"
proof -
  from a w obtain g path where g: "a4Scope g = sc" "a4MAC g = mac" "a4Now g = now" "grant4 g l db db'"
    by (rule AllocateV4Lease_Ret)
  from g(4) obtain row rows where db': "db' = db\<lparr>dbLeases := rows\<rparr>"
    and rep: "replaced (gone4 g (normalizeIP (lIPAddr l))) row (dbLeases db) rows" and rec: "recorded l row"
    and l: "lScopeID l = scID sc" "lMACAddr l = mac"
    using g by (auto simp: grant4_def)
  from granted_held [OF a w] obtain r where r: "r \<in> set (dbLeases db')" "lScopeID r = scID sc" "lMACAddr r = mac"
    "lIPAddr r = normalizeIP (lIPAddr l)" "lState r = LeaseActive \<or> lState r = LeaseOffered \<and> lOfferedAt r = Some now"
    "lEndsAt r = now + clampLeaseTime leaseTime maxLeaseTime * Second"
    by (auto simp: held_def)
  have w': "wf_db db'" using client_step_wf [OF AllocateV4Lease_step [OF a w]] .
  show ?thesis
    unfolding bindings4_def
  proof (rule v4_bindings.grants [OF w w'])
    show "x \<in> set (rows4 sc db')" if "x \<in> set (rows4 sc db)" "lMACAddr x \<noteq> mac" "lease_blocks now x" for x
      using that replaced_kept [OF rep, of x] g by (auto simp: rows4_def db' gone4_def)
    show "x \<in> set (rows4 sc db)" if "x \<in> set (rows4 sc db')" "lMACAddr x \<noteq> mac" for x
      using that replaced_new [OF rep, of x] rec l by (auto simp: rows4_def db' recorded_def)
    show "r \<in> set (rows4 sc db')" "lIPAddr r = normalizeIP (lIPAddr l)" "lMACAddr r = mac" using r by (simp_all add: rows4_def)
    show "lease_blocks now r" using r(5,6) pos by (intro live_row) simp_all
  qed
qed

lemma AllocateV6Lease_grants:
  assumes a: "AllocateV6Lease flt now uuid sc duid iaid hostname preferred leaseTime maxLeaseTime db = (Ret l, db')"
    and w: "wf_db db" and pos: "0 < clampLeaseTime leaseTime maxLeaseTime"
  shows "spec_grant duid (normalizeIP (vlIPAddr l)) (bindings6 now sc db) (bindings6 now sc db')"
proof -
  from a w obtain g where g: "a6Scope g = sc" "a6DUID g = duid" "a6Now g = now"
    "a6EndsAt g = now + clampLeaseTime leaseTime maxLeaseTime * Second" "granted6 g l db db'"
    by (rule AllocateV6Lease_Ret)
  then have s: "step6 now (scID sc) duid db db'" and h: "held6 now l" and ends: "vlEndsAt l = now + clampLeaseTime leaseTime maxLeaseTime * Second"
    and l: "vlScopeID l = scID sc" "vlDUID l = duid"
    by (simp_all add: granted6_def)
  from g(5) obtain r where r: "r \<in> set (dbV6Leases db')" "recorded6 l r" by (auto simp: granted6_def)
  from s have w': "wf_db db'"
    and k: "\<forall>x \<in> set (dbV6Leases db). \<not> own6 (scID sc) duid x \<and> v6_lease_blocks now x \<longrightarrow> x \<in> set (dbV6Leases db')"
    and n: "\<forall>x \<in> set (dbV6Leases db'). own6 (scID sc) duid x \<or> x \<in> set (dbV6Leases db)"
    unfolding step6_def by argo+
  show ?thesis
    unfolding bindings6_def
  proof (rule v6_bindings.grants [OF w w'])
    show "x \<in> set (rows6 sc db')" if "x \<in> set (rows6 sc db)" "vlDUID x \<noteq> duid" "v6_lease_blocks now x" for x
      using that k by (auto simp: rows6_def own6_def)
    show "x \<in> set (rows6 sc db)" if "x \<in> set (rows6 sc db')" "vlDUID x \<noteq> duid" for x
      using that n by (auto simp: rows6_def own6_def)
    show "r \<in> set (rows6 sc db')" "vlIPAddr r = normalizeIP (vlIPAddr l)" "vlDUID r = duid"
      using r l by (simp_all add: rows6_def recorded6_def)
    show "v6_lease_blocks now r" using r(2) h ends pos by (intro live_row) (auto simp: recorded6_def held6_def)
  qed
qed

lemma AllocateV6Prefix_grants:
  assumes a: "AllocateV6Prefix flt now uuid sc duid iaid leaseTime maxLeaseTime db = (Ret p, db')"
    and w: "wf_db db" and pos: "0 < clampLeaseTime leaseTime maxLeaseTime"
  shows "\<exists>n. vpPrefix p = Some n \<and> spec_grant (duid, iaid) (Some (cidr_col n)) (bindings_pd now sc db) (bindings_pd now sc db')"
proof -
  note g = AllocateV6Prefix_Ret [OF a w, unfolded grant_pd_def]
  then obtain r n where r: "r \<in> set (dbV6Prefixes db')" "own_prefix sc duid iaid r" "vpPrefix p = Some n" "vpPrefix r = Some (cidr_col n)"
    "vpState r = vpState p" "vpStartsAt r = now" "vpEndsAt r = now + clampLeaseTime leaseTime maxLeaseTime * Second"
    "vpState p = LeaseActive \<or> vpState p = LeaseOffered"
    by blast
  from g have w': "wf_db db'"
    and k: "\<forall>x \<in> set (dbV6Prefixes db). \<not> own_prefix sc duid iaid x \<and> prefix_live now x \<longrightarrow> x \<in> set (dbV6Prefixes db')"
    and n: "\<forall>x \<in> set (dbV6Prefixes db'). own_prefix sc duid iaid x \<or> x \<in> set (dbV6Prefixes db)"
    by argo+
  have "spec_grant (duid, iaid) (Some (cidr_col n)) (bindings_pd now sc db) (bindings_pd now sc db')"
    unfolding bindings_pd_def
  proof (rule pd_bindings.grants [OF w w'])
    show "x \<in> set (rows_pd sc db')" if "x \<in> set (rows_pd sc db)" "(vpDUID x, vpIAID x) \<noteq> (duid, iaid)" "prefix_live now x" for x
      using that k by (auto simp: rows_pd_def own_prefix_def)
    show "x \<in> set (rows_pd sc db)" if "x \<in> set (rows_pd sc db')" "(vpDUID x, vpIAID x) \<noteq> (duid, iaid)" for x
      using that n by (auto simp: rows_pd_def own_prefix_def)
    show "r \<in> set (rows_pd sc db')" "vpPrefix r = Some (cidr_col n)" "(vpDUID r, vpIAID r) = (duid, iaid)"
      using r by (simp_all add: rows_pd_def own_prefix_def)
    show "prefix_live now r" using r(5-8) pos by (auto simp: prefix_live_def sql_live_def offerTimeoutSeconds_def)
  qed
  with r(3) show ?thesis by blast
qed

section \<open>Properties\<close>

text \<open>
  C1. The three allocators implement one service. Seen as the map from addresses (prefixes) of a scope to the
  clients that hold them at the time of the call, with a positive lease time, a successful
  \<open>AllocateV4Lease\<close>, \<open>AllocateV6Lease\<close> or \<open>AllocateV6Prefix\<close> is a grant of the specification: the caller
  holds what was returned, and no other client gains or loses a binding. A call that fails leaves the map as it was.
\<close>

theorem allocators_refine_spec:
  assumes "wf_db db" and "0 < clampLeaseTime leaseTime maxLeaseTime"
  shows "(case AllocateV4Lease flt now uuid sc mac clientID preferred hostname leaseTime maxLeaseTime db of
        (Ret l, db') \<Rightarrow> spec_grant mac (normalizeIP (lIPAddr l)) (bindings4 now sc db) (bindings4 now sc db')
      | (_, db') \<Rightarrow> bindings4 now sc db' = bindings4 now sc db)
    \<and> (case AllocateV6Lease flt now uuid sc duid iaid hostname preferred leaseTime maxLeaseTime db of
        (Ret l, db') \<Rightarrow> spec_grant duid (normalizeIP (vlIPAddr l)) (bindings6 now sc db) (bindings6 now sc db')
      | (_, db') \<Rightarrow> bindings6 now sc db' = bindings6 now sc db)
    \<and> (case AllocateV6Prefix flt now uuid sc duid iaid leaseTime maxLeaseTime db of
        (Ret p, db') \<Rightarrow> \<exists>n. vpPrefix p = Some n \<and> spec_grant (duid, iaid) (Some (cidr_col n)) (bindings_pd now sc db) (bindings_pd now sc db')
      | (_, db') \<Rightarrow> bindings_pd now sc db' = bindings_pd now sc db)"
proof (intro conjI)
  show "case AllocateV4Lease flt now uuid sc mac clientID preferred hostname leaseTime maxLeaseTime db of
        (Ret l, db') \<Rightarrow> spec_grant mac (normalizeIP (lIPAddr l)) (bindings4 now sc db) (bindings4 now sc db')
      | (_, db') \<Rightarrow> bindings4 now sc db' = bindings4 now sc db"
    using AllocateV4Lease_grants [OF _ assms]
    by (auto simp: AllocateV4Lease_def Let_def dest: WithTx_failed split: prod.split run.split)
  show "case AllocateV6Lease flt now uuid sc duid iaid hostname preferred leaseTime maxLeaseTime db of
        (Ret l, db') \<Rightarrow> spec_grant duid (normalizeIP (vlIPAddr l)) (bindings6 now sc db) (bindings6 now sc db')
      | (_, db') \<Rightarrow> bindings6 now sc db' = bindings6 now sc db"
    using AllocateV6Lease_grants [OF _ assms]
    by (auto simp: AllocateV6Lease_def Let_def dest: WithTx_failed split: prod.split run.split)
  show "case AllocateV6Prefix flt now uuid sc duid iaid leaseTime maxLeaseTime db of
        (Ret p, db') \<Rightarrow> \<exists>n. vpPrefix p = Some n \<and> spec_grant (duid, iaid) (Some (cidr_col n)) (bindings_pd now sc db) (bindings_pd now sc db')
      | (_, db') \<Rightarrow> bindings_pd now sc db' = bindings_pd now sc db"
    using AllocateV6Prefix_grants [OF _ assms]
    by (auto simp: AllocateV6Prefix_def dest: WithTx_failed split: prod.split run.split)
qed

theorem allocators_refine_spec_witness:
  "spec_grant ''bb'' (normalizeIP (IPv4 192 168 1 15)) (bindings4 Second demo_scope demo_db)
     (bindings4 Second demo_scope (demo_db\<lparr>dbLeases := [demo_lease, new_lease demo_args [192, 168, 1, 15]]\<rparr>))"
proof -
  have "0 < clampLeaseTime 0 7200" by (simp add: clampLeaseTime_def)
  from allocators_refine_spec [OF demo_db_wf this, where flt = no_faults and now = Second and uuid = "''u1''" and sc = demo_scope
      and mac = "''bb''" and clientID = "''''" and preferred = "[]" and hostname = "''host''"]
  show ?thesis unfolding demo_alloc by simp
qed

end
