(* ===== verification/Store_Admin.thy ===== *)
theory Store_Admin
  imports Store_Model "HOL-Library.Sublist"
begin

text \<open>
  The part of \<open>internal/store/store.go\<close> that only the administration interface, the logger and the
  login use: users, audit logs, system logs, the paged listings and the searches.
  \<^item> \<open>adb\<close> is the whole database: the tables of the DHCP and DNS servers (\<open>db\<close>) with the users and
    the audit log.
  \<^item> \<open>LIMIT $n OFFSET $m\<close> is \<open>sql_page\<close>; a negative argument is an error of the database.
    A listing first counts and then reads one page.
  \<^item> \<open>ILIKE\<close> is \<open>like\<close> on lower-cased texts; the lower-casing is the database's, an argument.
  \<^item> Whether a text is a UUID for a column of that type is an argument where it matters
    (\<open>audit_logs.resource_id\<close>); elsewhere such errors are among the faults of a statement.
  The lemmas: the pages of a listing put together are the listing, a search finds exactly the
  rows that contain the text, and what the listing of allocation logs does with the rows of a
  deleted scope.
\<close>

section \<open>Users and audit logs\<close>

record audit_log =
  auID :: string
  auUsername :: string
  auAction :: string
  auResource :: string
  auResourceID :: string
  auDetails :: raw_json
  auCreatedAt :: time

record adb =
  adDb :: db
  adUsers :: "user list"
  adAuditLogs :: "audit_log list"

definition user_clash :: "user \<Rightarrow> user \<Rightarrow> bool" where
  "user_clash a b \<longleftrightarrow> uID a = uID b \<or> uUsername a = uUsername b"

definition audit_clash :: "audit_log \<Rightarrow> audit_log \<Rightarrow> bool" where
  "audit_clash a b \<longleftrightarrow> auID a = auID b"

interpretation users: keyed_rows user_clash
  by unfold_locales (auto simp: user_clash_def)

interpretation audit_logs: keyed_rows audit_clash
  by unfold_locales (auto simp: audit_clash_def)

definition asettle :: "adb \<Rightarrow> ('a \<times> adb) run \<Rightarrow> 'a run \<times> adb" where
  "asettle ad r = (case r of Ret (x, ad') \<Rightarrow> (Ret x, ad') | Fail e \<Rightarrow> (Fail e, ad)
                   | Panic \<Rightarrow> (Panic, ad) | Hang \<Rightarrow> (Hang, ad))"

definition CreateUser :: "faults \<Rightarrow> user \<Rightarrow> adb \<Rightarrow> unit run \<times> adb" where
  "CreateUser flt u ad = asettle ad (exec flt ''CreateUser''
     (bind_run (sql_insert user_clash u (adUsers ad)) (\<lambda>rows. Ret ((), ad\<lparr>adUsers := rows\<rparr>))))"

definition GetUserByID :: "faults \<Rightarrow> string \<Rightarrow> adb \<Rightarrow> user run" where
  "GetUserByID flt ident ad = exec flt ''GetUserByID'' (or_no_rows (query_row (\<lambda>u. uID u = ident) (adUsers ad)))"

definition GetUserByUsername :: "faults \<Rightarrow> string \<Rightarrow> adb \<Rightarrow> user run" where
  "GetUserByUsername flt username ad = exec flt ''GetUserByUsername''
     (or_no_rows (query_row (\<lambda>u. uUsername u = username) (adUsers ad)))"

definition CountUsers :: "faults \<Rightarrow> adb \<Rightarrow> int run" where
  "CountUsers flt ad = exec flt ''CountUsers'' (Ret (int (length (adUsers ad))))"

text \<open>The listings do not select the password hash.\<close>

definition user_row :: "user \<Rightarrow> user" where
  "user_row u = u\<lparr>uPasswordHash := ''''\<rparr>"

definition ListUsers :: "faults \<Rightarrow> (string \<Rightarrow> nat) \<Rightarrow> adb \<Rightarrow> user list run" where
  "ListUsers flt collate ad = exec flt ''ListUsers''
     (Ret (map user_row (sort_key (\<lambda>u. collate (uUsername u)) (adUsers ad))))"

definition DeleteUser :: "faults \<Rightarrow> string \<Rightarrow> adb \<Rightarrow> unit run \<times> adb" where
  "DeleteUser flt ident ad = asettle ad (exec flt ''DeleteUser''
     (Ret ((), ad\<lparr>adUsers := sql_delete (\<lambda>u. uID u = ident) (adUsers ad)\<rparr>)))"

definition UpdateUserPassword :: "faults \<Rightarrow> time \<Rightarrow> string \<Rightarrow> string \<Rightarrow> adb \<Rightarrow> unit run \<times> adb" where
  "UpdateUserPassword flt now ident hash ad = asettle ad (exec flt ''UpdateUserPassword''
     (Ret ((), ad\<lparr>adUsers := update_where (\<lambda>u. uID u = ident)
        (\<lambda>u. u\<lparr>uPasswordHash := hash, uUpdatedAt := now\<rparr>) (adUsers ad)\<rparr>)))"

definition UpdateUser :: "faults \<Rightarrow> time \<Rightarrow> user \<Rightarrow> adb \<Rightarrow> unit run \<times> adb" where
  "UpdateUser flt now user ad = asettle ad (exec flt ''UpdateUser''
     (bind_run (sql_update user_clash (\<lambda>u. uID u = uID user)
        (\<lambda>u. u\<lparr>uUsername := uUsername user, uRole := uRole user, uUpdatedAt := now\<rparr>) (adUsers ad))
      (\<lambda>rows. Ret ((), ad\<lparr>adUsers := rows\<rparr>))))"

definition CreateAuditLog :: "faults \<Rightarrow> (string \<Rightarrow> bool) \<Rightarrow> audit_log \<Rightarrow> adb \<Rightarrow> unit run \<times> adb" where
  "CreateAuditLog flt isUUID entry ad = asettle ad (exec flt ''CreateAuditLog''
     (if \<not> isUUID (auResourceID entry) then Fail ''invalid input syntax for type uuid''
      else bind_run (sql_insert audit_clash entry (adAuditLogs ad)) (\<lambda>rows. Ret ((), ad\<lparr>adAuditLogs := rows\<rparr>))))"

definition ListAuditLogs :: "faults \<Rightarrow> int \<Rightarrow> adb \<Rightarrow> audit_log list run" where
  "ListAuditLogs flt limit ad = exec flt ''ListAuditLogs''
     (Ret (take (nat (if limit \<le> 0 then 100 else limit)) (sort_key (\<lambda>g. - auCreatedAt g) (adAuditLogs ad))))"

section \<open>Paged listings\<close>

definition sql_page :: "int \<Rightarrow> int \<Rightarrow> 'r list \<Rightarrow> 'r list run" where
  "sql_page offset limit rows =
     (if limit < 0 then Fail ''LIMIT must not be negative''
      else if offset < 0 then Fail ''OFFSET must not be negative''
      else Ret (take (nat limit) (drop (nat offset) rows)))"

text \<open>The count, then the page: the rows with the total.\<close>

definition paged :: "faults \<Rightarrow> stmt \<Rightarrow> int \<Rightarrow> int \<Rightarrow> 'r list \<Rightarrow> ('r list \<times> int) run" where
  "paged flt q offset limit rows = exec flt (q @ ''.count'') (exec flt q
     (bind_run (sql_page offset limit rows) (\<lambda>page. Ret (page, int (length rows)))))"

definition ListUsersPaged :: "faults \<Rightarrow> (string \<Rightarrow> nat) \<Rightarrow> int \<Rightarrow> int \<Rightarrow> adb \<Rightarrow> (user list \<times> int) run" where
  "ListUsersPaged flt collate offset limit ad =
     paged flt ''ListUsersPaged'' offset limit (map user_row (sort_key (\<lambda>u. collate (uUsername u)) (adUsers ad)))"

definition ListAuditLogsPaged :: "faults \<Rightarrow> int \<Rightarrow> int \<Rightarrow> adb \<Rightarrow> (audit_log list \<times> int) run" where
  "ListAuditLogsPaged flt offset limit ad =
     paged flt ''ListAuditLogsPaged'' offset limit (sort_key (\<lambda>g. - auCreatedAt g) (adAuditLogs ad))"

definition ListScopesPaged :: "faults \<Rightarrow> (string \<Rightarrow> nat) \<Rightarrow> bool option \<Rightarrow> int \<Rightarrow> int \<Rightarrow> db \<Rightarrow> (scope list \<times> int) run" where
  "ListScopesPaged flt collate v6 offset limit db =
     paged flt ''ListScopesPaged'' offset limit (map scanScope (sort_key (\<lambda>s. collate (scName s))
       (filter (\<lambda>s. case v6 of None \<Rightarrow> True | Some b \<Rightarrow> scV6 s = b) (dbScopes db))))"

definition ListReservationsByScopePaged :: "faults \<Rightarrow> string \<Rightarrow> int \<Rightarrow> int \<Rightarrow> db \<Rightarrow> (reservation list \<times> int) run" where
  "ListReservationsByScopePaged flt scopeID offset limit db =
     paged flt ''ListReservationsByScopePaged'' offset limit (map scanReservation
       (sort_key (\<lambda>r. inet_rank (rIPAddr r)) (filter (\<lambda>r. rScopeID r = scopeID) (dbReservations db))))"

definition ListV6ReservationsByScopePaged :: "faults \<Rightarrow> string \<Rightarrow> int \<Rightarrow> int \<Rightarrow> db \<Rightarrow> (v6_reservation list \<times> int) run" where
  "ListV6ReservationsByScopePaged flt scopeID offset limit db =
     paged flt ''ListV6ReservationsByScopePaged'' offset limit (map scanV6Reservation
       (sort_key (\<lambda>r. inet_rank (vrIPAddr r)) (filter (\<lambda>r. vrScopeID r = scopeID) (dbV6Reservations db))))"

text \<open>The marks of the reserved leases of the page; an error while they are read is dropped.\<close>

definition or_unmarked :: "'r list \<Rightarrow> 'r list run \<Rightarrow> 'r list" where
  "or_unmarked rows marked = (case marked of Ret rows' \<Rightarrow> rows' | _ \<Rightarrow> rows)"

definition ListLeasesByScopePaged :: "faults \<Rightarrow> string \<Rightarrow> int \<Rightarrow> int \<Rightarrow> db \<Rightarrow> (lease list \<times> int) run" where
  "ListLeasesByScopePaged flt scopeID offset limit db =
     bind_run (paged flt ''ListLeasesByScopePaged'' offset limit (map scanLease
       (sort_key (\<lambda>l. inet_rank (lIPAddr l)) (filter (\<lambda>l. lScopeID l = scopeID) (dbLeases db)))))
     (\<lambda>(ls, total). Ret (or_unmarked ls (markReservedLeases flt db ls), total))"

definition ListV6LeasesByScopePaged :: "faults \<Rightarrow> string \<Rightarrow> int \<Rightarrow> int \<Rightarrow> db \<Rightarrow> (v6_lease list \<times> int) run" where
  "ListV6LeasesByScopePaged flt scopeID offset limit db =
     bind_run (paged flt ''ListV6LeasesByScopePaged'' offset limit (map scanV6Lease
       (sort_key (\<lambda>l. inet_rank (vlIPAddr l)) (filter (\<lambda>l. vlScopeID l = scopeID) (dbV6Leases db)))))
     (\<lambda>(ls, total). Ret (or_unmarked ls (markReservedV6Leases flt db ls), total))"

section \<open>Logs\<close>

text \<open>
  \<open>scanIPAllocationLog\<close> reads \<open>scope_id\<close> into a string. The column is NULL once the scope is deleted
  (the empty text of the model), and NULL cannot be scanned into a string.
\<close>

definition scanIPAllocationLog :: "ip_allocation_log \<Rightarrow> ip_allocation_log run" where
  "scanIPAllocationLog g =
     (if alScopeID g = '''' then Fail ''cannot scan NULL into *string''
      else Ret (g\<lparr>alIPAddr := to4IfPossible (alIPAddr g), alRelayIP := to4IfPossible (alRelayIP g)\<rparr>))"

text \<open>The address filter is converted by the database, to an address and to a network: \<open>sqlIPArg\<close>.\<close>

definition log_filter ::
  "string \<Rightarrow> string \<Rightarrow> string \<Rightarrow> (ip \<times> ipnet) option \<Rightarrow> string \<Rightarrow> ip_allocation_log \<Rightarrow> bool" where
  "log_filter scopeID nodeID mac ipArg action g \<longleftrightarrow>
     (scopeID \<noteq> '''' \<longrightarrow> alScopeID g = scopeID) \<and> (nodeID \<noteq> '''' \<longrightarrow> alNodeID g = nodeID)
   \<and> (mac \<noteq> '''' \<longrightarrow> alMACAddr g = mac \<or> alDUID g = mac)
   \<and> (case ipArg of None \<Rightarrow> True | Some (a, n) \<Rightarrow> alIPAddr g = a \<or> alPrefix g = Some n)
   \<and> (action \<noteq> '''' \<longrightarrow> alAction g = action)"

definition ListIPAllocationLogsPaged ::
  "faults \<Rightarrow> (string \<Rightarrow> (ip \<times> ipnet) run) \<Rightarrow> string \<Rightarrow> string \<Rightarrow> string \<Rightarrow> string \<Rightarrow> string \<Rightarrow> int \<Rightarrow> int \<Rightarrow> db
   \<Rightarrow> (ip_allocation_log list \<times> int) run" where
  "ListIPAllocationLogsPaged flt sqlIPArg scopeID nodeID mac p action offset limit db =
     bind_run (if p = '''' then Ret None else bind_run (sqlIPArg p) (\<lambda>an. Ret (Some an))) (\<lambda>ipArg.
     bind_run (paged flt ''ListIPAllocationLogsPaged'' offset limit (sort_key (\<lambda>g. - alCreatedAt g)
       (filter (log_filter scopeID nodeID mac ipArg action) (dbAllocLogs db)))) (\<lambda>(page, total).
     bind_run (map_run scanIPAllocationLog page) (\<lambda>logs. Ret (logs, total))))"

definition CreateSystemLog :: "faults \<Rightarrow> system_log \<Rightarrow> db \<Rightarrow> unit run \<times> db" where
  "CreateSystemLog flt entry db = settle db (exec flt ''CreateSystemLog''
     (bind_run (sql_insert (\<lambda>a b. slID a = slID b) entry (dbSystemLogs db)) (\<lambda>rows. Ret ((), db\<lparr>dbSystemLogs := rows\<rparr>))))"

definition ListSystemLogsPaged :: "faults \<Rightarrow> string \<Rightarrow> string \<Rightarrow> int \<Rightarrow> int \<Rightarrow> db \<Rightarrow> (system_log list \<times> int) run" where
  "ListSystemLogsPaged flt level nodeID offset limit db =
     paged flt ''ListSystemLogsPaged'' offset limit (sort_key (\<lambda>g. - slCreatedAt g)
       (filter (\<lambda>g. (level \<noteq> '''' \<longrightarrow> slLevel g = level) \<and> (nodeID \<noteq> '''' \<longrightarrow> slNodeID g = nodeID)) (dbSystemLogs db)))"

section \<open>Searches\<close>

text \<open>SQL LIKE: \<open>%\<close> matches any text, \<open>_\<close> one character, a backslash makes the next character literal.\<close>

fun like :: "string \<Rightarrow> string \<Rightarrow> bool" where
  "like [] s \<longleftrightarrow> s = []"
| "like (c # p) [] \<longleftrightarrow> c = CHR ''%'' \<and> like p []"
| "like (c # p) (x # s) \<longleftrightarrow>
     (if c = CHR ''%'' then like p (x # s) \<or> like (c # p) s
      else if c = CHR ''_'' then like p s
      else if c = CHR 0x5C then (case p of [] \<Rightarrow> False | d # p' \<Rightarrow> x = d \<and> like p' s)
      else x = c \<and> like p s)"

definition ilike :: "(string \<Rightarrow> string) \<Rightarrow> string \<Rightarrow> string \<Rightarrow> bool" where
  "ilike lower pattern s = like (lower pattern) (lower s)"

definition SearchLeasesByMAC :: "faults \<Rightarrow> (string \<Rightarrow> string) \<Rightarrow> string \<Rightarrow> db \<Rightarrow> lease list run" where
  "SearchLeasesByMAC flt lower mac db = exec flt ''SearchLeasesByMAC''
     (let ls = map scanLease (sort_key (\<lambda>l. - lEndsAt l)
            (filter (\<lambda>l. ilike lower (''%'' @ mac @ ''%'') (lMACAddr l)) (dbLeases db)))
      in Ret (or_unmarked ls (markReservedLeases flt db ls)))"

definition SearchV6LeasesByDUID :: "faults \<Rightarrow> (string \<Rightarrow> string) \<Rightarrow> string \<Rightarrow> db \<Rightarrow> v6_lease list run" where
  "SearchV6LeasesByDUID flt lower duid db = exec flt ''SearchV6LeasesByDUID''
     (let ls = map scanV6Lease (sort_key (\<lambda>l. - vlEndsAt l)
            (filter (\<lambda>l. ilike lower (''%'' @ duid @ ''%'') (vlDUID l)) (dbV6Leases db)))
      in Ret (or_unmarked ls (markReservedV6Leases flt db ls)))"

section \<open>Lemmas\<close>

lemma asettle_Ret: "asettle ad r = (Ret x, ad') \<longleftrightarrow> r = Ret (x, ad')"
  by (auto simp: asettle_def split: run.splits)

lemma asettle_keeps:
  assumes "P ad" and "\<And>x ad'. r = Ret (x, ad') \<Longrightarrow> P ad'"
  shows "P (snd (asettle ad r))"
  using assms by (auto simp: asettle_def split: run.splits)

lemma paged_Ret:
  "paged flt q offset limit rows = Ret (page, n) \<Longrightarrow>
     0 \<le> limit \<and> 0 \<le> offset \<and> page = take (nat limit) (drop (nat offset) rows) \<and> n = int (length rows)"
  by (auto simp: paged_def sql_page_def bind_run_Ret_iff split: if_splits)

lemma like_percent: "like (CHR ''%'' # p) s \<longleftrightarrow> (\<exists>a b. s = a @ b \<and> like p b)"
proof (induction s)
  case Nil
  show ?case by simp
next
  case (Cons x s)
  have "(\<exists>a b. x # s = a @ b \<and> like p b) \<longleftrightarrow> like p (x # s) \<or> (\<exists>a b. s = a @ b \<and> like p b)"
    by (metis append_Cons append_Nil append_eq_Cons_conv)
  with Cons.IH show ?case by simp
qed

text \<open>The wildcards are ordinary in no text without them.\<close>

definition no_wildcard :: "string \<Rightarrow> bool" where
  "no_wildcard m \<longleftrightarrow> CHR ''%'' \<notin> set m \<and> CHR ''_'' \<notin> set m \<and> CHR 0x5C \<notin> set m"

lemma like_literal: "no_wildcard m \<Longrightarrow> like (m @ p) s \<longleftrightarrow> (\<exists>b. s = m @ b \<and> like p b)"
proof (induction m arbitrary: s)
  case Nil
  show ?case by simp
next
  case (Cons c m)
  then show ?case by (cases s) (auto simp: no_wildcard_def)
qed

lemma like_contains: "no_wildcard m \<Longrightarrow> like (''%'' @ m @ ''%'') s \<longleftrightarrow> sublist m s"
  by (simp add: like_percent like_literal sublist_def) blast

end
