(* ===== verification/Serve_Loops.thy ===== *)
theory Serve_Loops
  imports Dhcp4_Node Dhcp6_Server Dns_Server
begin

text \<open>
  The receiving loops of the servers: \<open>serveLoop\<close> of \<open>internal/dhcp/server.go\<close> and
  \<open>internal/dhcpv6/server.go\<close>, \<open>serveUDP\<close> and \<open>serveTCP\<close> of \<open>internal/dns/server.go\<close>. A loop is a function of what its socket
  delivers: a failed read ends it when the server was told to stop and is skipped otherwise; a
  datagram longer than the buffer is cut. Each packet is handed to a goroutine of its own, so that
  the lists give what is started or answered, in the order of arrival.
\<close>

datatype 'a socket_read = ReadError bool | Packet bytes 'a

text \<open>A DHCPv4 datagram with its source, when that is a UDP address, and the interface of its control message.\<close>

fun serveLoop :: "(udp_addr option \<times> int option) socket_read list \<Rightarrow> event4 list" where
  "serveLoop [] = []"
| "serveLoop (ReadError quit # rs) = (if quit then [] else serveLoop rs)"
| "serveLoop (Packet data (src, cm) # rs) =
     (case src of
        None \<Rightarrow> serveLoop rs
      | Some addr \<Rightarrow> Recv (take 2048 data) (case cm of None \<Rightarrow> 0 | Some ifIndex \<Rightarrow> ifIndex) # serveLoop rs)"

fun serveLoop6 :: "udp_addr socket_read list \<Rightarrow> (bytes \<times> udp_addr) list" where
  "serveLoop6 [] = []"
| "serveLoop6 (ReadError quit # rs) = (if quit then [] else serveLoop6 rs)"
| "serveLoop6 (Packet data addr # rs) = (take 4096 data, addr) # serveLoop6 rs"

text \<open>The responses with their source address and interface and their destination; \<open>work n\<close> is the
  environment and the database that the n-th goroutine finds.\<close>

fun serveUDP ::
  "(nat \<Rightarrow> dns_env \<times> db) \<Rightarrow> (udp_addr option \<times> (ip \<times> int) option) socket_read list \<Rightarrow> (bytes \<times> (ip \<times> int) \<times> udp_addr) list" where
  "serveUDP work [] = []"
| "serveUDP work (ReadError quit # rs) = (if quit then [] else serveUDP work rs)"
| "serveUDP work (Packet data (src, cm) # rs) =
     (case src of
        None \<Rightarrow> serveUDP work rs
      | Some addr \<Rightarrow>
          (case handleQuery (fst (work 0)) (take 4096 data) (snd (work 0)) of
             None \<Rightarrow> [] | Some resp \<Rightarrow> [(resp, reply_control cm, addr)]) @ serveUDP (\<lambda>n. work (Suc n)) rs)"

text \<open>The connections accepted, by the bytes their peers send, and what is written back on each.\<close>

fun serveTCP :: "(nat \<Rightarrow> dns_env \<times> (nat \<Rightarrow> db)) \<Rightarrow> unit socket_read list \<Rightarrow> bytes list" where
  "serveTCP work [] = []"
| "serveTCP work (ReadError quit # rs) = (if quit then [] else serveTCP work rs)"
| "serveTCP work (Packet input u # rs) =
     handleTCPConn (fst (work 0)) (snd (work 0)) input # serveTCP (\<lambda>n. work (Suc n)) rs"

section \<open>Lemmas\<close>

text \<open>Every event of the loop is a datagram that was read, cut to the buffer.\<close>

lemma serveLoop_reads:
  "e \<in> set (serveLoop rs) \<Longrightarrow> \<exists>data addr cm. Packet data (Some addr, cm) \<in> set rs
     \<and> e = Recv (take 2048 data) (case cm of None \<Rightarrow> 0 | Some ifIndex \<Rightarrow> ifIndex)"
proof (induction rs rule: serveLoop.induct)
  case (2 quit rs)
  then have "e \<in> set (serveLoop rs)" "\<not> quit" by (cases quit; simp)+
  from 2(1) [OF this(2,1)] show ?case by auto
next
  case (3 data src cm rs)
  show ?case
  proof (cases "e \<in> set (serveLoop rs)")
    case True
    then obtain d a c where "Packet d (Some a, c) \<in> set rs" "e = Recv (take 2048 d) (case c of None \<Rightarrow> 0 | Some ifIndex \<Rightarrow> ifIndex)"
      using 3(1,2) by (cases src) blast+
    then show ?thesis by (intro exI [of _ d] exI [of _ a] exI [of _ c]) simp
  next
    case False
    then obtain a where "src = Some a" "e = Recv (take 2048 data) (case cm of None \<Rightarrow> 0 | Some ifIndex \<Rightarrow> ifIndex)"
      using 3(3) by (cases src) auto
    then show ?thesis by (intro exI [of _ data] exI [of _ a] exI [of _ cm]) simp
  qed
qed simp

lemma serveLoop_stops: "serveLoop (rs @ ReadError True # rs') = serveLoop rs"
  by (induction rs rule: serveLoop.induct) (auto split: option.splits)

lemma serveLoop6_reads: "(data, addr) \<in> set (serveLoop6 rs) \<Longrightarrow> \<exists>d. Packet d addr \<in> set rs \<and> data = take 4096 d"
  by (induction rs rule: serveLoop6.induct) (auto split: if_splits)

text \<open>A DNS response goes to the sender of a query, from the address the query was sent to when that
  can be a source.\<close>

lemma serveUDP_answers:
  assumes "(resp, ctl, addr) \<in> set (serveUDP work rs)"
  shows "\<exists>data cm n. Packet data (Some addr, cm) \<in> set rs \<and> ctl = reply_control cm
    \<and> handleQuery (fst (work n)) (take 4096 data) (snd (work n)) = Some resp"
  using assms
proof (induction work rs rule: serveUDP.induct)
  case (3 work data src cm rs)
  show ?case
  proof (cases src)
    case None
    with 3 show ?thesis by fastforce
  next
    case (Some a)
    show ?thesis
    proof (cases "(resp, ctl, addr) \<in> set (serveUDP (\<lambda>n. work (Suc n)) rs)")
      case True
      from 3(2) [OF Some this] show ?thesis by (metis list.set_intros(2))
    next
      case False
      then show ?thesis using 3(3) Some by (auto split: option.splits)
    qed
  qed
qed (auto split: if_splits)

end
