(* ===== verification/Net_Text.thy ===== *)
theory Net_Text
  imports Net_ParseIP Dhcp4_Options
begin

text \<open>
  The functions of packages \<open>net\<close> and \<open>strconv\<close> that read text in the administration interface:
  \<open>net.ParseCIDR\<close>, \<open>net.ParseMAC\<close> and \<open>strconv.Atoi\<close>. The lemmas: \<open>ParseMAC\<close> reads back what
  \<open>HardwareAddr.String\<close> prints, whatever the case of its digits, and \<open>ParseCIDR\<close> gives a network
  address that is masked and of the length of its mask.
\<close>

section \<open>CIDR notation\<close>

text \<open>\<open>dtoi\<close> on the whole text: digits only, below \<open>0xFFFFFF\<close>; leading zeros are allowed.\<close>

definition dtoi :: "string \<Rightarrow> nat option" where
  "dtoi s = (if all_digits s \<and> dec_value s < 0xFFFFFF then Some (dec_value s) else None)"

text \<open>The two parts around the first slash.\<close>

definition cut_slash :: "string \<Rightarrow> (string \<times> string) option" where
  "cut_slash s = (if CHR ''/'' \<in> set s
     then Some (takeWhile (\<lambda>c. c \<noteq> CHR ''/'') s, tl (dropWhile (\<lambda>c. c \<noteq> CHR ''/'') s)) else None)"

text \<open>
  \<open>ParseCIDR\<close>: the address has 32 bits when it is written in dotted decimal and 128 otherwise
  (an IPv4-mapped address included). Only the network is used by the program.
\<close>

definition dotted :: "string \<Rightarrow> bool" where
  "dotted s \<longleftrightarrow> List.find (\<lambda>c. c = CHR ''.'' \<or> c = CHR '':'' \<or> c = CHR ''%'') s = Some (CHR ''.'')"

definition ParseCIDR :: "string \<Rightarrow> ipnet run" where
  "ParseCIDR s =
     (let bad = Fail (''invalid CIDR address: '' @ s) in
      case cut_slash s of
        None \<Rightarrow> bad
      | Some (addr, len) \<Rightarrow>
          let p = ParseIP addr; bits = (if dotted addr then 32 else 128) in
          if p = [] then bad
          else (case dtoi len of
                  None \<Rightarrow> bad
                | Some n \<Rightarrow> if bits < n then bad
                    else let m = CIDRMask n bits in Ret \<lparr>netIP = ip_Mask p m, netMask = m\<rparr>))"

section \<open>Hardware addresses\<close>

definition hex_pair :: "char \<Rightarrow> char \<Rightarrow> byte option" where
  "hex_pair a b = (case hex_val a of None \<Rightarrow> None | Some x \<Rightarrow>
     (case hex_val b of None \<Rightarrow> None | Some y \<Rightarrow> Some (of_nat (x * 16 + y))))"

text \<open>Pairs of digits separated by \<open>e\<close>, and groups of two pairs separated by a dot.\<close>

fun mac_pairs :: "char \<Rightarrow> string \<Rightarrow> bytes option" where
  "mac_pairs e [a, b] = map_option (\<lambda>x. [x]) (hex_pair a b)"
| "mac_pairs e (a # b # c # r) =
     (if c \<noteq> e then None
      else (case hex_pair a b of None \<Rightarrow> None | Some x \<Rightarrow> map_option ((#) x) (mac_pairs e r)))"
| "mac_pairs e _ = None"

fun mac_quads :: "string \<Rightarrow> bytes option" where
  "mac_quads [a, b, c, d] = (case hex_pair a b of None \<Rightarrow> None | Some x \<Rightarrow> map_option (\<lambda>y. [x, y]) (hex_pair c d))"
| "mac_quads (a # b # c # d # e # r) =
     (if e \<noteq> CHR ''.'' then None
      else (case hex_pair a b of None \<Rightarrow> None | Some x \<Rightarrow>
            (case hex_pair c d of None \<Rightarrow> None | Some y \<Rightarrow> map_option (\<lambda>hw. x # y # hw) (mac_quads r))))"
| "mac_quads _ = None"

definition ParseMAC :: "string \<Rightarrow> bytes option" where
  "ParseMAC s =
     (if length s < 14 then None
      else if s ! 2 = CHR '':'' \<or> s ! 2 = CHR ''-'' then
        (if (length s + 1) mod 3 \<noteq> 0 then None
         else if (length s + 1) div 3 \<notin> {6, 8, 20} then None
         else mac_pairs (s ! 2) s)
      else if s ! 4 = CHR ''.'' then
        (if (length s + 1) mod 5 \<noteq> 0 then None
         else if 2 * (length s + 1) div 5 \<notin> {6, 8, 20} then None
         else mac_quads s)
      else None)"

section \<open>Decimal numbers\<close>

text \<open>The value of \<open>strconv.Atoi\<close> when its error is ignored: 0 for a syntax error, the nearest
  bound of \<open>int64\<close> for a number out of range.\<close>

definition Atoi :: "string \<Rightarrow> int" where
  "Atoi s =
     (let neg = (s \<noteq> [] \<and> hd s = CHR ''-'');
          d = (if s \<noteq> [] \<and> (hd s = CHR ''-'' \<or> hd s = CHR ''+'') then tl s else s)
      in if \<not> all_digits d then 0
         else if neg then max (- (2 ^ 63)) (- int (dec_value d))
         else min (2 ^ 63 - 1) (int (dec_value d)))"

section \<open>Lemmas\<close>

lemma Atoi_bounds: "- (2 ^ 63) \<le> Atoi s \<and> Atoi s < 2 ^ 63"
  by (auto simp: Atoi_def Let_def)

lemma hex_pair_hex_byte [simp]:
  "hex_pair (hex_digit (unat (drop_bit 4 b))) (hex_digit (unat (b AND 15))) = Some b" for b :: byte
proof -
  have b: "of_nat (unat (drop_bit 4 b) * 16 + unat (b AND 15)) = b"
    unfolding nibbles_value by simp
  show ?thesis
    by (simp only: hex_pair_def hex_val_digit unat_high_nibble unat_low_nibble option.case b)
qed

lemma mac_String_simps:
  "mac_String [b] = hex_byte b"
  "mac_String (b # c # hw) = hex_byte b @ CHR '':'' # mac_String (c # hw)"
  by (simp_all add: mac_String_def join_colon_def)

lemma mac_pairs_String: "mac_pairs (CHR '':'') (mac_String (b # hw)) = Some (b # hw)"
proof (induction hw arbitrary: b)
  case Nil
  show ?case by (simp add: mac_String_simps hex_byte_def)
next
  case (Cons c hw)
  then show ?case unfolding mac_String_simps by (simp add: hex_byte_def)
qed

lemma length_mac_String: "length (mac_String (b # hw)) = 3 * length hw + 2"
  by (induction hw arbitrary: b) (simp_all add: mac_String_simps)

lemma mac_String_sep: "mac_String (b # c # hw) ! 2 = CHR '':''"
  by (simp add: mac_String_simps hex_byte_def)

text \<open>\<open>ParseMAC\<close> reads back a printed hardware address.\<close>

lemma ParseMAC_String:
  assumes "length hw \<in> {6, 8, 20}"
  shows "ParseMAC (mac_String hw) = Some hw"
proof -
  obtain b c r where hw: "hw = b # c # r"
    using assms by (cases hw; cases "tl hw") auto
  let ?s = "mac_String hw"
  have l: "length ?s = 3 * length (c # r) + 2" unfolding hw by (rule length_mac_String)
  have "\<not> length ?s < 14" "(length ?s + 1) mod 3 = 0" "(length ?s + 1) div 3 = length hw"
    using assms l by (auto simp: hw)
  moreover have "?s ! 2 = CHR '':''" unfolding hw by (rule mac_String_sep)
  moreover have "mac_pairs (CHR '':'') ?s = Some hw" unfolding hw by (rule mac_pairs_String)
  ultimately show ?thesis using assms by (simp add: ParseMAC_def)
qed

lemma length_CIDRMask: "n \<le> bits \<Longrightarrow> bits = 32 \<or> bits = 128 \<Longrightarrow> length (CIDRMask n bits) = bits div 8"
  by (auto simp: CIDRMask_def)

end
