(* ===== verification/Api_Json.thy ===== *)
theory Api_Json
  imports Net_Text Store_Admin
begin

text \<open>
  JSON at the administration interface: the request bodies that the handlers of
  \<open>internal/api/api.go\<close> decode, and the encodings of \<open>internal/models/models.go\<close>.
  \<^item> A body is the first JSON value of the request (\<open>Decoder.Decode\<close> reads no further), with the
    literals of its numbers (\<open>jtext\<close>); None when there is none or it is malformed.
  \<^item> \<open>decode\<close> is the decoding into a struct: a key selects a field up to case folding, null leaves
    a field as it is, a value of another type is an error, unknown keys are skipped, a repeated
    key is decoded again into the same field (a map keeps its earlier entries).
  \<^item> \<open>strconv.ParseFloat\<close> and the text of a time are arguments.
\<close>

section \<open>Decoding\<close>

datatype jtext = TNull | TBool bool | TNum string | TStr string | TArr "jtext list"
  | TObj "(string \<times> jtext) list"

text \<open>
  \<open>foldName\<close> on a key, for a comparison with ASCII names: letters in either case, and the two
  characters outside ASCII that fold to a letter, U+017F (s) and U+212A (k), in UTF-8.
\<close>

definition ascii_lower :: "char \<Rightarrow> char" where
  "ascii_lower c = (let n = of_char c :: nat in if 65 \<le> n \<and> n \<le> 90 then char_of (n + 32) else c)"

fun fold_name :: "string \<Rightarrow> string" where
  "fold_name (a # b # c # r) =
     (if a = CHR 0xC5 \<and> b = CHR 0xBF then CHR ''s'' # fold_name (c # r)
      else if a = CHR 0xE2 \<and> b = CHR 0x84 \<and> c = CHR 0xAA then CHR ''k'' # fold_name r
      else ascii_lower a # fold_name (b # c # r))"
| "fold_name [a, b] = (if a = CHR 0xC5 \<and> b = CHR 0xBF then ''s'' else [ascii_lower a, ascii_lower b])"
| "fold_name [a] = [ascii_lower a]"
| "fold_name [] = []"

definition d_str :: "jtext \<Rightarrow> string \<Rightarrow> string option" where
  "d_str t cur = (case t of TNull \<Rightarrow> Some cur | TStr s \<Rightarrow> Some s | _ \<Rightarrow> None)"

definition d_bool :: "jtext \<Rightarrow> bool \<Rightarrow> bool option" where
  "d_bool t cur = (case t of TNull \<Rightarrow> Some cur | TBool b \<Rightarrow> Some b | _ \<Rightarrow> None)"

definition d_int :: "jtext \<Rightarrow> int \<Rightarrow> int option" where
  "d_int t cur = (case t of TNull \<Rightarrow> Some cur
     | TNum lit \<Rightarrow> (case ParseInt10 lit of Ret w \<Rightarrow> Some (sint w) | _ \<Rightarrow> None) | _ \<Rightarrow> None)"

text \<open>A list of strings: null empties it, a null element keeps what is at its place.\<close>

fun d_elems :: "jtext list \<Rightarrow> string list \<Rightarrow> string list option" where
  "d_elems [] cur = Some []"
| "d_elems (t # ts) cur =
     (case d_str t (case cur of [] \<Rightarrow> '''' | c # _ \<Rightarrow> c) of
        None \<Rightarrow> None | Some s \<Rightarrow> map_option ((#) s) (d_elems ts (tl cur)))"

definition d_strs :: "jtext \<Rightarrow> string list \<Rightarrow> string list option" where
  "d_strs t cur = (case t of TNull \<Rightarrow> Some [] | TArr ts \<Rightarrow> d_elems ts cur | _ \<Rightarrow> None)"

text \<open>Values of type \<open>interface{}\<close>; a number that does not fit a \<open>float64\<close> is an error.\<close>

fun d_any :: "(string \<Rightarrow> rat option) \<Rightarrow> jtext \<Rightarrow> gvalue option" where
  "d_any pf TNull = Some GNil"
| "d_any pf (TBool b) = Some (GBool b)"
| "d_any pf (TNum lit) = map_option GFloat (pf lit)"
| "d_any pf (TStr s) = Some (GStr s)"
| "d_any pf (TArr ts) = map_option GList (those (map (d_any pf) ts))"
| "d_any pf (TObj kvs) = map_option (\<lambda>vs. GMap (last_wins (zip (map fst kvs) vs))) (those (map (\<lambda>kv. d_any pf (snd kv)) kvs))"

text \<open>A \<open>map[string]interface{}\<close>; None is the nil map.\<close>

type_synonym any_map = "(string \<times> gvalue) list option"

definition d_map :: "(string \<Rightarrow> rat option) \<Rightarrow> jtext \<Rightarrow> any_map \<Rightarrow> any_map option" where
  "d_map pf t cur = (case t of TNull \<Rightarrow> Some None
     | TObj kvs \<Rightarrow> map_option (\<lambda>vs. Some (last_wins (case_option [] id cur @ zip (map fst kvs) vs)))
                     (those (map (\<lambda>kv. d_any pf (snd kv)) kvs))
     | _ \<Rightarrow> None)"

fun decode_fields :: "(string \<Rightarrow> jtext \<Rightarrow> 'r \<Rightarrow> 'r option) \<Rightarrow> (string \<times> jtext) list \<Rightarrow> 'r \<Rightarrow> 'r option" where
  "decode_fields f [] r = Some r"
| "decode_fields f ((k, t) # kts) r =
     (case f (fold_name k) t r of None \<Rightarrow> None | Some r' \<Rightarrow> decode_fields f kts r')"

definition decode :: "(string \<Rightarrow> jtext \<Rightarrow> 'r \<Rightarrow> 'r option) \<Rightarrow> 'r \<Rightarrow> jtext option \<Rightarrow> 'r option" where
  "decode f zero body = (case body of
     Some TNull \<Rightarrow> Some zero | Some (TObj kts) \<Rightarrow> decode_fields f kts zero | _ \<Rightarrow> None)"

section \<open>Request structs\<close>

record scope_req =
  sqName :: string
  sqV6 :: bool
  sqSubnet :: string
  sqPrefix :: string
  sqStartIP :: string
  sqEndIP :: string
  sqGateway :: "string list"
  sqDNS :: "string list"
  sqExcludedIPs :: "string list"
  sqDomainName :: string
  sqLeaseTime :: int
  sqMaxLeaseTime :: int
  sqEnabled :: bool
  sqPDEnabled :: bool
  sqOptions :: any_map

definition scope_req0 :: scope_req where
  "scope_req0 = \<lparr>sqName = '''', sqV6 = False, sqSubnet = '''', sqPrefix = '''', sqStartIP = '''', sqEndIP = '''',
     sqGateway = [], sqDNS = [], sqExcludedIPs = [], sqDomainName = '''', sqLeaseTime = 0, sqMaxLeaseTime = 0,
     sqEnabled = False, sqPDEnabled = False, sqOptions = None\<rparr>"

definition scope_field :: "(string \<Rightarrow> rat option) \<Rightarrow> string \<Rightarrow> jtext \<Rightarrow> scope_req \<Rightarrow> scope_req option" where
  "scope_field pf k t q =
     (if k = ''name'' then map_option (\<lambda>s. q\<lparr>sqName := s\<rparr>) (d_str t (sqName q))
      else if k = ''v6'' then map_option (\<lambda>b. q\<lparr>sqV6 := b\<rparr>) (d_bool t (sqV6 q))
      else if k = ''subnet'' then map_option (\<lambda>s. q\<lparr>sqSubnet := s\<rparr>) (d_str t (sqSubnet q))
      else if k = ''prefix'' then map_option (\<lambda>s. q\<lparr>sqPrefix := s\<rparr>) (d_str t (sqPrefix q))
      else if k = ''start_ip'' then map_option (\<lambda>s. q\<lparr>sqStartIP := s\<rparr>) (d_str t (sqStartIP q))
      else if k = ''end_ip'' then map_option (\<lambda>s. q\<lparr>sqEndIP := s\<rparr>) (d_str t (sqEndIP q))
      else if k = ''gateway'' then map_option (\<lambda>s. q\<lparr>sqGateway := s\<rparr>) (d_strs t (sqGateway q))
      else if k = ''dns'' then map_option (\<lambda>s. q\<lparr>sqDNS := s\<rparr>) (d_strs t (sqDNS q))
      else if k = ''excluded_ips'' then map_option (\<lambda>s. q\<lparr>sqExcludedIPs := s\<rparr>) (d_strs t (sqExcludedIPs q))
      else if k = ''domain_name'' then map_option (\<lambda>s. q\<lparr>sqDomainName := s\<rparr>) (d_str t (sqDomainName q))
      else if k = ''lease_time'' then map_option (\<lambda>n. q\<lparr>sqLeaseTime := n\<rparr>) (d_int t (sqLeaseTime q))
      else if k = ''max_lease_time'' then map_option (\<lambda>n. q\<lparr>sqMaxLeaseTime := n\<rparr>) (d_int t (sqMaxLeaseTime q))
      else if k = ''enabled'' then map_option (\<lambda>b. q\<lparr>sqEnabled := b\<rparr>) (d_bool t (sqEnabled q))
      else if k = ''pd_enabled'' then map_option (\<lambda>b. q\<lparr>sqPDEnabled := b\<rparr>) (d_bool t (sqPDEnabled q))
      else if k = ''options'' then map_option (\<lambda>m. q\<lparr>sqOptions := m\<rparr>) (d_map pf t (sqOptions q))
      else Some q)"

text \<open>The body of a reservation; the IPv4 update has no \<open>duid\<close> field and the IPv6 one no \<open>mac_addr\<close>.\<close>

record reservation_req =
  rqMACAddr :: string
  rqDUID :: string
  rqGroupID :: string
  rqIPAddr :: string
  rqHostname :: string
  rqDescription :: string
  rqOptions :: any_map

definition reservation_req0 :: reservation_req where
  "reservation_req0 = \<lparr>rqMACAddr = '''', rqDUID = '''', rqGroupID = '''', rqIPAddr = '''', rqHostname = '''',
     rqDescription = '''', rqOptions = None\<rparr>"

definition reservation_field ::
  "(string \<Rightarrow> rat option) \<Rightarrow> bool \<Rightarrow> bool \<Rightarrow> string \<Rightarrow> jtext \<Rightarrow> reservation_req \<Rightarrow> reservation_req option" where
  "reservation_field pf hasMAC hasDUID k t q =
     (if hasMAC \<and> k = ''mac_addr'' then map_option (\<lambda>s. q\<lparr>rqMACAddr := s\<rparr>) (d_str t (rqMACAddr q))
      else if hasDUID \<and> k = ''duid'' then map_option (\<lambda>s. q\<lparr>rqDUID := s\<rparr>) (d_str t (rqDUID q))
      else if k = ''group_id'' then map_option (\<lambda>s. q\<lparr>rqGroupID := s\<rparr>) (d_str t (rqGroupID q))
      else if k = ''ip_addr'' then map_option (\<lambda>s. q\<lparr>rqIPAddr := s\<rparr>) (d_str t (rqIPAddr q))
      else if k = ''hostname'' then map_option (\<lambda>s. q\<lparr>rqHostname := s\<rparr>) (d_str t (rqHostname q))
      else if k = ''description'' then map_option (\<lambda>s. q\<lparr>rqDescription := s\<rparr>) (d_str t (rqDescription q))
      else if k = ''options'' then map_option (\<lambda>m. q\<lparr>rqOptions := m\<rparr>) (d_map pf t (rqOptions q))
      else Some q)"

record group_req =
  gqName :: string
  gqDescription :: string
  gqOptions :: any_map

definition group_req0 :: group_req where
  "group_req0 = \<lparr>gqName = '''', gqDescription = '''', gqOptions = None\<rparr>"

definition group_field :: "(string \<Rightarrow> rat option) \<Rightarrow> string \<Rightarrow> jtext \<Rightarrow> group_req \<Rightarrow> group_req option" where
  "group_field pf k t q =
     (if k = ''name'' then map_option (\<lambda>s. q\<lparr>gqName := s\<rparr>) (d_str t (gqName q))
      else if k = ''description'' then map_option (\<lambda>s. q\<lparr>gqDescription := s\<rparr>) (d_str t (gqDescription q))
      else if k = ''options'' then map_option (\<lambda>m. q\<lparr>gqOptions := m\<rparr>) (d_map pf t (gqOptions q))
      else Some q)"

text \<open>The bodies that hold texts only: their fields by name, with the names the struct has.\<close>

definition text_field :: "string list \<Rightarrow> string \<Rightarrow> jtext \<Rightarrow> (string \<Rightarrow> string) \<Rightarrow> (string \<Rightarrow> string) option" where
  "text_field names k t q = (if k \<in> set names then map_option (\<lambda>s. q(k := s)) (d_str t (q k)) else Some q)"

definition decode_texts :: "string list \<Rightarrow> jtext option \<Rightarrow> (string \<Rightarrow> string) option" where
  "decode_texts names body = decode (text_field names) (\<lambda>_. '''') body"

section \<open>Encoding\<close>

text \<open>\<open>json.Marshal\<close> of decoded values: the keys of a map are sorted.\<close>

fun marshal_any :: "gvalue \<Rightarrow> json" where
  "marshal_any GNil = JNull"
| "marshal_any (GBool b) = JBool b"
| "marshal_any (GFloat r) = JNum r"
| "marshal_any (GStr s) = JStr s"
| "marshal_any (GList vs) = JArr (map marshal_any vs)"
| "marshal_any (GMap kvs) = JObj (sort_key fst (map (\<lambda>kv. (fst kv, marshal_any (snd kv))) kvs))"
| "marshal_any (GStrs ss) = JArr (map JStr ss)"
| "marshal_any (GU8 w) = JNum (of_nat (unat w))"
| "marshal_any (GU16 w) = JNum (of_nat (unat w))"
| "marshal_any (GU32 w) = JNum (of_nat (unat w))"
| "marshal_any (GI32 w) = JNum (of_int (sint w))"

definition marshal_map :: "any_map \<Rightarrow> raw_json" where
  "marshal_map m = Some (case m of None \<Rightarrow> JNull | Some kvs \<Rightarrow> marshal_any (GMap kvs))"

definition ip_json :: "ip \<Rightarrow> json" where
  "ip_json p = JStr (if p = [] then '''' else ip_String p)"

definition raw_value :: "raw_json \<Rightarrow> json" where
  "raw_value r = (case r of None \<Rightarrow> JNull | Some j \<Rightarrow> j)"

text \<open>\<open>Scope.MarshalJSON\<close>: the networks are left out, their texts are normalized first. A nil list of
  addresses is null, and the model's lists do not tell nil from empty: \<open>nil_as_null\<close> is for the
  lists that the handlers build by appending.\<close>

definition ips_json :: "ip list \<Rightarrow> json" where
  "ips_json ps = JArr (map ip_json ps)"

definition nil_as_null :: "ip list \<Rightarrow> json" where
  "nil_as_null ps = (if ps = [] then JNull else ips_json ps)"

definition scope_json :: "(time \<Rightarrow> string) \<Rightarrow> scope \<Rightarrow> json" where
  "scope_json tt s0 = (let s = Normalize s0 in JObj [(''id'', JStr (scID s)), (''name'', JStr (scName s)), (''v6'', JBool (scV6 s)),
     (''subnet'', JStr (scSubnetStr s)), (''prefix'', JStr (scPrefixStr s)), (''start_ip'', ip_json (scStartIP s)),
     (''end_ip'', ip_json (scEndIP s)), (''gateway'', nil_as_null (scGateway s)), (''dns'', nil_as_null (scDNS s)),
     (''excluded_ips'', ips_json (scExcludedIPs s)), (''domain_name'', JStr (scDomainName s)),
     (''lease_time'', JNum (of_int (scLeaseTime s))), (''max_lease_time'', JNum (of_int (scMaxLeaseTime s))),
     (''enabled'', JBool (scEnabled s)), (''pd_enabled'', JBool (scPDEnabled s)), (''options'', raw_value (scOptions s)),
     (''created_at'', JStr (tt (scCreatedAt s))), (''updated_at'', JStr (tt (scUpdatedAt s)))])"

definition reservation_json :: "(time \<Rightarrow> string) \<Rightarrow> reservation \<Rightarrow> json" where
  "reservation_json tt r = JObj [(''id'', JStr (rID r)), (''scope_id'', JStr (rScopeID r)), (''group_id'', JStr (rGroupID r)),
     (''mac_addr'', JStr (rMACAddr r)), (''ip_addr'', ip_json (rIPAddr r)), (''hostname'', JStr (rHostname r)),
     (''description'', JStr (rDescription r)), (''options'', raw_value (rOptions r)),
     (''created_at'', JStr (tt (rCreatedAt r))), (''updated_at'', JStr (tt (rUpdatedAt r)))]"

definition v6_reservation_json :: "(time \<Rightarrow> string) \<Rightarrow> v6_reservation \<Rightarrow> json" where
  "v6_reservation_json tt r = JObj [(''id'', JStr (vrID r)), (''scope_id'', JStr (vrScopeID r)), (''group_id'', JStr (vrGroupID r)),
     (''duid'', JStr (vrDUID r)), (''ip_addr'', ip_json (vrIPAddr r)), (''hostname'', JStr (vrHostname r)),
     (''description'', JStr (vrDescription r)), (''options'', raw_value (vrOptions r)),
     (''created_at'', JStr (tt (vrCreatedAt r))), (''updated_at'', JStr (tt (vrUpdatedAt r)))]"

definition group_json :: "(time \<Rightarrow> string) \<Rightarrow> reservation_group \<Rightarrow> json" where
  "group_json tt g = JObj [(''id'', JStr (gID g)), (''name'', JStr (gName g)), (''description'', JStr (gDescription g)),
     (''options'', raw_value (gOptions g)), (''created_at'', JStr (tt (gCreatedAt g))), (''updated_at'', JStr (tt (gUpdatedAt g)))]"

definition texts_json :: "(string \<times> string) list \<Rightarrow> json" where
  "texts_json kvs = JObj (sort_key fst (map (\<lambda>kv. (fst kv, JStr (snd kv))) kvs))"

end
