(* ===== verification/Auth_Model.thy ===== *)
theory Auth_Model
  imports Node_Services
begin

text \<open>
  The authentication service, \<open>internal/auth/auth.go\<close>: the RSA key files, the first administrator,
  passwords and tokens.
  \<^item> Cryptography is outside the repository and is an argument: \<open>crypto\<close> holds bcrypt and the JWT
    library, \<open>keylib\<close> the key generation and the key encodings. What the service relies on is
    \<open>password_law\<close> (a password matches the hash made from it) and
    \<open>token_law\<close> (a signed token parses to its claims until it expires, with the matching key).
  \<^item> A file system is the map of its files; a failing operation of it changes nothing.
  \<^item> Claims are the values of the decoded JSON; the clock of a token is in nanoseconds.
  The lemmas: a login gives a token exactly for the name and password of a stored user, the token
  is accepted until it expires and names that user and role, and key files that exist are kept.
\<close>

section \<open>Keys\<close>

datatype any_key = RSA_Key string | Other_Key

record keylib =
  klGenerate :: "string run"
  klPrivatePEM :: "string \<Rightarrow> string"
  klPublicPEM :: "string \<Rightarrow> string run"
  klDecode :: "string \<Rightarrow> string option"
  klPKCS1 :: "string \<Rightarrow> string run"
  klPKCS8 :: "string \<Rightarrow> any_key run"
  klPKIX :: "string \<Rightarrow> any_key run"

type_synonym fs = "string \<rightharpoonup> string"

text \<open>A write that fails leaves the files as they are.\<close>

definition write_file :: "(string \<Rightarrow> string option) \<Rightarrow> string \<Rightarrow> string \<Rightarrow> string \<Rightarrow> fs \<Rightarrow> (fs \<Rightarrow> unit run \<times> fs) \<Rightarrow> unit run \<times> fs" where
  "write_file io what path text f k =
     (case io (''create '' @ what @ '' dir'') of
        Some e \<Rightarrow> (Fail (''create '' @ what @ '' dir: '' @ e), f)
      | None \<Rightarrow> (case io (''write '' @ what) of
           Some e \<Rightarrow> (Fail (''write '' @ what @ '': '' @ e), f)
         | None \<Rightarrow> k (f(path \<mapsto> text))))"

definition ensureRSAKeys :: "keylib \<Rightarrow> (string \<Rightarrow> string option) \<Rightarrow> string \<Rightarrow> string \<Rightarrow> fs \<Rightarrow> unit run \<times> fs" where
  "ensureRSAKeys kl io privatePath publicPath f =
     (if f privatePath \<noteq> None \<and> f publicPath \<noteq> None then (Ret (), f)
      else (case klGenerate kl of
          Ret key \<Rightarrow> (case klPublicPEM kl key of
              Ret pubPEM \<Rightarrow> write_file io ''private key'' privatePath (klPrivatePEM kl key) f (\<lambda>f.
                             write_file io ''public key'' publicPath pubPEM f (\<lambda>f. (Ret (), f)))
            | Fail e \<Rightarrow> (Fail (''marshal public key: '' @ e), f) | Panic \<Rightarrow> (Panic, f) | Hang \<Rightarrow> (Hang, f))
        | Fail e \<Rightarrow> (Fail (''generate rsa key: '' @ e), f) | Panic \<Rightarrow> (Panic, f) | Hang \<Rightarrow> (Hang, f)))"

definition read_file :: "fs \<Rightarrow> string \<Rightarrow> string run" where
  "read_file f path = (case f path of None \<Rightarrow> Fail (''open '' @ path @ '': no such file or directory'') | Some t \<Rightarrow> Ret t)"

definition loadRSAPrivateKey :: "keylib \<Rightarrow> fs \<Rightarrow> string \<Rightarrow> string run" where
  "loadRSAPrivateKey kl f path = bind_run (read_file f path) (\<lambda>text.
     case klDecode kl text of
       None \<Rightarrow> Fail ''invalid private key pem''
     | Some der \<Rightarrow> (case klPKCS1 kl der of
           Ret key \<Rightarrow> Ret key
         | _ \<Rightarrow> bind_run (klPKCS8 kl der) (\<lambda>k. case k of
             RSA_Key key \<Rightarrow> Ret key | Other_Key \<Rightarrow> Fail ''private key is not rsa'')))"

definition loadRSAPublicKey :: "keylib \<Rightarrow> fs \<Rightarrow> string \<Rightarrow> string run" where
  "loadRSAPublicKey kl f path = bind_run (read_file f path) (\<lambda>text.
     case klDecode kl text of
       None \<Rightarrow> Fail ''invalid public key pem''
     | Some der \<Rightarrow> bind_run (klPKIX kl der) (\<lambda>k. case k of
         RSA_Key key \<Rightarrow> Ret key | Other_Key \<Rightarrow> Fail ''public key is not rsa''))"

record service =
  svcPrivateKey :: string
  svcPublicKey :: string

text \<open>The text of a wrapped error, \<open>fmt.Errorf("...: %w", err)\<close>.\<close>

definition wrap_error :: "string \<Rightarrow> 'a run \<Rightarrow> 'a run" where
  "wrap_error what r = (case r of Fail e \<Rightarrow> Fail (what @ '': '' @ e) | _ \<Rightarrow> r)"

definition NewService :: "keylib \<Rightarrow> (string \<Rightarrow> string option) \<Rightarrow> Config \<Rightarrow> fs \<Rightarrow> service run \<times> fs" where
  "NewService kl io cfg f =
     (let priv = cRSAPrivateKeyFile (cAuth cfg); pub = cRSAPublicKeyFile (cAuth cfg);
          (r, f1) = ensureRSAKeys kl io priv pub f
      in (bind_run (wrap_error ''ensure rsa keys'' r) (\<lambda>_.
            bind_run (wrap_error ''load rsa private key'' (loadRSAPrivateKey kl f1 priv)) (\<lambda>privateKey.
            bind_run (wrap_error ''load rsa public key'' (loadRSAPublicKey kl f1 pub)) (\<lambda>publicKey.
              Ret \<lparr>svcPrivateKey = privateKey, svcPublicKey = publicKey\<rparr>))), f1))"

section \<open>Passwords and tokens\<close>

type_synonym claims = "string \<rightharpoonup> gvalue"

record crypto =
  crHash :: "string \<Rightarrow> string run"
  crCompare :: "string \<Rightarrow> string \<Rightarrow> bool"
  crSign :: "string \<Rightarrow> claims \<Rightarrow> string run"
  crParse :: "string \<Rightarrow> (string \<Rightarrow> bool) \<Rightarrow> int \<Rightarrow> string \<Rightarrow> claims run"

definition HashPassword :: "crypto \<Rightarrow> string \<Rightarrow> string run" where
  "HashPassword cr password = crHash cr password"

definition VerifyPassword :: "crypto \<Rightarrow> string \<Rightarrow> string \<Rightarrow> bool" where
  "VerifyPassword cr hash password = crCompare cr hash password"

text \<open>The stored times of the new user are two readings of the clock.\<close>

definition InitializeDefaultAdmin ::
  "faults \<Rightarrow> crypto \<Rightarrow> Config \<Rightarrow> string \<Rightarrow> time \<Rightarrow> time \<Rightarrow> adb \<Rightarrow> unit run \<times> adb" where
  "InitializeDefaultAdmin flt cr cfg uuid created updated ad =
     (let name = cDefaultAdminUsername (cAuth cfg); password = cDefaultAdminPassword (cAuth cfg) in
      if name = '''' \<or> password = '''' then (Ret (), ad)
      else (case CountUsers flt ad of
          Ret count \<Rightarrow>
            if 0 < count then (Ret (), ad)
            else (case crHash cr password of
                Ret hash \<Rightarrow> CreateUser flt \<lparr>uID = uuid, uUsername = name, uPasswordHash = hash, uRole = ''admin'',
                              uCreatedAt = created, uUpdatedAt = updated\<rparr> ad
              | Fail e \<Rightarrow> (Fail e, ad) | Panic \<Rightarrow> (Panic, ad) | Hang \<Rightarrow> (Hang, ad))
        | Fail e \<Rightarrow> (Fail (''count users: '' @ e), ad) | Panic \<Rightarrow> (Panic, ad) | Hang \<Rightarrow> (Hang, ad)))"

text \<open>The message for a wrong name or password, in UTF-8.\<close>

definition bad_credentials :: string where
  "bad_credentials = string_of_bytes [0xE7, 0x94, 0xA8, 0xE6, 0x88, 0xB7, 0xE5, 0x90, 0x8D, 0xE6, 0x88, 0x96,
     0xE5, 0xAF, 0x86, 0xE7, 0xA0, 0x81, 0xE9, 0x94, 0x99, 0xE8, 0xAF, 0xAF]"

text \<open>\<open>time.Time.Unix\<close> of a clock reading in nanoseconds.\<close>

definition Unix :: "int \<Rightarrow> int" where "Unix t = t div SecondD"

definition token_claims :: "Config \<Rightarrow> int \<Rightarrow> int \<Rightarrow> string \<Rightarrow> user \<Rightarrow> claims" where
  "token_claims cfg now1 now2 jti u = [''sub'' \<mapsto> GStr (uID u), ''usr'' \<mapsto> GStr (uUsername u), ''role'' \<mapsto> GStr (uRole u),
     ''exp'' \<mapsto> GFloat (of_int (Unix (now1 + cTokenTTL (cAuth cfg)))), ''iat'' \<mapsto> GFloat (of_int (Unix now2)), ''jti'' \<mapsto> GStr jti]"

definition Authenticate ::
  "faults \<Rightarrow> crypto \<Rightarrow> service \<Rightarrow> Config \<Rightarrow> int \<Rightarrow> int \<Rightarrow> string \<Rightarrow> string \<Rightarrow> string \<Rightarrow> adb \<Rightarrow> (string \<times> string) run" where
  "Authenticate flt cr svc cfg now1 now2 jti username password ad =
     (case GetUserByUsername flt username ad of
        Ret u \<Rightarrow>
          if \<not> crCompare cr (uPasswordHash u) password then Fail bad_credentials
          else bind_run (crSign cr (svcPrivateKey svc) (token_claims cfg now1 now2 jti u)) (\<lambda>t. Ret (t, uRole u))
      | Fail e \<Rightarrow> Fail bad_credentials | Panic \<Rightarrow> Panic | Hang \<Rightarrow> Hang)"

definition getString :: "claims \<Rightarrow> string \<Rightarrow> string" where
  "getString c key = (case c key of Some (GStr s) \<Rightarrow> s | _ \<Rightarrow> '''')"

text \<open>The signing methods of the type \<open>*jwt.SigningMethodRSA\<close>.\<close>

definition rsa_method :: "string \<Rightarrow> bool" where
  "rsa_method alg \<longleftrightarrow> alg \<in> {''RS256'', ''RS384'', ''RS512''}"

definition ValidateToken :: "crypto \<Rightarrow> service \<Rightarrow> int \<Rightarrow> string \<Rightarrow> user run" where
  "ValidateToken cr svc now t = bind_run (crParse cr (svcPublicKey svc) rsa_method now t) (\<lambda>c.
     Ret \<lparr>uID = getString c ''sub'', uUsername = getString c ''usr'', uPasswordHash = '''', uRole = getString c ''role'',
          uCreatedAt = 0, uUpdatedAt = 0\<rparr>)"

section \<open>What the service relies on\<close>

definition password_law :: "crypto \<Rightarrow> bool" where
  "password_law cr \<longleftrightarrow> (\<forall>p h. crHash cr p = Ret h \<longrightarrow> crCompare cr h p)"

definition token_law :: "crypto \<Rightarrow> service \<Rightarrow> bool" where
  "token_law cr svc \<longleftrightarrow> (\<forall>c t expiry now ok. crSign cr (svcPrivateKey svc) c = Ret t \<longrightarrow> c ''exp'' = Some (GFloat (of_int expiry)) \<longrightarrow>
     ok ''RS256'' \<longrightarrow> (if now < expiry * SecondD then crParse cr (svcPublicKey svc) ok now t = Ret c
                    else \<forall>x. crParse cr (svcPublicKey svc) ok now t \<noteq> Ret x))"

section \<open>Lemmas\<close>

lemma write_file_Ret:
  "write_file io what path text f k = (Ret (), f') \<Longrightarrow> k (f(path \<mapsto> text)) = (Ret (), f')"
  by (auto simp: write_file_def split: option.splits)

text \<open>Key files that exist are kept; otherwise both are written, from one new key.\<close>

lemma ensureRSAKeys_Ret:
  assumes "ensureRSAKeys kl io priv pub f = (Ret (), f')"
  shows "(f priv \<noteq> None \<and> f pub \<noteq> None \<and> f' = f) \<or>
    (\<exists>key pem. klGenerate kl = Ret key \<and> klPublicPEM kl key = Ret pem
       \<and> f' = f(priv \<mapsto> klPrivatePEM kl key, pub \<mapsto> pem))"
  using assms by (auto simp: ensureRSAKeys_def split: if_splits run.splits dest!: write_file_Ret)

lemma GetUserByUsername_Ret:
  "GetUserByUsername flt name ad = Ret u \<Longrightarrow> u \<in> set (adUsers ad) \<and> uUsername u = name"
  by (auto simp: GetUserByUsername_def or_no_rows_def split: option.splits dest: query_row_SomeD)

lemma Authenticate_Ret:
  assumes "Authenticate flt cr svc cfg now1 now2 jti name pw ad = Ret (t, role)"
  shows "\<exists>u \<in> set (adUsers ad). uUsername u = name \<and> crCompare cr (uPasswordHash u) pw \<and> uRole u = role
    \<and> crSign cr (svcPrivateKey svc) (token_claims cfg now1 now2 jti u) = Ret t"
proof -
  from assms obtain u where u: "GetUserByUsername flt name ad = Ret u"
    by (auto simp: Authenticate_def split: run.splits)
  from GetUserByUsername_Ret [OF u] assms show ?thesis
    by (auto simp: Authenticate_def u bind_run_Ret_iff split: if_splits)
qed

lemma ValidateToken_claims:
  assumes "token_law cr svc" and "crSign cr (svcPrivateKey svc) (token_claims cfg now1 now2 jti u) = Ret t"
  shows "if now < Unix (now1 + cTokenTTL (cAuth cfg)) * SecondD
    then ValidateToken cr svc now t = Ret \<lparr>uID = uID u, uUsername = uUsername u, uPasswordHash = '''', uRole = uRole u,
           uCreatedAt = 0, uUpdatedAt = 0\<rparr>
    else \<forall>x. ValidateToken cr svc now t \<noteq> Ret x"
proof -
  let ?c = "token_claims cfg now1 now2 jti u" and ?e = "Unix (now1 + cTokenTTL (cAuth cfg))"
  have "?c ''exp'' = Some (GFloat (of_int ?e))" "rsa_method ''RS256''"
    by (simp_all add: token_claims_def rsa_method_def)
  with assms have "if now < ?e * SecondD then crParse cr (svcPublicKey svc) rsa_method now t = Ret ?c
                   else \<forall>x. crParse cr (svcPublicKey svc) rsa_method now t \<noteq> Ret x"
    unfolding token_law_def by blast
  moreover have "getString ?c ''sub'' = uID u" "getString ?c ''usr'' = uUsername u" "getString ?c ''role'' = uRole u"
    by (simp_all add: token_claims_def getString_def)
  ultimately show ?thesis
    by (auto simp: ValidateToken_def bind_run_Ret_iff split: if_splits)
qed

end
