(* ===== verification/Api_Request.thy ===== *)
theory Api_Request
  imports Api_Json Auth_Model
begin

text \<open>
  The frame of the HTTP interface, \<open>internal/api/api.go\<close> and \<open>middleware.go\<close>: requests, responses,
  pagination, the audit trail and the middlewares.
  \<^item> A response is its status and the value that is encoded. A handler may panic, which ends the
    request (\<open>net/http\<close> recovers) but keeps what it did to the database.
  \<^item> \<open>api_env\<close> holds what a request depends on beside its input: faults and clocks, new ids, the
    collation and case mapping of the database, number and time texts, the cryptography.
  \<^item> The metrics middleware only observes and is left out.
\<close>

section \<open>Requests and responses\<close>

record request =
  qMethod :: string
  qPath :: string
  qAuthorization :: string
  qQuery :: "(string \<times> string) list"
  qBody :: "jtext option"

definition query_get :: "request \<Rightarrow> string \<Rightarrow> string" where
  "query_get q key = (case List.find (\<lambda>kv. fst kv = key) (qQuery q) of None \<Rightarrow> '''' | Some kv \<Rightarrow> snd kv)"

definition query_has :: "request \<Rightarrow> string \<Rightarrow> bool" where
  "query_has q key = list_ex (\<lambda>kv. fst kv = key) (qQuery q)"

datatype items = Scopes "scope list" | Reservations "reservation list" | V6Reservations "v6_reservation list"
  | Leases "lease list" | V6Leases "v6_lease list" | Users "user list" | AuditLogs "audit_log list"
  | AllocLogs "ip_allocation_log list" | SystemLogs "system_log list"

datatype payload = PNone | PError string | PTexts "(string \<times> string) list" | PPage items int int int
  | PDashboard "scope list" "lease list" int | PScope scope | PReservation reservation | PV6Reservation v6_reservation
  | PGroup reservation_group | PGroups "reservation_group list" | PUser user | PSearch "lease list" "v6_lease list"
  | PBlacklist "mac_blacklist list" | PBlacklisted mac_blacklist | PNodes string "ha_node list" | PFile

record response =
  rsStatus :: int
  rsBody :: payload

type_synonym outcome = "response run \<times> adb"

record api_env =
  apFaults :: faults
  apNow :: "string \<Rightarrow> time"
  apUUID :: "string \<Rightarrow> string"
  apTokenNow :: int
  apLoginNow :: "int \<times> int"
  apCollate :: "string \<Rightarrow> nat"
  apLower :: "string \<Rightarrow> string"
  apIsUUID :: "string \<Rightarrow> bool"
  apSqlIPArg :: "string \<Rightarrow> (ip \<times> ipnet) run"
  apParseFloat :: "string \<Rightarrow> rat option"
  apTimeText :: "time \<Rightarrow> string"
  apQuote :: "string \<Rightarrow> string"
  apCrypto :: crypto
  apService :: service
  apCfg :: Config

definition jsonError :: "int \<Rightarrow> string \<Rightarrow> adb \<Rightarrow> outcome" where
  "jsonError code msg ad = (Ret \<lparr>rsStatus = code, rsBody = PError msg\<rparr>, ad)"

definition jsonOK :: "payload \<Rightarrow> adb \<Rightarrow> outcome" where
  "jsonOK p ad = (Ret \<lparr>rsStatus = 200, rsBody = p\<rparr>, ad)"

definition pageResponse :: "items \<Rightarrow> int \<Rightarrow> int \<Rightarrow> int \<Rightarrow> payload" where
  "pageResponse xs n page pageSize = PPage xs n page pageSize"

text \<open>A call, its continuation on success and on an error.\<close>

definition on_call :: "'a run \<times> adb \<Rightarrow> (string \<Rightarrow> adb \<Rightarrow> outcome) \<Rightarrow> ('a \<Rightarrow> adb \<Rightarrow> outcome) \<Rightarrow> outcome" where
  "on_call c err k = (case fst c of Ret x \<Rightarrow> k x (snd c) | Fail e \<Rightarrow> err e (snd c)
     | Panic \<Rightarrow> (Panic, snd c) | Hang \<Rightarrow> (Hang, snd c))"

text \<open>Calls of the store that read, and that write, the tables of the servers.\<close>

definition reads :: "(db \<Rightarrow> 'a run) \<Rightarrow> adb \<Rightarrow> 'a run \<times> adb" where
  "reads f ad = (f (adDb ad), ad)"

definition writes :: "(db \<Rightarrow> 'a run \<times> db) \<Rightarrow> adb \<Rightarrow> 'a run \<times> adb" where
  "writes f ad = (case f (adDb ad) of (r, db) \<Rightarrow> (r, ad\<lparr>adDb := db\<rparr>))"

abbreviation internal_error :: "string \<Rightarrow> adb \<Rightarrow> outcome" where
  "internal_error \<equiv> jsonError 500"

section \<open>Pagination\<close>

record page_args =
  pgOffset :: int
  pgLimit :: int
  pgPage :: int
  pgSize :: int

text \<open>\<open>int\<close> has 64 bits: the product wraps.\<close>

definition int64_mult :: "int \<Rightarrow> int \<Rightarrow> int" where
  "int64_mult a b = sint (word_of_int a * word_of_int b :: 64 word)"

definition pagination :: "request \<Rightarrow> page_args" where
  "pagination q =
     (let page = Atoi (query_get q ''page''); page = (if page < 1 then 1 else page);
          size = Atoi (query_get q ''page_size'');
          l = Atoi (query_get q ''limit'');
          size = (if size < 1 then (if 0 < l then l else 20) else size);
          maxSize = (if query_has q ''limit'' \<and> 200 < size then 10000 else 200);
          size = (if maxSize < size then maxSize else size)
      in \<lparr>pgOffset = int64_mult (page - 1) size, pgLimit = size, pgPage = page, pgSize = size\<rparr>)"

section \<open>The audit trail\<close>

text \<open>\<open>audit\<close>: the error of the insertion is dropped.\<close>

definition audit :: "api_env \<Rightarrow> user option \<Rightarrow> string \<Rightarrow> string \<Rightarrow> string \<Rightarrow> json \<Rightarrow> adb \<Rightarrow> adb" where
  "audit env user action resource resourceID details ad = snd (CreateAuditLog (apFaults env) (apIsUUID env)
     \<lparr>auID = apUUID env ''audit'', auUsername = (case user of None \<Rightarrow> '''' | Some u \<Rightarrow> uUsername u), auAction = action,
      auResource = resource, auResourceID = resourceID, auDetails = Some details, auCreatedAt = apNow env ''audit''\<rparr> ad)"

text \<open>The usual end of a handler that changed something.\<close>

definition audited :: "api_env \<Rightarrow> user option \<Rightarrow> string \<Rightarrow> string \<Rightarrow> string \<Rightarrow> json \<Rightarrow> payload \<Rightarrow> adb \<Rightarrow> outcome" where
  "audited env user action resource resourceID details p ad =
     jsonOK p (audit env user action resource resourceID details ad)"

section \<open>Middlewares\<close>

definition cut_space :: "string \<Rightarrow> (string \<times> string) option" where
  "cut_space s = (if CHR '' '' \<in> set s
     then Some (takeWhile (\<lambda>c. c \<noteq> CHR '' '') s, tl (dropWhile (\<lambda>c. c \<noteq> CHR '' '') s)) else None)"

text \<open>The user of a request: the token of the Authorization header, validated; None is a refusal
  with its message. No character outside ASCII is lower-cased to a letter of \<open>bearer\<close>.\<close>

definition bearer_user :: "api_env \<Rightarrow> request \<Rightarrow> string + user" where
  "bearer_user env q =
     (if qAuthorization q = '''' then Inl ''missing authorization header''
      else (case cut_space (qAuthorization q) of
          None \<Rightarrow> Inl ''invalid authorization header''
        | Some (scheme, t) \<Rightarrow>
            if map ascii_lower scheme \<noteq> ''bearer'' then Inl ''invalid authorization header''
            else (case ValidateToken (apCrypto env) (apService env) (apTokenNow env) t of
                Ret u \<Rightarrow> Inr u | _ \<Rightarrow> Inl ''invalid token'')))"

definition authMiddleware :: "api_env \<Rightarrow> (user option \<Rightarrow> adb \<Rightarrow> outcome) \<Rightarrow> request \<Rightarrow> adb \<Rightarrow> outcome" where
  "authMiddleware env k q ad =
     (if qMethod q = ''OPTIONS'' then k None ad
      else (case bearer_user env q of Inl msg \<Rightarrow> jsonError 401 msg ad | Inr u \<Rightarrow> k (Some u) ad))"

text \<open>Reading the user of the context is a type assertion that panics when there is none.\<close>

definition readWriteOnly :: "(user option \<Rightarrow> adb \<Rightarrow> outcome) \<Rightarrow> request \<Rightarrow> user option \<Rightarrow> adb \<Rightarrow> outcome" where
  "readWriteOnly k q user ad =
     (if qMethod q = ''OPTIONS'' then k user ad
      else (case user of
          None \<Rightarrow> (Panic, ad)
        | Some u \<Rightarrow> if uRole u = ''readonly'' \<and> qMethod q \<noteq> ''GET''
                    then jsonError 403 ''readonly user cannot modify resources'' ad else k user ad))"

definition adminOnly :: "(user option \<Rightarrow> adb \<Rightarrow> outcome) \<Rightarrow> user option \<Rightarrow> adb \<Rightarrow> outcome" where
  "adminOnly k user ad = (case user of
     None \<Rightarrow> (Panic, ad)
   | Some u \<Rightarrow> if uRole u \<noteq> ''admin'' then jsonError 403 ''admin required'' ad else k user ad)"

definition corsMiddleware :: "(request \<Rightarrow> adb \<Rightarrow> outcome) \<Rightarrow> request \<Rightarrow> adb \<Rightarrow> outcome" where
  "corsMiddleware k q ad =
     (if qMethod q = ''OPTIONS'' then (Ret \<lparr>rsStatus = 204, rsBody = PNone\<rparr>, ad) else k q ad)"

end
