(* ===== verification/Api_Handlers.thy ===== *)
theory Api_Handlers
  imports Api_Request
begin

text \<open>
  The handlers of the HTTP interface, \<open>internal/api/api.go\<close>, the route table of \<open>registerRoutes\<close> and
  the composition of the middlewares.
  \<^item> The router is \<open>gorilla/mux\<close>, outside the repository: \<open>mux\<close> is an argument that takes the table, the
    path and the method and gives the endpoint with the variable of its path, or None when it
    answers by itself that the method is not allowed. What is relied on is \<open>mux_law\<close>.
  \<^item> The metrics page and the web files are served by library handlers, which do not reach the
    database.
  \<^item> The messages in Chinese are their UTF-8 bytes.
\<close>

section \<open>Messages\<close>

definition zh_bound_to_mac :: string where "zh_bound_to_mac = string_of_bytes [0x20, 0xE5, 0xB7, 0xB2, 0xE8, 0xA2, 0xAB, 0x20, 0x4D, 0x41, 0x43, 0x20]"
definition zh_bound :: string where "zh_bound = string_of_bytes [0x20, 0xE7, 0xBB, 0x91, 0xE5, 0xAE, 0x9A]"
definition zh_bound_to_ip :: string where "zh_bound_to_ip = string_of_bytes [0x20, 0xE5, 0xB7, 0xB2, 0xE7, 0xBB, 0x91, 0xE5, 0xAE, 0x9A, 0x20, 0x49, 0x50, 0x20]"
definition zh_leased :: string where "zh_leased = string_of_bytes [0x20, 0xE5, 0xBD, 0x93, 0xE5, 0x89, 0x8D, 0xE5, 0xB7, 0xB2, 0xE8, 0xA2, 0xAB, 0xE7, 0xA7, 0x9F, 0xE7, 0xBA, 0xA6, 0xE5, 0x8D, 0xA0, 0xE7, 0x94, 0xA8, 0xEF, 0xBC, 0x88, 0x4D, 0x41, 0x43, 0x20]"
definition zh_close :: string where "zh_close = string_of_bytes [0xEF, 0xBC, 0x89]"
definition zh_out_of_range :: string where "zh_out_of_range = string_of_bytes [0x20, 0xE4, 0xB8, 0x8D, 0xE5, 0x9C, 0xA8, 0xE4, 0xBD, 0x9C, 0xE7, 0x94, 0xA8, 0xE5, 0x9F, 0x9F, 0xE8, 0x8C, 0x83, 0xE5, 0x9B, 0xB4, 0xE5, 0x86, 0x85]"
definition zh_excluded :: string where "zh_excluded = string_of_bytes [0x20, 0xE5, 0x9C, 0xA8, 0xE6, 0x8E, 0x92, 0xE9, 0x99, 0xA4, 0xE5, 0x88, 0x97, 0xE8, 0xA1, 0xA8, 0xE4, 0xB8, 0xAD]"
definition zh_bound_to_duid :: string where "zh_bound_to_duid = string_of_bytes [0x20, 0xE5, 0xB7, 0xB2, 0xE8, 0xA2, 0xAB, 0x20, 0x44, 0x55, 0x49, 0x44, 0x20]"
definition zh_leased_v6 :: string where "zh_leased_v6 = string_of_bytes [0x20, 0xE5, 0xBD, 0x93, 0xE5, 0x89, 0x8D, 0xE5, 0xB7, 0xB2, 0xE8, 0xA2, 0xAB, 0x20, 0x56, 0x36, 0x20, 0xE7, 0xA7, 0x9F, 0xE7, 0xBA, 0xA6, 0xE5, 0x8D, 0xA0, 0xE7, 0x94, 0xA8, 0xEF, 0xBC, 0x88, 0x44, 0x55, 0x49, 0x44, 0x20]"
definition zh_domain :: string where "zh_domain = string_of_bytes [0xE5, 0x9F, 0x9F, 0xE5, 0x90, 0x8D, 0x20]"
definition zh_used_by :: string where "zh_used_by = string_of_bytes [0x20, 0xE5, 0xB7, 0xB2, 0xE8, 0xA2, 0xAB, 0xE5, 0x85, 0xB6, 0xE4, 0xBB, 0x96, 0x20]"
definition zh_unique :: string where "zh_unique = string_of_bytes [0x20, 0xE4, 0xBD, 0x9C, 0xE7, 0x94, 0xA8, 0xE5, 0x9F, 0x9F, 0xE4, 0xBD, 0xBF, 0xE7, 0x94, 0xA8, 0xEF, 0xBC, 0x8C, 0xE5, 0x90, 0x8C, 0xE4, 0xB8, 0x80, 0xE5, 0x8D, 0x8F, 0xE8, 0xAE, 0xAE, 0xE6, 0x97, 0x8F, 0xE5, 0x86, 0x85, 0xE5, 0x9F, 0x9F, 0xE5, 0x90, 0x8D, 0xE5, 0xBF, 0x85, 0xE9, 0xA1, 0xBB, 0xE5, 0x94, 0xAF, 0xE4, 0xB8, 0x80]"

section \<open>Health, login, dashboard\<close>

definition handleHealth :: "api_env \<Rightarrow> adb \<Rightarrow> outcome" where
  "handleHealth env ad = (let cfg = apCfg env in jsonOK (PTexts [(''status'', ''ok''), (''node_id'', cNodeID (cCluster cfg)),
     (''cluster_id'', cClusterID (cCluster cfg)), (''listen'', cListen (cServer cfg)), (''v6_listen'', cV6Listen (cServer cfg))]) ad)"

definition with_body :: "'b option \<Rightarrow> adb \<Rightarrow> ('b \<Rightarrow> outcome) \<Rightarrow> outcome" where
  "with_body b ad k = (case b of None \<Rightarrow> jsonError 400 ''invalid json'' ad | Some x \<Rightarrow> k x)"

definition handleLogin :: "api_env \<Rightarrow> request \<Rightarrow> adb \<Rightarrow> outcome" where
  "handleLogin env q ad = with_body (decode_texts [''username'', ''password''] (qBody q)) ad (\<lambda>b.
     let details = texts_json [(''username'', b ''username'')] in
     case Authenticate (apFaults env) (apCrypto env) (apService env) (apCfg env) (fst (apLoginNow env)) (snd (apLoginNow env))
            (apUUID env ''jti'') (b ''username'') (b ''password'') ad of
       Ret (t, role) \<Rightarrow> audited env None ''login'' ''user'' '''' details (PTexts [(''token'', t), (''role'', role)]) ad
     | Fail e \<Rightarrow> jsonError 401 e (audit env None ''login_failed'' ''user'' '''' details ad)
     | Panic \<Rightarrow> (Panic, ad) | Hang \<Rightarrow> (Hang, ad))"

definition handleDashboard :: "api_env \<Rightarrow> adb \<Rightarrow> outcome" where
  "handleDashboard env ad =
     on_call (reads (ListScopes (apFaults env) (apCollate env)) ad) internal_error (\<lambda>scopes ad.
     on_call (reads (ListActiveLeases (apFaults env) (apNow env ''ListActiveLeases'')) ad) internal_error (\<lambda>leases.
       jsonOK (PDashboard scopes leases (int (length leases)))))"

section \<open>Scopes\<close>

definition handleListScopes :: "api_env \<Rightarrow> request \<Rightarrow> adb \<Rightarrow> outcome" where
  "handleListScopes env q ad =
     (let pg = pagination q; v6 = (if query_has q ''v6'' then Some (query_get q ''v6'' = ''true'') else None) in
      on_call (reads (ListScopesPaged (apFaults env) (apCollate env) v6 (pgOffset pg) (pgLimit pg)) ad) internal_error (\<lambda>(xs, n).
        jsonOK (pageResponse (Scopes xs) n (pgPage pg) (pgSize pg))))"

definition handleGetScope :: "api_env \<Rightarrow> string \<Rightarrow> adb \<Rightarrow> outcome" where
  "handleGetScope env ident ad = on_call (reads (GetScopeByID (apFaults env) ident) ad)
     (\<lambda>_. jsonError 404 ''scope not found'') (\<lambda>sc. jsonOK (PScope sc))"

definition parse_ips :: "string \<Rightarrow> string list \<Rightarrow> ip list run" where
  "parse_ips what ss = map_run (\<lambda>s. if ParseIP s = [] then Fail (''invalid '' @ what @ '': '' @ s) else Ret (ParseIP s)) ss"

definition scopeFromRequest :: "scope_req \<Rightarrow> scope run" where
  "scopeFromRequest q =
     bind_run (wrap_error ''invalid subnet'' (ParseCIDR (sqSubnet q))) (\<lambda>subnet.
     let startIP = ParseIP (sqStartIP q); endIP = ParseIP (sqEndIP q) in
     if startIP = [] \<or> endIP = [] then Fail ''invalid start or end ip''
     else bind_run (parse_ips ''gateway'' (sqGateway q)) (\<lambda>gw. bind_run (parse_ips ''dns'' (sqDNS q)) (\<lambda>dns.
          bind_run (parse_ips ''excluded ip'' (sqExcludedIPs q)) (\<lambda>excluded.
          bind_run (if sqPrefix q = '''' then Ret None
                    else bind_run (wrap_error ''invalid prefix'' (ParseCIDR (sqPrefix q))) (\<lambda>n. Ret (Some n))) (\<lambda>prefix.
          Ret \<lparr>scID = '''', scName = sqName q, scV6 = sqV6 q, scSubnet = Some subnet, scPrefix = prefix, scSubnetStr = '''',
               scPrefixStr = '''', scStartIP = startIP, scEndIP = endIP, scGateway = gw, scDNS = dns, scExcludedIPs = excluded,
               scDomainName = sqDomainName q, scLeaseTime = or_int 3600 (sqLeaseTime q),
               scMaxLeaseTime = or_int 86400 (sqMaxLeaseTime q), scEnabled = sqEnabled q, scPDEnabled = sqPDEnabled q,
               scOptions = marshal_map (sqOptions q), scCreatedAt = 0, scUpdatedAt = 0\<rparr>)))))"

text \<open>None when the domain name may be used, otherwise the message.\<close>

definition validateScopeDomain :: "api_env \<Rightarrow> scope \<Rightarrow> string \<Rightarrow> adb \<Rightarrow> string option run" where
  "validateScopeDomain env sc excludeID ad =
     (if scDomainName sc = '''' then Ret None
      else (case DomainNameTaken (apFaults env) (apIsUUID env) (apLower env) (scDomainName sc) (scV6 sc) excludeID (adDb ad) of
          Ret taken \<Rightarrow> Ret (if taken then Some (zh_domain @ apQuote env (scDomainName sc) @ zh_used_by
              @ (if scV6 sc then ''IPv6'' else ''IPv4'') @ zh_unique) else None)
        | Fail e \<Rightarrow> Ret (Some e) | Panic \<Rightarrow> Panic | Hang \<Rightarrow> Hang))"

definition with_valid_domain :: "api_env \<Rightarrow> scope \<Rightarrow> string \<Rightarrow> adb \<Rightarrow> outcome \<Rightarrow> outcome" where
  "with_valid_domain env sc excludeID ad k = (case validateScopeDomain env sc excludeID ad of
     Ret None \<Rightarrow> k | Ret (Some msg) \<Rightarrow> jsonError 400 msg ad | Fail e \<Rightarrow> jsonError 400 e ad | Panic \<Rightarrow> (Panic, ad) | Hang \<Rightarrow> (Hang, ad))"

definition handleCreateScope :: "api_env \<Rightarrow> user option \<Rightarrow> request \<Rightarrow> adb \<Rightarrow> outcome" where
  "handleCreateScope env user q ad =
     with_body (decode (scope_field (apParseFloat env)) scope_req0 (qBody q)) ad (\<lambda>req.
     on_call (scopeFromRequest req, ad) (jsonError 400) (\<lambda>sc0 ad.
     with_valid_domain env sc0 '''' ad (
       let sc = sc0\<lparr>scID := apUUID env ''id'', scCreatedAt := apNow env ''now'', scUpdatedAt := apNow env ''now''\<rparr> in
       on_call (writes (CreateScope (apFaults env) sc) ad) internal_error (\<lambda>_.
         audited env user ''create'' ''scope'' (scID sc) (scope_json (apTimeText env) sc) (PScope sc)))))"

definition handleUpdateScope :: "api_env \<Rightarrow> user option \<Rightarrow> string \<Rightarrow> request \<Rightarrow> adb \<Rightarrow> outcome" where
  "handleUpdateScope env user ident q ad =
     on_call (reads (GetScopeByID (apFaults env) ident) ad) (\<lambda>_. jsonError 404 ''scope not found'') (\<lambda>existing ad.
     with_body (decode (scope_field (apParseFloat env)) scope_req0 (qBody q)) ad (\<lambda>req.
     on_call (scopeFromRequest req, ad) (jsonError 400) (\<lambda>sc0 ad.
     let sc1 = sc0\<lparr>scID := scID existing\<rparr> in
     with_valid_domain env sc1 (scID sc1) ad (
       let sc = sc1\<lparr>scCreatedAt := scCreatedAt existing, scUpdatedAt := apNow env ''now''\<rparr> in
       on_call (writes (UpdateScope (apFaults env) sc) ad) internal_error (\<lambda>_.
         audited env user ''update'' ''scope'' (scID sc) (scope_json (apTimeText env) sc) (PScope sc))))))"

text \<open>The handlers that delete a row, or release a lease, by its id.\<close>

definition act_on_id :: "api_env \<Rightarrow> user option \<Rightarrow> string \<Rightarrow> string \<Rightarrow> string \<Rightarrow> string \<Rightarrow> unit run \<times> adb \<Rightarrow> outcome" where
  "act_on_id env user action resource status ident c =
     on_call c internal_error (\<lambda>_. audited env user action resource ident JNull (PTexts [(''status'', status)]))"

definition handleDeleteScope :: "api_env \<Rightarrow> user option \<Rightarrow> string \<Rightarrow> adb \<Rightarrow> outcome" where
  "handleDeleteScope env user ident ad =
     act_on_id env user ''delete'' ''scope'' ''deleted'' ident (writes (DeleteScope (apFaults env) ident) ad)"

section \<open>Reservations\<close>

definition handleListReservations :: "api_env \<Rightarrow> string \<Rightarrow> request \<Rightarrow> adb \<Rightarrow> outcome" where
  "handleListReservations env ident q ad =
     on_call (reads (GetScopeByID (apFaults env) ident) ad) (\<lambda>_. jsonError 404 ''scope not found'') (\<lambda>sc ad.
     let pg = pagination q in
     if scV6 sc then
       on_call (reads (ListV6ReservationsByScopePaged (apFaults env) ident (pgOffset pg) (pgLimit pg)) ad) internal_error
         (\<lambda>(xs, n). jsonOK (pageResponse (V6Reservations xs) n (pgPage pg) (pgSize pg)))
     else
       on_call (reads (ListReservationsByScopePaged (apFaults env) ident (pgOffset pg) (pgLimit pg)) ad) internal_error
         (\<lambda>(xs, n). jsonOK (pageResponse (Reservations xs) n (pgPage pg) (pgSize pg))))"

definition api_ipKey :: "ip \<Rightarrow> string" where
  "api_ipKey p = (if To4 p \<noteq> [] then ip_String (To4 p) else ip_String p)"

text \<open>The four bytes of an address as a number; indexing the nil \<open>To4\<close> of an IPv6 address panics.\<close>

definition api_ip_u32 :: "ip \<Rightarrow> uint32 run" where
  "api_ip_u32 p = (if To4 p = [] then Panic else Ret (Uint32 (To4 p)))"

definition api_ipInRange :: "ip \<Rightarrow> ip \<Rightarrow> ip \<Rightarrow> bool run" where
  "api_ipInRange p start end = bind_run (api_ip_u32 p) (\<lambda>ipU. bind_run (api_ip_u32 start) (\<lambda>startU.
     bind_run (api_ip_u32 end) (\<lambda>endU. Ret (startU \<le> ipU \<and> ipU \<le> endU))))"

text \<open>A check of the store whose error is dropped: the message when the row it finds is in the way.\<close>

definition refuse_if :: "'r run \<Rightarrow> ('r \<Rightarrow> bool) \<Rightarrow> ('r \<Rightarrow> string) \<Rightarrow> unit run \<Rightarrow> unit run" where
  "refuse_if r bad msg k = (case ok_value r of Some x \<Rightarrow> if bad x then Fail (msg x) else k | None \<Rightarrow> k)"

definition checkV4ReservationConflict :: "api_env \<Rightarrow> scope \<Rightarrow> string \<Rightarrow> ip \<Rightarrow> string \<Rightarrow> db \<Rightarrow> unit run" where
  "checkV4ReservationConflict env sc mac p excludeID db =
     (let ipText = ''IP '' @ ip_String p in
      refuse_if (GetReservationByIP (apFaults env) (scID sc) p db) (\<lambda>r. rID r \<noteq> excludeID)
        (\<lambda>r. ipText @ zh_bound_to_mac @ rMACAddr r @ zh_bound)
     (refuse_if (GetReservationByMAC (apFaults env) (scID sc) mac db) (\<lambda>r. rID r \<noteq> excludeID)
        (\<lambda>r. ''MAC '' @ mac @ zh_bound_to_ip @ ip_String (rIPAddr r))
     (refuse_if (GetLeaseByIP (apFaults env) (scID sc) p db)
        (\<lambda>l. (lState l = LeaseActive \<or> lState l = LeaseOffered) \<and> lMACAddr l \<noteq> mac)
        (\<lambda>l. ipText @ zh_leased @ lMACAddr l @ zh_close)
     (bind_run (api_ipInRange p (scStartIP sc) (scEndIP sc)) (\<lambda>inside.
        if \<not> inside then Fail (ipText @ zh_out_of_range)
        else if list_ex (\<lambda>ex. api_ipKey p = api_ipKey ex) (scExcludedIPs sc) then Fail (ipText @ zh_excluded)
        else Ret ())))))"

definition checkV6ReservationConflict :: "api_env \<Rightarrow> scope \<Rightarrow> string \<Rightarrow> ip \<Rightarrow> string \<Rightarrow> db \<Rightarrow> unit run" where
  "checkV6ReservationConflict env sc duid p excludeID db =
     (let ipText = ''IP '' @ ip_String p in
      refuse_if (GetV6ReservationByIP (apFaults env) (scID sc) p db) (\<lambda>r. vrID r \<noteq> excludeID)
        (\<lambda>r. ipText @ zh_bound_to_duid @ vrDUID r @ zh_bound)
     (refuse_if (GetV6ReservationByDUID (apFaults env) (scID sc) duid db) (\<lambda>r. vrID r \<noteq> excludeID)
        (\<lambda>r. ''DUID '' @ duid @ zh_bound_to_ip @ ip_String (vrIPAddr r))
     (refuse_if (GetV6LeaseByIP (apFaults env) (scID sc) p db)
        (\<lambda>l. (vlState l = LeaseActive \<or> vlState l = LeaseOffered) \<and> vlDUID l \<noteq> duid)
        (\<lambda>l. ipText @ zh_leased_v6 @ vlDUID l @ zh_close)
      (Ret ()))))"

definition create_v6_reservation :: "api_env \<Rightarrow> user option \<Rightarrow> scope \<Rightarrow> string \<Rightarrow> reservation_req \<Rightarrow> ip \<Rightarrow> adb \<Rightarrow> outcome" where
  "create_v6_reservation env user sc scopeID req p ad =
     (if rqDUID req = '''' then jsonError 400 ''invalid duid'' ad
      else on_call (reads (checkV6ReservationConflict env sc (rqDUID req) p '''') ad) (jsonError 409) (\<lambda>_ ad.
        let res = \<lparr>vrID = apUUID env ''id'', vrScopeID = scopeID, vrGroupID = rqGroupID req, vrDUID = rqDUID req, vrIPAddr = p,
              vrHostname = rqHostname req, vrDescription = rqDescription req, vrOptions = marshal_map (rqOptions req),
              vrCreatedAt = apNow env ''created'', vrUpdatedAt = apNow env ''updated''\<rparr> in
        on_call (writes (CreateV6Reservation (apFaults env) res) ad) internal_error (\<lambda>_.
          audited env user ''create'' ''v6_reservation'' (vrID res) (v6_reservation_json (apTimeText env) res) (PV6Reservation res))))"

definition create_v4_reservation :: "api_env \<Rightarrow> user option \<Rightarrow> scope \<Rightarrow> string \<Rightarrow> reservation_req \<Rightarrow> ip \<Rightarrow> adb \<Rightarrow> outcome" where
  "create_v4_reservation env user sc scopeID req p ad =
     (case ParseMAC (rqMACAddr req) of
        None \<Rightarrow> jsonError 400 ''invalid mac'' ad
      | Some hw \<Rightarrow>
          on_call (reads (checkV4ReservationConflict env sc (mac_String hw) p '''') ad) (jsonError 409) (\<lambda>_ ad.
          let res = \<lparr>rID = apUUID env ''id'', rScopeID = scopeID, rGroupID = rqGroupID req, rMACAddr = mac_String hw, rIPAddr = p,
                rHostname = rqHostname req, rDescription = rqDescription req, rOptions = marshal_map (rqOptions req),
                rCreatedAt = apNow env ''created'', rUpdatedAt = apNow env ''updated''\<rparr> in
          on_call (writes (CreateReservation (apFaults env) res) ad) internal_error (\<lambda>_.
            audited env user ''create'' ''reservation'' (rID res) (reservation_json (apTimeText env) res) (PReservation res))))"

definition handleCreateReservation :: "api_env \<Rightarrow> user option \<Rightarrow> string \<Rightarrow> request \<Rightarrow> adb \<Rightarrow> outcome" where
  "handleCreateReservation env user scopeID q ad =
     on_call (reads (GetScopeByID (apFaults env) scopeID) ad) (\<lambda>_. jsonError 404 ''scope not found'') (\<lambda>sc ad.
     with_body (decode (reservation_field (apParseFloat env) True True) reservation_req0 (qBody q)) ad (\<lambda>req.
     let p = ParseIP (rqIPAddr req) in
     if p = [] then jsonError 400 ''invalid ip'' ad
     else if scV6 sc then create_v6_reservation env user sc scopeID req p ad
     else create_v4_reservation env user sc scopeID req p ad))"

definition handleDeleteReservation :: "api_env \<Rightarrow> user option \<Rightarrow> string \<Rightarrow> adb \<Rightarrow> outcome" where
  "handleDeleteReservation env user ident ad =
     act_on_id env user ''delete'' ''reservation'' ''deleted'' ident (writes (DeleteReservation (apFaults env) ident) ad)"

definition handleUpdateReservation :: "api_env \<Rightarrow> user option \<Rightarrow> string \<Rightarrow> request \<Rightarrow> adb \<Rightarrow> outcome" where
  "handleUpdateReservation env user ident q ad =
     on_call (reads (GetReservationByID (apFaults env) ident) ad) (\<lambda>_. jsonError 404 ''reservation not found'') (\<lambda>existing ad.
     with_body (decode (reservation_field (apParseFloat env) True False) reservation_req0 (qBody q)) ad (\<lambda>req.
     let p = ParseIP (rqIPAddr req) in
     if p = [] then jsonError 400 ''invalid ip'' ad
     else (case ParseMAC (rqMACAddr req) of
        None \<Rightarrow> jsonError 400 ''invalid mac'' ad
      | Some hw \<Rightarrow>
          on_call (reads (GetScopeByID (apFaults env) (rScopeID existing)) ad) (\<lambda>_. jsonError 404 ''scope not found'') (\<lambda>sc ad.
          on_call (reads (checkV4ReservationConflict env sc (mac_String hw) p ident) ad) (jsonError 409) (\<lambda>_ ad.
          let res = \<lparr>rID = ident, rScopeID = '''', rGroupID = rqGroupID req, rMACAddr = mac_String hw, rIPAddr = p,
                rHostname = rqHostname req, rDescription = rqDescription req, rOptions = marshal_map (rqOptions req),
                rCreatedAt = 0, rUpdatedAt = apNow env ''updated''\<rparr> in
          on_call (writes (UpdateReservation (apFaults env) (apNow env ''UpdateReservation'') res) ad) internal_error (\<lambda>_ ad.
          let updated = (case ok_value (GetReservationByID (apFaults env) ident (adDb ad)) of None \<Rightarrow> res | Some r \<Rightarrow> r) in
            audited env user ''update'' ''reservation'' ident (reservation_json (apTimeText env) updated) (PReservation updated) ad))))))"

definition handleUpdateV6Reservation :: "api_env \<Rightarrow> user option \<Rightarrow> string \<Rightarrow> request \<Rightarrow> adb \<Rightarrow> outcome" where
  "handleUpdateV6Reservation env user ident q ad =
     on_call (reads (GetV6ReservationByID (apFaults env) ident) ad) (\<lambda>_. jsonError 404 ''reservation not found'') (\<lambda>existing ad.
     with_body (decode (reservation_field (apParseFloat env) False True) reservation_req0 (qBody q)) ad (\<lambda>req.
     let p = ParseIP (rqIPAddr req) in
     if p = [] then jsonError 400 ''invalid ip'' ad
     else if rqDUID req = '''' then jsonError 400 ''invalid duid'' ad
     else
          on_call (reads (GetScopeByID (apFaults env) (vrScopeID existing)) ad) (\<lambda>_. jsonError 404 ''scope not found'') (\<lambda>sc ad.
          on_call (reads (checkV6ReservationConflict env sc (rqDUID req) p ident) ad) (jsonError 409) (\<lambda>_ ad.
          let res = \<lparr>vrID = ident, vrScopeID = '''', vrGroupID = rqGroupID req, vrDUID = rqDUID req, vrIPAddr = p,
                vrHostname = rqHostname req, vrDescription = rqDescription req, vrOptions = marshal_map (rqOptions req),
                vrCreatedAt = 0, vrUpdatedAt = apNow env ''updated''\<rparr> in
          on_call (writes (UpdateV6Reservation (apFaults env) (apNow env ''UpdateV6Reservation'') res) ad) internal_error (\<lambda>_ ad.
          let updated = (case ok_value (GetV6ReservationByID (apFaults env) ident (adDb ad)) of None \<Rightarrow> res | Some r \<Rightarrow> r) in
            audited env user ''update'' ''v6_reservation'' ident (v6_reservation_json (apTimeText env) updated) (PV6Reservation updated) ad)))))"

definition handleDeleteV6Reservation :: "api_env \<Rightarrow> user option \<Rightarrow> string \<Rightarrow> adb \<Rightarrow> outcome" where
  "handleDeleteV6Reservation env user ident ad =
     act_on_id env user ''delete'' ''v6_reservation'' ''deleted'' ident (writes (DeleteV6Reservation (apFaults env) ident) ad)"

section \<open>Reservation groups\<close>

definition handleListReservationGroups :: "api_env \<Rightarrow> adb \<Rightarrow> outcome" where
  "handleListReservationGroups env ad =
     on_call (reads (ListReservationGroups (apFaults env) (apCollate env)) ad) internal_error (\<lambda>gs. jsonOK (PGroups gs))"

definition with_group_body :: "api_env \<Rightarrow> request \<Rightarrow> adb \<Rightarrow> (group_req \<Rightarrow> outcome) \<Rightarrow> outcome" where
  "with_group_body env q ad k = with_body (decode (group_field (apParseFloat env)) group_req0 (qBody q)) ad (\<lambda>req.
     if gqName req = '''' then jsonError 400 ''name is required'' ad else k req)"

definition handleCreateReservationGroup :: "api_env \<Rightarrow> user option \<Rightarrow> request \<Rightarrow> adb \<Rightarrow> outcome" where
  "handleCreateReservationGroup env user q ad = with_group_body env q ad (\<lambda>req.
     let g = \<lparr>gID = apUUID env ''id'', gName = gqName req, gDescription = gqDescription req, gOptions = marshal_map (gqOptions req),
           gCreatedAt = apNow env ''created'', gUpdatedAt = apNow env ''updated''\<rparr> in
     on_call (writes (CreateReservationGroup (apFaults env) g) ad) internal_error (\<lambda>_.
       audited env user ''create'' ''reservation_group'' (gID g) (group_json (apTimeText env) g) (PGroup g)))"

definition handleUpdateReservationGroup :: "api_env \<Rightarrow> user option \<Rightarrow> string \<Rightarrow> request \<Rightarrow> adb \<Rightarrow> outcome" where
  "handleUpdateReservationGroup env user ident q ad = with_group_body env q ad (\<lambda>req.
     let g = \<lparr>gID = ident, gName = gqName req, gDescription = gqDescription req, gOptions = marshal_map (gqOptions req),
           gCreatedAt = 0, gUpdatedAt = 0\<rparr> in
     on_call (writes (UpdateReservationGroup (apFaults env) (apNow env ''UpdateReservationGroup'') g) ad) internal_error (\<lambda>_ ad.
     let updated = (case ok_value (GetReservationGroupByID (apFaults env) ident (adDb ad)) of None \<Rightarrow> g | Some r \<Rightarrow> r) in
       audited env user ''update'' ''reservation_group'' ident (group_json (apTimeText env) updated) (PGroup updated) ad))"

definition handleDeleteReservationGroup :: "api_env \<Rightarrow> user option \<Rightarrow> string \<Rightarrow> adb \<Rightarrow> outcome" where
  "handleDeleteReservationGroup env user ident ad =
     act_on_id env user ''delete'' ''reservation_group'' ''deleted'' ident (writes (DeleteReservationGroup (apFaults env) ident) ad)"

section \<open>Leases\<close>

definition handleListLeases :: "api_env \<Rightarrow> string \<Rightarrow> request \<Rightarrow> adb \<Rightarrow> outcome" where
  "handleListLeases env ident q ad =
     on_call (reads (GetScopeByID (apFaults env) ident) ad) (\<lambda>_. jsonError 404 ''scope not found'') (\<lambda>sc ad.
     let pg = pagination q in
     if scV6 sc then
       on_call (reads (ListV6LeasesByScopePaged (apFaults env) ident (pgOffset pg) (pgLimit pg)) ad) internal_error
         (\<lambda>(xs, n). jsonOK (pageResponse (V6Leases xs) n (pgPage pg) (pgSize pg)))
     else
       on_call (reads (ListLeasesByScopePaged (apFaults env) ident (pgOffset pg) (pgLimit pg)) ad) internal_error
         (\<lambda>(xs, n). jsonOK (pageResponse (Leases xs) n (pgPage pg) (pgSize pg))))"

definition handleReleaseLease :: "api_env \<Rightarrow> user option \<Rightarrow> string \<Rightarrow> adb \<Rightarrow> outcome" where
  "handleReleaseLease env user ident ad = act_on_id env user ''release'' ''lease'' ''released'' ident
     (writes (UpdateLeaseState (apFaults env) (apNow env ''UpdateLeaseState'') ident LeaseReleased) ad)"

definition handleDeleteLease :: "api_env \<Rightarrow> user option \<Rightarrow> string \<Rightarrow> adb \<Rightarrow> outcome" where
  "handleDeleteLease env user ident ad =
     act_on_id env user ''delete'' ''lease'' ''deleted'' ident (writes (DeleteLease (apFaults env) ident) ad)"

definition handleReleaseV6Lease :: "api_env \<Rightarrow> user option \<Rightarrow> string \<Rightarrow> adb \<Rightarrow> outcome" where
  "handleReleaseV6Lease env user ident ad = act_on_id env user ''release'' ''v6_lease'' ''released'' ident
     (writes (UpdateV6LeaseState (apFaults env) (apNow env ''UpdateV6LeaseState'') ident LeaseReleased) ad)"

definition handleDeleteV6Lease :: "api_env \<Rightarrow> user option \<Rightarrow> string \<Rightarrow> adb \<Rightarrow> outcome" where
  "handleDeleteV6Lease env user ident ad =
     act_on_id env user ''delete'' ''v6_lease'' ''deleted'' ident (writes (DeleteV6Lease (apFaults env) ident) ad)"

definition handleSearchLeases :: "api_env \<Rightarrow> request \<Rightarrow> adb \<Rightarrow> outcome" where
  "handleSearchLeases env q ad =
     (let mac = query_get q ''mac''; duid = query_get q ''duid'' in
      if mac \<noteq> '''' then
        on_call (reads (SearchLeasesByMAC (apFaults env) (apLower env) mac) ad) internal_error (\<lambda>ls. jsonOK (PSearch ls []))
      else if duid \<noteq> '''' then
        on_call (reads (SearchV6LeasesByDUID (apFaults env) (apLower env) duid) ad) internal_error (\<lambda>ls. jsonOK (PSearch [] ls))
      else jsonError 400 ''mac or duid required'' ad)"

section \<open>Users\<close>

definition handleListUsers :: "api_env \<Rightarrow> request \<Rightarrow> adb \<Rightarrow> outcome" where
  "handleListUsers env q ad =
     (let pg = pagination q in
      on_call (ListUsersPaged (apFaults env) (apCollate env) (pgOffset pg) (pgLimit pg) ad, ad) internal_error
        (\<lambda>(xs, n). jsonOK (pageResponse (Users xs) n (pgPage pg) (pgSize pg))))"

definition handleCreateUser :: "api_env \<Rightarrow> user option \<Rightarrow> request \<Rightarrow> adb \<Rightarrow> outcome" where
  "handleCreateUser env user q ad = with_body (decode_texts [''username'', ''password'', ''role''] (qBody q)) ad (\<lambda>b.
     on_call (HashPassword (apCrypto env) (b ''password''), ad) internal_error (\<lambda>hash ad.
     let u = \<lparr>uID = apUUID env ''id'', uUsername = b ''username'', uPasswordHash = hash, uRole = or_text ''admin'' (b ''role''),
           uCreatedAt = apNow env ''created'', uUpdatedAt = apNow env ''updated''\<rparr> in
     on_call (CreateUser (apFaults env) u ad) internal_error (\<lambda>_.
       audited env user ''create'' ''user'' (uID u) (texts_json [(''username'', uUsername u), (''role'', uRole u)])
         (PUser (u\<lparr>uPasswordHash := ''''\<rparr>)))))"

definition handleDeleteUser :: "api_env \<Rightarrow> user option \<Rightarrow> string \<Rightarrow> adb \<Rightarrow> outcome" where
  "handleDeleteUser env user ident ad =
     act_on_id env user ''delete'' ''user'' ''deleted'' ident (DeleteUser (apFaults env) ident ad)"

definition handleUpdateUser :: "api_env \<Rightarrow> user option \<Rightarrow> string \<Rightarrow> request \<Rightarrow> adb \<Rightarrow> outcome" where
  "handleUpdateUser env user ident q ad = with_body (decode_texts [''username'', ''role''] (qBody q)) ad (\<lambda>b.
     if b ''role'' \<noteq> ''admin'' \<and> b ''role'' \<noteq> ''readonly'' then jsonError 400 ''invalid role'' ad
     else
       let u = \<lparr>uID = ident, uUsername = b ''username'', uPasswordHash = '''', uRole = b ''role'', uCreatedAt = 0,
             uUpdatedAt = apNow env ''updated''\<rparr> in
       on_call (UpdateUser (apFaults env) (apNow env ''UpdateUser'') u ad) internal_error (\<lambda>_ ad.
       let updated = (case ok_value (GetUserByID (apFaults env) ident ad) of None \<Rightarrow> u | Some x \<Rightarrow> x) in
         audited env user ''update'' ''user'' ident (texts_json [(''username'', uUsername updated), (''role'', uRole updated)])
           (PUser (updated\<lparr>uPasswordHash := ''''\<rparr>)) ad))"

definition handleChangePassword :: "api_env \<Rightarrow> user option \<Rightarrow> request \<Rightarrow> adb \<Rightarrow> outcome" where
  "handleChangePassword env ctxUser q ad = (case ctxUser of
     None \<Rightarrow> (Panic, ad)
   | Some user \<Rightarrow> with_body (decode_texts [''old_password'', ''new_password''] (qBody q)) ad (\<lambda>b.
       if b ''new_password'' = '''' then jsonError 400 ''new password required'' ad
       else on_call (GetUserByUsername (apFaults env) (uUsername user) ad, ad) internal_error (\<lambda>existing ad.
         if \<not> VerifyPassword (apCrypto env) (uPasswordHash existing) (b ''old_password'') then
           jsonError 401 ''old password incorrect'' ad
         else on_call (HashPassword (apCrypto env) (b ''new_password''), ad) internal_error (\<lambda>hash ad.
           on_call (UpdateUserPassword (apFaults env) (apNow env ''UpdateUserPassword'') (uID user) hash ad) internal_error (\<lambda>_.
             audited env ctxUser ''change_password'' ''user'' (uID user) (texts_json [(''username'', uUsername user)])
               (PTexts [(''status'', ''ok'')]))))))"

section \<open>Logs, blacklist, cluster\<close>

definition handleListAuditLogs :: "api_env \<Rightarrow> request \<Rightarrow> adb \<Rightarrow> outcome" where
  "handleListAuditLogs env q ad =
     (let pg = pagination q in
      on_call (ListAuditLogsPaged (apFaults env) (pgOffset pg) (pgLimit pg) ad, ad) internal_error
        (\<lambda>(xs, n). jsonOK (pageResponse (AuditLogs xs) n (pgPage pg) (pgSize pg))))"

definition handleListIPAllocationLogs :: "api_env \<Rightarrow> request \<Rightarrow> adb \<Rightarrow> outcome" where
  "handleListIPAllocationLogs env q ad =
     (let pg = pagination q in
      on_call (reads (ListIPAllocationLogsPaged (apFaults env) (apSqlIPArg env) (query_get q ''scope_id'') (query_get q ''node_id'')
          (query_get q ''mac'') (query_get q ''ip'') (query_get q ''action'') (pgOffset pg) (pgLimit pg)) ad) internal_error
        (\<lambda>(xs, n). jsonOK (pageResponse (AllocLogs xs) n (pgPage pg) (pgSize pg))))"

definition handleListSystemLogs :: "api_env \<Rightarrow> request \<Rightarrow> adb \<Rightarrow> outcome" where
  "handleListSystemLogs env q ad =
     (let pg = pagination q in
      on_call (reads (ListSystemLogsPaged (apFaults env) (query_get q ''level'') (query_get q ''node_id'') (pgOffset pg) (pgLimit pg)) ad)
        internal_error (\<lambda>(xs, n). jsonOK (pageResponse (SystemLogs xs) n (pgPage pg) (pgSize pg))))"

definition handleListMACBlacklist :: "api_env \<Rightarrow> adb \<Rightarrow> outcome" where
  "handleListMACBlacklist env ad = on_call (reads (ListMACBlacklist (apFaults env)) ad) internal_error (\<lambda>xs. jsonOK (PBlacklist xs))"

definition handleCreateMACBlacklist :: "api_env \<Rightarrow> user option \<Rightarrow> request \<Rightarrow> adb \<Rightarrow> outcome" where
  "handleCreateMACBlacklist env user q ad = with_body (decode_texts [''mac_addr'', ''reason''] (qBody q)) ad (\<lambda>req.
     if req ''mac_addr'' = '''' then jsonError 400 ''mac_addr required'' ad
     else (case ParseMAC (req ''mac_addr'') of
        None \<Rightarrow> jsonError 400 ''invalid mac'' ad
      | Some hw \<Rightarrow>
          let b = \<lparr>bID = apUUID env ''id'', bMACAddr = mac_String hw, bReason = req ''reason'', bCreatedAt = apNow env ''created'',
                bUpdatedAt = apNow env ''updated''\<rparr> in
          on_call (writes (CreateMACBlacklist (apFaults env) b) ad) internal_error (\<lambda>_.
            audited env user ''create'' ''mac_blacklist'' (bID b) (texts_json [(''mac_addr'', bMACAddr b)]) (PBlacklisted b))))"

definition handleDeleteMACBlacklist :: "api_env \<Rightarrow> user option \<Rightarrow> string \<Rightarrow> adb \<Rightarrow> outcome" where
  "handleDeleteMACBlacklist env user ident ad =
     act_on_id env user ''delete'' ''mac_blacklist'' ''deleted'' ident (writes (DeleteMACBlacklist (apFaults env) ident) ad)"

text \<open>\<open>int(d.Seconds())\<close>, for durations whose seconds a \<open>float64\<close> holds exactly enough (below 97 days).\<close>

definition whole_seconds :: "int \<Rightarrow> int" where
  "whole_seconds d = (if d < 0 then - (- d div SecondD) else d div SecondD)"

definition handleListClusterNodes :: "api_env \<Rightarrow> adb \<Rightarrow> outcome" where
  "handleListClusterNodes env ad =
     (let cl = cCluster (apCfg env); s = whole_seconds (cNodeTimeout cl); offlineAfter = (if s \<le> 0 then 30 else s) in
      on_call (reads (ListHANodesByCluster (apFaults env) (apCollate env) (apNow env ''ListHANodesByCluster'') (cClusterID cl) offlineAfter) ad)
        internal_error (\<lambda>nodes. jsonOK (PNodes (cClusterID cl) nodes)))"

section \<open>Routes\<close>

datatype endpoint = Login | Health | Metrics | Static
  | Dashboard | ListScopesE | CreateScopeE | GetScopeE | UpdateScopeE | DeleteScopeE
  | ListReservationsE | CreateReservationE | UpdateReservationE | DeleteReservationE | UpdateV6ReservationE | DeleteV6ReservationE
  | ListGroupsE | CreateGroupE | UpdateGroupE | DeleteGroupE
  | ListLeasesE | ReleaseLeaseE | DeleteLeaseE | ReleaseV6LeaseE | DeleteV6LeaseE | SearchLeasesE
  | ListUsersE | CreateUserE | UpdateUserE | DeleteUserE | ChangePasswordE
  | ListAuditLogsE | ListIPAllocationLogsE | ListSystemLogsE
  | ListMACBlacklistE | CreateMACBlacklistE | DeleteMACBlacklistE | ListClusterNodesE

type_synonym route = "string \<times> string list \<times> endpoint"

text \<open>The table in the order of registration; an empty list of methods allows every method.\<close>

definition registerRoutes :: "route list" where
  "registerRoutes =
     [(''/api/auth/login'', [''POST'', ''OPTIONS''], Login), (''/health'', [''GET''], Health), (''/metrics'', [], Metrics),
      (''/api/dashboard'', [''GET''], Dashboard),
      (''/api/scopes'', [''GET''], ListScopesE), (''/api/scopes'', [''POST''], CreateScopeE),
      (''/api/scopes/{id}'', [''GET''], GetScopeE), (''/api/scopes/{id}'', [''PUT''], UpdateScopeE),
      (''/api/scopes/{id}'', [''DELETE''], DeleteScopeE),
      (''/api/scopes/{id}/reservations'', [''GET''], ListReservationsE),
      (''/api/scopes/{id}/reservations'', [''POST''], CreateReservationE),
      (''/api/reservations/{id}'', [''PUT''], UpdateReservationE), (''/api/reservations/{id}'', [''DELETE''], DeleteReservationE),
      (''/api/v6-reservations/{id}'', [''PUT''], UpdateV6ReservationE),
      (''/api/v6-reservations/{id}'', [''DELETE''], DeleteV6ReservationE),
      (''/api/reservation-groups'', [''GET''], ListGroupsE), (''/api/reservation-groups'', [''POST''], CreateGroupE),
      (''/api/reservation-groups/{id}'', [''PUT''], UpdateGroupE), (''/api/reservation-groups/{id}'', [''DELETE''], DeleteGroupE),
      (''/api/scopes/{id}/leases'', [''GET''], ListLeasesE), (''/api/leases/{id}/release'', [''POST''], ReleaseLeaseE),
      (''/api/leases/{id}'', [''DELETE''], DeleteLeaseE), (''/api/v6-leases/{id}/release'', [''POST''], ReleaseV6LeaseE),
      (''/api/v6-leases/{id}'', [''DELETE''], DeleteV6LeaseE), (''/api/leases/search'', [''GET''], SearchLeasesE),
      (''/api/users'', [''GET''], ListUsersE), (''/api/users'', [''POST''], CreateUserE),
      (''/api/users/{id}'', [''PUT''], UpdateUserE), (''/api/users/{id}'', [''DELETE''], DeleteUserE),
      (''/api/users/change-password'', [''POST''], ChangePasswordE),
      (''/api/audit-logs'', [''GET''], ListAuditLogsE), (''/api/ip-allocation-logs'', [''GET''], ListIPAllocationLogsE),
      (''/api/system-logs'', [''GET''], ListSystemLogsE),
      (''/api/mac-blacklist'', [''GET''], ListMACBlacklistE), (''/api/mac-blacklist'', [''POST''], CreateMACBlacklistE),
      (''/api/mac-blacklist/{id}'', [''DELETE''], DeleteMACBlacklistE),
      (''/api/cluster/nodes'', [''GET''], ListClusterNodesE),
      (''/'', [], Static)]"

definition public_endpoint :: "endpoint \<Rightarrow> bool" where
  "public_endpoint e \<longleftrightarrow> e \<in> {Login, Health, Metrics, Static}"

definition run_endpoint :: "api_env \<Rightarrow> endpoint \<Rightarrow> string \<Rightarrow> request \<Rightarrow> user option \<Rightarrow> adb \<Rightarrow> outcome" where
  "run_endpoint env e ident q user ad = (case e of
     Login \<Rightarrow> handleLogin env q ad
   | Health \<Rightarrow> handleHealth env ad
   | Metrics \<Rightarrow> jsonOK PFile ad
   | Static \<Rightarrow> jsonOK PFile ad
   | Dashboard \<Rightarrow> handleDashboard env ad
   | ListScopesE \<Rightarrow> handleListScopes env q ad
   | CreateScopeE \<Rightarrow> handleCreateScope env user q ad
   | GetScopeE \<Rightarrow> handleGetScope env ident ad
   | UpdateScopeE \<Rightarrow> handleUpdateScope env user ident q ad
   | DeleteScopeE \<Rightarrow> handleDeleteScope env user ident ad
   | ListReservationsE \<Rightarrow> handleListReservations env ident q ad
   | CreateReservationE \<Rightarrow> handleCreateReservation env user ident q ad
   | UpdateReservationE \<Rightarrow> handleUpdateReservation env user ident q ad
   | DeleteReservationE \<Rightarrow> handleDeleteReservation env user ident ad
   | UpdateV6ReservationE \<Rightarrow> handleUpdateV6Reservation env user ident q ad
   | DeleteV6ReservationE \<Rightarrow> handleDeleteV6Reservation env user ident ad
   | ListGroupsE \<Rightarrow> handleListReservationGroups env ad
   | CreateGroupE \<Rightarrow> handleCreateReservationGroup env user q ad
   | UpdateGroupE \<Rightarrow> handleUpdateReservationGroup env user ident q ad
   | DeleteGroupE \<Rightarrow> handleDeleteReservationGroup env user ident ad
   | ListLeasesE \<Rightarrow> handleListLeases env ident q ad
   | ReleaseLeaseE \<Rightarrow> handleReleaseLease env user ident ad
   | DeleteLeaseE \<Rightarrow> handleDeleteLease env user ident ad
   | ReleaseV6LeaseE \<Rightarrow> handleReleaseV6Lease env user ident ad
   | DeleteV6LeaseE \<Rightarrow> handleDeleteV6Lease env user ident ad
   | SearchLeasesE \<Rightarrow> handleSearchLeases env q ad
   | ListUsersE \<Rightarrow> handleListUsers env q ad
   | CreateUserE \<Rightarrow> handleCreateUser env user q ad
   | UpdateUserE \<Rightarrow> handleUpdateUser env user ident q ad
   | DeleteUserE \<Rightarrow> handleDeleteUser env user ident ad
   | ChangePasswordE \<Rightarrow> handleChangePassword env user q ad
   | ListAuditLogsE \<Rightarrow> handleListAuditLogs env q ad
   | ListIPAllocationLogsE \<Rightarrow> handleListIPAllocationLogs env q ad
   | ListSystemLogsE \<Rightarrow> handleListSystemLogs env q ad
   | ListMACBlacklistE \<Rightarrow> handleListMACBlacklist env ad
   | CreateMACBlacklistE \<Rightarrow> handleCreateMACBlacklist env user q ad
   | DeleteMACBlacklistE \<Rightarrow> handleDeleteMACBlacklist env user ident ad
   | ListClusterNodesE \<Rightarrow> handleListClusterNodes env ad)"

type_synonym mux = "route list \<Rightarrow> string \<Rightarrow> string \<Rightarrow> (endpoint \<times> string) option"

definition serve_route :: "api_env \<Rightarrow> mux \<Rightarrow> request \<Rightarrow> adb \<Rightarrow> outcome" where
  "serve_route env mx q ad = (case mx registerRoutes (qPath q) (qMethod q) of
     None \<Rightarrow> (Ret \<lparr>rsStatus = 405, rsBody = PNone\<rparr>, ad)
   | Some (e, ident) \<Rightarrow>
       if public_endpoint e then run_endpoint env e ident q None ad
       else authMiddleware env (readWriteOnly (run_endpoint env e ident q) q) q ad)"

definition Handler :: "api_env \<Rightarrow> mux \<Rightarrow> request \<Rightarrow> adb \<Rightarrow> outcome" where
  "Handler env mx q ad = corsMiddleware (serve_route env mx) q ad"

text \<open>What is relied on: a route is matched only for a method it was registered for.\<close>

definition mux_law :: "mux \<Rightarrow> bool" where
  "mux_law mx \<longleftrightarrow> (\<forall>routes path meth e ident. mx routes path meth = Some (e, ident) \<longrightarrow>
     (\<exists>pattern methods. (pattern, methods, e) \<in> set routes \<and> (methods = [] \<or> meth \<in> set methods)))"

end
