(* ===== verification/Api_Safety.thy ===== *)
theory Api_Safety
  imports Api_Handlers
begin

text \<open>
  Safety of the HTTP interface: who may change what, and that every request keeps the database
  well-formed.
  \<^item> \<open>wf_adb\<close> is the well-formedness of the whole database: that of the servers' tables and the
    UNIQUE constraints of the tables that only the administrators write.
  \<^item> The locale \<open>admin_invariant\<close> is the contract of a property that the statements of the handlers
    keep, those apart that write a scope; its lemmas carry it through the handlers and the
    middlewares. \<open>request_invariant\<close> extends it to all statements and is interpreted on \<open>wf_adb\<close>.
\<close>

section \<open>Well-formed databases\<close>

definition wf_admin :: "db \<Rightarrow> bool" where
  "wf_admin db \<longleftrightarrow> wf_db db \<and> uniq scope_clash (dbScopes db) \<and> uniq group_clash (dbGroups db)
     \<and> uniq blacklist_clash (dbBlacklist db)"

definition wf_adb :: "adb \<Rightarrow> bool" where
  "wf_adb ad \<longleftrightarrow> wf_admin (adDb ad) \<and> uniq user_clash (adUsers ad) \<and> uniq audit_clash (adAuditLogs ad)"

lemma CreateScope_wf: "wf_admin db \<Longrightarrow> wf_admin (snd (CreateScope flt sc db))"
  unfolding CreateScope_def
  by (rule settle_keeps [where P = wf_admin])
    (auto simp: bind_run_Ret_iff wf_admin_def wf_db_def intro: scopes.uniq_insert)

lemma UpdateScope_wf: "wf_admin db \<Longrightarrow> wf_admin (snd (UpdateScope flt sc db))"
  unfolding UpdateScope_def
  by (rule settle_keeps [where P = wf_admin])
    (auto simp: bind_run_Ret_iff wf_admin_def wf_db_def dest: sql_update_Ret)

lemma DeleteScope_wf: "wf_admin db \<Longrightarrow> wf_admin (snd (DeleteScope flt ident db))"
  unfolding DeleteScope_def
  by (rule settle_keeps [where P = wf_admin]) (auto simp: wf_admin_def wf_db_def uniq_delete)

lemma CreateReservation_wf: "wf_admin db \<Longrightarrow> wf_admin (snd (CreateReservation flt r db))"
  unfolding CreateReservation_def
proof (rule settle_keeps [where P = wf_admin])
  fix x db'
  assume w: "wf_admin db" and "exec flt ''CreateReservation''
    (bind_run (host_inet (rIPAddr r)) (\<lambda>a. case a of None \<Rightarrow> Fail ''null value violates not-null constraint''
      | Some q \<Rightarrow> bind_run (sql_insert reservation_clash (r\<lparr>rIPAddr := q\<rparr>) (dbReservations db))
                  (\<lambda>rows. Ret ((), db\<lparr>dbReservations := rows\<rparr>)))) = Ret (x, db')"
  then obtain q rows where q: "host_inet (rIPAddr r) = Ret (Some q)"
    and i: "sql_insert reservation_clash (r\<lparr>rIPAddr := q\<rparr>) (dbReservations db) = Ret rows" and d: "db' = db\<lparr>dbReservations := rows\<rparr>"
    by (auto simp: bind_run_Ret_iff split: option.splits)
  have "uniq reservation_clash rows" using w i by (auto simp: wf_admin_def wf_db_def intro: reservations.uniq_insert)
  moreover have "canon q" using host_inet_Some [OF q] by blast
  ultimately show "wf_admin db'"
    using w sql_insert_Ret [OF i] by (auto simp: d wf_admin_def wf_db_def)
qed

lemma CreateV6Reservation_wf: "wf_admin db \<Longrightarrow> wf_admin (snd (CreateV6Reservation flt r db))"
  unfolding CreateV6Reservation_def
proof (rule settle_keeps [where P = wf_admin])
  fix x db'
  assume w: "wf_admin db" and "exec flt ''CreateV6Reservation''
    (bind_run (host_inet (vrIPAddr r)) (\<lambda>a. case a of None \<Rightarrow> Fail ''null value violates not-null constraint''
      | Some q \<Rightarrow> bind_run (sql_insert v6_reservation_clash (r\<lparr>vrIPAddr := q\<rparr>) (dbV6Reservations db))
                  (\<lambda>rows. Ret ((), db\<lparr>dbV6Reservations := rows\<rparr>)))) = Ret (x, db')"
  then obtain q rows where q: "host_inet (vrIPAddr r) = Ret (Some q)"
    and i: "sql_insert v6_reservation_clash (r\<lparr>vrIPAddr := q\<rparr>) (dbV6Reservations db) = Ret rows" and d: "db' = db\<lparr>dbV6Reservations := rows\<rparr>"
    by (auto simp: bind_run_Ret_iff split: option.splits)
  have "uniq v6_reservation_clash rows" using w i by (auto simp: wf_admin_def wf_db_def intro: v6_reservations.uniq_insert)
  moreover have "canon q" using host_inet_Some [OF q] by blast
  ultimately show "wf_admin db'"
    using w sql_insert_Ret [OF i] by (auto simp: d wf_admin_def wf_db_def)
qed

lemma UpdateReservation_wf: "wf_admin db \<Longrightarrow> wf_admin (snd (UpdateReservation flt now r db))"
  unfolding UpdateReservation_def
  by (rule settle_keeps [where P = wf_admin])
    (auto simp: bind_run_Ret_iff wf_admin_def wf_db_def set_update_where split: option.splits
      dest!: host_inet_Some sql_update_Ret)

lemma UpdateV6Reservation_wf: "wf_admin db \<Longrightarrow> wf_admin (snd (UpdateV6Reservation flt now r db))"
  unfolding UpdateV6Reservation_def
  by (rule settle_keeps [where P = wf_admin])
    (auto simp: bind_run_Ret_iff wf_admin_def wf_db_def set_update_where split: option.splits
      dest!: host_inet_Some sql_update_Ret)

lemma DeleteReservation_wf: "wf_admin db \<Longrightarrow> wf_admin (snd (DeleteReservation flt ident db))"
  unfolding DeleteReservation_def
  by (rule settle_keeps [where P = wf_admin]) (auto simp: wf_admin_def wf_db_def uniq_delete)

lemma DeleteV6Reservation_wf: "wf_admin db \<Longrightarrow> wf_admin (snd (DeleteV6Reservation flt ident db))"
  unfolding DeleteV6Reservation_def
  by (rule settle_keeps [where P = wf_admin]) (auto simp: wf_admin_def wf_db_def uniq_delete)

lemma CreateReservationGroup_wf: "wf_admin db \<Longrightarrow> wf_admin (snd (CreateReservationGroup flt g db))"
  unfolding CreateReservationGroup_def
  by (rule settle_keeps [where P = wf_admin])
    (auto simp: bind_run_Ret_iff wf_admin_def wf_db_def intro: groups.uniq_insert)

lemma UpdateReservationGroup_wf: "wf_admin db \<Longrightarrow> wf_admin (snd (UpdateReservationGroup flt now g db))"
  unfolding UpdateReservationGroup_def
  by (rule settle_keeps [where P = wf_admin])
    (auto simp: bind_run_Ret_iff wf_admin_def wf_db_def dest: sql_update_Ret)

lemma DeleteReservationGroup_wf: "wf_admin db \<Longrightarrow> wf_admin (snd (DeleteReservationGroup flt ident db))"
  unfolding DeleteReservationGroup_def
  by (rule settle_keeps [where P = wf_admin])
    (auto simp: wf_admin_def wf_db_def uniq_delete set_update_where reservation_clash_def v6_reservation_clash_def
      intro!: reservations.uniq_update_where v6_reservations.uniq_update_where)

lemma UpdateLeaseState_wf: "wf_admin db \<Longrightarrow> wf_admin (snd (UpdateLeaseState flt now ident st db))"
  unfolding UpdateLeaseState_def
  by (rule settle_keeps [where P = wf_admin])
    (auto simp: wf_admin_def wf_db_def set_update_where lease_clash_def intro!: leases.uniq_update_where)

lemma UpdateV6LeaseState_wf: "wf_admin db \<Longrightarrow> wf_admin (snd (UpdateV6LeaseState flt now ident st db))"
  unfolding UpdateV6LeaseState_def
  by (rule settle_keeps [where P = wf_admin])
    (auto simp: wf_admin_def wf_db_def set_update_where v6_lease_clash_def intro!: v6_leases.uniq_update_where)

lemma DeleteLease_wf: "wf_admin db \<Longrightarrow> wf_admin (snd (DeleteLease flt ident db))"
  unfolding DeleteLease_def
  by (rule settle_keeps [where P = wf_admin]) (auto simp: wf_admin_def wf_db_def uniq_delete)

lemma DeleteV6Lease_wf: "wf_admin db \<Longrightarrow> wf_admin (snd (DeleteV6Lease flt ident db))"
  unfolding DeleteV6Lease_def
  by (rule settle_keeps [where P = wf_admin]) (auto simp: wf_admin_def wf_db_def uniq_delete)

lemma CreateMACBlacklist_wf: "wf_admin db \<Longrightarrow> wf_admin (snd (CreateMACBlacklist flt b db))"
  unfolding CreateMACBlacklist_def
  by (rule settle_keeps [where P = wf_admin])
    (auto simp: bind_run_Ret_iff wf_admin_def wf_db_def intro: blacklist.uniq_insert)

lemma DeleteMACBlacklist_wf: "wf_admin db \<Longrightarrow> wf_admin (snd (DeleteMACBlacklist flt ident db))"
  unfolding DeleteMACBlacklist_def
  by (rule settle_keeps [where P = wf_admin]) (auto simp: wf_admin_def wf_db_def uniq_delete)

text \<open>The statements of the handlers; those that write a scope are apart.\<close>

inductive admin_stmt :: "(db \<Rightarrow> unit run \<times> db) \<Rightarrow> bool" where
  "admin_stmt (DeleteScope flt ident)"
| "admin_stmt (CreateReservation flt r)"
| "admin_stmt (UpdateReservation flt now r)"
| "admin_stmt (DeleteReservation flt ident)"
| "admin_stmt (CreateV6Reservation flt r6)"
| "admin_stmt (UpdateV6Reservation flt now r6)"
| "admin_stmt (DeleteV6Reservation flt ident)"
| "admin_stmt (CreateReservationGroup flt g)"
| "admin_stmt (UpdateReservationGroup flt now g)"
| "admin_stmt (DeleteReservationGroup flt ident)"
| "admin_stmt (UpdateLeaseState flt now ident LeaseReleased)"
| "admin_stmt (DeleteLease flt ident)"
| "admin_stmt (UpdateV6LeaseState flt now ident LeaseReleased)"
| "admin_stmt (DeleteV6Lease flt ident)"
| "admin_stmt (CreateMACBlacklist flt b)"
| "admin_stmt (DeleteMACBlacklist flt ident)"

inductive scope_stmt :: "(db \<Rightarrow> unit run \<times> db) \<Rightarrow> bool" where
  "scope_stmt (CreateScope flt sc)"
| "scope_stmt (UpdateScope flt sc)"

inductive user_stmt :: "(adb \<Rightarrow> unit run \<times> adb) \<Rightarrow> bool" where
  "user_stmt (CreateUser flt u)"
| "user_stmt (DeleteUser flt ident)"
| "user_stmt (UpdateUserPassword flt now ident hash)"
| "user_stmt (UpdateUser flt now u)"

lemma admin_stmt_wf: "admin_stmt f \<Longrightarrow> wf_admin db \<Longrightarrow> wf_admin (snd (f db))"
  by (induction rule: admin_stmt.induct) (simp_all add: DeleteScope_wf CreateReservation_wf
    UpdateReservation_wf DeleteReservation_wf CreateV6Reservation_wf UpdateV6Reservation_wf DeleteV6Reservation_wf
    CreateReservationGroup_wf UpdateReservationGroup_wf DeleteReservationGroup_wf UpdateLeaseState_wf DeleteLease_wf
    UpdateV6LeaseState_wf DeleteV6Lease_wf CreateMACBlacklist_wf DeleteMACBlacklist_wf)

lemma scope_stmt_wf: "scope_stmt f \<Longrightarrow> wf_admin db \<Longrightarrow> wf_admin (snd (f db))"
  by (induction rule: scope_stmt.induct) (simp_all add: CreateScope_wf UpdateScope_wf)

lemma user_stmt_wf:
  assumes "user_stmt f" and w: "wf_adb ad"
  shows "wf_adb (snd (f ad))"
  using assms(1)
proof cases
  case (1 flt u)
  show ?thesis unfolding 1 CreateUser_def
    by (rule asettle_keeps [where P = wf_adb]) (use w in \<open>auto simp: bind_run_Ret_iff wf_adb_def intro: users.uniq_insert\<close>)
next
  case (2 flt ident)
  show ?thesis unfolding 2 DeleteUser_def
    by (rule asettle_keeps [where P = wf_adb]) (use w in \<open>auto simp: wf_adb_def uniq_delete\<close>)
next
  case (3 flt now ident hash)
  show ?thesis unfolding 3 UpdateUserPassword_def
    by (rule asettle_keeps [where P = wf_adb])
      (use w in \<open>auto simp: wf_adb_def user_clash_def intro!: users.uniq_update_where\<close>)
next
  case (4 flt now u)
  show ?thesis unfolding 4 UpdateUser_def
    by (rule asettle_keeps [where P = wf_adb]) (use w in \<open>auto simp: bind_run_Ret_iff wf_adb_def dest: sql_update_Ret\<close>)
qed

lemma CreateAuditLog_wf: "wf_adb ad \<Longrightarrow> wf_adb (snd (CreateAuditLog flt isUUID e ad))"
  unfolding CreateAuditLog_def
  by (rule asettle_keeps [where P = wf_adb])
    (auto simp: bind_run_Ret_iff wf_adb_def intro: audit_logs.uniq_insert split: if_splits)

section \<open>What every handler keeps\<close>

text \<open>\<open>keeps P c\<close>: the outcome of a call or of a handler leaves the database with the property \<open>P\<close>.
  The rules carry it through the building blocks of the handlers.\<close>

definition keeps :: "(adb \<Rightarrow> bool) \<Rightarrow> 'a \<times> adb \<Rightarrow> bool" where
  "keeps P c \<longleftrightarrow> P (snd c)"

named_theorems keep_rules

lemma writes_eq [simp]: "fst (writes f ad) = fst (f (adDb ad))" "snd (writes f ad) = ad\<lparr>adDb := snd (f (adDb ad))\<rparr>"
  by (simp_all add: writes_def split: prod.splits)

lemma on_call_keeps [keep_rules]:
  assumes "keeps P c" and "\<And>e ad. P ad \<Longrightarrow> keeps P (err e ad)" and "\<And>x ad. P ad \<Longrightarrow> keeps P (k x ad)"
  shows "keeps P (on_call c err k)"
  using assms by (auto simp: keeps_def on_call_def split: run.splits)

lemma answer_keeps [keep_rules]:
  "P ad \<Longrightarrow> keeps P (jsonError code msg ad)" "P ad \<Longrightarrow> keeps P (jsonOK p ad)" "P ad \<Longrightarrow> keeps P (reads f ad)"
  "P ad \<Longrightarrow> keeps P (r, ad)"
  by (simp_all add: keeps_def jsonError_def jsonOK_def reads_def)

lemma with_body_keeps [keep_rules]:
  "P ad \<Longrightarrow> (\<And>x. keeps P (k x)) \<Longrightarrow> keeps P (with_body b ad k)"
  by (auto simp: keeps_def with_body_def jsonError_def split: option.splits)

lemma with_valid_domain_keeps [keep_rules]:
  "P ad \<Longrightarrow> keeps P k \<Longrightarrow> keeps P (with_valid_domain env sc x ad k)"
  by (auto simp: keeps_def with_valid_domain_def jsonError_def split: option.splits run.splits)

lemma if_keeps [keep_rules]: "keeps P a \<Longrightarrow> keeps P b \<Longrightarrow> keeps P (if c then a else b)"
  by simp

lemma option_keeps [keep_rules]: "keeps P a \<Longrightarrow> (\<And>x. keeps P (f x)) \<Longrightarrow> keeps P (case m of None \<Rightarrow> a | Some x \<Rightarrow> f x)"
  by (simp split: option.splits)

lemma pair_keeps [keep_rules]: "(\<And>x y. keeps P (f x y ad)) \<Longrightarrow> keeps P ((case p of (x, y) \<Rightarrow> f x y) ad)"
  by (simp split: prod.splits)

locale admin_invariant =
  fixes I :: "adb \<Rightarrow> bool"
  assumes admin_keeps: "admin_stmt f \<Longrightarrow> I ad \<Longrightarrow> keeps I (writes f ad)"
    and user_keeps: "user_stmt g \<Longrightarrow> I ad \<Longrightarrow> keeps I (g ad)"
    and audit_log_keeps: "I ad \<Longrightarrow> keeps I (CreateAuditLog flt isUUID e ad)"
begin

lemma audit_keeps: "I ad \<Longrightarrow> I (audit env user action resource rid details ad)"
  using audit_log_keeps by (simp add: audit_def keeps_def)

lemma audited_keeps: "I ad \<Longrightarrow> keeps I (audited env user action resource rid details p ad)"
  by (simp add: keeps_def audited_def jsonOK_def audit_keeps)

lemma act_on_id_keeps: "keeps I c \<Longrightarrow> keeps I (act_on_id env user action resource status ident c)"
  unfolding act_on_id_def by (intro keep_rules audited_keeps)

lemmas handler_rules = keep_rules audited_keeps act_on_id_keeps admin_keeps user_keeps audit_keeps
  admin_stmt.intros user_stmt.intros

lemma handleDeleteScope_keeps: "I ad \<Longrightarrow> keeps I (handleDeleteScope env user ident ad)"
  unfolding handleDeleteScope_def by (intro handler_rules)

lemma reservation_handlers_keep:
  assumes "I ad"
  shows "keeps I (handleCreateReservation env user ident q ad)" "keeps I (handleUpdateReservation env user ident q ad)"
    "keeps I (handleDeleteReservation env user ident ad)" "keeps I (handleUpdateV6Reservation env user ident q ad)"
    "keeps I (handleDeleteV6Reservation env user ident ad)"
  unfolding handleCreateReservation_def create_v4_reservation_def create_v6_reservation_def handleUpdateReservation_def
    handleDeleteReservation_def handleUpdateV6Reservation_def handleDeleteV6Reservation_def Let_def
  by (intro handler_rules assms | assumption)+

lemma group_handlers_keep:
  assumes "I ad"
  shows "keeps I (handleCreateReservationGroup env user q ad)" "keeps I (handleUpdateReservationGroup env user ident q ad)"
    "keeps I (handleDeleteReservationGroup env user ident ad)"
  unfolding handleCreateReservationGroup_def handleUpdateReservationGroup_def handleDeleteReservationGroup_def
    with_group_body_def Let_def
  by (intro handler_rules assms | assumption)+

lemma lease_handlers_keep:
  assumes "I ad"
  shows "keeps I (handleReleaseLease env user ident ad)" "keeps I (handleDeleteLease env user ident ad)"
    "keeps I (handleReleaseV6Lease env user ident ad)" "keeps I (handleDeleteV6Lease env user ident ad)"
  unfolding handleReleaseLease_def handleDeleteLease_def handleReleaseV6Lease_def handleDeleteV6Lease_def
  by (intro handler_rules assms)+

lemma user_handlers_keep:
  assumes "I ad"
  shows "keeps I (handleCreateUser env user q ad)" "keeps I (handleUpdateUser env user ident q ad)"
    "keeps I (handleDeleteUser env user ident ad)" "keeps I (handleChangePassword env user q ad)"
  unfolding handleCreateUser_def handleUpdateUser_def handleDeleteUser_def handleChangePassword_def Let_def
  by (intro handler_rules assms | assumption)+

lemma blacklist_handlers_keep:
  assumes "I ad"
  shows "keeps I (handleCreateMACBlacklist env user q ad)" "keeps I (handleDeleteMACBlacklist env user ident ad)"
  unfolding handleCreateMACBlacklist_def handleDeleteMACBlacklist_def Let_def
  by (intro handler_rules assms | assumption)+

lemma handleLogin_keeps: "I ad \<Longrightarrow> keeps I (handleLogin env q ad)"
  unfolding handleLogin_def Let_def
  by (rule with_body_keeps) (auto simp: keeps_def jsonError_def audited_def jsonOK_def audit_keeps split: run.splits)

end

section \<open>Handlers that only read\<close>

lemma read_handlers_keep:
  assumes "P ad"
  shows "keeps P (handleHealth env ad)" "keeps P (handleDashboard env ad)" "keeps P (handleListScopes env q ad)"
    "keeps P (handleGetScope env ident ad)" "keeps P (handleListReservations env ident q ad)"
    "keeps P (handleListReservationGroups env ad)" "keeps P (handleListLeases env ident q ad)"
    "keeps P (handleSearchLeases env q ad)" "keeps P (handleListUsers env q ad)" "keeps P (handleListAuditLogs env q ad)"
    "keeps P (handleListIPAllocationLogs env q ad)" "keeps P (handleListSystemLogs env q ad)"
    "keeps P (handleListMACBlacklist env ad)" "keeps P (handleListClusterNodes env ad)"
  unfolding handleHealth_def handleDashboard_def handleListScopes_def handleGetScope_def handleListReservations_def
    handleListReservationGroups_def handleListLeases_def handleSearchLeases_def handleListUsers_def handleListAuditLogs_def
    handleListIPAllocationLogs_def handleListSystemLogs_def handleListMACBlacklist_def handleListClusterNodes_def Let_def
  by (intro keep_rules assms | assumption)+

definition reads_only :: "endpoint \<Rightarrow> bool" where
  "reads_only e \<longleftrightarrow> e \<in> {Health, Metrics, Static, Dashboard, ListScopesE, GetScopeE, ListReservationsE, ListGroupsE, ListLeasesE,
     SearchLeasesE, ListUsersE, ListAuditLogsE, ListIPAllocationLogsE, ListSystemLogsE, ListMACBlacklistE, ListClusterNodesE}"

lemma reads_only_keeps: "reads_only e \<Longrightarrow> P ad \<Longrightarrow> keeps P (run_endpoint env e ident q user ad)"
  by (auto simp: reads_only_def run_endpoint_def intro: read_handlers_keep keep_rules)

text \<open>The handlers that write a scope are left to the clients of the contract.\<close>

context admin_invariant
begin

lemma run_endpoint_keeps:
  assumes "I ad" and "e = CreateScopeE \<Longrightarrow> keeps I (handleCreateScope env user q ad)"
    and "e = UpdateScopeE \<Longrightarrow> keeps I (handleUpdateScope env user ident q ad)"
  shows "keeps I (run_endpoint env e ident q user ad)"
  using assms
  by (cases "reads_only e"; cases e)
    (auto simp: reads_only_def run_endpoint_def intro: reads_only_keeps handleDeleteScope_keeps reservation_handlers_keep
      group_handlers_keep lease_handlers_keep user_handlers_keep blacklist_handlers_keep handleLogin_keeps
      read_handlers_keep keep_rules)

lemma Handler_keeps:
  assumes "I ad" and "\<And>user. keeps I (handleCreateScope env user q ad)"
    and "\<And>user ident. keeps I (handleUpdateScope env user ident q ad)"
  shows "I (snd (Handler env mx q ad))"
  using assms run_endpoint_keeps
  by (auto simp: Handler_def corsMiddleware_def serve_route_def authMiddleware_def readWriteOnly_def keeps_def jsonError_def
    split: option.splits sum.splits)

end

locale request_invariant = admin_invariant +
  assumes scope_keeps: "scope_stmt f \<Longrightarrow> I ad \<Longrightarrow> keeps I (writes f ad)"
begin

lemma scope_handlers_keep:
  assumes "I ad"
  shows "keeps I (handleCreateScope env user q ad)" "keeps I (handleUpdateScope env user ident q ad)"
  unfolding handleCreateScope_def handleUpdateScope_def Let_def
  by (intro handler_rules scope_keeps scope_stmt.intros assms | assumption)+

lemma request_keeps: "I ad \<Longrightarrow> I (snd (Handler env mx q ad))"
  by (intro Handler_keeps scope_handlers_keep)

end

interpretation wf_request: request_invariant wf_adb
proof
  show "keeps wf_adb (writes f ad)" if "admin_stmt f" "wf_adb ad" for f ad
    using admin_stmt_wf [OF that(1)] that(2) by (simp add: keeps_def wf_adb_def)
  show "keeps wf_adb (writes f ad)" if "scope_stmt f" "wf_adb ad" for f ad
    using scope_stmt_wf [OF that(1)] that(2) by (simp add: keeps_def wf_adb_def)
  show "keeps wf_adb (g ad)" if "user_stmt g" "wf_adb ad" for g ad
    using user_stmt_wf [OF that] by (simp add: keeps_def)
  show "keeps wf_adb (CreateAuditLog flt isUUID e ad)" if "wf_adb ad" for ad flt isUUID e
    using CreateAuditLog_wf [OF that] by (simp add: keeps_def)
qed

section \<open>Who may change what\<close>

text \<open>A GET request reaches no handler that writes.\<close>

lemma get_reads_only:
  assumes "mux_law mx" and "mx registerRoutes path ''GET'' = Some (e, ident)"
  shows "reads_only e"
proof -
  from assms obtain pattern methods where "(pattern, methods, e) \<in> set registerRoutes" "methods = [] \<or> ''GET'' \<in> set methods"
    unfolding mux_law_def by blast
  then show ?thesis by (auto simp: registerRoutes_def reads_only_def)
qed

lemma public_reads_only: "public_endpoint e \<Longrightarrow> e \<noteq> Login \<Longrightarrow> reads_only e"
  by (auto simp: public_endpoint_def reads_only_def)

lemma reads_only_same: "reads_only e \<Longrightarrow> snd (run_endpoint env e ident q user ad) = ad"
  using reads_only_keeps [of e "\<lambda>x. x = ad"] by (simp add: keeps_def)

lemma audit_tables: "adDb (audit env user a r i d ad) = adDb ad \<and> adUsers (audit env user a r i d ad) = adUsers ad"
  by (auto simp: audit_def CreateAuditLog_def asettle_def exec_def bind_run_Ret_iff sql_insert_def split: run.splits option.splits)

lemma login_tables:
  "adDb (snd (handleLogin env q ad)) = adDb ad \<and> adUsers (snd (handleLogin env q ad)) = adUsers ad"
  by (auto simp: handleLogin_def with_body_def Let_def jsonError_def audited_def jsonOK_def audit_tables
      split: option.splits run.splits)

lemma Handler_login:
  "mx registerRoutes (qPath q) (qMethod q) = Some (Login, ident) \<Longrightarrow> qMethod q \<noteq> ''OPTIONS'' \<Longrightarrow>
     Handler env mx q ad = handleLogin env q ad"
  by (simp add: Handler_def corsMiddleware_def serve_route_def public_endpoint_def run_endpoint_def)

text \<open>What the middlewares make of a request to a protected route.\<close>

lemma Handler_protected:
  assumes "mx registerRoutes (qPath q) (qMethod q) = Some (e, ident)" and "\<not> public_endpoint e" and "qMethod q \<noteq> ''OPTIONS''"
  shows "Handler env mx q ad = (case bearer_user env q of Inl msg \<Rightarrow> jsonError 401 msg ad
     | Inr u \<Rightarrow> if uRole u = ''readonly'' \<and> qMethod q \<noteq> ''GET'' then jsonError 403 ''readonly user cannot modify resources'' ad
               else run_endpoint env e ident q (Some u) ad)"
  using assms by (auto simp: Handler_def corsMiddleware_def serve_route_def authMiddleware_def readWriteOnly_def split: sum.splits)

lemma Handler_changes:
  assumes "mx registerRoutes (qPath q) (qMethod q) = Some (e, ident)" and "\<not> public_endpoint e"
    and "qMethod q \<noteq> ''OPTIONS''" and "snd (Handler env mx q ad) \<noteq> ad"
  shows "\<exists>u. bearer_user env q = Inr u \<and> (uRole u \<noteq> ''readonly'' \<or> qMethod q = ''GET'')"
  using assms(4) Handler_protected [of mx q e ident env ad, OF assms(1-3)]
  by (cases "bearer_user env q") (auto simp: jsonError_def split: if_splits)

section \<open>A concrete service\<close>

definition demo_crypto :: crypto where
  "demo_crypto = \<lparr>crHash = (\<lambda>p. Ret (''#'' @ p)), crCompare = (\<lambda>h p. h = ''#'' @ p), crSign = (\<lambda>k c. Ret ''signed''),
     crParse = (\<lambda>k ok now t. if t = ''reader'' then Ret [''sub'' \<mapsto> GStr ''u2'', ''usr'' \<mapsto> GStr ''bob'', ''role'' \<mapsto> GStr ''readonly'']
        else if t = ''admin'' then Ret [''sub'' \<mapsto> GStr ''u1'', ''usr'' \<mapsto> GStr ''root'', ''role'' \<mapsto> GStr ''admin'']
        else Fail ''signature is invalid'')\<rparr>"

definition demo_config :: Config where
  "demo_config = \<lparr>cServer = \<lparr>cListen = ''0.0.0.0:67'', cV6Listen = ''[::]:547'', cInterface = ''eth0'', cHTTPListen = ''0.0.0.0:8080''\<rparr>,
     cDatabase = \<lparr>cURL = ''postgres://db'', cMaxConns = 20\<rparr>,
     cAuth = \<lparr>cRSAPrivateKeyFile = ''priv.pem'', cRSAPublicKeyFile = ''pub.pem'', cTokenTTL = 24 * Hour,
       cDefaultAdminUsername = ''root'', cDefaultAdminPassword = ''secret''\<rparr>,
     cCluster = \<lparr>cEnabled = True, cClusterID = ''default'', cNodeID = ''n1'', cListenAddr = ''0.0.0.0:67'',
       cHeartbeatInterval = 5 * SecondD, cNodeTimeout = 30 * SecondD, cDiscoverReplyDelay = 0\<rparr>,
     cDNS = \<lparr>cDnsEnabled = False, cDnsListen = ''0.0.0.0:53'', cDnsTTL = 300\<rparr>\<rparr>"

definition demo_api :: api_env where
  "demo_api = \<lparr>apFaults = (\<lambda>_. None), apNow = (\<lambda>_. 1000 * Second), apUUID = (\<lambda>k. ''new-'' @ k), apTokenNow = 0, apLoginNow = (0, 0),
     apCollate = length, apLower = id, apIsUUID = (\<lambda>s. s \<noteq> ''''), apSqlIPArg = (\<lambda>_. Fail ''invalid input syntax for type inet''),
     apParseFloat = (\<lambda>_. None), apTimeText = (\<lambda>_. ''''), apQuote = id, apCrypto = demo_crypto,
     apService = \<lparr>svcPrivateKey = ''k'', svcPublicKey = ''k''\<rparr>, apCfg = demo_config\<rparr>"

definition fresh_db :: db where
  "fresh_db = \<lparr>dbScopes = [], dbReservations = [], dbLeases = [], dbV6Leases = [], dbV6Reservations = [], dbV6Prefixes = [],
     dbGroups = [], dbBlacklist = [], dbHANodes = [], dbServerState = [], dbAllocLogs = [], dbSystemLogs = []\<rparr>"

definition fresh_adb :: adb where
  "fresh_adb = \<lparr>adDb = fresh_db, adUsers = [], adAuditLogs = []\<rparr>"

text \<open>A router that knows the literal paths of the table.\<close>

definition literal_mux :: mux where
  "literal_mux routes path meth =
     map_option (\<lambda>(p, ms, e). (e, '''')) (List.find (\<lambda>(p, ms, e). p = path \<and> (ms = [] \<or> meth \<in> set ms)) routes)"

lemma literal_mux_law: "mux_law literal_mux"
  unfolding mux_law_def literal_mux_def by (auto dest!: find_SomeD split: prod.splits)

definition demo_request :: "string \<Rightarrow> string \<Rightarrow> string \<Rightarrow> jtext option \<Rightarrow> request" where
  "demo_request meth path t body = \<lparr>qMethod = meth, qPath = path, qAuthorization = ''Bearer '' @ t, qQuery = [], qBody = body\<rparr>"

section \<open>Properties\<close>

text \<open>
  C16. Access control of the HTTP interface. A request to a protected route without a valid token
  is refused with 401, a request of a read-only user with another method than GET with 403, both
  without any effect. Whatever a request changes in the database, either it is a login, which
  changes the audit log only, or its token names a user whose role is not \<open>readonly\<close> and its method
  is not GET.
\<close>

theorem api_access_control:
  assumes "mux_law mx" and "mx registerRoutes (qPath q) (qMethod q) = Some (e, ident)"
  shows "(qMethod q \<noteq> ''OPTIONS'' \<and> \<not> public_endpoint e \<longrightarrow>
      (\<forall>msg. bearer_user env q = Inl msg \<longrightarrow> Handler env mx q ad = jsonError 401 msg ad)
    \<and> (\<forall>u. bearer_user env q = Inr u \<and> uRole u = ''readonly'' \<and> qMethod q \<noteq> ''GET'' \<longrightarrow>
         Handler env mx q ad = jsonError 403 ''readonly user cannot modify resources'' ad))
    \<and> (snd (Handler env mx q ad) \<noteq> ad \<longrightarrow>
      (e = Login \<and> adDb (snd (Handler env mx q ad)) = adDb ad \<and> adUsers (snd (Handler env mx q ad)) = adUsers ad)
    \<or> (\<exists>u. bearer_user env q = Inr u \<and> uRole u \<noteq> ''readonly'' \<and> qMethod q \<noteq> ''GET''))"
proof (rule conjI)
  let ?ad = "snd (Handler env mx q ad)"
  show "qMethod q \<noteq> ''OPTIONS'' \<and> \<not> public_endpoint e \<longrightarrow>
      (\<forall>msg. bearer_user env q = Inl msg \<longrightarrow> Handler env mx q ad = jsonError 401 msg ad)
    \<and> (\<forall>u. bearer_user env q = Inr u \<and> uRole u = ''readonly'' \<and> qMethod q \<noteq> ''GET'' \<longrightarrow>
         Handler env mx q ad = jsonError 403 ''readonly user cannot modify resources'' ad)"
    using Handler_protected [of mx q e ident] assms(2) by simp
  have opt: "?ad = ad" if "qMethod q = ''OPTIONS''" using that by (simp add: Handler_def corsMiddleware_def)
  have pub: "?ad = ad" if "public_endpoint e" "e \<noteq> Login" "qMethod q \<noteq> ''OPTIONS''"
    using that assms(2) reads_only_same [OF public_reads_only [OF that(1,2)]]
    by (simp add: Handler_def corsMiddleware_def serve_route_def)
  have get: "?ad = ad" if g: "qMethod q = ''GET''" "\<not> public_endpoint e"
  proof -
    have "reads_only e" using get_reads_only [OF assms(1)] assms(2) g(1) by simp
    then show ?thesis
      using g assms(2) reads_only_same Handler_protected [of mx q e ident env ad] by (simp add: jsonError_def split: sum.splits)
  qed
  show "?ad \<noteq> ad \<longrightarrow> (e = Login \<and> adDb ?ad = adDb ad \<and> adUsers ?ad = adUsers ad)
    \<or> (\<exists>u. bearer_user env q = Inr u \<and> uRole u \<noteq> ''readonly'' \<and> qMethod q \<noteq> ''GET'')"
  proof (cases "public_endpoint e")
    case True
    have "adDb ?ad = adDb ad \<and> adUsers ?ad = adUsers ad" if "e = Login"
      using that opt assms(2) login_tables [of env q ad] Handler_login [of mx q ident env ad]
      by (cases "qMethod q = ''OPTIONS''") simp_all
    with True show ?thesis using opt pub by blast
  next
    case False
    then show ?thesis using opt get Handler_changes [of mx q e ident env ad, OF assms(2) False] by blast
  qed
qed

theorem api_access_control_witness:
  "Handler demo_api literal_mux (demo_request ''POST'' ''/api/users'' ''reader'' None) fresh_adb
     = jsonError 403 ''readonly user cannot modify resources'' fresh_adb"
proof -
  let ?q = "demo_request ''POST'' ''/api/users'' ''reader'' None"
  have m: "literal_mux registerRoutes (qPath ?q) (qMethod ?q) = Some (CreateUserE, '''')"
    by (simp add: literal_mux_def registerRoutes_def demo_request_def)
  have "bearer_user demo_api ?q = Inr \<lparr>uID = ''u2'', uUsername = ''bob'', uPasswordHash = '''', uRole = ''readonly'', uCreatedAt = 0, uUpdatedAt = 0\<rparr>"
    by code_simp
  with api_access_control [OF literal_mux_law m, of demo_api fresh_adb] show ?thesis
    by (simp add: demo_request_def public_endpoint_def)
qed



end
