(* ===== verification/Api_Effects.thy ===== *)
theory Api_Effects
  imports Api_Safety Alloc4_Safety
begin

text \<open>
  What the HTTP interface achieves together with the components behind it: the outcomes of the
  building blocks of the handlers, and that a reservation made through the interface is what the
  DHCPv4 allocator then gives out.
\<close>

section \<open>Outcomes of the building blocks\<close>

text \<open>A call that ended well with status 200 went through its continuation.\<close>

lemma jsonError_200 [simp]: "code \<noteq> 200 \<Longrightarrow> jsonError code msg ad \<noteq> (Ret \<lparr>rsStatus = 200, rsBody = p\<rparr>, ad')"
  by (simp add: jsonError_def)

lemma on_call_200:
  assumes "on_call c err k = (Ret \<lparr>rsStatus = 200, rsBody = p\<rparr>, ad')"
    and "\<And>e ad. err e ad \<noteq> (Ret \<lparr>rsStatus = 200, rsBody = p\<rparr>, ad')"
  obtains x where "fst c = Ret x" "k x (snd c) = (Ret \<lparr>rsStatus = 200, rsBody = p\<rparr>, ad')"
  using assms by (auto simp: on_call_def split: run.splits)

lemma on_read_200:
  assumes "on_call (reads f ad) err k = (Ret \<lparr>rsStatus = 200, rsBody = p\<rparr>, ad')"
    and "\<And>e ad. err e ad \<noteq> (Ret \<lparr>rsStatus = 200, rsBody = p\<rparr>, ad')"
  obtains x where "f (adDb ad) = Ret x" "k x ad = (Ret \<lparr>rsStatus = 200, rsBody = p\<rparr>, ad')"
  using assms by (auto simp: on_call_def reads_def split: run.splits)

lemma with_body_200:
  assumes "with_body b ad k = (Ret \<lparr>rsStatus = 200, rsBody = p\<rparr>, ad')"
  obtains x where "b = Some x" "k x = (Ret \<lparr>rsStatus = 200, rsBody = p\<rparr>, ad')"
  using assms by (auto simp: with_body_def split: option.splits)

lemma audited_Ret:
  "audited env user a r i d p ad = (Ret \<lparr>rsStatus = 200, rsBody = p'\<rparr>, ad') \<Longrightarrow> p' = p \<and> adDb ad' = adDb ad \<and> adUsers ad' = adUsers ad"
  using audit_tables by (auto simp: audited_def jsonOK_def)

lemma reads_simps [simp]: "fst (reads f ad) = f (adDb ad)" "snd (reads f ad) = ad"
  by (simp_all add: reads_def)

section \<open>Reservations\<close>

lemma refuse_if_Ret: "refuse_if r bad msg k = Ret () \<Longrightarrow> k = Ret () \<and> (\<forall>x. r = Ret x \<longrightarrow> \<not> bad x)"
  by (auto simp: refuse_if_def ok_value_def split: run.splits if_splits)

lemma checkV4_Ret:
  assumes "checkV4ReservationConflict env sc mac p x db = Ret ()"
  shows "api_ipInRange p (scStartIP sc) (scEndIP sc) = Ret True" and "\<forall>ex \<in> set (scExcludedIPs sc). api_ipKey p \<noteq> api_ipKey ex"
  using assms unfolding checkV4ReservationConflict_def Let_def
  by (auto dest!: refuse_if_Ret simp: bind_run_Ret_iff list_ex_iff split: if_splits)

text \<open>What a successful creation of an IPv4 reservation did.\<close>

lemma create_v4_reservation_200:
  assumes "create_v4_reservation env user sc sid req p ad = (Ret \<lparr>rsStatus = 200, rsBody = PReservation res\<rparr>, ad')"
  obtains hw q rows where "ParseMAC (rqMACAddr req) = Some hw" "rMACAddr res = mac_String hw" "rIPAddr res = p" "rScopeID res = sid"
    "checkV4ReservationConflict env sc (mac_String hw) p '''' (adDb ad) = Ret ()"
    "host_inet p = Ret (Some q)" "adDb ad' = (adDb ad)\<lparr>dbReservations := dbReservations (adDb ad) @ [res\<lparr>rIPAddr := q\<rparr>]\<rparr>"
proof -
  from assms obtain hw where hw: "ParseMAC (rqMACAddr req) = Some hw"
    by (auto simp: create_v4_reservation_def split: option.splits)
  let ?res = "\<lparr>rID = apUUID env ''id'', rScopeID = sid, rGroupID = rqGroupID req, rMACAddr = mac_String hw, rIPAddr = p,
                rHostname = rqHostname req, rDescription = rqDescription req, rOptions = marshal_map (rqOptions req),
                rCreatedAt = apNow env ''created'', rUpdatedAt = apNow env ''updated''\<rparr>"
  from assms hw have "on_call (reads (checkV4ReservationConflict env sc (mac_String hw) p '''') ad) (jsonError 409) (\<lambda>_ ad.
          on_call (writes (CreateReservation (apFaults env) ?res) ad) internal_error (\<lambda>_.
            audited env user ''create'' ''reservation'' (rID ?res) (reservation_json (apTimeText env) ?res) (PReservation ?res)))
      = (Ret \<lparr>rsStatus = 200, rsBody = PReservation res\<rparr>, ad')"
    by (simp add: create_v4_reservation_def Let_def)
  then obtain c: "checkV4ReservationConflict env sc (mac_String hw) p '''' (adDb ad) = Ret ()"
    and "on_call (writes (CreateReservation (apFaults env) ?res) ad) internal_error (\<lambda>_.
            audited env user ''create'' ''reservation'' (rID ?res) (reservation_json (apTimeText env) ?res) (PReservation ?res))
      = (Ret \<lparr>rsStatus = 200, rsBody = PReservation res\<rparr>, ad')"
    by (rule on_call_200) auto
  then obtain f: "fst (CreateReservation (apFaults env) ?res (adDb ad)) = Ret ()"
    and a: "audited env user ''create'' ''reservation'' (rID ?res) (reservation_json (apTimeText env) ?res) (PReservation ?res)
        (ad\<lparr>adDb := snd (CreateReservation (apFaults env) ?res (adDb ad))\<rparr>) = (Ret \<lparr>rsStatus = 200, rsBody = PReservation res\<rparr>, ad')"
    by (auto elim!: on_call_200)
  from audited_Ret [OF a] have res: "res = ?res" and d: "adDb ad' = snd (CreateReservation (apFaults env) ?res (adDb ad))" by auto
  from f obtain db' where "CreateReservation (apFaults env) ?res (adDb ad) = (Ret (), db')" by (cases "CreateReservation (apFaults env) ?res (adDb ad)") auto
  then obtain q rows where "host_inet p = Ret (Some q)" "sql_insert reservation_clash (?res\<lparr>rIPAddr := q\<rparr>) (dbReservations (adDb ad)) = Ret rows"
    "db' = (adDb ad)\<lparr>dbReservations := rows\<rparr>"
    by (auto simp: CreateReservation_def settle_Ret bind_run_Ret_iff split: option.splits)
  with d \<open>CreateReservation _ _ _ = (Ret (), db')\<close> show ?thesis
    by (intro that [OF hw _ _ _ c]) (auto simp: res dest!: sql_insert_Ret)
qed

lemma create_v6_other: "create_v6_reservation env user sc sid req p ad \<noteq> (Ret \<lparr>rsStatus = 200, rsBody = PReservation res\<rparr>, ad')"
  unfolding create_v6_reservation_def Let_def
  by (auto elim!: on_call_200 dest: audited_Ret)

text \<open>
  C17. A reservation made through the HTTP interface is honoured by the DHCPv4 allocator: once the
  handler has answered 200, the client with that hardware address gets exactly the reserved
  address in the scope, whatever it asks for, and no other client gets it; the address is inside
  the scope's range and not excluded, and the hardware address is stored in the form in which the
  DHCP server looks it up.
\<close>

theorem reservation_honoured:
  assumes w: "wf_adb ad"
    and h: "handleCreateReservation env user sid q ad = (Ret \<lparr>rsStatus = 200, rsBody = PReservation res\<rparr>, ad')"
    and al: "AllocateV4Lease flt now uuid sc mac clientID preferred hostname leaseTime maxLeaseTime (adDb ad') = (Ret l, db')"
    and sc: "scID sc = sid"
  shows "(mac = rMACAddr res \<longrightarrow> ipKey (lIPAddr l) = ipKey (rIPAddr res))
    \<and> (mac \<noteq> rMACAddr res \<longrightarrow> normalizeIP (lIPAddr l) \<noteq> normalizeIP (rIPAddr res))
    \<and> (\<exists>hw. rMACAddr res = mac_String hw)
    \<and> (\<exists>sc0. GetScopeByID (apFaults env) sid (adDb ad) = Ret sc0
         \<and> api_ipInRange (rIPAddr res) (scStartIP sc0) (scEndIP sc0) = Ret True
         \<and> (\<forall>ex \<in> set (scExcludedIPs sc0). api_ipKey (rIPAddr res) \<noteq> api_ipKey ex))"
proof -
  from h obtain sc0 where g: "GetScopeByID (apFaults env) sid (adDb ad) = Ret sc0"
    and "with_body (decode (reservation_field (apParseFloat env) True True) reservation_req0 (qBody q)) ad (\<lambda>req.
       if ParseIP (rqIPAddr req) = [] then jsonError 400 ''invalid ip'' ad
       else if scV6 sc0 then create_v6_reservation env user sc0 sid req (ParseIP (rqIPAddr req)) ad
       else create_v4_reservation env user sc0 sid req (ParseIP (rqIPAddr req)) ad) = (Ret \<lparr>rsStatus = 200, rsBody = PReservation res\<rparr>, ad')"
    unfolding handleCreateReservation_def Let_def by (rule on_read_200) simp
  then obtain req p where p: "p = ParseIP (rqIPAddr req)" and "p \<noteq> []"
    and "create_v4_reservation env user sc0 sid req p ad = (Ret \<lparr>rsStatus = 200, rsBody = PReservation res\<rparr>, ad')"
    by (auto elim!: with_body_200 simp: create_v6_other split: if_splits)
  then obtain hw pa rows where mac: "rMACAddr res = mac_String hw" and ip: "rIPAddr res = p" and sid: "rScopeID res = sid"
    and chk: "checkV4ReservationConflict env sc0 (mac_String hw) p '''' (adDb ad) = Ret ()"
    and q: "host_inet p = Ret (Some pa)"
    and d: "adDb ad' = (adDb ad)\<lparr>dbReservations := dbReservations (adDb ad) @ [res\<lparr>rIPAddr := pa\<rparr>]\<rparr>"
    by (auto elim!: create_v4_reservation_200)
  have "wf_adb ad'" using wf_request.reservation_handlers_keep(1) [OF w, of env user sid q] h by (simp add: keeps_def)
  then have wf: "wf_db (adDb ad')" by (simp add: wf_adb_def wf_admin_def)
  have pa: "pa = normalizeIP p" using host_inet_Some [OF q] by blast
  have "res\<lparr>rIPAddr := pa\<rparr> \<in> set (dbReservations (adDb ad'))" "rScopeID (res\<lparr>rIPAddr := pa\<rparr>) = scID sc"
    using d sid sc by simp_all
  from AllocateV4Lease_reserved [OF wf al this] checkV4_Ret [OF chk] g mac show ?thesis
    by (auto simp: ip pa)
qed

definition lan_adb :: adb where
  "lan_adb = fresh_adb\<lparr>adDb := fresh_db\<lparr>dbScopes := [demo_scope]\<rparr>\<rparr>"

definition reserve_request :: request where
  "reserve_request = demo_request ''POST'' ''/api/scopes/s1/reservations'' ''admin''
     (Some (TObj [(''mac_addr'', TStr ''AA-BB-CC-00-11-22''), (''ip_addr'', TStr ''192.168.1.15'')]))"

definition reserved_row :: reservation where
  "reserved_row = \<lparr>rID = ''new-id'', rScopeID = ''s1'', rGroupID = '''', rMACAddr = ''aa:bb:cc:00:11:22'',
     rIPAddr = IPv4 192 168 1 15, rHostname = '''', rDescription = '''', rOptions = Some JNull, rCreatedAt = 1000 * Second,
     rUpdatedAt = 1000 * Second\<rparr>"

lemma demo_mac: "ParseMAC ''AA-BB-CC-00-11-22'' = Some [0xAA, 0xBB, 0xCC, 0, 0x11, 0x22]"
  by (simp add: ParseMAC_def hex_pair_def hex_val_def)

lemma demo_mac_text: "mac_String [0xAA, 0xBB, 0xCC, 0, 0x11, 0x22] = ''aa:bb:cc:00:11:22''"
  by code_simp

lemma demo_ip: "ParseIP ''192.168.1.15'' = IPv4 192 168 1 15"
  by (simp add: ParseIP_def parseIPv4_def is_digit_def IPv4_def Let_def)

lemma demo_body: "decode (reservation_field pf True True) reservation_req0 (qBody reserve_request) =
    Some (reservation_req0\<lparr>rqMACAddr := ''AA-BB-CC-00-11-22'', rqIPAddr := ''192.168.1.15''\<rparr>)"
  by (simp add: reserve_request_def demo_request_def decode_def reservation_field_def reservation_req0_def d_str_def ascii_lower_def Let_def)

lemma demo_range: "api_ipInRange (IPv4 192 168 1 15) (scStartIP (scanScope demo_scope)) (scEndIP (scanScope demo_scope)) = Ret True"
  by (simp add: api_ipInRange_def api_ip_u32_def demo_scope_def scanScope_def to4IfPossible_def IPv4_def To4_def Uint32_def)

lemma demo_check: "checkV4ReservationConflict demo_api (scanScope demo_scope) ''aa:bb:cc:00:11:22'' (IPv4 192 168 1 15) '''' (adDb lan_adb) = Ret ()"
proof -
  have "scExcludedIPs (scanScope demo_scope) = [[192, 168, 1, 11]]"
    by (simp add: demo_scope_def scanScope_def ipsTo4_def to4IfPossible_def To4_def)
  moreover have "api_ipKey (IPv4 192 168 1 15) \<noteq> api_ipKey [192, 168, 1, 11]" by code_simp
  ultimately show ?thesis
    using demo_range
    by (simp add: checkV4ReservationConflict_def refuse_if_def GetReservationByIP_def GetReservationByMAC_def GetLeaseByIP_def lan_adb_def
      fresh_adb_def fresh_db_def demo_api_def exec_def host_inet_def or_no_rows_def query_row_def ok_value_def Let_def)
qed

lemma demo_scope_read: "GetScopeByID (apFaults demo_api) ''s1'' (adDb lan_adb) = Ret (scanScope demo_scope)"
  by (simp add: GetScopeByID_def demo_api_def lan_adb_def exec_def or_no_rows_def query_row_def demo_scope_def)

lemma demo_create:
  "CreateReservation (apFaults demo_api) reserved_row (adDb lan_adb)
     = (Ret (), fresh_db\<lparr>dbScopes := [demo_scope], dbReservations := [reserved_row\<lparr>rIPAddr := [192, 168, 1, 15]\<rparr>]\<rparr>)"
  by (simp add: CreateReservation_def demo_api_def lan_adb_def fresh_db_def reserved_row_def host_inet_def To4_def IPv4_def
    sql_insert_def settle_def)

lemma demo_reserve:
  "\<exists>ad'. handleCreateReservation demo_api None ''s1'' reserve_request lan_adb = (Ret \<lparr>rsStatus = 200, rsBody = PReservation reserved_row\<rparr>, ad')
     \<and> adDb ad' = fresh_db\<lparr>dbScopes := [demo_scope], dbReservations := [reserved_row\<lparr>rIPAddr := [192, 168, 1, 15]\<rparr>]\<rparr>"
proof -
  let ?req = "reservation_req0\<lparr>rqMACAddr := ''AA-BB-CC-00-11-22'', rqIPAddr := ''192.168.1.15''\<rparr>"
  have v6: "\<not> scV6 (scanScope demo_scope)" by (simp add: scanScope_def demo_scope_def)
  have res: "\<lparr>rID = apUUID demo_api ''id'', rScopeID = ''s1'', rGroupID = rqGroupID ?req, rMACAddr = ''aa:bb:cc:00:11:22'',
       rIPAddr = IPv4 192 168 1 15, rHostname = rqHostname ?req, rDescription = rqDescription ?req,
       rOptions = marshal_map (rqOptions ?req), rCreatedAt = apNow demo_api ''created'', rUpdatedAt = apNow demo_api ''updated''\<rparr> = reserved_row"
    by (simp add: reserved_row_def demo_api_def reservation_req0_def marshal_map_def)
  have "IPv4 192 168 1 15 \<noteq> []" by (simp add: IPv4_def)
  then show ?thesis
    using demo_create res
    by (simp add: handleCreateReservation_def create_v4_reservation_def on_call_def demo_scope_read demo_body with_body_def demo_ip
      v6 demo_mac demo_mac_text demo_check audited_def jsonOK_def audit_tables)
qed

theorem reservation_honoured_witness:
  "\<exists>ad' l db'. handleCreateReservation demo_api None ''s1'' reserve_request lan_adb = (Ret \<lparr>rsStatus = 200, rsBody = PReservation reserved_row\<rparr>, ad')
     \<and> AllocateV4Lease no_faults Second ''u1'' demo_scope ''aa:bb:cc:00:11:22'' '''' [192, 168, 1, 13] '''' 3600 7200 (adDb ad') = (Ret l, db')
     \<and> ipKey (lIPAddr l) = ipKey (IPv4 192 168 1 15)"
proof -
  obtain ad' where h: "handleCreateReservation demo_api None ''s1'' reserve_request lan_adb = (Ret \<lparr>rsStatus = 200, rsBody = PReservation reserved_row\<rparr>, ad')"
    and d: "adDb ad' = fresh_db\<lparr>dbScopes := [demo_scope], dbReservations := [reserved_row\<lparr>rIPAddr := [192, 168, 1, 15]\<rparr>]\<rparr>"
    using demo_reserve by blast
  have "\<exists>l db'. AllocateV4Lease no_faults Second ''u1'' demo_scope ''aa:bb:cc:00:11:22'' '''' [192, 168, 1, 13] '''' 3600 7200
     (fresh_db\<lparr>dbScopes := [demo_scope], dbReservations := [reserved_row\<lparr>rIPAddr := [192, 168, 1, 15]\<rparr>]\<rparr>) = (Ret l, db')"
    by (simp add: AllocateV4Lease_def WithTx_Ret alloc4_tx_def getReservationByMACTx_def alloc4_existing_def getLeaseByMACTx_def
      alloc4_reserved_def ensureIPAvailableTx_def getLeaseByIPTx_def save_and_return_def saveLeaseTx_def upsert_lease_def
      query_row_def fresh_db_def demo_scope_def reserved_row_def host_inet_def To4_def sql_upsert_def sql_insert_def new_lease_def
      scanReservation_def to4IfPossible_def Let_def)
  then obtain l db' where al: "AllocateV4Lease no_faults Second ''u1'' demo_scope ''aa:bb:cc:00:11:22'' '''' [192, 168, 1, 13] '''' 3600 7200 (adDb ad') = (Ret l, db')"
    unfolding d by blast
  have "wf_adb lan_adb"
    by (simp add: lan_adb_def fresh_adb_def fresh_db_def wf_adb_def wf_admin_def wf_db_def uniq_def)
  from reservation_honoured [OF this h al] h al show ?thesis
    by (auto simp: demo_scope_def reserved_row_def)
qed

end
