(* ===== verification/Api_Listing.thy ===== *)
theory Api_Listing
  imports Api_Effects
begin

text \<open>
  Listings and the domain names of scopes: pagination and its pages, the log listing after a scope
  was deleted, and the check that keeps domain names apart.
\<close>

section \<open>Pages\<close>

lemma int64_mult_exact: "0 \<le> a \<Longrightarrow> 0 \<le> b \<Longrightarrow> a * b < 2 ^ 63 \<Longrightarrow> int64_mult a b = a * b"
proof -
  assume h: "0 \<le> a" "0 \<le> b" "a * b < 2 ^ 63"
  then have "0 \<le> a * b" by simp
  then have "signed_take_bit 63 (a * b) = a * b"
    using h(3) by (intro signed_take_bit_int_eq_self) linarith+
  then have "sint (of_int (a * b) :: 64 word) = a * b"
    by (simp only: signed_of_int) simp
  then show ?thesis by (simp add: int64_mult_def)
qed

lemma dec_string_all_digits: "all_digits (dec_string n)" "hd (dec_string n) \<noteq> CHR ''-''" "hd (dec_string n) \<noteq> CHR ''+''"
proof -
  have ne: "dec_string n \<noteq> []" by (subst dec_string.simps) simp
  have dig: "c \<in> set (dec_string n) \<Longrightarrow> 48 \<le> (of_char c :: nat) \<and> (of_char c :: nat) \<le> 57" for c by (rule dec_string_digits)
  then show "hd (dec_string n) \<noteq> CHR ''-''" "hd (dec_string n) \<noteq> CHR ''+''" using hd_in_set [OF ne] by fastforce+
  show "all_digits (dec_string n)" using ne dig by (auto simp: all_digits_def is_digit_def list_all_iff)
qed

lemma Atoi_dec: "n < 2 ^ 63 \<Longrightarrow> Atoi (dec_string n) = int n"
  by (simp add: Atoi_def dec_value_string dec_string_all_digits Let_def)

lemma pagination_bounds:
  "1 \<le> pgLimit (pagination q)" "pgLimit (pagination q) \<le> 10000" "1 \<le> pgPage (pagination q)"
  "pgSize (pagination q) = pgLimit (pagination q)"
  "pgOffset (pagination q) = int64_mult (pgPage (pagination q) - 1) (pgSize (pagination q))"
  by (simp_all add: pagination_def Let_def)

definition page_request :: "nat \<Rightarrow> nat \<Rightarrow> request" where
  "page_request k s = \<lparr>qMethod = ''GET'', qPath = ''/api/users'', qAuthorization = '''',
     qQuery = [(''page'', dec_string k), (''page_size'', dec_string s)], qBody = None\<rparr>"

lemma pagination_page:
  assumes "1 \<le> s" "s \<le> 200" "k < 2 ^ 40"
  shows "pagination (page_request (Suc k) s) = \<lparr>pgOffset = int k * int s, pgLimit = int s, pgPage = int k + 1, pgSize = int s\<rparr>"
proof -
  have "int k * int s \<le> 2 ^ 40 * 200" using assms by (intro mult_mono) auto
  then have "int64_mult (int k) (int s) = int k * int s" by (intro int64_mult_exact) auto
  moreover have "Atoi (dec_string (Suc k)) = int (Suc k)" "Atoi (dec_string s) = int s"
    using assms Atoi_dec [of "Suc k"] Atoi_dec [of s] by simp_all
  ultimately show ?thesis
    using assms by (simp add: pagination_def page_request_def query_get_def query_has_def Let_def)
qed

lemma concat_pages: "concat (map (\<lambda>k. take s (drop (k * s) xs)) [0..<n]) = take (n * s) xs"
proof (induction n)
  case (Suc n)
  have "take (n * s) xs @ take s (drop (n * s) xs) = take (n * s + s) xs" by (simp add: take_add)
  with Suc show ?case by (simp add: add.commute)
qed simp

text \<open>The users a response lists.\<close>

definition listed_users :: "outcome \<Rightarrow> user list" where
  "listed_users o' = (case fst o' of
     Ret r \<Rightarrow> (case rsBody r of PPage (Users us) _ _ _ \<Rightarrow> us | _ \<Rightarrow> []) | _ \<Rightarrow> [])"

lemma handleListUsers_page:
  assumes "apFaults env = (\<lambda>_. None)" and "1 \<le> s" "s \<le> 200" "k < 2 ^ 40"
  shows "listed_users (handleListUsers env (page_request (Suc k) s) ad) =
    take s (drop (k * s) (map user_row (sort_key (\<lambda>u. apCollate env (uUsername u)) (adUsers ad))))"
proof -
  have "nat (int k * int s) = k * s" by (simp flip: of_nat_mult)
  moreover have "\<not> int k * int s < 0" by (simp add: not_less)
  ultimately show ?thesis
    by (simp add: handleListUsers_def pagination_page [OF assms(2-4)] listed_users_def on_call_def ListUsersPaged_def paged_def
      sql_page_def assms(1) jsonOK_def pageResponse_def)
qed

section \<open>Logs of deleted scopes\<close>

lemma scan_logs_fail:
  "g \<in> set gs \<Longrightarrow> alScopeID g = '''' \<Longrightarrow> map_run scanIPAllocationLog gs = Fail ''cannot scan NULL into *string''"
proof (induction gs)
  case (Cons x gs)
  then show ?case by (cases "alScopeID x = ''''") (auto simp: scanIPAllocationLog_def)
qed simp

lemma DeleteScope_logs:
  assumes "flt ''DeleteScope'' = None" and "s \<in> set (dbScopes db)" and "g \<in> set (dbAllocLogs db)" "alScopeID g = scID s"
  shows "g\<lparr>alScopeID := ''''\<rparr> \<in> set (dbAllocLogs (snd (DeleteScope flt (scID s) db)))"
    and "length (dbAllocLogs (snd (DeleteScope flt (scID s) db))) = length (dbAllocLogs db)"
  using assms by (auto simp: DeleteScope_def settle_def list_ex_iff set_update_where update_where_def)

section \<open>Domain names\<close>

text \<open>No two scopes of one address family have the same domain name, up to the case of the letters.\<close>

definition distinct_domains :: "(string \<Rightarrow> string) \<Rightarrow> db \<Rightarrow> bool" where
  "distinct_domains lower db \<longleftrightarrow> (\<forall>s \<in> set (dbScopes db). \<forall>t \<in> set (dbScopes db).
     scV6 s = scV6 t \<and> scDomainName s \<noteq> '''' \<and> lower (scDomainName s) = lower (scDomainName t) \<longrightarrow>
     scDomainName t = '''' \<or> scID s = scID t)"

lemma distinct_domains_mono:
  "set (dbScopes db') \<subseteq> set (dbScopes db) \<Longrightarrow> distinct_domains lower db \<Longrightarrow> distinct_domains lower db'"
  unfolding distinct_domains_def by blast

lemmas admin_defs = DeleteScope_def CreateReservation_def UpdateReservation_def DeleteReservation_def CreateV6Reservation_def
  UpdateV6Reservation_def DeleteV6Reservation_def CreateReservationGroup_def UpdateReservationGroup_def
  DeleteReservationGroup_def UpdateLeaseState_def DeleteLease_def UpdateV6LeaseState_def DeleteV6Lease_def
  CreateMACBlacklist_def DeleteMACBlacklist_def

lemma settle_scopes:
  "(\<And>x db'. r = Ret (x, db') \<Longrightarrow> set (dbScopes db') \<subseteq> set (dbScopes db)) \<Longrightarrow> set (dbScopes (snd (settle db r))) \<subseteq> set (dbScopes db)"
  by (auto simp: settle_def split: run.splits)

lemma admin_stmt_scopes: "admin_stmt f \<Longrightarrow> set (dbScopes (snd (f db))) \<subseteq> set (dbScopes db)"
  by (induction rule: admin_stmt.induct; unfold admin_defs; rule settle_scopes;
    auto simp: bind_run_Ret_iff split: option.splits if_splits)

lemma user_stmt_db: "user_stmt g \<Longrightarrow> adDb (snd (g ad)) = adDb ad"
  by (induction rule: user_stmt.induct)
    (auto simp: CreateUser_def DeleteUser_def UpdateUserPassword_def UpdateUser_def asettle_def bind_run_Ret_iff exec_def
      split: run.splits option.splits)

interpretation domains: admin_invariant "\<lambda>ad. distinct_domains lower (adDb ad)" for lower
proof
  show "keeps (\<lambda>ad. distinct_domains lower (adDb ad)) (writes f ad)" if "admin_stmt f" "distinct_domains lower (adDb ad)" for f ad
    using distinct_domains_mono [OF admin_stmt_scopes [OF that(1)] that(2)] by (simp add: keeps_def)
  show "keeps (\<lambda>ad. distinct_domains lower (adDb ad)) (g ad)" if "user_stmt g" "distinct_domains lower (adDb ad)" for g ad
    using that user_stmt_db by (simp add: keeps_def)
  show "keeps (\<lambda>ad. distinct_domains lower (adDb ad)) (CreateAuditLog flt isUUID e ad)" if "distinct_domains lower (adDb ad)" for ad flt isUUID e
    using that by (auto simp: keeps_def CreateAuditLog_def asettle_def bind_run_Ret_iff exec_def split: run.splits option.splits if_splits)
qed

text \<open>The two handlers that write a scope check the name first.\<close>

lemma validate_free:
  assumes "validateScopeDomain env sc x ad = Ret None" and "scDomainName sc \<noteq> ''''"
  shows "apIsUUID env x \<and> (\<forall>s \<in> set (dbScopes (adDb ad)). scDomainName s \<noteq> ''''
    \<and> apLower env (scDomainName s) = apLower env (scDomainName sc) \<and> scV6 s = scV6 sc \<longrightarrow> scID s = x)"
  using assms by (auto simp: validateScopeDomain_def DomainNameTaken_def exec_def list_ex_iff split: run.splits if_splits option.splits)

lemma with_valid_domain_cases:
  assumes "P ad" and "validateScopeDomain env sc x ad = Ret None \<Longrightarrow> keeps P k"
  shows "keeps P (with_valid_domain env sc x ad k)"
  using assms by (auto simp: with_valid_domain_def keeps_def jsonError_def split: run.splits option.splits)

lemma scope_row_Ret: "scope_row sc = Ret r \<Longrightarrow> scID r = scID sc \<and> scDomainName r = scDomainName sc \<and> scV6 r = scV6 sc"
  by (auto simp: scope_row_def bind_run_Ret_iff split: if_splits)

lemma CreateScope_domains:
  assumes "distinct_domains lower db" and "scDomainName sc = ''''"
  shows "distinct_domains lower (snd (CreateScope flt sc db))"
  unfolding CreateScope_def
proof (rule settle_keeps [where P = "distinct_domains lower", OF assms(1)])
  fix x db'
  assume "exec flt ''CreateScope'' (bind_run (scope_row sc) (\<lambda>r. bind_run
        (sql_insert scope_clash r (dbScopes db)) (\<lambda>rows. Ret ((), db\<lparr>dbScopes := rows\<rparr>)))) = Ret (x, db')"
  then obtain r where r: "scope_row sc = Ret r" and d: "dbScopes db' = dbScopes db @ [r]"
    by (auto simp: bind_run_Ret_iff dest!: sql_insert_Ret)
  have "s \<in> set (dbScopes db') \<Longrightarrow> scDomainName s = '''' \<or> s \<in> set (dbScopes db)" for s
    using scope_row_Ret [OF r] assms(2) by (auto simp: d)
  then show "distinct_domains lower db'"
    using assms(1) unfolding distinct_domains_def by metis
qed

lemma UpdateScope_domains:
  assumes "distinct_domains lower db" and "scDomainName sc \<noteq> '''' \<Longrightarrow> \<forall>s \<in> set (dbScopes db). scDomainName s \<noteq> ''''
      \<and> lower (scDomainName s) = lower (scDomainName sc) \<and> scV6 s = scV6 sc \<longrightarrow> scID s = scID sc"
  shows "distinct_domains lower (snd (UpdateScope flt sc db))"
  unfolding UpdateScope_def
proof (rule settle_keeps [where P = "distinct_domains lower", OF assms(1)])
  fix x db'
  assume "exec flt ''UpdateScope'' (bind_run (scope_row sc) (\<lambda>r. bind_run
        (sql_update scope_clash (\<lambda>s. scID s = scID sc) (\<lambda>s. r\<lparr>scID := scID s, scCreatedAt := scCreatedAt s\<rparr>) (dbScopes db))
        (\<lambda>rows. Ret ((), db\<lparr>dbScopes := rows\<rparr>)))) = Ret (x, db')"
  then obtain r where r: "scope_row sc = Ret r"
    and d: "dbScopes db' = update_where (\<lambda>s. scID s = scID sc) (\<lambda>s. r\<lparr>scID := scID s, scCreatedAt := scCreatedAt s\<rparr>) (dbScopes db)"
    by (auto simp: bind_run_Ret_iff dest!: sql_update_Ret)
  note r' = scope_row_Ret [OF r]
  have "s \<in> set (dbScopes db') \<Longrightarrow> scID s = scID sc \<and> scDomainName s = scDomainName sc \<and> scV6 s = scV6 sc
      \<or> scID s \<noteq> scID sc \<and> s \<in> set (dbScopes db)" for s
    using r' by (auto simp: d set_update_where)
  then show "distinct_domains lower db'"
    using assms unfolding distinct_domains_def by metis
qed

lemma scope_writers_keep:
  assumes "distinct_domains (apLower env) (adDb ad)" and "\<not> apIsUUID env ''''"
  shows "keeps (\<lambda>ad. distinct_domains (apLower env) (adDb ad)) (handleCreateScope env user q ad)"
    and "keeps (\<lambda>ad. distinct_domains (apLower env) (adDb ad)) (handleUpdateScope env user ident q ad)"
proof -
  let ?P = "\<lambda>ad. distinct_domains (apLower env) (adDb ad)"
  have c: "keeps ?P (writes (CreateScope (apFaults env) (sc\<lparr>scID := i, scCreatedAt := c, scUpdatedAt := u\<rparr>)) ad)"
    if "?P ad" "validateScopeDomain env sc '''' ad = Ret None" for sc i c u ad
    using that assms(2) validate_free [OF that(2)] by (fastforce simp: keeps_def intro!: CreateScope_domains)
  show "keeps ?P (handleCreateScope env user q ad)"
    unfolding handleCreateScope_def Let_def
    by (intro with_valid_domain_cases c keep_rules domains.audited_keeps assms | assumption)+
  have u: "keeps ?P (writes (UpdateScope (apFaults env) (sc\<lparr>scCreatedAt := c, scUpdatedAt := u\<rparr>)) ad)"
    if "?P ad" "validateScopeDomain env sc (scID sc) ad = Ret None" for sc c u ad
    using that validate_free [OF that(2)] by (auto simp: keeps_def intro!: UpdateScope_domains)
  show "keeps ?P (handleUpdateScope env user ident q ad)"
    unfolding handleUpdateScope_def Let_def
    by (intro with_valid_domain_cases u keep_rules domains.audited_keeps assms | assumption)+
qed


section \<open>Properties\<close>

text \<open>
  Paging through the users loses and repeats nobody: the first \<open>n\<close> pages of \<open>s\<close> users, one
  after the other, are the first \<open>n * s\<close> users in the order of their names, all of them once the
  pages are enough, and no page shows a password hash.
\<close>

theorem user_pages_cover:
  assumes "apFaults env = (\<lambda>_. None)" and "1 \<le> s" "s \<le> 200" "n \<le> 2 ^ 40"
  shows "let pages = concat (map (\<lambda>k. listed_users (handleListUsers env (page_request (Suc k) s) ad)) [0..<n]);
             users = map user_row (sort_key (\<lambda>u. apCollate env (uUsername u)) (adUsers ad))
         in pages = take (n * s) users \<and> (length (adUsers ad) \<le> n * s \<longrightarrow> pages = users)
            \<and> list_all (\<lambda>u. uPasswordHash u = '''') pages"
proof -
  let ?users = "map user_row (sort_key (\<lambda>u. apCollate env (uUsername u)) (adUsers ad))"
  have "concat (map (\<lambda>k. listed_users (handleListUsers env (page_request (Suc k) s) ad)) [0..<n])
      = concat (map (\<lambda>k. take s (drop (k * s) ?users)) [0..<n])"
    using assms by (intro arg_cong [where f = concat] map_cong refl handleListUsers_page) auto
  then show ?thesis
    by (auto simp: concat_pages Let_def list_all_iff user_row_def dest!: in_set_takeD)
qed

definition three_users :: adb where
  "three_users = fresh_adb\<lparr>adUsers := map (\<lambda>n. \<lparr>uID = n, uUsername = n, uPasswordHash = ''#'', uRole = ''admin'', uCreatedAt = 0, uUpdatedAt = 0\<rparr>)
     [''ccc'', ''a'', ''bb'']\<rparr>"

theorem user_pages_cover_witness:
  "concat (map (\<lambda>k. listed_users (handleListUsers demo_api (page_request (Suc k) 2) three_users)) [0..<2]) =
     map user_row (sort_key (\<lambda>u. length (uUsername u)) (adUsers three_users))"
  using user_pages_cover [of demo_api 2 2 three_users] by (simp add: demo_api_def three_users_def Let_def)

text \<open>A page number near the end of \<open>int\<close> makes the offset wrap below zero, and the database refuses it.\<close>

lemma page_number_overflow:
  assumes "apFaults env = (\<lambda>_. None)" and "qQuery q = [(''page'', ''9223372036854775807'')]"
  shows "handleListUsers env q ad = jsonError 500 ''OFFSET must not be negative'' ad"
proof -
  have "Atoi ''9223372036854775807'' = 9223372036854775807" "Atoi '''' = 0"
    by (simp_all add: Atoi_def all_digits_def is_digit_def dec_value_def)
  moreover have "int64_mult 9223372036854775806 20 = - 40" by (simp add: int64_mult_def)
  ultimately have "pgOffset (pagination q) = - 40" "pgLimit (pagination q) = 20"
    using assms(2) by (simp_all add: pagination_def query_get_def query_has_def)
  then show ?thesis
    by (simp add: handleListUsers_def ListUsersPaged_def paged_def sql_page_def assms(1) on_call_def)
qed


definition logged_adb :: adb where
  "logged_adb = fresh_adb\<lparr>adDb := fresh_db\<lparr>dbScopes := [demo_scope], dbAllocLogs := [\<lparr>alID = ''g1'', alNodeID = ''n1'', alScopeID = ''s1'',
     alScopeName = ''lan'', alMACAddr = ''aa:bb:cc:00:11:22'', alDUID = '''', alIAID = '''', alIPAddr = [192, 168, 1, 15], alPrefix = None,
     alAction = ''ack'', alClientInfo = None, alRelayIP = [], alCreatedAt = 0\<rparr>]\<rparr>\<rparr>"




text \<open>
  A scope with a domain name cannot be created through the HTTP interface: the handler asks
  the database whether the name is taken by a scope with another id than the empty text, which
  is no UUID, and the error of the database is the answer, with status 400 and nothing stored.
\<close>

theorem create_scope_domain_refused:
  assumes "\<not> apIsUUID env ''''" and "apFaults env ''DomainNameTaken'' = None"
    and "decode (scope_field (apParseFloat env)) scope_req0 (qBody q) = Some req" and "sqDomainName req \<noteq> ''''"
    and "scopeFromRequest req = Ret sc"
  shows "handleCreateScope env user q ad = jsonError 400 ''invalid input syntax for type uuid'' ad"
proof -
  have "scDomainName sc = sqDomainName req"
    using assms(5) by (auto simp: scopeFromRequest_def bind_run_Ret_iff Let_def split: if_splits)
  with assms show ?thesis
    by (simp add: handleCreateScope_def with_body_def on_call_def with_valid_domain_def validateScopeDomain_def DomainNameTaken_def exec_def)
qed

definition named_request :: request where
  "named_request = demo_request ''POST'' ''/api/scopes'' ''admin'' (Some (TObj [(''name'', TStr ''lan''), (''subnet'', TStr ''10.0.0.0/8''),
     (''start_ip'', TStr ''10.0.0.1''), (''end_ip'', TStr ''10.0.0.9''), (''domain_name'', TStr ''lan'')]))"

theorem create_scope_domain_refused_witness:
  "handleCreateScope demo_api None named_request fresh_adb = jsonError 400 ''invalid input syntax for type uuid'' fresh_adb"
proof -
  let ?req = "scope_req0\<lparr>sqName := ''lan'', sqSubnet := ''10.0.0.0/8'', sqStartIP := ''10.0.0.1'', sqEndIP := ''10.0.0.9'', sqDomainName := ''lan''\<rparr>"
  have "decode (scope_field (apParseFloat demo_api)) scope_req0 (qBody named_request) = Some ?req"
    by (simp add: named_request_def demo_request_def decode_def scope_field_def scope_req0_def d_str_def ascii_lower_def Let_def)
  moreover have "ParseIP ''10.0.0.1'' = IPv4 10 0 0 1" "ParseIP ''10.0.0.9'' = IPv4 10 0 0 9"
    by (simp_all add: ParseIP_def parseIPv4_def is_digit_def IPv4_def Let_def)
  moreover obtain net where "ParseCIDR ''10.0.0.0/8'' = Ret net"
  proof -
    have "ParseIP ''10.0.0.0'' = IPv4 10 0 0 0"
      by (simp add: ParseIP_def parseIPv4_def is_digit_def IPv4_def Let_def)
    moreover have "dtoi ''8'' = Some 8" by (simp add: dtoi_def all_digits_def is_digit_def dec_value_def)
    ultimately show ?thesis
      by (intro that) (simp add: ParseCIDR_def cut_slash_def dotted_def IPv4_def Let_def)
  qed
  ultimately show ?thesis
    by (intro create_scope_domain_refused [of demo_api named_request ?req])
      (simp_all add: demo_api_def scopeFromRequest_def scope_req0_def wrap_error_def parse_ips_def IPv4_def Let_def)
qed

end
