(* ===== verification/Auth_Effects.thy ===== *)
theory Auth_Effects
  imports Api_Listing
begin

text \<open>
  Accounts and the cluster view through the HTTP interface: what the token of a login stands for,
  that a changed password is in force, and that the listing of the cluster follows the
  heartbeats of its nodes.
\<close>

section \<open>Login\<close>

lemma bearer_token:
  "qAuthorization q = ''Bearer '' @ t \<Longrightarrow> bearer_user env q =
     (case ValidateToken (apCrypto env) (apService env) (apTokenNow env) t of Ret u \<Rightarrow> Inr u | _ \<Rightarrow> Inl ''invalid token'')"
proof -
  have "map ascii_lower ''Bearer'' = ''bearer''" by code_simp
  then show "qAuthorization q = ''Bearer '' @ t \<Longrightarrow> ?thesis"
    by (simp add: bearer_user_def cut_space_def)
qed

lemma handleLogin_200:
  assumes "handleLogin env q ad = (Ret \<lparr>rsStatus = 200, rsBody = PTexts [(''token'', t), (''role'', role)]\<rparr>, ad')"
  obtains b where "decode_texts [''username'', ''password''] (qBody q) = Some b"
    "Authenticate (apFaults env) (apCrypto env) (apService env) (apCfg env) (fst (apLoginNow env)) (snd (apLoginNow env))
       (apUUID env ''jti'') (b ''username'') (b ''password'') ad = Ret (t, role)"
    "adUsers ad' = adUsers ad"
proof -
  obtain b where "decode_texts [''username'', ''password''] (qBody q) = Some b"
    using assms by (auto simp: handleLogin_def elim!: with_body_200)
  with assms show ?thesis
    by (intro that) (auto simp: handleLogin_def with_body_def Let_def jsonError_def dest!: audited_Ret split: run.splits)
qed

text \<open>The user that a token names, as the middleware puts it into the context of a request.\<close>

definition token_user :: "user \<Rightarrow> user" where
  "token_user u = \<lparr>uID = uID u, uUsername = uUsername u, uPasswordHash = '''', uRole = uRole u, uCreatedAt = 0, uUpdatedAt = 0\<rparr>"

text \<open>
  C19. A login that is answered with a token and a role belongs to a stored user with that name,
  whose password hash matches the password sent, and the role is the stored one. From then on,
  until the time to live is over, every request with that token acts as that user with that role,
  whatever has become of the account since; afterwards the token is refused.
\<close>

theorem login_roundtrip:
  assumes law: "token_law (apCrypto env) (apService env)"
    and h: "handleLogin env q ad = (Ret \<lparr>rsStatus = 200, rsBody = PTexts [(''token'', t), (''role'', role)]\<rparr>, ad')"
    and later: "apCrypto env2 = apCrypto env" "apService env2 = apService env" "qAuthorization q2 = ''Bearer '' @ t"
  shows "\<exists>u b. u \<in> set (adUsers ad') \<and> uRole u = role \<and> decode_texts [''username'', ''password''] (qBody q) = Some b
    \<and> uUsername u = b ''username'' \<and> VerifyPassword (apCrypto env) (uPasswordHash u) (b ''password'')
    \<and> bearer_user env2 q2 = (if apTokenNow env2 < Unix (fst (apLoginNow env) + cTokenTTL (cAuth (apCfg env))) * SecondD
        then Inr (token_user u) else Inl ''invalid token'')"
proof -
  from h obtain b where b: "decode_texts [''username'', ''password''] (qBody q) = Some b"
    and au: "Authenticate (apFaults env) (apCrypto env) (apService env) (apCfg env) (fst (apLoginNow env)) (snd (apLoginNow env))
       (apUUID env ''jti'') (b ''username'') (b ''password'') ad = Ret (t, role)" and us: "adUsers ad' = adUsers ad"
    by (rule handleLogin_200)
  from Authenticate_Ret [OF au] obtain u where u: "u \<in> set (adUsers ad)" "uUsername u = b ''username''" "uRole u = role"
    "crCompare (apCrypto env) (uPasswordHash u) (b ''password'')"
    and sign: "crSign (apCrypto env) (svcPrivateKey (apService env)) (token_claims (apCfg env) (fst (apLoginNow env))
       (snd (apLoginNow env)) (apUUID env ''jti'') u) = Ret t" by blast
  have "bearer_user env2 q2 = (if apTokenNow env2 < Unix (fst (apLoginNow env) + cTokenTTL (cAuth (apCfg env))) * SecondD
        then Inr (token_user u) else Inl ''invalid token'')"
    using ValidateToken_claims [OF law sign, of "apTokenNow env2"] later
    by (auto simp: bearer_token token_user_def split: if_splits run.splits)
  with b u us show ?thesis by (auto simp: VerifyPassword_def)
qed

text \<open>An account, and a library that signs and accepts the token of its login only.\<close>

definition root_user :: user where
  "root_user = \<lparr>uID = ''u1'', uUsername = ''root'', uPasswordHash = ''#pw'', uRole = ''admin'', uCreatedAt = 0, uUpdatedAt = 0\<rparr>"

definition root_adb :: adb where
  "root_adb = fresh_adb\<lparr>adUsers := [root_user]\<rparr>"

definition root_crypto :: crypto where
  "root_crypto = demo_crypto\<lparr>crSign := \<lambda>k c. if c = token_claims demo_config 0 0 ''new-jti'' root_user then Ret ''root-token'' else Fail ''sign'',
     crParse := \<lambda>k ok now t. if t = ''root-token'' \<and> now < 86400 * SecondD then Ret (token_claims demo_config 0 0 ''new-jti'' root_user)
       else Fail ''token has invalid claims: token is expired''\<rparr>"

definition login_api :: api_env where
  "login_api = demo_api\<lparr>apCrypto := root_crypto\<rparr>"

definition login_request :: request where
  "login_request = demo_request ''POST'' ''/api/auth/login'' '''' (Some (TObj [(''username'', TStr ''root''), (''password'', TStr ''pw'')]))"

lemma demo_expiry: "Unix (0 + cTokenTTL (cAuth demo_config)) = 86400"
  by (simp add: Unix_def demo_config_def)

lemma root_token_law: "token_law root_crypto svc"
  using demo_expiry by (auto simp: token_law_def root_crypto_def token_claims_def)

lemma login_body:
  "decode_texts [''username'', ''password''] (qBody login_request) = Some ((\<lambda>_. '''')(''username'' := ''root'', ''password'' := ''pw''))"
  by (simp add: login_request_def demo_request_def decode_texts_def decode_def text_field_def d_str_def ascii_lower_def Let_def)

lemma root_login:
  "\<exists>ad'. handleLogin login_api login_request root_adb
     = (Ret \<lparr>rsStatus = 200, rsBody = PTexts [(''token'', ''root-token''), (''role'', ''admin'')]\<rparr>, ad') \<and> adUsers ad' = [root_user]"
proof -
  have "Authenticate (apFaults login_api) (apCrypto login_api) (apService login_api) (apCfg login_api) 0 0 ''new-jti'' ''root'' ''pw'' root_adb
      = Ret (''root-token'', ''admin'')"
    by (simp add: Authenticate_def GetUserByUsername_def login_api_def demo_api_def exec_def or_no_rows_def query_row_def root_adb_def
      root_user_def root_crypto_def demo_crypto_def)
  then show ?thesis
    by (auto simp: handleLogin_def with_body_def login_body login_api_def demo_api_def root_adb_def audited_def jsonOK_def audit_tables)
qed

theorem login_roundtrip_witness:
  "\<exists>ad'. handleLogin login_api login_request root_adb
       = (Ret \<lparr>rsStatus = 200, rsBody = PTexts [(''token'', ''root-token''), (''role'', ''admin'')]\<rparr>, ad')
     \<and> bearer_user (login_api\<lparr>apTokenNow := 3600 * SecondD\<rparr>) (demo_request ''GET'' ''/api/users'' ''root-token'' None) = Inr (token_user root_user)"
proof -
  obtain ad' where h: "handleLogin login_api login_request root_adb
      = (Ret \<lparr>rsStatus = 200, rsBody = PTexts [(''token'', ''root-token''), (''role'', ''admin'')]\<rparr>, ad')" and u: "adUsers ad' = [root_user]"
    using root_login by blast
  have law: "token_law (apCrypto login_api) (apService login_api)" using root_token_law by (simp add: login_api_def)
  show ?thesis
    using login_roundtrip [OF law h, of "login_api\<lparr>apTokenNow := 3600 * SecondD\<rparr>"
        "demo_request ''GET'' ''/api/users'' ''root-token'' None"] h u demo_expiry
    by (auto simp: demo_request_def login_api_def demo_api_def)
qed

text \<open>The first start with configured credentials makes one administrator who can log in with them;
  every later start leaves the users alone.\<close>

lemma default_admin_created:
  assumes "password_law cr" and "adUsers ad = []" and "crHash cr (cDefaultAdminPassword (cAuth cfg)) = Ret hash"
    and "cDefaultAdminUsername (cAuth cfg) \<noteq> ''''" "cDefaultAdminPassword (cAuth cfg) \<noteq> ''''"
    and "InitializeDefaultAdmin (\<lambda>_. None) cr cfg uuid created updated ad = (r, ad')"
  shows "r = Ret () \<and> (\<exists>u. adUsers ad' = [u] \<and> uRole u = ''admin''
      \<and> Authenticate (\<lambda>_. None) cr svc cfg now1 now2 jti (cDefaultAdminUsername (cAuth cfg)) (cDefaultAdminPassword (cAuth cfg)) ad'
          = bind_run (crSign cr (svcPrivateKey svc) (token_claims cfg now1 now2 jti u)) (\<lambda>t. Ret (t, ''admin'')))"
  using assms
  by (auto simp: InitializeDefaultAdmin_def CountUsers_def CreateUser_def asettle_def exec_def sql_insert_def Let_def
    Authenticate_def GetUserByUsername_def or_no_rows_def query_row_def password_law_def)

lemma default_admin_kept:
  "adUsers ad \<noteq> [] \<Longrightarrow> snd (InitializeDefaultAdmin flt cr cfg uuid created updated ad) = ad"
  by (auto simp: InitializeDefaultAdmin_def CountUsers_def exec_def Let_def split: run.splits option.splits)

section \<open>Passwords\<close>

lemma handleChangePassword_200:
  assumes h: "handleChangePassword env (Some user) q ad = (Ret \<lparr>rsStatus = 200, rsBody = p\<rparr>, ad')"
  obtains b x hash where "decode_texts [''old_password'', ''new_password''] (qBody q) = Some b" "b ''new_password'' \<noteq> ''''"
    "GetUserByUsername (apFaults env) (uUsername user) ad = Ret x" "crCompare (apCrypto env) (uPasswordHash x) (b ''old_password'')"
    "crHash (apCrypto env) (b ''new_password'') = Ret hash"
    "adUsers ad' = update_where (\<lambda>u. uID u = uID user) (\<lambda>u. u\<lparr>uPasswordHash := hash, uUpdatedAt := apNow env ''UpdateUserPassword''\<rparr>) (adUsers ad)"
proof -
  obtain b where b: "decode_texts [''old_password'', ''new_password''] (qBody q) = Some b"
    using h by (auto simp: handleChangePassword_def elim!: with_body_200)
  obtain x where x: "GetUserByUsername (apFaults env) (uUsername user) ad = Ret x"
    using h b by (auto simp: handleChangePassword_def with_body_def split: if_splits elim!: on_call_200)
  obtain hash where hash: "crHash (apCrypto env) (b ''new_password'') = Ret hash"
    using h b x by (auto simp: handleChangePassword_def with_body_def HashPassword_def on_call_def split: if_splits run.splits)
  show ?thesis
    using h b x hash
    by (intro that [of b x hash]) (auto simp: handleChangePassword_def with_body_def HashPassword_def VerifyPassword_def
      on_call_def UpdateUserPassword_def asettle_def exec_def split: if_splits run.splits option.splits dest!: audited_Ret)
qed


definition password_request :: request where
  "password_request = demo_request ''POST'' ''/api/users/change-password'' ''admin''
     (Some (TObj [(''old_password'', TStr ''pw''), (''new_password'', TStr ''pw2'')]))"

lemma password_body:
  "decode_texts [''old_password'', ''new_password''] (qBody password_request) = Some ((\<lambda>_. '''')(''old_password'' := ''pw'', ''new_password'' := ''pw2''))"
  by (simp add: password_request_def demo_request_def decode_texts_def decode_def text_field_def d_str_def ascii_lower_def Let_def)

lemma root_changes_password:
  "\<exists>ad'. handleChangePassword demo_api (Some (token_user root_user)) password_request root_adb
     = (Ret \<lparr>rsStatus = 200, rsBody = PTexts [(''status'', ''ok'')]\<rparr>, ad')"
  by (simp add: handleChangePassword_def password_body with_body_def on_call_def GetUserByUsername_def exec_def or_no_rows_def
    query_row_def root_adb_def token_user_def root_user_def VerifyPassword_def HashPassword_def demo_api_def demo_crypto_def
    UpdateUserPassword_def asettle_def audited_def jsonOK_def)


section \<open>The cluster view\<close>

text \<open>The seconds without a heartbeat after which the interface shows a node as down.\<close>

definition offline_after :: "Config \<Rightarrow> int" where
  "offline_after cfg = (let s = whole_seconds (cNodeTimeout (cCluster cfg)) in if s \<le> 0 then 30 else s)"

lemma heartbeat_rows:
  assumes "flt ''UpsertHANode'' = None" and "uniq ha_clash (dbHANodes db)" and "\<forall>n \<in> set (dbHANodes db). nID n \<noteq> btID b"
  obtains x where "uniq ha_clash (dbHANodes (heartbeat flt cfg version b db))"
    "set (dbHANodes (heartbeat flt cfg version b db)) = insert x {n \<in> set (dbHANodes db). nNodeID n \<noteq> cNodeID (cCluster cfg)}"
    "nNodeID x = cNodeID (cCluster cfg)" "nClusterID x = cClusterID (cCluster cfg)" "nRole x = RoleActive"
    "nListenAddr x = cListenAddr (cCluster cfg)" "nVersion x = version" "nLastSeen x = btLastSeen b"
proof -
  let ?r = "\<lparr>nID = btID b, nClusterID = cClusterID (cCluster cfg), nNodeID = cNodeID (cCluster cfg), nRole = RoleActive,
      nListenAddr = cListenAddr (cCluster cfg), nVersion = version, nHealthy = True, nLastSeen = btLastSeen b,
      nCreatedAt = btCreatedAt b, nUpdatedAt = btUpdatedAt b\<rparr>"
  obtain rows where rows: "sql_upsert ha_clash ha_conflict ha_merge ?r (dbHANodes db) = Ret rows"
  proof -
    have "y \<in> set (dbHANodes db) \<Longrightarrow> ha_clash ?r y \<Longrightarrow> ha_conflict y ?r" for y
      using assms(3) by (auto simp: ha_clash_def ha_conflict_def)
    from ha_nodes.upsert_total [OF assms(2) this] show ?thesis by (auto intro: that)
  qed
  have d: "dbHANodes (heartbeat flt cfg version b db) = rows"
    using rows assms(1) by (simp add: heartbeat_def UpsertHANode_def exec_def settle_def)
  have un: "uniq ha_clash rows" by (rule ha_nodes.uniq_upsert [OF assms(2) rows])
  from assms(2) rows show ?thesis
  proof (cases rule: ha_nodes.upsert_rows)
    case inserted
    then have "set rows = insert ?r {n \<in> set (dbHANodes db). nNodeID n \<noteq> cNodeID (cCluster cfg)}" by (auto simp: ha_clash_def)
    then show ?thesis using un d by (intro that [of ?r]) simp_all
  next
    case (merged x)
    have "set (dbHANodes db) - {x} = {n \<in> set (dbHANodes db). nNodeID n \<noteq> cNodeID (cCluster cfg)}"
      using merged(1,2) ha_nodes.uniq_clashD [OF assms(2)] by (auto simp: ha_clash_def ha_conflict_def)
    then show ?thesis using un d merged by (intro that [of "ha_merge ?r x"]) (simp_all add: ha_merge_def ha_conflict_def)
  qed
qed

text \<open>
  C31. After a heartbeat the cluster view of every node of the same cluster lists the node that
  sent it exactly once, active, with its address, its version and the time of the heartbeat; the
  nodes listed are those of the cluster, and a node is shown as healthy exactly when its last
  heartbeat is younger than the node timeout.
\<close>

theorem cluster_view:
  assumes "flt ''UpsertHANode'' = None" and "uniq ha_clash (dbHANodes db)" and "\<forall>n \<in> set (dbHANodes db). nID n \<noteq> btID b"
    and cl: "cClusterID (cCluster (apCfg env)) = cClusterID (cCluster cfg)" and f: "apFaults env ''ListHANodesByCluster'' = None"
    and ad: "adDb ad = heartbeat flt cfg version b db"
  shows "\<exists>nodes x. handleListClusterNodes env ad = jsonOK (PNodes (cClusterID (cCluster cfg)) nodes) ad
    \<and> {n \<in> set nodes. nNodeID n = cNodeID (cCluster cfg)} = {x}
    \<and> nRole x = RoleActive \<and> nListenAddr x = cListenAddr (cCluster cfg) \<and> nVersion x = version \<and> nLastSeen x = btLastSeen b
    \<and> distinct (map nNodeID nodes)
    \<and> nNodeID ` set nodes = insert (cNodeID (cCluster cfg)) (nNodeID ` {n \<in> set (dbHANodes db). nClusterID n = cClusterID (cCluster cfg)})
    \<and> (\<forall>n \<in> set nodes. nHealthy n \<longleftrightarrow> apNow env ''ListHANodesByCluster'' - offline_after (apCfg env) * Second < nLastSeen n)"
proof -
  let ?me = "cNodeID (cCluster cfg)" and ?c = "cClusterID (cCluster cfg)"
  let ?up = "\<lambda>n. apNow env ''ListHANodesByCluster'' - offline_after (apCfg env) * Second < nLastSeen n"
  obtain x where un: "uniq ha_clash (dbHANodes (adDb ad))"
    and rows: "set (dbHANodes (adDb ad)) = insert x {n \<in> set (dbHANodes db). nNodeID n \<noteq> ?me}"
    and x: "nNodeID x = ?me" "nClusterID x = ?c" "nRole x = RoleActive" "nListenAddr x = cListenAddr (cCluster cfg)"
      "nVersion x = version" "nLastSeen x = btLastSeen b"
    using assms(1-3) unfolding ad by (rule heartbeat_rows [of flt db b cfg version])
  define listed where "listed = sort_key (\<lambda>n. apCollate env (nNodeID n)) (filter (\<lambda>n. nClusterID n = ?c) (dbHANodes (adDb ad)))"
  define nodes where "nodes = map (\<lambda>n. n\<lparr>nHealthy := ?up n\<rparr>) listed"
  have h: "handleListClusterNodes env ad = jsonOK (PNodes ?c nodes) ad"
    using f by (simp add: handleListClusterNodes_def on_call_def ListHANodesByCluster_def exec_def cl nodes_def listed_def
      offline_after_def Let_def)
  have set_listed: "set listed = insert x {n \<in> set (dbHANodes db). nNodeID n \<noteq> ?me \<and> nClusterID n = ?c}"
    using rows x by (auto simp: listed_def)
  have "distinct listed" using uniq_distinct [OF ha_nodes.clash_refl un] by (simp add: listed_def)
  moreover have "inj_on nNodeID (set listed)"
    using ha_nodes.uniq_clashD [OF un] by (auto simp: inj_on_def listed_def ha_clash_def)
  ultimately have "distinct (map nNodeID nodes)" by (simp add: nodes_def distinct_map comp_def)
  moreover have "{n \<in> set nodes. nNodeID n = ?me} = {x\<lparr>nHealthy := ?up x\<rparr>}"
    using x(1) by (auto simp: nodes_def set_listed)
  moreover have "nNodeID ` set nodes = insert ?me (nNodeID ` {n \<in> set (dbHANodes db). nClusterID n = ?c})"
    using x(1) by (auto simp: nodes_def set_listed image_iff)
  moreover have "\<forall>n \<in> set nodes. nHealthy n \<longleftrightarrow> ?up n" by (auto simp: nodes_def)
  ultimately show ?thesis
    using h x by (intro exI [of _ nodes] exI [of _ "x\<lparr>nHealthy := ?up x\<rparr>"]) simp
qed

definition first_beat :: beat where
  "first_beat = \<lparr>btID = ''h1'', btLastSeen = 990 * Second, btCreatedAt = 990 * Second, btUpdatedAt = 990 * Second\<rparr>"

theorem cluster_view_witness:
  "\<exists>nodes x. handleListClusterNodes demo_api (fresh_adb\<lparr>adDb := heartbeat no_faults demo_config ''1.0'' first_beat fresh_db\<rparr>)
       = jsonOK (PNodes ''default'' nodes) (fresh_adb\<lparr>adDb := heartbeat no_faults demo_config ''1.0'' first_beat fresh_db\<rparr>)
     \<and> {n \<in> set nodes. nNodeID n = ''n1''} = {x} \<and> nHealthy x"
proof -
  let ?ad = "fresh_adb\<lparr>adDb := heartbeat no_faults demo_config ''1.0'' first_beat fresh_db\<rparr>"
  have cfg: "cClusterID (cCluster demo_config) = ''default''" "cNodeID (cCluster demo_config) = ''n1''" "apCfg demo_api = demo_config"
    "offline_after demo_config = 30"
    by (simp_all add: demo_config_def demo_api_def offline_after_def whole_seconds_def)
  have "no_faults ''UpsertHANode'' = None" "apFaults demo_api ''ListHANodesByCluster'' = None"
    by (simp_all add: demo_api_def)
  then obtain nodes x where "handleListClusterNodes demo_api ?ad = jsonOK (PNodes ''default'' nodes) ?ad"
    "{n \<in> set nodes. nNodeID n = ''n1''} = {x}" "nLastSeen x = btLastSeen first_beat"
    "\<forall>n \<in> set nodes. nHealthy n \<longleftrightarrow> apNow demo_api ''ListHANodesByCluster'' - 30 * Second < nLastSeen n"
    using cluster_view [of no_faults fresh_db first_beat demo_api demo_config ?ad "''1.0''"]
    by (auto simp: cfg fresh_db_def)
  moreover from this(2) have "x \<in> set nodes" by blast
  ultimately show ?thesis by (intro exI [of _ nodes] exI [of _ x]) (simp add: demo_api_def first_beat_def)
qed

end
