(* ===== verification/Spec2Isabelle.thy ===== *)
theory Spec2Isabelle
  imports Dhcp4_Packet Alloc4_Pool Dhcp4_Options Dhcp4_Node Dhcp6_Safety Dns_Answers Lease_Spec
    Node_Services Serve_Loops Auth_Effects
begin

text \<open>
  A verification of the DHCP server of this repository: DHCPv4 and DHCPv6 servers, a DNS server and
  an HTTP administration interface that share one PostgreSQL database, in Go under \<open>src/\<close>.

  \<^bold>\<open>The program.\<close> Several nodes may run at once; what they share is the database behind
  \<open>internal/store\<close>. The DHCP servers (\<open>internal/dhcp\<close>, \<open>internal/dhcpv6\<close>) parse a datagram, match a scope,
  call an allocator of the store in one transaction and send a reply. The DNS server
  (\<open>internal/dns\<close>) answers from leases and reservations. The HTTP interface (\<open>internal/api\<close>, with
  \<open>internal/auth\<close>) edits scopes, reservations, groups, users and the blacklist and lists leases and
  logs. \<open>internal/ha\<close> writes heartbeats, \<open>internal/logger\<close> stores log records, \<open>internal/config\<close> reads the
  configuration.

  \<^bold>\<open>Conventions.\<close> A Go call that may fail, panic or not return is a value of type \<open>run\<close> (theory
  \<open>Prelude\<close>). Slices, addresses and packets are lists of 8-bit words, integers of a fixed width are
  words, Go's \<open>int\<close> is \<open>int\<close> with the wrap written out where it can happen. The database is the record
  \<open>db\<close> (extended to \<open>adb\<close> by users and the audit log), one list of rows per table; a statement is a
  function on it, and \<open>faults\<close> may make any statement fail. Clocks, new UUIDs and random choices are
  arguments. A transaction that fails leaves the database as it was.

  \<^bold>\<open>Theories and sources.\<close>
  \<^item> \<open>Prelude\<close>: \<open>run\<close>, slices, big-endian integers, decimal and hexadecimal text. \<open>Net_IP\<close>, \<open>Net_ParseIP\<close>,
    \<open>Net_Text\<close>: what the program uses of package \<open>net\<close> (addresses, masks, CIDR, MAC, their texts) and the
    address helpers of \<open>store.go\<close> and \<open>dhcp/server.go\<close>.
  \<^item> \<open>Models\<close>: the structs of \<open>models/models.go\<close>. \<open>Sql_Table\<close>: rows under UNIQUE constraints, INSERT,
    UPDATE, DELETE and ON CONFLICT; the locales \<open>keyed_rows\<close> and \<open>upsert_rows\<close> are interpreted for every table.
    \<open>Store_Model\<close>, \<open>Store_Admin\<close>: the statements of \<open>store/store.go\<close>.
  \<^item> \<open>Pool_Scan\<close>: the search loops over a counter that wraps, as the locale \<open>pool_counter\<close>, interpreted for
    IPv4 addresses, IPv6 addresses and prefix indices. \<open>Store_Alloc\<close>, \<open>Store_Alloc6\<close>: \<open>AllocateV4Lease\<close>,
    \<open>AllocateV6Lease\<close>, \<open>AllocateV6Prefix\<close> with their transaction helpers. \<open>Alloc4_Safety\<close>, \<open>Alloc4_Pool\<close>,
    \<open>Alloc6_Safety\<close>, \<open>Alloc6_Prefix\<close>: nobody loses a live lease, grants are recorded, reservations are
    honoured, the search finds the least free address or prefix. \<open>Lease_Spec\<close>: one abstract service
    that the three allocators refine (locale \<open>binding_table\<close>).
  \<^item> \<open>Dhcp4_Packet\<close>, \<open>Dhcp4_Options\<close>: \<open>dhcp/packet.go\<close>, \<open>options.go\<close>, \<open>option_registry.go\<close>. \<open>Dhcp4_Server\<close>:
    \<open>dhcp/server.go\<close>. \<open>Dhcp4_Reply\<close>, \<open>Dhcp4_Safety\<close>: what a reply holds and where it goes, what a
    packet does to the lease table. \<open>Dhcp4_Node\<close>: the server as a state machine over packets, timers
    and refresh ticks, with its reachable states.
  \<^item> \<open>Dhcp6_Packet\<close>, \<open>Dhcp6_Values\<close>, \<open>Dhcp6_Server\<close>, \<open>Dhcp6_Reply\<close>, \<open>Dhcp6_Safety\<close>: the same for
    \<open>dhcpv6/packet.go\<close> and \<open>dhcpv6/server.go\<close>, relay chains and prefix delegation included.
  \<^item> \<open>Dns_Server\<close>, \<open>Dns_Answers\<close>: \<open>dns/server.go\<close>, read back as the list of addresses it promises.
  \<^item> \<open>Serve_Loops\<close>: the receiving loops of the three servers.
  \<^item> \<open>Node_Services\<close>: \<open>config.go\<close>, \<open>ha.go\<close>, \<open>db_handler.go\<close>. \<open>Auth_Model\<close>: \<open>auth.go\<close>.
  \<^item> \<open>Api_Json\<close>, \<open>Api_Request\<close>, \<open>Api_Handlers\<close>: \<open>api.go\<close> and \<open>middleware.go\<close>, every handler and the route
    table. \<open>Api_Safety\<close>: access control, and that every request keeps the database well-formed (the
    locales \<open>admin_invariant\<close> and \<open>request_invariant\<close>, interpreted for well-formedness and for distinct
    domain names). \<open>Api_Effects\<close>, \<open>Api_Listing\<close>, \<open>Auth_Effects\<close>: reservations through to the allocator,
    pages, the log listing, domain names, login, passwords, the cluster view.

  \<^bold>\<open>Invariants.\<close> \<open>wf_db\<close> (canonical addresses and the UNIQUE constraints of the servers' tables) is
  kept by every DHCP event and by every HTTP request (there as part of \<open>wf_adb\<close>). Well-formed packets
  are what the parsers return and what the builders are given.

  \<^bold>\<open>Loops and bounds.\<close> The parsers recurse on the rest of the input. A pool search is the
  \<open>partial_function\<close> \<open>scan\<close>, whose value None, \<open>Hang\<close> in the operations, is that the loop does not end; the
  interpretations of \<open>pool_counter\<close> bound its counter by 2 to the power 32, 128 and 64 and give when it
  does end. The loop of \<open>extractRequestedIP\<close> that can stand still is treated in the same way. No
  fuel is chosen anywhere.

  \<^bold>\<open>Relied on.\<close> \<open>mux_law\<close>: the router matches a route only for a method it was registered for.
  \<open>password_law\<close>: a password matches its own bcrypt hash. \<open>token_law\<close>: a token signed with the private
  key is parsed back to its claims with the public key until it expires. Case mapping, collation
  and the texts of times and floating-point numbers are arguments without laws.

  \<^bold>\<open>Not modelled.\<close> \<open>cmd/dhcp-server/main.go\<close> and the \<open>Start\<close> and \<open>Stop\<close> methods: goroutines, signals and
  sockets; \<open>internal/db\<close>: the connection pool (the tables its migrations create are the model's);
  the frame bytes that gopacket builds; metrics, logging output, build information and the web
  files. Statements of one handler on different connections are interleaved with other nodes
  only where the code itself waits (the reply delay), not between any two statements.
\<close>

end
